(* ===== verification/Prelude.thy ===== *)
theory Prelude
  imports Main "HOL-Library.Word"
begin

text \<open>
  Shared vocabulary of the development: bytes and byte strings, the result
  type that stands for a call which either returns or leaves through
  ereport(ERROR), the byte-order codecs the C code writes out by hand, and the
  generic facts about exclusive-or of byte strings on which the stream-cipher
  arguments rest.
\<close>

unbundle bit_operations_syntax

type_synonym byte = "8 word"
type_synonym bytes = "8 word list"
type_synonym Oid = "32 word"

text \<open>SQLSTATE classes raised by the modelled code, and the error value: the
  class together with the fixed text of the primary message, its format
  directives left out.\<close>

datatype errcode =
    ERRCODE_DATA_CORRUPTED | ERRCODE_INTERNAL_ERROR | ERRCODE_UNDEFINED_OBJECT
  | ERRCODE_INVALID_PARAMETER_VALUE | ERRCODE_DIVISION_BY_ZERO
  | ERRCODE_INSUFFICIENT_PRIVILEGE | ERRCODE_NULL_VALUE_NOT_ALLOWED
  | ERRCODE_OBJECT_NOT_IN_PREREQUISITE_STATE | ERRCODE_FEATURE_NOT_SUPPORTED
  | ERRCODE_CONFIG_FILE_ERROR | ERRCODE_FILE_ACCESS | ERRCODE_OUT_OF_MEMORY
  | ERRCODE_EXTERNAL_ROUTINE_EXCEPTION | ERRCODE_PROTOCOL_VIOLATION
  | ERRCODE_UNDEFINED_FILE | ERRCODE_INSUFFICIENT_RESOURCES
  | ERRCODE_WRONG_OBJECT_TYPE | ERRCODE_SYSTEM_ERROR
  | ERRCODE_CONFIGURATION_LIMIT_EXCEEDED
  | ERRCODE_INVALID_AUTHORIZATION_SPECIFICATION | ERRCODE_INVALID_PASSWORD

datatype pg_error = PgError errcode string

type_synonym 'a result = "pg_error + 'a"

named_theorems codec_simps \<open>byte-order encoders and decoders\<close>
named_theorems xor_simps \<open>exclusive-or of byte strings\<close>

section \<open>Exclusive-or of byte strings\<close>

definition xor_bytes :: "bytes \<Rightarrow> bytes \<Rightarrow> bytes" where
  "xor_bytes a b = map2 (XOR) a b"

lemma length_xor_bytes [simp]: "length (xor_bytes a b) = min (length a) (length b)"
  by (simp add: xor_bytes_def)

lemma nth_xor_bytes [simp]:
  "i < length a \<Longrightarrow> i < length b \<Longrightarrow> xor_bytes a b ! i = a ! i XOR b ! i"
  by (simp add: xor_bytes_def)

lemma xor_bytes_cancel [xor_simps]:
  "length d \<le> length k \<Longrightarrow> xor_bytes (xor_bytes d k) k = d"
  by (rule nth_equalityI) (auto simp: xor.assoc)

text \<open>Two byte strings masked with the same pad: the pad drops out.\<close>

lemma xor_bytes_same_pad [xor_simps]:
  assumes "length d \<le> length k" "length e = length d"
  shows "xor_bytes (xor_bytes d k) (xor_bytes e k) = xor_bytes d e"
proof (rule nth_equalityI)
  fix i
  assume "i < length (xor_bytes (xor_bytes d k) (xor_bytes e k))"
  then have "i < length d" "i < length e" "i < length k"
    using assms by auto
  moreover have "(d ! i XOR k ! i) XOR (e ! i XOR k ! i) = d ! i XOR e ! i"
    by (rule bit_word_eqI) (auto simp: bit_xor_iff)
  ultimately show "xor_bytes (xor_bytes d k) (xor_bytes e k) ! i = xor_bytes d e ! i"
    by simp
qed (use assms in auto)

section \<open>Byte order\<close>

text \<open>Little-endian image of an object in memory (the memcpy of an integer on
  the supported x86-64 and aarch64 targets) and the big-endian image the
  formats write by shifting.\<close>

definition le32 :: "32 word \<Rightarrow> bytes" where
  "le32 w = [ucast w, ucast (drop_bit 8 w), ucast (drop_bit 16 w), ucast (drop_bit 24 w)]"

definition le64 :: "64 word \<Rightarrow> bytes" where
  "le64 w = map (\<lambda>i. ucast (drop_bit (8 * i) w)) [0..<8]"

definition be32 :: "32 word \<Rightarrow> bytes" where
  "be32 w = [ucast (drop_bit 24 w), ucast (drop_bit 16 w), ucast (drop_bit 8 w), ucast w]"

definition of_le32 :: "bytes \<Rightarrow> 32 word" where
  "of_le32 b = ucast (b ! 0) OR push_bit 8 (ucast (b ! 1)) OR
     push_bit 16 (ucast (b ! 2)) OR push_bit 24 (ucast (b ! 3))"

definition of_be32 :: "bytes \<Rightarrow> 32 word" where
  "of_be32 b = push_bit 24 (ucast (b ! 0)) OR push_bit 16 (ucast (b ! 1)) OR
     push_bit 8 (ucast (b ! 2)) OR ucast (b ! 3)"

lemma length_le32 [simp]: "length (le32 w) = 4"
  by (simp add: le32_def)

lemma length_le64 [simp]: "length (le64 w) = 8"
  by (simp add: le64_def)

lemma length_be32 [simp]: "length (be32 w) = 4"
  by (simp add: be32_def)

lemma bytes32_join:
  "(ucast (ucast w :: byte) :: 32 word) OR push_bit 8 (ucast (ucast (drop_bit 8 w) :: byte)) OR
     push_bit 16 (ucast (ucast (drop_bit 16 w) :: byte)) OR
     push_bit 24 (ucast (ucast (drop_bit 24 w) :: byte)) = w"
proof (rule bit_word_eqI)
  fix n
  assume "n < LENGTH(32)"
  then consider "n < 8" | "8 \<le> n" "n < 16" | "16 \<le> n" "n < 24" | "24 \<le> n" "n < 32"
    by fastforce
  then show "bit ((ucast (ucast w :: byte) :: 32 word) OR
      push_bit 8 (ucast (ucast (drop_bit 8 w) :: byte)) OR
      push_bit 16 (ucast (ucast (drop_bit 16 w) :: byte)) OR
      push_bit 24 (ucast (ucast (drop_bit 24 w) :: byte))) n = bit w n"
    by cases (auto simp: bit_simps)
qed

lemma of_le32_le32 [codec_simps]: "of_le32 (le32 w @ r) = w"
  using bytes32_join [of w] by (simp add: of_le32_def le32_def)

lemma nth_be32:
  "(be32 w @ r) ! 0 = ucast (drop_bit 24 w)" "(be32 w @ r) ! 1 = ucast (drop_bit 16 w)"
  "(be32 w @ r) ! 2 = ucast (drop_bit 8 w)" "(be32 w @ r) ! 3 = ucast w"
  by (simp_all add: be32_def)

lemma or_rev4: "a OR b OR c OR d = d OR c OR b OR (a :: 32 word)"
  by (simp only: or.assoc or.commute or.left_commute)

lemma of_be32_be32 [codec_simps]: "of_be32 (be32 w @ r) = w"
  unfolding of_be32_def nth_be32 by (rule trans [OF or_rev4 bytes32_join])

lemma le32_inject [codec_simps]: "le32 v = le32 w \<longleftrightarrow> v = w"
  by (metis of_le32_le32)

lemma le64_inject [codec_simps]: "le64 v = le64 w \<longleftrightarrow> v = w"
proof
  assume eq: "le64 v = le64 w"
  show "v = w"
  proof (rule bit_word_eqI)
    fix n
    assume n: "n < LENGTH(64)"
    then have "n div 8 < 8"
      by auto
    then have "(ucast (drop_bit (8 * (n div 8)) v) :: byte) = ucast (drop_bit (8 * (n div 8)) w)"
      using arg_cong [OF eq, of "\<lambda>l. l ! (n div 8)"] by (simp add: le64_def)
    then have "bit (ucast (drop_bit (8 * (n div 8)) v) :: byte) (n mod 8) =
        bit (ucast (drop_bit (8 * (n div 8)) w) :: byte) (n mod 8)"
      by simp
    then show "bit v n = bit w n"
      using n by (simp add: bit_simps)
  qed
qed simp

section \<open>Fixed-width codes\<close>

text \<open>An encoder with a decoder that inverts it in front of any further bytes.
  The encodings of fields are laid out one after the other in several formats;
  the facts needed of such layouts follow from these two laws.\<close>

locale fixed_code =
  fixes enc :: "'a \<Rightarrow> bytes" and dec :: "bytes \<Rightarrow> 'a" and width :: nat
  assumes enc_length: "length (enc x) = width"
    and dec_enc: "dec (enc x @ r) = x"
begin

lemma enc_append_inject: "enc x @ r = enc y @ s \<longleftrightarrow> x = y \<and> r = s"
  by (metis append_eq_append_conv dec_enc enc_length)

lemma enc_inject: "enc x = enc y \<longleftrightarrow> x = y"
  using enc_append_inject [of x "[]" y "[]"] by simp

lemma enc_concat_inject:
  "length xs = length ys \<Longrightarrow> concat (map enc xs) = concat (map enc ys) \<longleftrightarrow> xs = ys"
  by (induction xs ys rule: list_induct2) (simp_all add: enc_append_inject)

lemma enc_concat_length: "length (concat (map enc xs)) = width * length xs"
  by (induction xs) (simp_all add: enc_length)

lemma dec_concat_nth:
  "i < length xs \<Longrightarrow> dec (drop (width * i) (concat (map enc xs) @ r)) = xs ! i"
proof (induction xs arbitrary: i)
  case (Cons x xs)
  then show ?case
    by (cases i) (simp_all add: dec_enc enc_length)
qed simp

end

interpretation le32_code: fixed_code le32 of_le32 4
  by unfold_locales (simp_all add: of_le32_le32)

interpretation be32_code: fixed_code be32 of_be32 4
  by unfold_locales (simp_all add: of_be32_be32)

section \<open>Calls that change state and may raise\<close>

text \<open>Sequencing of calls that take a state and either return or leave through
  ereport(ERROR): an error skips what follows and keeps the state reached.\<close>

definition ebind :: "('s \<Rightarrow> 'a result \<times> 's) \<Rightarrow> ('a \<Rightarrow> 's \<Rightarrow> 'b result \<times> 's) \<Rightarrow> 's \<Rightarrow> 'b result \<times> 's" where
  "ebind f g s = (case f s of (Inl e, s1) \<Rightarrow> (Inl e, s1) | (Inr x, s1) \<Rightarrow> g x s1)"

text \<open>A call that does not touch the state.\<close>

definition epure :: "'a result \<Rightarrow> 's \<Rightarrow> 'a result \<times> 's" where
  "epure r s = (r, s)"

definition eguard :: "('s \<Rightarrow> bool) \<Rightarrow> pg_error \<Rightarrow> 's \<Rightarrow> unit result \<times> 's" where
  "eguard b e s = (if b s then Inr () else Inl e, s)"

lemma ebind_Inr_iff:
  "ebind f g s = (Inr y, s') \<longleftrightarrow> (\<exists>x s1. f s = (Inr x, s1) \<and> g x s1 = (Inr y, s'))"
  by (auto simp: ebind_def split: prod.splits sum.splits)

lemma ebind_cong:
  "(\<And>x t. f s = (Inr x, t) \<Longrightarrow> g x t = h x t) \<Longrightarrow> ebind f g s = ebind f h s"
  by (simp add: ebind_def split: prod.split sum.split)

lemma eguard_Inr_iff [simp]: "eguard b e s = (Inr x, s') \<longleftrightarrow> b s \<and> s' = s"
  by (auto simp: eguard_def)

lemma epure_Inr_iff [simp]: "epure r s = (Inr x, s') \<longleftrightarrow> r = Inr x \<and> s' = s"
  by (auto simp: epure_def)

text \<open>The same for calls that take no state.\<close>

definition rbind :: "'a result \<Rightarrow> ('a \<Rightarrow> 'b result) \<Rightarrow> 'b result" where
  "rbind r f = (case r of Inl e \<Rightarrow> Inl e | Inr x \<Rightarrow> f x)"

definition rguard :: "bool \<Rightarrow> pg_error \<Rightarrow> unit result" where
  "rguard b e = (if b then Inr () else Inl e)"

lemma rbind_simps [simp]: "rbind (Inr x) f = f x" "rbind (Inl e) f = Inl e"
  by (simp_all add: rbind_def)

lemma rbind_Inr_iff: "rbind r f = Inr y \<longleftrightarrow> (\<exists>x. r = Inr x \<and> f x = Inr y)"
  by (cases r) simp_all

lemma rguard_simps [simp]: "rguard True e = Inr ()" "rguard False e = Inl e"
  by (simp_all add: rguard_def)

lemma rguard_Inr_iff [simp]: "rguard b e = Inr u \<longleftrightarrow> b"
  by (simp add: rguard_def)

section \<open>Characters as bytes\<close>

definition str_bytes :: "string \<Rightarrow> bytes" where
  "str_bytes s = map (\<lambda>c. of_char c) s"

lemma length_str_bytes [simp]: "length (str_bytes s) = length s"
  by (simp add: str_bytes_def)

end
