(* ===== verification/Interpolation.thy ===== *)
theory Interpolation
  imports Main
begin

text \<open>
  Polynomial functions over a field, represented by coefficient lists with the
  constant term first: the root bound, Lagrange interpolation, and the fact
  that fewer points than coefficients leave the value at one further point
  open.  Nothing here is specific to the program.
\<close>

abbreviation peval :: "'a::comm_ring_1 list \<Rightarrow> 'a \<Rightarrow> 'a" where
  "peval cs x \<equiv> horner_sum (\<lambda>c. c) x cs"

definition poly_fun :: "nat \<Rightarrow> ('a::comm_ring_1 \<Rightarrow> 'a) \<Rightarrow> bool" where
  "poly_fun n f \<longleftrightarrow> (\<exists>cs. length cs = n \<and> (\<forall>x. f x = peval cs x))"

lemma poly_funI: "length cs = n \<Longrightarrow> (\<And>x. f x = peval cs x) \<Longrightarrow> poly_fun n f"
  by (auto simp: poly_fun_def)

lemma poly_funE:
  assumes "poly_fun n f"
  obtains cs where "length cs = n" "\<forall>x. f x = peval cs x"
  using assms by (auto simp: poly_fun_def)

lemma peval_map2_add:
  "length cs = length ds \<Longrightarrow> peval (map2 (+) cs ds) x = peval cs x + peval ds x"
  by (induction cs ds rule: list_induct2) (simp_all add: algebra_simps)

lemma peval_map_scale: "peval (map ((*) c) cs) x = c * peval cs x"
  by (induction cs) (simp_all add: algebra_simps)

lemma peval_append_0: "peval (cs @ [0]) x = peval cs x"
  by (induction cs) simp_all

lemma poly_fun_add:
  assumes "poly_fun n f" "poly_fun n g"
  shows "poly_fun n (\<lambda>x. f x + g x)"
proof -
  obtain cs where "length cs = n" "\<forall>x. f x = peval cs x"
    using assms(1) by (rule poly_funE)
  moreover obtain ds where "length ds = n" "\<forall>x. g x = peval ds x"
    using assms(2) by (rule poly_funE)
  ultimately show ?thesis
    by (intro poly_funI [of "map2 (+) cs ds"]) (simp_all add: peval_map2_add)
qed

lemma poly_fun_scale: "poly_fun n f \<Longrightarrow> poly_fun n (\<lambda>x. c * f x)"
  by (erule poly_funE, rule poly_funI [of "map ((*) c) cs" for cs]) (simp_all add: peval_map_scale)

lemma poly_fun_Suc: "poly_fun n f \<Longrightarrow> poly_fun (Suc n) f"
  by (erule poly_funE, rule poly_funI [of "cs @ [0]" for cs]) (simp_all add: peval_append_0)

lemma poly_fun_mono: "m \<le> n \<Longrightarrow> poly_fun m f \<Longrightarrow> poly_fun n f"
  by (induction rule: dec_induct) (auto intro: poly_fun_Suc)

lemma poly_fun_shift: "poly_fun n f \<Longrightarrow> poly_fun (Suc n) (\<lambda>x. x * f x)"
  by (erule poly_funE, rule poly_funI [of "0 # cs" for cs]) simp_all

lemma poly_fun_linear: "poly_fun n f \<Longrightarrow> poly_fun (Suc n) (\<lambda>x. (x - a) * f x)"
  using poly_fun_add [OF poly_fun_shift [of n f] poly_fun_scale [OF poly_fun_Suc [of n f], of "- a"]]
  by (simp add: algebra_simps)

lemma poly_fun_0: "poly_fun n (\<lambda>x. 0)"
  by (rule poly_fun_mono [of 0]) (auto intro: poly_funI [of "[]"])

lemma poly_fun_sum:
  "finite A \<Longrightarrow> (\<And>i. i \<in> A \<Longrightarrow> poly_fun n (f i)) \<Longrightarrow> poly_fun n (\<lambda>x. \<Sum>i\<in>A. f i x)"
  by (induction rule: finite_induct) (auto intro: poly_fun_add poly_fun_0)

lemma poly_fun_diff: "poly_fun n f \<Longrightarrow> poly_fun n g \<Longrightarrow> poly_fun n (\<lambda>x. f x - g x)"
  using poly_fun_add [OF _ poly_fun_scale [of n g "- 1"]] by simp

section \<open>Root bound\<close>

lemma peval_divide_root:
  "\<exists>q. length q = length cs - 1 \<and> (\<forall>x. peval cs x = peval cs r + (x - r) * peval q x)"
proof (induction cs)
  case (Cons c cs)
  then obtain q where q: "length q = length cs - 1"
    "\<forall>x. peval cs x = peval cs r + (x - r) * peval q x"
    by blast
  show ?case
  proof (cases "cs = []")
    case False
    have "peval (c # cs) x = peval (c # cs) r + (x - r) * peval (peval cs r # q) x" for x
    proof -
      have "peval (c # cs) x = c + x * (peval cs r + (x - r) * peval q x)"
        using arg_cong [OF q(2) [rule_format, of x], of "\<lambda>t. c + x * t"] by (simp only: horner_sum_simps)
      then show ?thesis
        by (simp add: algebra_simps)
    qed
    moreover have "length (peval cs r # q) = length (c # cs) - 1"
      using q(1) False by (cases cs) simp_all
    ultimately show ?thesis
      by blast
  qed (auto intro: exI [of _ "[]"])
qed (auto intro: exI [of _ "[]"])

lemma poly_fun_root_bound:
  fixes f :: "'a::field \<Rightarrow> 'a"
  assumes "poly_fun n f" "finite S" "n \<le> card S" "\<And>x. x \<in> S \<Longrightarrow> f x = 0"
  shows "f x = 0"
  using assms
proof (induction n arbitrary: f S x)
  case 0
  then show ?case
    by (auto simp: poly_fun_def)
next
  case (Suc n)
  obtain cs where cs: "length cs = Suc n" "\<forall>x. f x = peval cs x"
    using Suc.prems(1) by (rule poly_funE)
  obtain r where r: "r \<in> S"
    using Suc.prems(2,3) by (metis all_not_in_conv card.empty not_less_eq_eq zero_le)
  obtain q where q: "length q = n" "\<And>x. f x = f r + (x - r) * peval q x"
    using peval_divide_root [of cs r] cs by (metis diff_Suc_1)
  have f: "f x = (x - r) * peval q x" for x
    using q(2) [of x] Suc.prems(4) [OF r] by simp
  have "peval q x = 0" for x
  proof (rule Suc.IH [of "peval q" "S - {r}"])
    show "poly_fun n (peval q)"
      using q(1) by (auto intro: poly_funI)
    show "n \<le> card (S - {r})"
      using Suc.prems(2,3) r by simp
    show "peval q y = 0" if "y \<in> S - {r}" for y
      using that f [of y] Suc.prems(4) [of y] by simp
  qed (use Suc.prems(2) in simp)
  then show ?case
    using f by simp
qed

section \<open>Lagrange interpolation\<close>

definition lagrange_basis :: "'a::field list \<Rightarrow> nat \<Rightarrow> 'a \<Rightarrow> 'a" where
  "lagrange_basis xs i z = (\<Prod>j \<in> {..<length xs} - {i}. (z - xs ! j) / (xs ! i - xs ! j))"

lemma poly_fun_prod_linear:
  fixes a c :: "nat \<Rightarrow> 'a::field"
  assumes "finite A"
  shows "poly_fun (Suc (card A)) (\<lambda>z. \<Prod>j\<in>A. (z - a j) / c j)"
  using assms
proof (induction rule: finite_induct)
  case empty
  show ?case
    by (auto intro: poly_funI [of "[1]"])
next
  case (insert j A)
  have "poly_fun (Suc (Suc (card A))) (\<lambda>z. inverse (c j) * ((z - a j) * (\<Prod>j\<in>A. (z - a j) / c j)))"
    by (intro poly_fun_scale poly_fun_linear insert.IH)
  then show ?case
    using insert.hyps by (simp add: divide_inverse mult_ac)
qed

lemma poly_fun_lagrange_basis: "i < length xs \<Longrightarrow> poly_fun (length xs) (lagrange_basis xs i)"
  using poly_fun_prod_linear [of "{..<length xs} - {i}" "(!) xs" "\<lambda>j. xs ! i - xs ! j"]
  by (cases "length xs") (simp_all add: lagrange_basis_def [abs_def])

lemma lagrange_basis_nth:
  assumes "distinct xs" "i < length xs" "k < length xs"
  shows "lagrange_basis xs i (xs ! k) = (if i = k then 1 else 0)"
proof (cases "i = k")
  case True
  then show ?thesis
    using assms by (auto simp: lagrange_basis_def nth_eq_iff_index_eq intro!: prod.neutral)
next
  case False
  then have "k \<in> {..<length xs} - {i}"
    using assms by simp
  then show ?thesis
    using False by (auto simp: lagrange_basis_def intro!: prod_zero)
qed

lemma lagrange_sum_nth:
  assumes "distinct xs" "k < length xs"
  shows "(\<Sum>i<length xs. y i * lagrange_basis xs i (xs ! k)) = y k"
proof -
  have "(\<Sum>i<length xs. y i * lagrange_basis xs i (xs ! k)) =
      (\<Sum>i<length xs. if i = k then y i else 0)"
    using assms by (intro sum.cong) (auto simp: lagrange_basis_nth)
  then show ?thesis
    using assms by simp
qed

lemma poly_fun_lagrange_sum:
  "poly_fun (length xs) (\<lambda>z. \<Sum>i<length xs. y i * lagrange_basis xs i z)"
  by (intro poly_fun_sum poly_fun_scale poly_fun_lagrange_basis) auto

text \<open>A polynomial function with at most n coefficients is the interpolant of
  its values at any n distinct points.\<close>

lemma lagrange_interpolation:
  fixes f :: "'a::field \<Rightarrow> 'a"
  assumes "distinct xs" "poly_fun m f" "m \<le> length xs"
  shows "(\<Sum>i<length xs. f (xs ! i) * lagrange_basis xs i z) = f z"
proof -
  let ?L = "\<lambda>z. \<Sum>i<length xs. f (xs ! i) * lagrange_basis xs i z"
  have "?L z - f z = 0"
  proof (rule poly_fun_root_bound [of "length xs" "\<lambda>z. ?L z - f z" "set xs"])
    show "poly_fun (length xs) (\<lambda>z. ?L z - f z)"
      using assms by (intro poly_fun_diff poly_fun_lagrange_sum) (auto intro: poly_fun_mono)
    show "?L x - f x = 0" if "x \<in> set xs" for x
      using that assms(1) by (auto simp: in_set_conv_nth lagrange_sum_nth)
  qed (use assms in \<open>simp_all add: distinct_card\<close>)
  then show ?thesis
    by simp
qed

lemma interpolant_exists:
  fixes zs :: "'a::field list"
  assumes "distinct zs" "length zs \<le> t"
  shows "\<exists>cs. length cs = t \<and> (\<forall>k < length zs. peval cs (zs ! k) = y k)"
proof -
  let ?f = "\<lambda>z. \<Sum>i<length zs. y i * lagrange_basis zs i z"
  have "poly_fun t ?f"
    by (rule poly_fun_mono [OF assms(2) poly_fun_lagrange_sum])
  then obtain cs where cs: "length cs = t" "\<forall>x. ?f x = peval cs x"
    by (rule poly_funE)
  have "peval cs (zs ! k) = y k" if "k < length zs" for k
    using lagrange_sum_nth [OF assms(1) that, of y] cs(2) by metis
  with cs(1) show ?thesis
    by blast
qed

text \<open>Through fewer than t points away from 0 there is a polynomial with t
  coefficients and any prescribed constant term.\<close>

lemma interpolant_with_constant:
  fixes xs :: "'a::field list"
  assumes "distinct xs" "0 \<notin> set xs" "length xs < t"
  shows "\<exists>r. Suc (length r) = t \<and> (\<forall>i < length xs. peval (s # r) (xs ! i) = y i)"
proof -
  obtain cs where cs: "length cs = t" "\<And>k. k < length (0 # xs) \<Longrightarrow> peval cs ((0 # xs) ! k) = case_nat s y k"
    using interpolant_exists [of "0 # xs" t "case_nat s y"] assms by auto
  obtain c r where cr: "cs = c # r"
    using cs(1) assms(3) by (cases cs) auto
  have "c = s"
    using cs(2) [of 0] cr by simp
  moreover have "peval cs (xs ! i) = y i" if "i < length xs" for i
    using cs(2) [of "Suc i"] that by simp
  ultimately show ?thesis
    using cr cs(1) by (intro exI [of _ r]) auto
qed

end
