(* ===== verification/GF256.thy ===== *)
theory GF256
  imports Prelude Interpolation
begin

text \<open>
  The field arithmetic of the key escrow (contrib/pgcrypto_pqc/pgcrypto_pqc.c,
  gf256_mul to gf256_lagrange_interpolate).  The routines are translated loop
  by loop on bytes; the type gf wraps a byte so that the library's field
  reasoning applies to them.
\<close>

section \<open>The routines\<close>

text \<open>One turn of the doubling step of gf256_mul: shift and reduce by 0x1B.\<close>

definition gf256_double :: "byte \<Rightarrow> byte" where
  "gf256_double a = (let hi_bit = a AND 0x80; a' = push_bit 1 a in
     if hi_bit \<noteq> 0 then a' XOR 0x1B else a')"

fun gf256_mul_loop :: "nat \<Rightarrow> byte \<Rightarrow> byte \<Rightarrow> byte \<Rightarrow> byte" where
  "gf256_mul_loop 0 a b result = result"
| "gf256_mul_loop (Suc i) a b result =
     gf256_mul_loop i (gf256_double a) (drop_bit 1 b)
       (if b AND 1 \<noteq> 0 then result XOR a else result)"

definition gf256_mul :: "byte \<Rightarrow> byte \<Rightarrow> byte" where
  "gf256_mul a b = gf256_mul_loop 8 a b 0"

fun gf256_inv_loop :: "nat \<Rightarrow> byte \<Rightarrow> byte \<Rightarrow> byte" where
  "gf256_inv_loop 0 a result = result"
| "gf256_inv_loop (Suc i) a result =
     gf256_inv_loop i a (gf256_mul (gf256_mul result result) a)"

definition gf256_inv :: "byte \<Rightarrow> byte result" where
  "gf256_inv a =
     (if a = 0 then Inl (PgError ERRCODE_DIVISION_BY_ZERO ''GF(256) division by zero'')
      else let result = gf256_inv_loop 6 a a in Inr (gf256_mul result result))"

definition gf256_div :: "byte \<Rightarrow> byte \<Rightarrow> byte result" where
  "gf256_div a b = (case gf256_inv b of Inl e \<Rightarrow> Inl e | Inr i \<Rightarrow> Inr (gf256_mul a i))"

text \<open>The evaluation loop runs i = 0 to degree; the list holds coeffs[i..degree].\<close>

fun gf256_poly_eval_loop :: "bytes \<Rightarrow> byte \<Rightarrow> byte \<Rightarrow> byte \<Rightarrow> byte" where
  "gf256_poly_eval_loop [] x result x_power = result"
| "gf256_poly_eval_loop [c] x result x_power = result XOR gf256_mul c x_power"
| "gf256_poly_eval_loop (c # d # cs) x result x_power =
     gf256_poly_eval_loop (d # cs) x (result XOR gf256_mul c x_power) (gf256_mul x_power x)"

definition gf256_poly_eval :: "bytes \<Rightarrow> nat \<Rightarrow> byte \<Rightarrow> byte" where
  "gf256_poly_eval coeffs degree x = gf256_poly_eval_loop (take (degree + 1) coeffs) x 0 1"

text \<open>The inner loop of the interpolation computes numerator and denominator
  of the i-th basis polynomial at 0, skipping j = i.\<close>

fun gf256_basis_loop :: "bytes \<Rightarrow> nat \<Rightarrow> nat list \<Rightarrow> byte \<times> byte \<Rightarrow> byte \<times> byte" where
  "gf256_basis_loop xs i [] (num, den) = (num, den)"
| "gf256_basis_loop xs i (j # js) (num, den) =
     (if i = j then gf256_basis_loop xs i js (num, den)
      else gf256_basis_loop xs i js (gf256_mul num (xs ! j), gf256_mul den (xs ! i XOR xs ! j)))"

fun gf256_lagrange_loop :: "bytes \<Rightarrow> bytes \<Rightarrow> nat \<Rightarrow> nat list \<Rightarrow> byte \<Rightarrow> byte result" where
  "gf256_lagrange_loop xs ys n [] secret = Inr secret"
| "gf256_lagrange_loop xs ys n (i # is) secret =
     (case gf256_basis_loop xs i [0..<n] (1, 1) of (num, den) \<Rightarrow>
       (case gf256_div num den of
          Inl e \<Rightarrow> Inl e
        | Inr q \<Rightarrow> gf256_lagrange_loop xs ys n is (secret XOR gf256_mul (ys ! i) q)))"

definition gf256_lagrange_interpolate :: "bytes \<Rightarrow> bytes \<Rightarrow> nat \<Rightarrow> byte result" where
  "gf256_lagrange_interpolate xs ys n = gf256_lagrange_loop xs ys n [0..<n] 0"

section \<open>Multiplication is bilinear\<close>

lemma gf256_hi_bit: "(a AND 0x80 \<noteq> 0) = bit (a :: byte) 7"
  using and_exp_eq_0_iff_not_bit [of a 7] by simp

lemma gf256_lo_bit: "(b AND 1 \<noteq> 0) = bit (b :: byte) 0"
  using and_exp_eq_0_iff_not_bit [of b 0] by simp

lemma gf256_double_xor: "gf256_double (a XOR b) = gf256_double a XOR gf256_double b"
  unfolding gf256_double_def Let_def gf256_hi_bit
  by (rule bit_word_eqI) (auto simp: bit_xor_iff bit_push_bit_iff)

lemma gf256_double_0 [simp]: "gf256_double 0 = 0"
  by (simp add: gf256_double_def)

lemma gf256_mul_loop_acc: "gf256_mul_loop n a b r = r XOR gf256_mul_loop n a b 0"
proof (induction n arbitrary: a b r)
  case (Suc n)
  show ?case
    by (subst (1 2) gf256_mul_loop.simps, subst (1 2) Suc) (simp add: xor.assoc)
qed simp

lemma gf256_mul_loop_Suc:
  "gf256_mul_loop (Suc n) a b 0 =
     (if bit b 0 then a else 0) XOR gf256_mul_loop n (gf256_double a) (drop_bit 1 b) 0"
  by (subst gf256_mul_loop.simps, subst gf256_mul_loop_acc) (simp add: gf256_lo_bit)

lemma gf256_mul_loop_double:
  "gf256_mul_loop n (gf256_double a) b 0 = gf256_double (gf256_mul_loop n a b 0)"
proof (induction n arbitrary: a b)
  case (Suc n)
  show ?case
    by (simp only: gf256_mul_loop_Suc Suc gf256_double_xor) simp
qed simp

lemma xor_swap4: "(a XOR b) XOR (c XOR d) = (a XOR c) XOR (b XOR (d :: byte))"
  by (simp only: xor.assoc xor.left_commute)

lemma gf256_mul_loop_xor_left:
  "gf256_mul_loop n (a XOR a') b 0 = gf256_mul_loop n a b 0 XOR gf256_mul_loop n a' b 0"
proof (induction n arbitrary: a a' b)
  case (Suc n)
  show ?case
    by (simp only: gf256_mul_loop_Suc gf256_double_xor Suc xor_swap4) simp
qed simp

lemma gf256_mul_loop_xor_right:
  "gf256_mul_loop n a (b XOR b') 0 = gf256_mul_loop n a b 0 XOR gf256_mul_loop n a b' 0"
proof (induction n arbitrary: a b b')
  case (Suc n)
  have "(if bit (b XOR b') 0 then a else 0) =
      (if bit b 0 then a else 0) XOR (if bit b' 0 then a else 0)"
    by (simp add: bit_xor_iff)
  then show ?case
    by (simp only: gf256_mul_loop_Suc drop_bit_xor Suc xor_swap4)
qed simp

lemma gf256_mul_loop_0 [simp]: "gf256_mul_loop n a 0 0 = 0"
  by (induction n arbitrary: a) simp_all

lemma gf256_mul_loop_exp:
  "i < n \<Longrightarrow> n \<le> 8 \<Longrightarrow> gf256_mul_loop n a (2 ^ i) 0 = (gf256_double ^^ i) a"
proof (induction n arbitrary: a i)
  case (Suc n)
  show ?case
  proof (cases i)
    case 0
    then show ?thesis
      by (simp only: gf256_mul_loop_Suc) simp
  next
    case (Suc j)
    have "drop_bit 1 (2 ^ Suc j :: byte) = 2 ^ j"
      using Suc.prems Suc by (intro bit_word_eqI) (auto simp: bit_simps)
    moreover have "\<not> bit (2 ^ Suc j :: byte) 0"
      by (simp add: bit_simps)
    ultimately show ?thesis
      using Suc.IH [of j] Suc.prems Suc
      by (simp only: gf256_mul_loop_Suc) (simp add: funpow_swap1)
  qed
qed simp

text \<open>Every byte is an exclusive-or of single-bit bytes.\<close>

lemma byte_bits_induct_aux:
  assumes zero: "P 0"
    and add: "\<And>a b. P a \<Longrightarrow> P b \<Longrightarrow> P (a XOR b)"
    and basis: "\<And>i. i < 8 \<Longrightarrow> P (2 ^ i)"
  shows "(\<forall>k \<ge> n. \<not> bit (a :: byte) k) \<Longrightarrow> P a"
proof (induction n arbitrary: a)
  case 0
  then have "a = 0"
    by (intro bit_word_eqI) simp
  then show ?case
    by (simp add: zero)
next
  case (Suc n)
  show ?case
  proof (cases "bit a n")
    case True
    then have n: "n < 8"
      using bit_imp_le_length by fastforce
    have "a = (a XOR 2 ^ n) XOR 2 ^ n"
      by (simp add: xor.assoc)
    moreover have "\<forall>k \<ge> n. \<not> bit (a XOR 2 ^ n) k"
      using Suc.prems True n by (auto simp: bit_simps) (metis le_antisym not_less_eq_eq)+
    ultimately show ?thesis
      using Suc.IH [of "a XOR 2 ^ n"] basis [OF n] add by metis
  next
    case False
    then have "\<forall>k \<ge> n. \<not> bit a k"
      using Suc.prems by (metis le_antisym not_less_eq_eq)
    then show ?thesis
      by (rule Suc.IH)
  qed
qed

lemma byte_bits_induct [case_names zero add basis]:
  assumes "P 0" "\<And>a b. P a \<Longrightarrow> P b \<Longrightarrow> P (a XOR b)" "\<And>i. i < 8 \<Longrightarrow> P (2 ^ i)"
  shows "P (a :: byte)"
proof (rule byte_bits_induct_aux [of P 8])
  show "\<forall>k \<ge> 8. \<not> bit a k"
    using bit_imp_le_length [of a] by fastforce
qed (use assms in auto)

lemma gf256_mul_xor_left: "gf256_mul (a XOR b) c = gf256_mul a c XOR gf256_mul b c"
  by (simp add: gf256_mul_def gf256_mul_loop_xor_left)

lemma gf256_mul_xor_right: "gf256_mul a (b XOR c) = gf256_mul a b XOR gf256_mul a c"
  by (simp add: gf256_mul_def gf256_mul_loop_xor_right)

lemma gf256_mul_0_right: "gf256_mul a 0 = 0"
  by (simp add: gf256_mul_def)

lemma gf256_mul_exp: "i < 8 \<Longrightarrow> gf256_mul a (2 ^ i) = (gf256_double ^^ i) a"
  by (simp add: gf256_mul_def gf256_mul_loop_exp)

lemma gf256_mul_double_left: "gf256_mul (gf256_double a) b = gf256_double (gf256_mul a b)"
  by (simp add: gf256_mul_def gf256_mul_loop_double)

lemma gf256_mul_0_left: "gf256_mul 0 b = 0"
  using gf256_mul_xor_left [of 0 0 b] by simp

lemma gf256_double_exp: "i < 7 \<Longrightarrow> gf256_double (2 ^ i) = 2 ^ Suc i"
  by (simp add: gf256_double_def Let_def gf256_hi_bit bit_simps)

lemma gf256_double_pow_1: "i < 8 \<Longrightarrow> (gf256_double ^^ i) 1 = 2 ^ i"
  by (induction i) (simp_all add: gf256_double_exp)

lemma gf256_mul_commute: "gf256_mul a b = gf256_mul b a"
proof (induction a arbitrary: b rule: byte_bits_induct)
  case (basis i)
  show ?case
  proof (induction b rule: byte_bits_induct)
    case (basis j)
    have "gf256_mul (2 ^ i) (2 ^ j) = (gf256_double ^^ j) ((gf256_double ^^ i) 1)"
      using \<open>i < 8\<close> \<open>j < 8\<close> by (simp add: gf256_mul_exp gf256_double_pow_1)
    also have "\<dots> = (gf256_double ^^ i) ((gf256_double ^^ j) 1)"
      by (metis add.commute comp_apply funpow_add)
    also have "\<dots> = gf256_mul (2 ^ j) (2 ^ i)"
      using \<open>i < 8\<close> \<open>j < 8\<close> by (simp add: gf256_mul_exp gf256_double_pow_1)
    finally show ?case .
  qed (simp_all add: gf256_mul_0_left gf256_mul_0_right gf256_mul_xor_left gf256_mul_xor_right)
qed (simp_all add: gf256_mul_0_left gf256_mul_0_right gf256_mul_xor_left gf256_mul_xor_right)

lemma gf256_mul_double_right: "gf256_mul a (gf256_double b) = gf256_double (gf256_mul a b)"
  by (metis gf256_mul_commute gf256_mul_double_left)

lemma gf256_mul_double_pow: "gf256_mul a ((gf256_double ^^ i) b) = (gf256_double ^^ i) (gf256_mul a b)"
  by (induction i) (simp_all add: gf256_mul_double_right)

lemma gf256_mul_assoc: "gf256_mul (gf256_mul a b) c = gf256_mul a (gf256_mul b c)"
  by (induction c rule: byte_bits_induct)
    (simp_all add: gf256_mul_0_right gf256_mul_xor_right gf256_mul_exp gf256_mul_double_pow)

lemma gf256_mul_1_left: "gf256_mul 1 a = a"
  using gf256_mul_exp [of 0 a] gf256_mul_commute [of 1 a] by simp

section \<open>The field with 256 elements\<close>

typedef gf = "UNIV :: byte set"
  morphisms gf_byte GF
  by simp

setup_lifting type_definition_gf

instantiation gf :: comm_ring_1
begin

lift_definition zero_gf :: gf is 0 .
lift_definition one_gf :: gf is 1 .
lift_definition plus_gf :: "gf \<Rightarrow> gf \<Rightarrow> gf" is "(XOR)" .
lift_definition minus_gf :: "gf \<Rightarrow> gf \<Rightarrow> gf" is "(XOR)" .
lift_definition uminus_gf :: "gf \<Rightarrow> gf" is "\<lambda>a. a" .
lift_definition times_gf :: "gf \<Rightarrow> gf \<Rightarrow> gf" is gf256_mul .

instance
proof
  fix a b c :: gf
  show "a * b * c = a * (b * c)"
    by transfer (rule gf256_mul_assoc)
  show "a * b = b * a"
    by transfer (rule gf256_mul_commute)
  show "1 * a = a"
    by transfer (rule gf256_mul_1_left)
  show "a + b + c = a + (b + c)"
    by transfer (rule xor.assoc)
  show "a + b = b + a"
    by transfer (rule xor.commute)
  show "0 + a = a" "- a + a = 0" "a - b = a + - b" "(0 :: gf) \<noteq> 1"
    by (transfer; simp)+
  show "(a + b) * c = a * c + b * c"
    by transfer (rule gf256_mul_xor_left)
qed

end

lemma GF_hom [simp]:
  "GF a + GF b = GF (a XOR b)" "GF a - GF b = GF (a XOR b)" "GF a * GF b = GF (gf256_mul a b)"
  by (simp_all add: plus_gf.abs_eq minus_gf.abs_eq times_gf.abs_eq)

lemma GF_inject_iff [simp]: "GF a = GF b \<longleftrightarrow> a = b"
  by (simp add: GF_inject)

lemma gf_0_GF: "0 = GF 0" and gf_1_GF: "1 = GF 1"
  by (simp_all add: zero_gf.abs_eq one_gf.abs_eq)

lemma gf_minus_eq_plus: "(a :: gf) - b = a + b"
  by transfer simp

lemma gf_uminus: "- (a :: gf) = a"
  by transfer simp

lemma finite_gf [simp]: "finite (UNIV :: gf set)"
  and card_gf: "CARD(gf) = 256"
proof -
  have "bij_betw GF UNIV UNIV"
    by (rule bij_betw_byWitness [of _ gf_byte]) (simp_all add: GF_inverse gf_byte_inverse)
  then show "finite (UNIV :: gf set)" "CARD(gf) = 256"
    using bij_betw_finite [of GF UNIV UNIV] bij_betw_same_card [of GF UNIV UNIV] by (simp_all add: card_word)
qed

text \<open>3 generates the multiplicative group: its order divides 255 = 3 * 5 * 17
  and is none of the maximal proper divisors.\<close>

lemma gf256_3_table:
  "gf256_mul 3 3 = 5" "gf256_mul 5 5 = 17" "gf256_mul 17 3 = 51" "gf256_mul 51 51 = 114"
  "gf256_mul 114 51 = 53" "gf256_mul 53 5 = 225" "gf256_mul 225 225 = 92"
  "gf256_mul 92 225 = 12" "gf256_mul 12 92 = 189" "gf256_mul 189 189 = 188"
  "gf256_mul 188 189 = 1"
  by code_simp+

lemma gf_3_powers:
  "GF 3 ^ 15 = GF 53" "GF 3 ^ 51 = GF 12" "GF 3 ^ 85 = GF 189" "GF 3 ^ 255 = GF 1"
proof -
  have p2: "GF 3 ^ 2 = GF 5"
    by (simp add: power2_eq_square gf256_3_table)
  have p4: "GF 3 ^ 4 = GF 17"
    using power_add [of "GF 3" 2 2] by (simp add: gf256_3_table p2)
  have p5: "GF 3 ^ 5 = GF 51"
    using power_add [of "GF 3" 4 1] by (simp add: gf256_3_table p4)
  have p10: "GF 3 ^ 10 = GF 114"
    using power_add [of "GF 3" 5 5] by (simp add: gf256_3_table p5)
  have p15: "GF 3 ^ 15 = GF 53"
    using power_add [of "GF 3" 10 5] by (simp add: gf256_3_table p10 p5)
  have p17: "GF 3 ^ 17 = GF 225"
    using power_add [of "GF 3" 15 2] by (simp add: gf256_3_table p15 p2)
  have p34: "GF 3 ^ 34 = GF 92"
    using power_add [of "GF 3" 17 17] by (simp add: gf256_3_table p17)
  have p51: "GF 3 ^ 51 = GF 12"
    using power_add [of "GF 3" 34 17] by (simp add: gf256_3_table p34 p17)
  have p85: "GF 3 ^ 85 = GF 189"
    using power_add [of "GF 3" 51 34] by (simp add: gf256_3_table p51 p34)
  have p170: "GF 3 ^ 170 = GF 188"
    using power_add [of "GF 3" 85 85] by (simp add: gf256_3_table p85)
  have p255: "GF 3 ^ 255 = GF 1"
    using power_add [of "GF 3" 170 85] by (simp add: gf256_3_table p170 p85)
  show "GF 3 ^ 15 = GF 53" "GF 3 ^ 51 = GF 12" "GF 3 ^ 85 = GF 189" "GF 3 ^ 255 = GF 1"
    by (fact p15 p51 p85 p255)+
qed

lemma divisor_255: "0 < e \<Longrightarrow> e < 255 \<Longrightarrow> e dvd 255 \<Longrightarrow> e dvd 15 \<or> e dvd 51 \<or> e dvd (85 :: nat)"
proof -
  have "list_all (\<lambda>e. 255 mod e = 0 \<longrightarrow> 15 mod e = 0 \<or> 51 mod e = 0 \<or> 85 mod e = (0 :: nat)) [1..<255]"
    by code_simp
  then show "0 < e \<Longrightarrow> e < 255 \<Longrightarrow> e dvd 255 \<Longrightarrow> ?thesis"
    by (simp add: list_all_iff dvd_eq_mod_eq_0)
qed

lemma gf_3_order:
  assumes "0 < d" "d < 255"
  shows "GF 3 ^ d \<noteq> 1"
proof
  assume d: "GF 3 ^ d = 1"
  obtain x y where xy: "d * x = 255 * y + gcd d 255"
    using bezout_nat [of d 255] assms by auto
  have "GF 3 ^ (d * x) = 1" "GF 3 ^ (255 * y) = 1"
    using d gf_3_powers(4) by (simp_all only: power_mult gf_1_GF [symmetric] power_one)
  then have e: "GF 3 ^ gcd d 255 = 1"
    using xy by (simp add: power_add)
  have "gcd d 255 < 255"
    using assms by (metis gcd_le1_nat le_less_trans less_not_refl)
  then have "gcd d 255 dvd 15 \<or> gcd d 255 dvd 51 \<or> gcd d 255 dvd 85"
    using assms by (intro divisor_255) auto
  then have "GF 3 ^ 15 = 1 \<or> GF 3 ^ 51 = 1 \<or> GF 3 ^ 85 = 1"
    using e by (elim disjE dvdE) (metis power_mult power_one)+
  then show False
    using gf_3_powers by (simp add: gf_1_GF)
qed

lemma gf_3_invertible: "i \<le> 255 \<Longrightarrow> GF 3 ^ i * GF 3 ^ (255 - i) = 1"
  using gf_3_powers(4) by (simp add: power_add [symmetric] gf_1_GF)

lemma gf_3_inj: "inj_on ((^) (GF 3)) {..<255}"
proof -
  have ne: "GF 3 ^ i \<noteq> GF 3 ^ j" if "i < j" "j < 255" for i j
  proof
    assume "GF 3 ^ i = GF 3 ^ j"
    then have "GF 3 ^ j * GF 3 ^ (255 - i) = 1"
      using gf_3_invertible [of i] that by simp
    then have "GF 3 ^ 255 * GF 3 ^ (j - i) = 1"
      using that by (simp add: power_add [symmetric] add.commute)
    then show False
      using gf_3_order [of "j - i"] gf_3_powers(4) that by (simp add: gf_1_GF [symmetric])
  qed
  show ?thesis
    by (rule inj_onI) (metis lessThan_iff ne nat_neq_iff)
qed

lemma gf_3_generates:
  assumes "a \<noteq> 0"
  obtains i where "i < 255" "a = GF 3 ^ i"
proof -
  let ?P = "(^) (GF 3) ` {..<255}"
  have "GF 3 ^ i \<noteq> 0" if "i < 255" for i
    using gf_3_invertible [of i] that by auto
  then have "?P \<subseteq> UNIV - {0}"
    by auto
  moreover have "card ?P = card (UNIV - {0 :: gf})"
    using card_image [OF gf_3_inj] by (simp add: card_gf)
  ultimately have "?P = UNIV - {0}"
    by (intro card_subset_eq) simp_all
  then show ?thesis
    using that assms by blast
qed

lemma gf_fermat: "a \<noteq> 0 \<Longrightarrow> a ^ 255 = (1 :: gf)"
  by (erule gf_3_generates)
    (metis gf_1_GF gf_3_powers(4) mult.commute power_mult power_one)

instantiation gf :: field
begin

definition inverse_gf :: "gf \<Rightarrow> gf" where
  "inverse_gf a = a ^ 254"

definition divide_gf :: "gf \<Rightarrow> gf \<Rightarrow> gf" where
  "divide_gf a b = a * inverse b"

instance
proof
  fix a b :: gf
  show "a \<noteq> 0 \<Longrightarrow> inverse a * a = 1"
    using gf_fermat [of a] power_Suc2 [of a 254] by (simp add: inverse_gf_def)
  show "a div b = a * inverse b" "inverse 0 = (0 :: gf)"
    by (simp_all add: divide_gf_def inverse_gf_def)
qed

end

section \<open>The routines compute in the field\<close>

lemma gf256_inv_loop_pow:
  "GF r = GF a ^ k \<Longrightarrow> GF (gf256_inv_loop n a r) = GF a ^ (2 ^ n * Suc k - 1)"
proof (induction n arbitrary: r k)
  case (Suc n)
  have "GF (gf256_mul (gf256_mul r r) a) = GF a ^ (2 * k + 1)"
    using Suc.prems by (simp flip: GF_hom add: power_add mult_2)
  from Suc.IH [OF this] show ?case
    by (simp add: algebra_simps)
qed simp

lemma gf256_inv_eq:
  "gf256_inv a = (if a = 0 then Inl (PgError ERRCODE_DIVISION_BY_ZERO ''GF(256) division by zero'')
     else Inr (gf_byte (inverse (GF a))))"
proof -
  have "GF (gf256_inv_loop 6 a a) = GF a ^ 127"
    using gf256_inv_loop_pow [of a a 1 6] by simp
  then have "GF (gf256_mul (gf256_inv_loop 6 a a) (gf256_inv_loop 6 a a)) = inverse (GF a)"
    by (simp flip: GF_hom power_add add: inverse_gf_def)
  then have "gf256_mul (gf256_inv_loop 6 a a) (gf256_inv_loop 6 a a) = gf_byte (inverse (GF a))"
    by (metis GF_inverse UNIV_I)
  then show ?thesis
    by (simp add: gf256_inv_def Let_def)
qed

lemma gf256_div_eq:
  "gf256_div a b = (if b = 0 then Inl (PgError ERRCODE_DIVISION_BY_ZERO ''GF(256) division by zero'')
     else Inr (gf_byte (GF a / GF b)))"
proof -
  have "GF (gf256_mul a (gf_byte (inverse (GF b)))) = GF a / GF b"
    by (simp flip: GF_hom add: divide_gf_def gf_byte_inverse)
  then have "gf256_mul a (gf_byte (inverse (GF b))) = gf_byte (GF a / GF b)"
    by (metis GF_inverse UNIV_I)
  then show ?thesis
    by (simp add: gf256_div_def gf256_inv_eq)
qed

lemma gf256_poly_eval_loop_eq:
  "GF (gf256_poly_eval_loop cs x r p) = GF r + GF p * peval (map GF cs) (GF x)"
proof (induction cs x r p rule: gf256_poly_eval_loop.induct)
  case (3 c d cs x r p)
  show ?case
    by (simp add: 3 del: GF_hom flip: GF_hom) (simp add: algebra_simps del: GF_hom)
qed (simp_all add: gf_0_GF [symmetric] mult.commute del: GF_hom flip: GF_hom)

lemma gf256_poly_eval_eq:
  "GF (gf256_poly_eval cs d x) = peval (map GF (take (d + 1) cs)) (GF x)"
  by (simp add: gf256_poly_eval_def gf256_poly_eval_loop_eq gf_0_GF [symmetric] gf_1_GF [symmetric])

lemma gf256_basis_loop_eq:
  "distinct js \<Longrightarrow> gf256_basis_loop xs i js (num, den) = (num', den') \<Longrightarrow>
     GF num' = GF num * (\<Prod>j \<in> set js - {i}. GF (xs ! j)) \<and>
     GF den' = GF den * (\<Prod>j \<in> set js - {i}. GF (xs ! i) - GF (xs ! j))"
proof (induction js arbitrary: num den)
  case (Cons j js)
  show ?case
  proof (cases "i = j")
    case False
    then have "set (j # js) - {i} = insert j (set js - {i})" "j \<notin> set js - {i}"
      using Cons.prems by auto
    then show ?thesis
      using Cons.IH [of "gf256_mul num (xs ! j)" "gf256_mul den (xs ! i XOR xs ! j)"] Cons.prems False
      by (simp add: mult.assoc gf_minus_eq_plus del: GF_hom flip: GF_hom)
  qed (use Cons in auto)
qed simp

lemma gf256_den_0_iff:
  assumes "gf256_basis_loop xs i [0..<n] (1, 1) = (num, den)"
  shows "den = 0 \<longleftrightarrow> (\<exists>j < n. j \<noteq> i \<and> xs ! i = xs ! j)"
proof -
  have "GF den = (\<Prod>j \<in> {..<n} - {i}. GF (xs ! i) - GF (xs ! j))"
    using gf256_basis_loop_eq [OF _ assms] by (simp add: gf_1_GF [symmetric] atLeast0LessThan del: GF_hom)
  then have "den = 0 \<longleftrightarrow> (\<exists>j \<in> {..<n} - {i}. GF (xs ! i) - GF (xs ! j) = 0)"
    by (metis (no_types, lifting) GF_inject_iff finite_Diff finite_lessThan gf_0_GF prod_zero_iff)
  then show ?thesis
    by (auto simp del: GF_hom)
qed

lemma gf256_basis_quotient:
  assumes "gf256_basis_loop xs i [0..<n] (1, 1) = (num, den)" "n = length xs" "i < n"
  shows "GF num / GF den = lagrange_basis (map GF xs) i 0"
proof -
  have "GF num = (\<Prod>j \<in> {..<n} - {i}. GF (xs ! j))"
    "GF den = (\<Prod>j \<in> {..<n} - {i}. GF (xs ! i) - GF (xs ! j))"
    using gf256_basis_loop_eq [OF _ assms(1)] by (simp_all add: gf_1_GF [symmetric] atLeast0LessThan del: GF_hom)
  then have "GF num / GF den = (\<Prod>j \<in> {..<n} - {i}. (0 - GF (xs ! j)) / (GF (xs ! i) - GF (xs ! j)))"
    by (simp add: prod_dividef gf_uminus)
  also have "\<dots> = lagrange_basis (map GF xs) i 0"
    unfolding lagrange_basis_def using assms by (intro prod.cong) auto
  finally show ?thesis .
qed

lemma gf256_lagrange_loop_Inr:
  assumes "distinct xs" "n = length xs"
  shows "set is \<subseteq> {..<n} \<Longrightarrow> gf256_lagrange_loop xs ys n is secret =
     Inr (gf_byte (GF secret + (\<Sum>i\<leftarrow>is. GF (ys ! i) * lagrange_basis (map GF xs) i 0)))"
proof (induction "is" arbitrary: secret)
  case Nil
  then show ?case
    by (simp add: GF_inverse)
next
  case (Cons i "is")
  obtain num den where b: "gf256_basis_loop xs i [0..<n] (1, 1) = (num, den)"
    by fastforce
  have "den \<noteq> 0"
    using gf256_den_0_iff [OF b] assms Cons.prems by (auto simp: nth_eq_iff_index_eq)
  moreover have "GF num / GF den = lagrange_basis (map GF xs) i 0"
    using gf256_basis_quotient [OF b] assms Cons.prems by simp
  ultimately have "gf256_lagrange_loop xs ys n (i # is) secret =
      gf256_lagrange_loop xs ys n is
        (secret XOR gf256_mul (ys ! i) (gf_byte (lagrange_basis (map GF xs) i 0)))"
    using b by (simp add: gf256_div_eq)
  also have "\<dots> = Inr (gf_byte (GF secret + (\<Sum>i\<leftarrow>i # is. GF (ys ! i) * lagrange_basis (map GF xs) i 0)))"
    using Cons by (simp add: gf_byte_inverse add.assoc del: GF_hom flip: GF_hom)
  finally show ?case .
qed

lemma gf256_lagrange_interpolate_Inr:
  assumes "distinct xs"
  shows "gf256_lagrange_interpolate xs ys (length xs) =
    Inr (gf_byte (\<Sum>i<length xs. GF (ys ! i) * lagrange_basis (map GF xs) i 0))"
  using gf256_lagrange_loop_Inr [OF assms refl, of "[0..<length xs]" ys 0]
  by (simp add: gf256_lagrange_interpolate_def gf_0_GF [symmetric] atLeast0LessThan
      interv_sum_list_conv_sum_set_nat del: upt_0)

lemma gf256_lagrange_loop_Inl:
  assumes "i \<in> set is" "j < n" "j \<noteq> i" "xs ! i = xs ! j"
  shows "gf256_lagrange_loop xs ys n is secret =
    Inl (PgError ERRCODE_DIVISION_BY_ZERO ''GF(256) division by zero'')"
  using assms(1)
proof (induction "is" arbitrary: secret)
  case (Cons k "is")
  obtain num den where b: "gf256_basis_loop xs k [0..<n] (1, 1) = (num, den)"
    by fastforce
  show ?case
  proof (cases "den = 0")
    case False
    then have "k \<noteq> i"
      using gf256_den_0_iff [OF b] assms by auto
    then show ?thesis
      using Cons b False by (simp add: gf256_div_eq)
  qed (use b in \<open>simp add: gf256_div_eq\<close>)
qed simp

lemma gf256_lagrange_interpolate_Inl:
  assumes "\<not> distinct xs"
  shows "gf256_lagrange_interpolate xs ys (length xs) =
    Inl (PgError ERRCODE_DIVISION_BY_ZERO ''GF(256) division by zero'')"
proof -
  obtain i j where "i < length xs" "j < length xs" "j \<noteq> i" "xs ! i = xs ! j"
    using assms by (auto simp: distinct_conv_nth)
  then show ?thesis
    unfolding gf256_lagrange_interpolate_def by (intro gf256_lagrange_loop_Inl [of i _ j]) auto
qed

end
