(* ===== verification/External.thy ===== *)
theory External
  imports Prelude
begin

text \<open>
  The two libraries the program links against, as parameters: liboqs (key
  encapsulation and signatures) and OpenSSL (randomness, AES, HKDF, digests,
  Ed25519).  A randomised call takes the index of its coins, so that two calls
  at different indices are unrelated; every call that can fail returns None
  (or a failure constructor) when it does.  The predicates at the end state
  what the two libraries document about successful calls; theorems that rely
  on them name them as hypotheses.
\<close>

section \<open>liboqs\<close>

record OQS_KEM =
  kem_method :: string
  kem_length_public_key :: nat
  kem_length_secret_key :: nat
  kem_length_ciphertext :: nat
  kem_length_shared_secret :: nat

record OQS_SIG =
  sig_method :: string
  sig_length_public_key :: nat
  sig_length_secret_key :: nat
  sig_length_signature :: nat

record liboqs =
  OQS_KEM_new :: "string \<Rightarrow> OQS_KEM option"
  OQS_KEM_keypair :: "OQS_KEM \<Rightarrow> nat \<Rightarrow> (bytes \<times> bytes) option"
  OQS_KEM_encaps :: "OQS_KEM \<Rightarrow> nat \<Rightarrow> bytes \<Rightarrow> (bytes \<times> bytes) option"
  OQS_KEM_decaps :: "OQS_KEM \<Rightarrow> bytes \<Rightarrow> bytes \<Rightarrow> bytes option"
  OQS_SIG_new :: "string \<Rightarrow> OQS_SIG option"
  OQS_SIG_keypair :: "OQS_SIG \<Rightarrow> nat \<Rightarrow> (bytes \<times> bytes) option"
  OQS_SIG_sign :: "OQS_SIG \<Rightarrow> nat \<Rightarrow> bytes \<Rightarrow> bytes \<Rightarrow> bytes option"
  OQS_SIG_verify :: "OQS_SIG \<Rightarrow> bytes \<Rightarrow> bytes \<Rightarrow> bytes \<Rightarrow> bool"

section \<open>OpenSSL\<close>

text \<open>Outcome of the EVP_CIPHER_CTX_new / Init / Update / Final sequence on a
  buffer; the last three carry the buffer's contents after the call.\<close>

datatype evp_out =
    Evp_ctx_null
  | Evp_init_failed
  | Evp_update_failed bytes
  | Evp_final_failed bytes
  | Evp_ok bytes

text \<open>Outcome of hashing a buffer in one go.  A caller that checks EVP_DigestUpdate
  here treats its failure as that of the finalisation, and both are
  Digest_final_failed; where its result is ignored it is taken to succeed.\<close>

datatype digest_out = Digest_no_ctx | Digest_init_failed | Digest_final_failed | Digest bytes

text \<open>Outcome of a sequence of calls with one error exit each: the position of
  the call that failed, or the result.  Position 0 is the allocation of the
  context.  For HKDF, 1 is the set-up of the parameters and 2 the derivation;
  for HMAC, 1 to 3 are initialisation, update and finalisation;
  for GCM sealing, 1 to 4 are initialisation, update, finalisation and reading
  the tag; for GCM opening, initialisation, update, setting the tag and
  finalisation.\<close>

datatype 'a evp_steps = Step_failed nat | Steps_ok 'a

text \<open>The digest algorithms the program selects, with the size of their output.\<close>

datatype evp_md = EVP_md5 | EVP_sha1 | EVP_sha224 | EVP_sha256 | EVP_sha384 | EVP_sha512

primrec md_size :: "evp_md \<Rightarrow> nat" where
  "md_size EVP_md5 = 16"
| "md_size EVP_sha1 = 20"
| "md_size EVP_sha224 = 28"
| "md_size EVP_sha256 = 32"
| "md_size EVP_sha384 = 48"
| "md_size EVP_sha512 = 64"

text \<open>RAND_bytes at coin index c has the return value rand_status c and stores
  rand_byte c i at offset i of the buffer.  digest_feed tells whether
  EVP_DigestUpdate accepts more data in a context that has been fed some
  already.  The GCM calls take the length of their input as an int; what they do
  with a negative one is not documented, and is a function of its own.\<close>

record openssl =
  rand_status :: "nat \<Rightarrow> int"
  rand_byte :: "nat \<Rightarrow> nat \<Rightarrow> byte"
  evp_aes_256_ctr :: "bytes \<Rightarrow> bytes \<Rightarrow> bytes \<Rightarrow> evp_out"
  evp_hkdf_sha256 :: "bytes \<Rightarrow> bytes \<Rightarrow> bytes \<Rightarrow> nat \<Rightarrow> bytes evp_steps"
  evp_gcm_seal :: "bytes \<Rightarrow> bytes \<Rightarrow> bytes \<Rightarrow> (bytes \<times> bytes) evp_steps"
  evp_gcm_open :: "bytes \<Rightarrow> bytes \<Rightarrow> bytes \<Rightarrow> bytes \<Rightarrow> bytes evp_steps"
  evp_gcm_seal_negative :: "bytes \<Rightarrow> bytes \<Rightarrow> bytes \<Rightarrow> int \<Rightarrow> (bytes \<times> bytes) evp_steps"
  evp_gcm_open_negative :: "bytes \<Rightarrow> bytes \<Rightarrow> bytes \<Rightarrow> int \<Rightarrow> bytes \<Rightarrow> bytes evp_steps"
  evp_digest :: "evp_md \<Rightarrow> bytes \<Rightarrow> digest_out"
  digest_feed :: "evp_md \<Rightarrow> bytes \<Rightarrow> bytes \<Rightarrow> bool"
  hmac_digest :: "evp_md \<Rightarrow> bytes \<Rightarrow> bytes \<Rightarrow> bytes evp_steps"
  ed25519_keypair :: "nat \<Rightarrow> (bytes \<times> bytes) evp_steps"
  ed25519_sign_msg :: "bytes \<Rightarrow> bytes \<Rightarrow> bytes evp_steps"
  ed25519_verify_msg :: "bytes \<Rightarrow> bytes \<Rightarrow> bytes \<Rightarrow> bool evp_steps"

abbreviation evp_sha256 :: "openssl \<Rightarrow> bytes \<Rightarrow> digest_out" where
  "evp_sha256 ssl \<equiv> evp_digest ssl EVP_sha256"

abbreviation evp_sha384 :: "openssl \<Rightarrow> bytes \<Rightarrow> digest_out" where
  "evp_sha384 ssl \<equiv> evp_digest ssl EVP_sha384"

definition rand_buf :: "openssl \<Rightarrow> nat \<Rightarrow> nat \<Rightarrow> bytes" where
  "rand_buf ssl c n = map (rand_byte ssl c) [0..<n]"

lemma length_rand_buf [simp]: "length (rand_buf ssl c n) = n"
  by (simp add: rand_buf_def)

section \<open>Documented behaviour\<close>

text \<open>FIPS 203 through liboqs: decapsulating an encapsulation made for the
  public half of a key pair with its secret half gives the same secret, and
  buffers have the advertised lengths.\<close>

definition kem_correct :: "liboqs \<Rightarrow> bool" where
  "kem_correct L \<longleftrightarrow> (\<forall>n k c pk sk. OQS_KEM_new L n = Some k \<longrightarrow> OQS_KEM_keypair L k c = Some (pk, sk) \<longrightarrow>
     length pk = kem_length_public_key k \<and> length sk = kem_length_secret_key k \<and>
     (\<forall>c' ct ss. OQS_KEM_encaps L k c' pk = Some (ct, ss) \<longrightarrow>
        length ct = kem_length_ciphertext k \<and> length ss = kem_length_shared_secret k \<and>
        OQS_KEM_decaps L k ct sk = Some ss))"

text \<open>FIPS 204 and 205 through liboqs: signatures made with the secret half of a
  key pair verify under its public half and fit the advertised maximum.\<close>

definition sig_correct :: "liboqs \<Rightarrow> bool" where
  "sig_correct L \<longleftrightarrow> (\<forall>n k c pk sk. OQS_SIG_new L n = Some k \<longrightarrow> OQS_SIG_keypair L k c = Some (pk, sk) \<longrightarrow>
     length pk = sig_length_public_key k \<and> length sk = sig_length_secret_key k \<and>
     (\<forall>c' m s. OQS_SIG_sign L k c' m sk = Some s \<longrightarrow>
        length s \<le> sig_length_signature k \<and> OQS_SIG_verify L k m s pk))"

text \<open>Counter mode: the output is the input masked with a pad determined by key,
  counter block and length; the pad of a shorter input is a prefix.\<close>

definition ctr_mode :: "openssl \<Rightarrow> (bytes \<Rightarrow> bytes \<Rightarrow> nat \<Rightarrow> byte) \<Rightarrow> bool" where
  "ctr_mode ssl pad \<longleftrightarrow>
     (\<forall>k iv d. evp_aes_256_ctr ssl k iv d = Evp_ok (xor_bytes d (map (pad k iv) [0..<length d])))"

text \<open>Galois/counter mode: opening what was sealed under the same key and
  nonce gives the plaintext; the ciphertext is as long as the plaintext and
  the tag has 16 bytes.\<close>

definition gcm_correct :: "openssl \<Rightarrow> bool" where
  "gcm_correct ssl \<longleftrightarrow> (\<forall>k iv p ct tag. evp_gcm_seal ssl k iv p = Steps_ok (ct, tag) \<longrightarrow>
     length ct = length p \<and> length tag = 16 \<and> evp_gcm_open ssl k iv ct tag = Steps_ok p)"

text \<open>A digest that does not fail and has the advertised length.\<close>

definition sha384_total :: "openssl \<Rightarrow> (bytes \<Rightarrow> bytes) \<Rightarrow> bool" where
  "sha384_total ssl h \<longleftrightarrow> (\<forall>m. evp_sha384 ssl m = Digest (h m) \<and> length (h m) = 48)"

text \<open>Digests and keyed digests (RFC 2104) that do not fail and have the size of
  the algorithm.\<close>

definition digests_total :: "openssl \<Rightarrow> bool" where
  "digests_total ssl \<longleftrightarrow>
     (\<forall>md m. \<exists>d. evp_digest ssl md m = Digest d \<and> length d = md_size md) \<and>
     (\<forall>md k m. \<exists>d. hmac_digest ssl md k m = Steps_ok d \<and> length d = md_size md)"

text \<open>RFC 8032 through OpenSSL: signatures verify under the key pair's public half.\<close>

definition ed25519_correct :: "openssl \<Rightarrow> bool" where
  "ed25519_correct ssl \<longleftrightarrow> (\<forall>c pk sk m s. ed25519_keypair ssl c = Steps_ok (pk, sk) \<longrightarrow>
     ed25519_sign_msg ssl sk m = Steps_ok s \<longrightarrow> ed25519_verify_msg ssl pk m s = Steps_ok True)"

end
