(* ===== verification/PgPort.thy ===== *)
theory PgPort
  imports Prelude
begin

text \<open>
  The case-insensitive comparison of src/port/pgstrcasecmp.c.  A C string is
  the list of its characters before the terminating NUL; the high-bit branches
  (isupper on non-ASCII bytes) are those of the C locale, where they never
  fire.
\<close>

definition pg_tolower :: "char \<Rightarrow> char" where
  "pg_tolower ch = (let c = of_char ch :: nat in if 65 \<le> c \<and> c \<le> 90 then char_of (c + 32) else ch)"

fun pg_strcasecmp :: "string \<Rightarrow> string \<Rightarrow> int" where
  "pg_strcasecmp [] [] = 0"
| "pg_strcasecmp (c # cs) [] = of_char (pg_tolower c)"
| "pg_strcasecmp [] (d # ds) = - of_char (pg_tolower d)"
| "pg_strcasecmp (c # cs) (d # ds) =
     (if c \<noteq> d \<and> pg_tolower c \<noteq> pg_tolower d
      then of_char (pg_tolower c) - of_char (pg_tolower d)
      else pg_strcasecmp cs ds)"

fun pg_strncasecmp :: "string \<Rightarrow> string \<Rightarrow> nat \<Rightarrow> int" where
  "pg_strncasecmp s1 s2 0 = 0"
| "pg_strncasecmp [] [] (Suc n) = 0"
| "pg_strncasecmp (c # cs) [] (Suc n) = of_char (pg_tolower c)"
| "pg_strncasecmp [] (d # ds) (Suc n) = - of_char (pg_tolower d)"
| "pg_strncasecmp (c # cs) (d # ds) (Suc n) =
     (if c \<noteq> d \<and> pg_tolower c \<noteq> pg_tolower d
      then of_char (pg_tolower c) - of_char (pg_tolower d)
      else pg_strncasecmp cs ds n)"

text \<open>No NUL inside a C string.\<close>

definition c_string :: "string \<Rightarrow> bool" where
  "c_string s \<longleftrightarrow> list_all (\<lambda>c. of_char c \<noteq> (0 :: nat)) s"

lemma c_string_simps [simp]:
  "c_string []" "c_string (c # cs) \<longleftrightarrow> of_char c \<noteq> (0 :: nat) \<and> c_string cs"
  by (simp_all add: c_string_def)

lemma of_char_tolower_eq_0: "(of_char (pg_tolower c) :: nat) = 0 \<longleftrightarrow> (of_char c :: nat) = 0"
  by (simp add: pg_tolower_def Let_def of_char_of)

lemma of_char_int_eq_iff: "(of_char c :: int) = of_char d \<longleftrightarrow> c = d"
  by (metis char_of_char)

lemma of_char_int_0_iff: "(of_char c :: int) = 0 \<longleftrightarrow> (of_char c :: nat) = 0"
  by (cases c) (auto split: if_splits)

lemma pg_strcasecmp_eq_0:
  "c_string s \<Longrightarrow> c_string t \<Longrightarrow> pg_strcasecmp s t = 0 \<longleftrightarrow> map pg_tolower s = map pg_tolower t"
  by (induction s t rule: pg_strcasecmp.induct)
    (auto simp: of_char_int_eq_iff of_char_int_0_iff of_char_tolower_eq_0)

lemma pg_strcasecmp_refl [simp]: "pg_strcasecmp s s = 0"
  by (induction s) simp_all

lemma pg_strncasecmp_eq_0:
  "c_string s \<Longrightarrow> c_string t \<Longrightarrow>
     pg_strncasecmp s t n = 0 \<longleftrightarrow> map pg_tolower (take n s) = map pg_tolower (take n t)"
  by (induction s t n rule: pg_strncasecmp.induct)
    (auto simp: of_char_int_eq_iff of_char_int_0_iff of_char_tolower_eq_0)

end
