(* ===== verification/PqcCommon.thy ===== *)
theory PqcCommon
  imports External PgPort
begin

text \<open>
  The algorithm registry and its lifecycle: include/crypto/pqc/pqc_common.h and
  backend/crypto/pqc/pqc_common.c, built with USE_PQC.  PqcAlgorithm is the C
  enumeration as an integer, because the key-file code casts stored 32-bit
  values to it.
\<close>

type_synonym PqcAlgorithm = int

abbreviation (input) "PQC_ALG_ML_KEM_512 \<equiv> 0 :: PqcAlgorithm"
abbreviation (input) "PQC_ALG_ML_KEM_768 \<equiv> 1 :: PqcAlgorithm"
abbreviation (input) "PQC_ALG_ML_KEM_1024 \<equiv> 2 :: PqcAlgorithm"
abbreviation (input) "PQC_ALG_ML_DSA_44 \<equiv> 3 :: PqcAlgorithm"
abbreviation (input) "PQC_ALG_ML_DSA_65 \<equiv> 4 :: PqcAlgorithm"
abbreviation (input) "PQC_ALG_ML_DSA_87 \<equiv> 5 :: PqcAlgorithm"
abbreviation (input) "PQC_ALG_SLH_DSA_SHA2_128S \<equiv> 6 :: PqcAlgorithm"
abbreviation (input) "PQC_ALG_COUNT \<equiv> 18 :: PqcAlgorithm"

datatype PqcStatus =
    PQC_SUCCESS | PQC_ERROR | PQC_ERROR_NOT_SUPPORTED | PQC_ERROR_INVALID_PARAM
  | PQC_ERROR_MEMORY | PQC_ERROR_CRYPTO_FAILURE

datatype PqcAlgType = PQC_TYPE_KEM | PQC_TYPE_SIG

record PqcAlgorithmInfo =
  alg_id :: PqcAlgorithm
  alg_name :: string
  oqs_name :: string
  alg_type :: PqcAlgType
  nist_level :: int
  public_key_len :: nat
  secret_key_len :: nat
  ciphertext_len :: nat
  shared_secret_len :: nat
  signature_len :: nat

record PqcStatCounters =
  kem_encaps_count :: "64 word"
  kem_decaps_count :: "64 word"
  sig_sign_count :: "64 word"
  sig_verify_count :: "64 word"
  tde_encryptions :: "64 word"
  tde_decryptions :: "64 word"
  key_cache_hits :: "64 word"
  key_cache_misses :: "64 word"
  wal_segments_signed :: "64 word"
  encrypt_time_us :: "64 word"
  sign_time_us :: "64 word"

text \<open>Per-process state: the initialised flag, the registry, the pointer to the
  shared statistics (None before they are attached) and the index of the next
  randomised library call.\<close>

record pqc_state =
  pqc_initialized :: bool
  pqc_algorithms :: "PqcAlgorithmInfo list"
  pqc_stat_counters :: "PqcStatCounters option"
  coins :: nat

definition alg_entry :: "PqcAlgorithm \<Rightarrow> string \<Rightarrow> string \<Rightarrow> PqcAlgType \<Rightarrow> int \<Rightarrow> PqcAlgorithmInfo" where
  "alg_entry a n q t l = \<lparr>alg_id = a, alg_name = n, oqs_name = q, alg_type = t, nist_level = l,
     public_key_len = 0, secret_key_len = 0, ciphertext_len = 0, shared_secret_len = 0, signature_len = 0\<rparr>"

definition pqc_algorithms_table :: "PqcAlgorithmInfo list" where
  "pqc_algorithms_table =
    [alg_entry 0 ''ML-KEM-512'' ''ML-KEM-512'' PQC_TYPE_KEM 1,
     alg_entry 1 ''ML-KEM-768'' ''ML-KEM-768'' PQC_TYPE_KEM 3,
     alg_entry 2 ''ML-KEM-1024'' ''ML-KEM-1024'' PQC_TYPE_KEM 5,
     alg_entry 3 ''ML-DSA-44'' ''ML-DSA-44'' PQC_TYPE_SIG 2,
     alg_entry 4 ''ML-DSA-65'' ''ML-DSA-65'' PQC_TYPE_SIG 3,
     alg_entry 5 ''ML-DSA-87'' ''ML-DSA-87'' PQC_TYPE_SIG 5,
     alg_entry 6 ''SLH-DSA-SHA2-128s'' ''SLH-DSA-SHA2-128s-FIPS205'' PQC_TYPE_SIG 1,
     alg_entry 7 ''SLH-DSA-SHA2-128f'' ''SLH-DSA-SHA2-128f-FIPS205'' PQC_TYPE_SIG 1,
     alg_entry 8 ''SLH-DSA-SHA2-192s'' ''SLH-DSA-SHA2-192s-FIPS205'' PQC_TYPE_SIG 3,
     alg_entry 9 ''SLH-DSA-SHA2-192f'' ''SLH-DSA-SHA2-192f-FIPS205'' PQC_TYPE_SIG 3,
     alg_entry 10 ''SLH-DSA-SHA2-256s'' ''SLH-DSA-SHA2-256s-FIPS205'' PQC_TYPE_SIG 5,
     alg_entry 11 ''SLH-DSA-SHA2-256f'' ''SLH-DSA-SHA2-256f-FIPS205'' PQC_TYPE_SIG 5,
     alg_entry 12 ''SLH-DSA-SHAKE-128s'' ''SLH-DSA-SHAKE-128s-FIPS205'' PQC_TYPE_SIG 1,
     alg_entry 13 ''SLH-DSA-SHAKE-128f'' ''SLH-DSA-SHAKE-128f-FIPS205'' PQC_TYPE_SIG 1,
     alg_entry 14 ''SLH-DSA-SHAKE-192s'' ''SLH-DSA-SHAKE-192s-FIPS205'' PQC_TYPE_SIG 3,
     alg_entry 15 ''SLH-DSA-SHAKE-192f'' ''SLH-DSA-SHAKE-192f-FIPS205'' PQC_TYPE_SIG 3,
     alg_entry 16 ''SLH-DSA-SHAKE-256s'' ''SLH-DSA-SHAKE-256s-FIPS205'' PQC_TYPE_SIG 5,
     alg_entry 17 ''SLH-DSA-SHAKE-256f'' ''SLH-DSA-SHAKE-256f-FIPS205'' PQC_TYPE_SIG 5]"

definition pqc_populate_kem_info :: "liboqs \<Rightarrow> PqcAlgorithmInfo \<Rightarrow> PqcAlgorithmInfo" where
  "pqc_populate_kem_info L info =
     (case OQS_KEM_new L (oqs_name info) of
        None \<Rightarrow> info
      | Some kem \<Rightarrow> info\<lparr>public_key_len := kem_length_public_key kem,
          secret_key_len := kem_length_secret_key kem,
          ciphertext_len := kem_length_ciphertext kem,
          shared_secret_len := kem_length_shared_secret kem\<rparr>)"

definition pqc_populate_sig_info :: "liboqs \<Rightarrow> PqcAlgorithmInfo \<Rightarrow> PqcAlgorithmInfo" where
  "pqc_populate_sig_info L info =
     (case OQS_SIG_new L (oqs_name info) of
        None \<Rightarrow> info
      | Some sig \<Rightarrow> info\<lparr>public_key_len := sig_length_public_key sig,
          secret_key_len := sig_length_secret_key sig,
          signature_len := sig_length_signature sig\<rparr>)"

definition pqc_init :: "liboqs \<Rightarrow> 'a pqc_state_scheme \<Rightarrow> PqcStatus \<times> 'a pqc_state_scheme" where
  "pqc_init L st =
     (if pqc_initialized st then (PQC_SUCCESS, st)
      else (PQC_SUCCESS, st\<lparr>
        pqc_algorithms := map (\<lambda>info. if alg_type info = PQC_TYPE_KEM
            then pqc_populate_kem_info L info else pqc_populate_sig_info L info) (pqc_algorithms st),
        pqc_initialized := True\<rparr>))"

definition pqc_cleanup :: "'a pqc_state_scheme \<Rightarrow> 'a pqc_state_scheme" where
  "pqc_cleanup st = (if \<not> pqc_initialized st then st else st\<lparr>pqc_initialized := False\<rparr>)"

definition pqc_is_available :: "'a pqc_state_scheme \<Rightarrow> bool" where
  "pqc_is_available st = pqc_initialized st"

definition pqc_get_algorithm_info :: "'a pqc_state_scheme \<Rightarrow> PqcAlgorithm \<Rightarrow> PqcAlgorithmInfo option" where
  "pqc_get_algorithm_info st alg =
     (if alg < 0 \<or> alg \<ge> PQC_ALG_COUNT then None else Some (pqc_algorithms st ! nat alg))"

definition pqc_algorithm_name :: "'a pqc_state_scheme \<Rightarrow> PqcAlgorithm \<Rightarrow> string" where
  "pqc_algorithm_name st alg =
     (case pqc_get_algorithm_info st alg of Some info \<Rightarrow> alg_name info | None \<Rightarrow> ''unknown'')"

fun pqc_name_scan :: "PqcAlgorithmInfo list \<Rightarrow> string \<Rightarrow> PqcAlgorithm" where
  "pqc_name_scan [] s = PQC_ALG_COUNT"
| "pqc_name_scan (info # infos) s =
     (if pg_strcasecmp (alg_name info) s = 0 then alg_id info else pqc_name_scan infos s)"

definition pqc_algorithm_from_name :: "'a pqc_state_scheme \<Rightarrow> string option \<Rightarrow> PqcAlgorithm" where
  "pqc_algorithm_from_name st nm =
     (case nm of None \<Rightarrow> PQC_ALG_COUNT | Some s \<Rightarrow> pqc_name_scan (pqc_algorithms st) s)"

definition pqc_algorithm_is_kem :: "'a pqc_state_scheme \<Rightarrow> PqcAlgorithm \<Rightarrow> bool" where
  "pqc_algorithm_is_kem st alg =
     (case pqc_get_algorithm_info st alg of Some info \<Rightarrow> alg_type info = PQC_TYPE_KEM | None \<Rightarrow> False)"

definition pqc_algorithm_is_sig :: "'a pqc_state_scheme \<Rightarrow> PqcAlgorithm \<Rightarrow> bool" where
  "pqc_algorithm_is_sig st alg =
     (case pqc_get_algorithm_info st alg of Some info \<Rightarrow> alg_type info = PQC_TYPE_SIG | None \<Rightarrow> False)"

section \<open>Counters\<close>

definition pqc_stat_count_kem_encaps :: "'a pqc_state_scheme \<Rightarrow> 'a pqc_state_scheme" where
  "pqc_stat_count_kem_encaps st = st\<lparr>pqc_stat_counters :=
     map_option (kem_encaps_count_update (\<lambda>n. n + 1)) (pqc_stat_counters st)\<rparr>"

definition pqc_stat_count_kem_decaps :: "'a pqc_state_scheme \<Rightarrow> 'a pqc_state_scheme" where
  "pqc_stat_count_kem_decaps st = st\<lparr>pqc_stat_counters :=
     map_option (kem_decaps_count_update (\<lambda>n. n + 1)) (pqc_stat_counters st)\<rparr>"

definition pqc_stat_count_sig_sign :: "'a pqc_state_scheme \<Rightarrow> 'a pqc_state_scheme" where
  "pqc_stat_count_sig_sign st = st\<lparr>pqc_stat_counters :=
     map_option (sig_sign_count_update (\<lambda>n. n + 1)) (pqc_stat_counters st)\<rparr>"

definition pqc_stat_count_sig_verify :: "'a pqc_state_scheme \<Rightarrow> 'a pqc_state_scheme" where
  "pqc_stat_count_sig_verify st = st\<lparr>pqc_stat_counters :=
     map_option (sig_verify_count_update (\<lambda>n. n + 1)) (pqc_stat_counters st)\<rparr>"

definition pqc_stat_count_tde_encrypt :: "'a pqc_state_scheme \<Rightarrow> 'a pqc_state_scheme" where
  "pqc_stat_count_tde_encrypt st = st\<lparr>pqc_stat_counters :=
     map_option (tde_encryptions_update (\<lambda>n. n + 1)) (pqc_stat_counters st)\<rparr>"

definition pqc_stat_count_tde_decrypt :: "'a pqc_state_scheme \<Rightarrow> 'a pqc_state_scheme" where
  "pqc_stat_count_tde_decrypt st = st\<lparr>pqc_stat_counters :=
     map_option (tde_decryptions_update (\<lambda>n. n + 1)) (pqc_stat_counters st)\<rparr>"

definition pqc_stat_count_key_cache_hit :: "'a pqc_state_scheme \<Rightarrow> 'a pqc_state_scheme" where
  "pqc_stat_count_key_cache_hit st = st\<lparr>pqc_stat_counters :=
     map_option (key_cache_hits_update (\<lambda>n. n + 1)) (pqc_stat_counters st)\<rparr>"

definition pqc_stat_count_key_cache_miss :: "'a pqc_state_scheme \<Rightarrow> 'a pqc_state_scheme" where
  "pqc_stat_count_key_cache_miss st = st\<lparr>pqc_stat_counters :=
     map_option (key_cache_misses_update (\<lambda>n. n + 1)) (pqc_stat_counters st)\<rparr>"

definition pqc_stat_count_wal_segment_signed :: "'a pqc_state_scheme \<Rightarrow> 'a pqc_state_scheme" where
  "pqc_stat_count_wal_segment_signed st = st\<lparr>pqc_stat_counters :=
     map_option (wal_segments_signed_update (\<lambda>n. n + 1)) (pqc_stat_counters st)\<rparr>"

definition pqc_start_state :: pqc_state where
  "pqc_start_state = \<lparr>pqc_initialized = False, pqc_algorithms = pqc_algorithms_table,
     pqc_stat_counters = None, coins = 0\<rparr>"

section \<open>The registry never loses an algorithm\<close>

text \<open>What initialisation leaves alone: identity, names, kind and level.\<close>

definition alg_key :: "PqcAlgorithmInfo \<Rightarrow> PqcAlgorithm \<times> string \<times> string \<times> PqcAlgType \<times> int" where
  "alg_key info = (alg_id info, alg_name info, oqs_name info, alg_type info, nist_level info)"

definition registry_ok :: "'a pqc_state_scheme \<Rightarrow> bool" where
  "registry_ok st \<longleftrightarrow> map alg_key (pqc_algorithms st) = map alg_key pqc_algorithms_table"

text \<open>The lifecycle as a transition system.\<close>

inductive pqc_step :: "liboqs \<Rightarrow> 'a pqc_state_scheme \<Rightarrow> 'a pqc_state_scheme \<Rightarrow> bool" for L where
  init: "pqc_step L st (snd (pqc_init L st))"
| cleanup: "pqc_step L st (pqc_cleanup st)"

inductive_cases pqc_stepE: "pqc_step L st st'"

lemma alg_key_populate [simp]:
  "alg_key (pqc_populate_kem_info L info) = alg_key info"
  "alg_key (pqc_populate_sig_info L info) = alg_key info"
  by (simp_all add: alg_key_def pqc_populate_kem_info_def pqc_populate_sig_info_def split: option.split)

lemma registry_ok_init [simp]: "registry_ok (snd (pqc_init L st)) \<longleftrightarrow> registry_ok st"
  by (simp add: registry_ok_def pqc_init_def comp_def if_distrib cong: if_cong)

lemma registry_ok_cleanup [simp]: "registry_ok (pqc_cleanup st) \<longleftrightarrow> registry_ok st"
  by (simp add: registry_ok_def pqc_cleanup_def)

lemma registry_ok_start: "registry_ok pqc_start_state"
  by (simp add: registry_ok_def pqc_start_state_def)

lemma registry_ok_reachable:
  "(pqc_step L)\<^sup>*\<^sup>* st st' \<Longrightarrow> registry_ok st \<Longrightarrow> registry_ok st'"
  by (induction rule: rtranclp_induct) (auto elim!: pqc_stepE)

lemma pqc_init_fields [simp]:
  "pqc_initialized (snd (pqc_init L st))" "fst (pqc_init L st) = PQC_SUCCESS"
  "coins (snd (pqc_init L st)) = coins st"
  "pqc_stat_counters (snd (pqc_init L st)) = pqc_stat_counters st"
  "pqc_state.more (snd (pqc_init L st)) = pqc_state.more st"
  by (simp_all add: pqc_init_def)

lemma pqc_algorithms_table_facts:
  "length pqc_algorithms_table = 18"
  "distinct (map (map pg_tolower \<circ> alg_name) pqc_algorithms_table)"
  "list_all (c_string \<circ> alg_name) pqc_algorithms_table"
  by (simp_all add: pqc_algorithms_table_def alg_entry_def pg_tolower_def)

lemma pqc_algorithms_table_ids: "map alg_id pqc_algorithms_table = map int [0..<18]"
  by code_simp

lemma pqc_name_scan_nth:
  assumes "distinct (map (map pg_tolower \<circ> alg_name) infos)" "list_all (c_string \<circ> alg_name) infos"
    "i < length infos" "c_string s" "map pg_tolower s = map pg_tolower (alg_name (infos ! i))"
  shows "pqc_name_scan infos s = alg_id (infos ! i)"
  using assms
proof (induction infos arbitrary: i)
  case (Cons info infos)
  show ?case
  proof (cases i)
    case (Suc j)
    then have "map pg_tolower (alg_name info) \<noteq> map pg_tolower s"
      using Cons.prems by (force simp: in_set_conv_nth)
    then show ?thesis
      using Cons Suc by (auto simp: pg_strcasecmp_eq_0)
  qed (use Cons in \<open>auto simp: pg_strcasecmp_eq_0\<close>)
qed simp

lemma pqc_name_scan_none:
  assumes "list_all (c_string \<circ> alg_name) infos" "c_string s"
    "\<forall>info \<in> set infos. map pg_tolower s \<noteq> map pg_tolower (alg_name info)"
  shows "pqc_name_scan infos s = PQC_ALG_COUNT"
  using assms by (induction infos) (auto simp: pg_strcasecmp_eq_0 list_all_iff)

lemma registry_map: "registry_ok st \<Longrightarrow>
    map (f \<circ> alg_key) (pqc_algorithms st) = map (f \<circ> alg_key) pqc_algorithms_table"
  by (metis map_map registry_ok_def)

lemma registry_length: "registry_ok st \<Longrightarrow> length (pqc_algorithms st) = 18"
  by (metis length_map pqc_algorithms_table_facts(1) registry_ok_def)

lemma registry_ids: "registry_ok st \<Longrightarrow> map alg_id (pqc_algorithms st) = map int [0..<18]"
  using registry_map [of st "\<lambda>(a, n, q, t, l). a"] pqc_algorithms_table_ids
  by (simp add: comp_def alg_key_def)

lemma registry_types: "registry_ok st \<Longrightarrow> map alg_type (pqc_algorithms st) = map alg_type pqc_algorithms_table"
  using registry_map [of st "\<lambda>(a, n, q, t, l). t"] by (simp add: comp_def alg_key_def)

lemma registry_names:
  assumes "registry_ok st"
  shows "distinct (map (map pg_tolower \<circ> alg_name) (pqc_algorithms st))"
    "list_all (c_string \<circ> alg_name) (pqc_algorithms st)"
proof -
  have "map (map pg_tolower \<circ> alg_name) (pqc_algorithms st) = map (map pg_tolower \<circ> alg_name) pqc_algorithms_table"
    "map alg_name (pqc_algorithms st) = map alg_name pqc_algorithms_table"
    using registry_map [OF assms, of "\<lambda>(a, n, q, t, l). map pg_tolower n"]
      registry_map [OF assms, of "\<lambda>(a, n, q, t, l). n"]
    by (simp_all add: comp_def alg_key_def)
  then show "distinct (map (map pg_tolower \<circ> alg_name) (pqc_algorithms st))"
    "list_all (c_string \<circ> alg_name) (pqc_algorithms st)"
    using pqc_algorithms_table_facts(2,3) by (simp_all add: list.pred_map [symmetric])
qed

lemma pqc_algorithm_from_name_hit:
  assumes "registry_ok st" "0 \<le> alg" "alg < PQC_ALG_COUNT" "c_string s"
    "map pg_tolower s = map pg_tolower (pqc_algorithm_name st alg)"
  shows "pqc_algorithm_from_name st (Some s) = alg"
proof -
  have len: "nat alg < length (pqc_algorithms st)"
    using assms by (simp add: registry_length)
  have "pqc_name_scan (pqc_algorithms st) s = alg_id (pqc_algorithms st ! nat alg)"
    using assms len registry_names [OF assms(1)]
    by (intro pqc_name_scan_nth) (auto simp: pqc_algorithm_name_def pqc_get_algorithm_info_def)
  also have "\<dots> = map alg_id (pqc_algorithms st) ! nat alg"
    using len by simp
  also have "\<dots> = alg"
    using assms by (simp add: registry_ids)
  finally show ?thesis
    by (simp add: pqc_algorithm_from_name_def)
qed

section \<open>Sizes\<close>

text \<open>An entry either has not been filled in, or carries the sizes liboqs gives for
  its algorithm; once the subsystem is initialised the latter holds of all.\<close>

definition entry_unsized :: "PqcAlgorithmInfo \<Rightarrow> bool" where
  "entry_unsized info \<longleftrightarrow> public_key_len info = 0 \<and> secret_key_len info = 0 \<and> ciphertext_len info = 0 \<and>
     shared_secret_len info = 0 \<and> signature_len info = 0"

definition entry_sized :: "liboqs \<Rightarrow> PqcAlgorithmInfo \<Rightarrow> bool" where
  "entry_sized L info \<longleftrightarrow>
     (if alg_type info = PQC_TYPE_KEM
      then (\<forall>k. OQS_KEM_new L (oqs_name info) = Some k \<longrightarrow> public_key_len info = kem_length_public_key k \<and>
        secret_key_len info = kem_length_secret_key k \<and> ciphertext_len info = kem_length_ciphertext k \<and>
        shared_secret_len info = kem_length_shared_secret k)
      else (\<forall>k. OQS_SIG_new L (oqs_name info) = Some k \<longrightarrow> public_key_len info = sig_length_public_key k \<and>
        secret_key_len info = sig_length_secret_key k \<and> signature_len info = sig_length_signature k))"

definition sizes_ok :: "liboqs \<Rightarrow> 'a pqc_state_scheme \<Rightarrow> bool" where
  "sizes_ok L st \<longleftrightarrow> (\<forall>info \<in> set (pqc_algorithms st). entry_unsized info \<or> entry_sized L info) \<and>
     (pqc_initialized st \<longrightarrow> (\<forall>info \<in> set (pqc_algorithms st). entry_sized L info))"

lemma entry_sized_populate:
  "alg_type info = PQC_TYPE_KEM \<Longrightarrow> entry_sized L (pqc_populate_kem_info L info)"
  "alg_type info \<noteq> PQC_TYPE_KEM \<Longrightarrow> entry_sized L (pqc_populate_sig_info L info)"
  by (simp_all add: entry_sized_def pqc_populate_kem_info_def pqc_populate_sig_info_def split: option.split)

lemma sizes_ok_start: "sizes_ok L pqc_start_state"
  by (auto simp: sizes_ok_def pqc_start_state_def pqc_algorithms_table_def alg_entry_def entry_unsized_def)

lemma sizes_ok_step: "pqc_step L st st' \<Longrightarrow> sizes_ok L st \<Longrightarrow> sizes_ok L st'"
  by (erule pqc_stepE) (auto simp: sizes_ok_def pqc_init_def pqc_cleanup_def entry_sized_populate)

lemma sizes_ok_reachable: "(pqc_step L)\<^sup>*\<^sup>* st st' \<Longrightarrow> sizes_ok L st \<Longrightarrow> sizes_ok L st'"
  by (induction rule: rtranclp_induct) (auto intro: sizes_ok_step)

end
