(* ===== verification/PqcSql.thy ===== *)
theory PqcSql
  imports PqcCommon
begin

text \<open>
  The tables of the pgcrypto_pqc extension and the helpers of
  contrib/pgcrypto_pqc/pgcrypto_pqc.c that query them through SPI.  A table is
  the list of its rows in insertion order; ORDER BY key_id DESC LIMIT 1 takes
  the row with the greatest key.  All columns are NOT NULL in the extension's
  scripts except prev_hash.
\<close>

record audit_key_row =
  key_id :: nat
  key_purpose :: string
  key_algorithm :: string
  public_key :: bytes
  encrypted_secret_key :: bytes
  is_active :: bool

record audit_log_row =
  log_id :: nat
  event_type :: string
  event_detail :: string
  classical_sig_alg :: string
  classical_signature :: bytes
  pqc_sig_alg :: string
  pqc_signature :: bytes
  prev_hash :: "bytes option"
  entry_hash :: bytes

record escrow_row =
  escrow_name :: string
  escrow_algorithm :: string
  escrow_num_shares :: int
  escrow_threshold :: int

text \<open>The escrow table is absent (None) until the 1.3 script has run.  The two
  sequences hold the last value given out for the serial columns.\<close>

record pqc_db = pqc_state +
  pqc_audit_keys :: "audit_key_row list"
  pqc_audit_log :: "audit_log_row list"
  pqc_escrow_metadata :: "escrow_row list option"
  key_id_seq :: nat
  log_id_seq :: nat

text \<open>The row with the greatest key among those selected, the later one of equal keys.\<close>

fun latest :: "('r \<Rightarrow> nat) \<Rightarrow> 'r list \<Rightarrow> 'r option" where
  "latest k [] = None"
| "latest k (r # rs) = (case latest k rs of None \<Rightarrow> Some r | Some s \<Rightarrow> if k s < k r then Some r else Some s)"

definition load_audit_key :: "string \<Rightarrow> audit_key_row list \<Rightarrow> (string \<times> bytes \<times> bytes) option" where
  "load_audit_key purpose rows =
     map_option (\<lambda>r. (key_algorithm r, public_key r, encrypted_secret_key r))
       (latest key_id (filter (\<lambda>r. key_purpose r = purpose \<and> is_active r) rows))"

definition get_prev_hash :: "audit_log_row list \<Rightarrow> bytes option" where
  "get_prev_hash rows = map_option entry_hash (latest log_id rows)"

lemma latest_eq_None [simp]: "latest k rs = None \<longleftrightarrow> rs = []"
  by (cases rs) (auto split: option.split)

lemma latest_Some: "latest k rs = Some r \<Longrightarrow> r \<in> set rs \<and> (\<forall>s \<in> set rs. k s \<le> k r)"
  by (induction rs arbitrary: r) (fastforce split: option.splits if_splits)+

lemma latest_append_greater:
  "\<forall>s \<in> set rs. k s < k r \<Longrightarrow> latest k (rs @ [r]) = Some r"
  by (induction rs) (auto split: option.splits dest: less_asym)

end
