(* ===== verification/Samples.thy ===== *)
theory Samples
  imports External
begin

text \<open>
  Small concrete instances of the library parameters.  They satisfy the
  documented laws of External and are computable, so that a theorem with such
  a law among its hypotheses can be applied to a concrete input.  They stand
  for no real algorithm.
\<close>

definition byte_sum :: "bytes \<Rightarrow> byte" where
  "byte_sum bs = foldl (+) 0 bs"

text \<open>Key encapsulation with 2-byte keys: the secret travels masked by the key.\<close>

definition sample_kem :: "string \<Rightarrow> OQS_KEM" where
  "sample_kem n = \<lparr>kem_method = n, kem_length_public_key = 2, kem_length_secret_key = 2,
     kem_length_ciphertext = 2, kem_length_shared_secret = 2\<rparr>"

definition sample_sig :: "string \<Rightarrow> OQS_SIG" where
  "sample_sig n = \<lparr>sig_method = n, sig_length_public_key = 2, sig_length_secret_key = 2,
     sig_length_signature = 2\<rparr>"

definition sample_oqs :: liboqs where
  "sample_oqs = \<lparr>
     OQS_KEM_new = (\<lambda>n. Some (sample_kem n)),
     OQS_KEM_keypair = (\<lambda>k c. Some ([of_nat c, 7], [of_nat c, 7])),
     OQS_KEM_encaps = (\<lambda>k c pk. Some (map2 (XOR) pk [of_nat c + 1, 3], [of_nat c + 1, 3])),
     OQS_KEM_decaps = (\<lambda>k ct sk. Some (map2 (XOR) sk ct)),
     OQS_SIG_new = (\<lambda>n. Some (sample_sig n)),
     OQS_SIG_keypair = (\<lambda>k c. Some ([of_nat c, 9], [of_nat c, 9])),
     OQS_SIG_sign = (\<lambda>k c m sk. Some [byte_sum m, byte_sum sk]),
     OQS_SIG_verify = (\<lambda>k m s pk. s = [byte_sum m, byte_sum pk])\<rparr>"

definition sample_pad :: "bytes \<Rightarrow> bytes \<Rightarrow> nat \<Rightarrow> byte" where
  "sample_pad k iv i = byte_sum k + byte_sum iv * 3 + of_nat i"

definition sample_sha384 :: "bytes \<Rightarrow> bytes" where
  "sample_sha384 m = replicate 48 (byte_sum m + of_nat (length m))"

definition sample_ssl :: openssl where
  "sample_ssl = \<lparr>
     rand_status = (\<lambda>c. 1),
     rand_byte = (\<lambda>c i. of_nat (5 * c + i + 1)),
     evp_aes_256_ctr = (\<lambda>k iv d. Evp_ok (xor_bytes d (map (sample_pad k iv) [0..<length d]))),
     evp_hkdf_sha256 = (\<lambda>ikm salt info n. Steps_ok (map (\<lambda>i. byte_sum ikm + byte_sum info + of_nat i) [0..<n])),
     evp_gcm_seal = (\<lambda>k iv p. Steps_ok (map (\<lambda>b. b XOR byte_sum k) p,
        replicate 16 (byte_sum k + byte_sum iv + byte_sum (map (\<lambda>b. b XOR byte_sum k) p)))),
     evp_gcm_open = (\<lambda>k iv ct tag.
        if tag = replicate 16 (byte_sum k + byte_sum iv + byte_sum ct)
        then Steps_ok (map (\<lambda>b. b XOR byte_sum k) ct) else Step_failed 4),
     evp_gcm_seal_negative = (\<lambda>k iv p n. Step_failed 2),
     evp_gcm_open_negative = (\<lambda>k iv ct n tag. Step_failed 2),
     evp_digest = (\<lambda>md m. Digest (replicate (md_size md) (byte_sum m + of_nat (length m)))),
     digest_feed = (\<lambda>md h m. True),
     hmac_digest = (\<lambda>md k m. Steps_ok (replicate (md_size md) (byte_sum k + 3 * byte_sum m + of_nat (length m)))),
     ed25519_keypair = (\<lambda>c. Steps_ok ([of_nat c, 11], [of_nat c, 11])),
     ed25519_sign_msg = (\<lambda>sk m. Steps_ok [byte_sum m, byte_sum sk]),
     ed25519_verify_msg = (\<lambda>pk m s. Steps_ok (s = [byte_sum m, byte_sum pk]))\<rparr>"

lemma kem_correct_sample: "kem_correct sample_oqs"
  by (auto simp: kem_correct_def sample_oqs_def sample_kem_def xor.assoc [symmetric])

lemma sig_correct_sample: "sig_correct sample_oqs"
  by (auto simp: sig_correct_def sample_oqs_def sample_sig_def)

lemma ctr_mode_sample: "ctr_mode sample_ssl sample_pad"
  by (simp add: ctr_mode_def sample_ssl_def)

lemma gcm_correct_sample: "gcm_correct sample_ssl"
  by (auto simp: gcm_correct_def sample_ssl_def comp_def xor.assoc)

lemma sha384_total_sample: "sha384_total sample_ssl sample_sha384"
  by (simp add: sha384_total_def sample_ssl_def sample_sha384_def)

lemma digests_total_sample: "digests_total sample_ssl"
  by (simp add: digests_total_def sample_ssl_def)

lemma ed25519_correct_sample: "ed25519_correct sample_ssl"
  by (auto simp: ed25519_correct_def sample_ssl_def)

end
