(* ===== verification/Escrow.thy ===== *)
theory Escrow
  imports GF256 PqcSql Samples
begin

text \<open>
  Key escrow by Shamir secret sharing: pqc_escrow_create and
  pqc_escrow_recover of contrib/pgcrypto_pqc/pgcrypto_pqc.c, and the two facts
  that make the scheme one: any threshold-many shares give the key back, and
  fewer say nothing about any of its bytes.
\<close>

section \<open>Creating shares\<close>

text \<open>The loop over the bytes of the key.  Share i starts as its x-coordinate
  and grows by one evaluation per byte.\<close>

fun escrow_split_loop ::
  "openssl \<Rightarrow> nat \<Rightarrow> nat \<Rightarrow> bytes \<Rightarrow> bytes list \<Rightarrow> nat \<Rightarrow> bytes list result \<times> nat" where
  "escrow_split_loop ssl num_shares threshold [] shares c = (Inr shares, c)"
| "escrow_split_loop ssl num_shares threshold (b # bs) shares c =
     (if rand_status ssl c = 0
      then (Inl (PgError ERRCODE_INTERNAL_ERROR ''failed to generate random coefficients''), c + 1)
      else
        let coeffs = b # rand_buf ssl c (threshold - 1) in
        escrow_split_loop ssl num_shares threshold bs
          (map (\<lambda>i. shares ! i @ [gf256_poly_eval coeffs (threshold - 1) (of_nat (i + 1))]) [0..<num_shares])
          (c + 1))"

text \<open>The key bytes are read after SPI_finish has deleted the memory context
  they were allocated in; freed gives what a read at an offset of that chunk
  returns from then on.\<close>

definition pqc_escrow_create ::
  "openssl \<Rightarrow> liboqs \<Rightarrow> bool \<Rightarrow> (bytes \<Rightarrow> nat \<Rightarrow> byte) \<Rightarrow> string \<Rightarrow> int \<Rightarrow> int \<Rightarrow> 'a pqc_db_scheme \<Rightarrow>
     (int \<times> bytes) list result \<times> 'a pqc_db_scheme" where
  "pqc_escrow_create ssl L superuser freed nm num_shares threshold st =
     (if \<not> superuser
      then (Inl (PgError ERRCODE_INSUFFICIENT_PRIVILEGE ''must be superuser to create key escrow shares''), st)
      else if num_shares < 2 \<or> num_shares > 255
      then (Inl (PgError ERRCODE_INVALID_PARAMETER_VALUE ''num_shares must be between 2 and 255''), st)
      else if threshold < 2 \<or> threshold > num_shares
      then (Inl (PgError ERRCODE_INVALID_PARAMETER_VALUE ''threshold must be between 2 and num_shares''), st)
      else
        let st1 = (if \<not> pqc_is_available st then snd (pqc_init L st) else st) in
        (case load_audit_key ''pqc'' (pqc_audit_keys st1) of
           None \<Rightarrow> (Inl (PgError ERRCODE_OBJECT_NOT_IN_PREREQUISITE_STATE ''no active PQC key found for escrow''), st1)
         | Some (pqc_alg_name, pub_key, sec_key) \<Rightarrow>
             let st2 = st1\<lparr>pqc_escrow_metadata := map_option
                   (\<lambda>rows. rows @ [\<lparr>escrow_name = nm, escrow_algorithm = pqc_alg_name,
                       escrow_num_shares = num_shares, escrow_threshold = threshold\<rparr>])
                   (pqc_escrow_metadata st1)\<rparr>;
                 shares = map (\<lambda>i. [of_nat (i + 1)]) [0..<nat num_shares]
             in (case escrow_split_loop ssl (nat num_shares) (nat threshold)
                       (map (freed sec_key) [0..<length sec_key]) shares (coins st2) of
                   (Inl e, c) \<Rightarrow> (Inl e, st2\<lparr>coins := c\<rparr>)
                 | (Inr shares', c) \<Rightarrow>
                     (Inr (map (\<lambda>idx. (int (idx + 1), shares' ! idx)) [0..<nat num_shares]), st2\<lparr>coins := c\<rparr>))))"

section \<open>Recovering the key\<close>

fun escrow_extract :: "bytes option list \<Rightarrow> bytes list result" where
  "escrow_extract [] = Inr []"
| "escrow_extract (s # ss) =
     (case s of
        None \<Rightarrow> Inl (PgError ERRCODE_NULL_VALUE_NOT_ALLOWED ''shares must not contain NULL values'')
      | Some share \<Rightarrow>
          if length share < 2 then Inl (PgError ERRCODE_INVALID_PARAMETER_VALUE ''share is too short'')
          else (case escrow_extract ss of Inl e \<Rightarrow> Inl e | Inr rest \<Rightarrow> Inr (share # rest)))"

fun escrow_recover_loop :: "bytes \<Rightarrow> bytes list \<Rightarrow> nat list \<Rightarrow> bytes \<Rightarrow> bytes result" where
  "escrow_recover_loop xs share_data [] recovered = Inr recovered"
| "escrow_recover_loop xs share_data (byte_idx # rest) recovered =
     (let ys = map (\<lambda>s. s ! (1 + byte_idx)) share_data in
      case gf256_lagrange_interpolate xs ys (length share_data) of
        Inl e \<Rightarrow> Inl e
      | Inr b \<Rightarrow> escrow_recover_loop xs share_data rest (recovered @ [b]))"

definition pqc_escrow_recover :: "bool \<Rightarrow> bytes option list \<Rightarrow> (string \<times> bytes) result" where
  "pqc_escrow_recover superuser shares =
     (if \<not> superuser
      then Inl (PgError ERRCODE_INSUFFICIENT_PRIVILEGE ''must be superuser to recover escrowed keys'')
      else if length shares < 2
      then Inl (PgError ERRCODE_INVALID_PARAMETER_VALUE ''at least 2 shares are required for recovery'')
      else (case escrow_extract shares of
          Inl e \<Rightarrow> Inl e
        | Inr share_data \<Rightarrow>
            let secret_len = length (share_data ! 0) - 1 in
            if list_ex (\<lambda>s. length s - 1 \<noteq> secret_len) (tl share_data)
            then Inl (PgError ERRCODE_INVALID_PARAMETER_VALUE ''all shares must have the same length'')
            else (case escrow_recover_loop (map (\<lambda>s. s ! 0) share_data) share_data [0..<secret_len] [] of
                Inl e \<Rightarrow> Inl e
              | Inr recovered \<Rightarrow> Inr (''success'', recovered))))"

section \<open>The split loop produces evaluations of one polynomial per byte\<close>

text \<open>What share i holds for a key split with the given coefficient rows.\<close>

definition share_of :: "nat \<Rightarrow> bytes list \<Rightarrow> nat \<Rightarrow> bytes" where
  "share_of threshold rows i =
     of_nat (i + 1) # map (\<lambda>coeffs. gf256_poly_eval coeffs (threshold - 1) (of_nat (i + 1))) rows"

lemma escrow_split_loop_Inr:
  assumes "escrow_split_loop ssl n t bs (map (share_of t rows0) [0..<n]) c = (Inr shares, c')"
  shows "shares = map (share_of t (rows0 @ map (\<lambda>j. bs ! j # rand_buf ssl (c + j) (t - 1)) [0..<length bs])) [0..<n]"
  using assms
proof (induction bs arbitrary: rows0 c)
  case (Cons b bs)
  let ?row = "b # rand_buf ssl c (t - 1)"
  have grow: "map (\<lambda>i. map (share_of t rows0) [0..<n] ! i @ [gf256_poly_eval ?row (t - 1) (of_nat (i + 1))]) [0..<n] =
      map (share_of t (rows0 @ [?row])) [0..<n]"
    by (simp add: share_of_def)
  have "escrow_split_loop ssl n t bs
      (map (\<lambda>i. map (share_of t rows0) [0..<n] ! i @ [gf256_poly_eval ?row (t - 1) (of_nat (i + 1))]) [0..<n])
      (c + 1) = (Inr shares, c')"
    using Cons.prems by (simp add: Let_def split: if_splits)
  then have "escrow_split_loop ssl n t bs (map (share_of t (rows0 @ [?row])) [0..<n]) (c + 1) = (Inr shares, c')"
    by (simp only: grow)
  from Cons.IH [OF this] show ?case
    by (simp add: upt_conv_Cons map_Suc_upt [symmetric] comp_def del: upt_Suc)
qed simp

lemma escrow_split_loop_start:
  assumes "escrow_split_loop ssl n t bs (map (\<lambda>i. [of_nat (i + 1)]) [0..<n]) c = (Inr shares, c')"
  obtains rows where "shares = map (share_of t rows) [0..<n]" "length rows = length bs"
    "\<And>j. j < length bs \<Longrightarrow> hd (rows ! j) = bs ! j \<and> length (rows ! j) = Suc (t - 1)"
proof
  let ?rows = "map (\<lambda>j. bs ! j # rand_buf ssl (c + j) (t - 1)) [0..<length bs]"
  have "share_of t [] = (\<lambda>i. [of_nat (i + 1)])"
    by (simp add: share_of_def fun_eq_iff)
  then show "shares = map (share_of t ?rows) [0..<n]"
    using escrow_split_loop_Inr [of ssl n t bs "[]" c shares c'] assms by simp
qed auto

section \<open>Recovery from enough shares\<close>

lemma of_nat_byte_inj: "i < 256 \<Longrightarrow> j < 256 \<Longrightarrow> (of_nat i :: byte) = of_nat j \<longleftrightarrow> i = j"
  by (simp add: word_of_nat_eq_iff take_bit_nat_eq_self)

lemma escrow_extract_ok:
  "list_all (\<lambda>s. 2 \<le> length s) ss \<Longrightarrow> escrow_extract (map Some ss) = Inr ss"
  by (induction ss) auto

lemma interpolate_shares:
  assumes "distinct xs" "length coeffs = Suc d" "Suc d \<le> length xs"
  shows "gf256_lagrange_interpolate xs (map (gf256_poly_eval coeffs d) xs) (length xs) = Inr (hd coeffs)"
proof -
  let ?zs = "map GF xs" and ?f = "peval (map GF coeffs)"
  have d: "distinct ?zs"
    using assms(1) by (simp add: distinct_map inj_on_def)
  have "(\<Sum>i<length xs. GF (map (gf256_poly_eval coeffs d) xs ! i) * lagrange_basis ?zs i 0) =
      (\<Sum>i<length ?zs. ?f (?zs ! i) * lagrange_basis ?zs i 0)"
    using assms(2) by (intro sum.cong) (simp_all add: gf256_poly_eval_eq)
  also have "\<dots> = ?f 0"
    using assms by (intro lagrange_interpolation [OF d, of "Suc d"] poly_funI) auto
  also have "\<dots> = GF (hd coeffs)"
    using assms(2) by (cases coeffs) auto
  finally show ?thesis
    using gf256_lagrange_interpolate_Inr [OF assms(1)] by (simp add: GF_inverse)
qed

lemma escrow_recover_loop_Inr:
  assumes "\<And>j. j \<in> set js \<Longrightarrow>
      gf256_lagrange_interpolate xs (map (\<lambda>s. s ! (1 + j)) sd) (length sd) = Inr (f j)"
  shows "escrow_recover_loop xs sd js acc = Inr (acc @ map f js)"
  using assms by (induction js arbitrary: acc) (simp_all add: Let_def)

lemma pqc_escrow_recover_ok:
  assumes "2 \<le> length sd" "\<And>s. s \<in> set sd \<Longrightarrow> length s = Suc m" "0 < m"
    "\<And>j. j < m \<Longrightarrow> gf256_lagrange_interpolate (map (\<lambda>s. s ! 0) sd) (map (\<lambda>s. s ! (1 + j)) sd) (length sd) = Inr (f j)"
  shows "pqc_escrow_recover True (map Some sd) = Inr (''success'', map f [0..<m])"
proof -
  have ext: "escrow_extract (map Some sd) = Inr sd"
    using assms(2,3) by (intro escrow_extract_ok) (auto simp: list_all_iff)
  have "sd ! 0 \<in> set sd"
    using assms(1) by (intro nth_mem) auto
  then have len: "length (sd ! 0) - 1 = m"
    using assms(2) by simp
  have "\<not> list_ex (\<lambda>s. length s - 1 \<noteq> m) (tl sd)"
    using assms(2) by (cases sd) (auto simp: list_ex_iff)
  moreover have "escrow_recover_loop (map (\<lambda>s. s ! 0) sd) sd [0..<m] [] = Inr (map f [0..<m])"
    using escrow_recover_loop_Inr [of "[0..<m]" _ sd f "[]"] assms(4) by simp
  ultimately show ?thesis
    using assms(1) by (simp add: pqc_escrow_recover_def ext len Let_def del: One_nat_def)
qed

lemma pqc_escrow_create_Inr:
  assumes "pqc_escrow_create ssl L su freed nm n t st = (Inr rows, st')"
    "load_audit_key ''pqc'' (pqc_audit_keys st) = Some (alg, pk, sk)"
  obtains coeffs where
    "rows = map (\<lambda>i. (int (i + 1), share_of (nat t) coeffs i)) [0..<nat n]"
    "length coeffs = length sk" "2 \<le> t" "t \<le> n" "n \<le> 255"
    "\<And>j. j < length sk \<Longrightarrow> hd (coeffs ! j) = freed sk j \<and> length (coeffs ! j) = nat t"
proof -
  have keys: "pqc_audit_keys (snd (pqc_init L st)) = pqc_audit_keys st"
    by (simp add: pqc_init_def)
  obtain c c' shares where split:
    "escrow_split_loop ssl (nat n) (nat t) (map (freed sk) [0..<length sk])
       (map (\<lambda>i. [of_nat (i + 1)]) [0..<nat n]) c = (Inr shares, c')"
    and rows: "rows = map (\<lambda>idx. (int (idx + 1), shares ! idx)) [0..<nat n]"
    and bounds: "2 \<le> t" "t \<le> n" "n \<le> 255"
    using assms keys unfolding pqc_escrow_create_def
    by (auto simp: Let_def split: if_splits option.splits prod.splits sum.splits)
  obtain coeffs where "shares = map (share_of (nat t) coeffs) [0..<nat n]" "length coeffs = length sk"
    "\<And>j. j < length sk \<Longrightarrow> hd (coeffs ! j) = freed sk j \<and> length (coeffs ! j) = Suc (nat t - 1)"
    by (rule escrow_split_loop_start [OF split]) auto
  then show ?thesis
    using that rows bounds by auto
qed

section \<open>Too few shares\<close>

text \<open>The coefficient vectors that explain a set of observed evaluations, for a
  given constant term.\<close>

definition explanations :: "nat \<Rightarrow> bytes \<Rightarrow> bytes \<Rightarrow> byte \<Rightarrow> bytes set" where
  "explanations t xs ys s = {r. Suc (length r) = t \<and> map (gf256_poly_eval (s # r) (t - 1)) xs = ys}"

lemma gf256_poly_eval_xor:
  assumes "length r = d" "length q = d"
  shows "gf256_poly_eval ((s XOR e) # map2 (XOR) r q) d x = gf256_poly_eval (s # r) d x XOR gf256_poly_eval (e # q) d x"
proof -
  have "map GF (map2 (XOR) r q) = map2 (+) (map GF r) (map GF q)"
    by (simp add: map2_map_map zip_map1 zip_map2 comp_def case_prod_beta)
  then have "GF (gf256_poly_eval ((s XOR e) # map2 (XOR) r q) d x) =
      GF (gf256_poly_eval (s # r) d x) + GF (gf256_poly_eval (e # q) d x)"
    using assms peval_map2_add [of "GF s # map GF r" "GF e # map GF q" "GF x"]
    by (simp add: gf256_poly_eval_eq del: GF_hom flip: GF_hom)
  then show ?thesis
    by simp
qed

lemma explanations_shift:
  assumes "distinct xs" "0 \<notin> set xs" "length xs < t"
  obtains q where "Suc (length q) = t"
    "\<And>r. r \<in> explanations t xs ys s \<Longrightarrow> map2 (XOR) r q \<in> explanations t xs ys (s XOR e)"
proof -
  have "distinct (map GF xs)" "0 \<notin> set (map GF xs)"
    using assms by (auto simp: distinct_map inj_on_def gf_0_GF)
  then obtain q' where q': "Suc (length q') = t"
    "\<And>i. i < length xs \<Longrightarrow> peval (GF e # q') (GF (xs ! i)) = 0"
    using interpolant_with_constant [of "map GF xs" t "GF e" "\<lambda>_. 0"] assms(3) by auto
  define q where "q = map gf_byte q'"
  have q: "Suc (length q) = t" "map GF q = q'"
    using q' by (simp_all add: q_def comp_def gf_byte_inverse)
  have "GF (gf256_poly_eval (e # q) (t - 1) x) = GF 0" if "x \<in> set xs" for x
    using that q q' by (auto simp: in_set_conv_nth gf256_poly_eval_eq gf_0_GF [symmetric])
  then have zero: "gf256_poly_eval (e # q) (t - 1) x = 0" if "x \<in> set xs" for x
    using that by simp
  show ?thesis
  proof (rule that [OF q(1)])
    fix r
    assume "r \<in> explanations t xs ys s"
    then show "map2 (XOR) r q \<in> explanations t xs ys (s XOR e)"
      using q(1) zero by (auto simp: explanations_def gf256_poly_eval_xor)
  qed
qed

lemma finite_explanations: "finite (explanations t xs ys s)"
  by (rule finite_subset [OF _ finite_lists_length_eq [of UNIV "t - 1"]]) (auto simp: explanations_def)

lemma map2_xor_cancel: "length r = length q \<Longrightarrow> map2 (XOR) (map2 (XOR) r q) q = (r :: bytes)"
  using xor_bytes_cancel [of r q] by (simp add: xor_bytes_def)

lemma card_explanations_le:
  assumes "distinct xs" "0 \<notin> set xs" "length xs < t"
  shows "card (explanations t xs ys s) \<le> card (explanations t xs ys s')"
proof -
  obtain q where q: "Suc (length q) = t"
    "\<And>r. r \<in> explanations t xs ys s \<Longrightarrow> map2 (XOR) r q \<in> explanations t xs ys (s XOR (s XOR s'))"
    using explanations_shift [OF assms] by blast
  have "inj_on (\<lambda>r. map2 (XOR) r q) (explanations t xs ys s)"
    using q(1) by (intro inj_on_inverseI [of _ "\<lambda>r. map2 (XOR) r q"])
      (auto simp: explanations_def intro!: map2_xor_cancel)
  moreover have "(\<lambda>r. map2 (XOR) r q) ` explanations t xs ys s \<subseteq> explanations t xs ys s'"
    using q(2) by (auto simp: xor.assoc [symmetric])
  ultimately show ?thesis
    by (intro card_inj_on_le finite_explanations)
qed

section \<open>Properties\<close>

text \<open>C1: Recovery after escrow.  If pqc_escrow_create succeeded with n shares and
  threshold t, then handing any at least t of the returned shares, in any
  order, to pqc_escrow_recover yields the status text success (the regression
  test of the extension compares it with OK) together with exactly the key
  bytes that were split.\<close>

theorem escrow_recover_create:
  assumes create: "pqc_escrow_create ssl L su freed nm n t st = (Inr rows, st')"
    and key: "load_audit_key ''pqc'' (pqc_audit_keys st) = Some (alg, pk, sk)" "sk \<noteq> []"
    and picks: "distinct picks" "\<forall>i \<in> set picks. i < nat n" "t \<le> int (length picks)"
  shows "pqc_escrow_recover True (map (\<lambda>i. Some (snd (rows ! i))) picks) =
    Inr (''success'', map (freed sk) [0..<length sk])"
proof -
  obtain coeffs where rows: "rows = map (\<lambda>i. (int (i + 1), share_of (nat t) coeffs i)) [0..<nat n]"
    and len: "length coeffs = length sk" and bounds: "2 \<le> t" "t \<le> n" "n \<le> 255"
    and row: "\<And>j. j < length sk \<Longrightarrow> hd (coeffs ! j) = freed sk j \<and> length (coeffs ! j) = nat t"
    by (rule pqc_escrow_create_Inr [OF create key(1)]) blast
  let ?sd = "map (share_of (nat t) coeffs) picks" and ?xs = "map (\<lambda>i. of_nat (i + 1) :: byte) picks"
  have "map (\<lambda>i. Some (snd (rows ! i))) picks = map Some ?sd"
    using picks(2) by (simp add: rows)
  moreover have "pqc_escrow_recover True (map Some ?sd) = Inr (''success'', map (freed sk) [0..<length sk])"
  proof (rule pqc_escrow_recover_ok)
    have "inj_on (\<lambda>i. of_nat (i + 1) :: byte) (set picks)"
      using picks(2) bounds by (intro inj_onI) (subst (asm) of_nat_byte_inj, fastforce+)
    then have "distinct ?xs"
      using picks(1) by (simp add: distinct_map)
    then show "gf256_lagrange_interpolate (map (\<lambda>s. s ! 0) ?sd) (map (\<lambda>s. s ! (1 + j)) ?sd) (length ?sd) =
        Inr (freed sk j)" if "j < length sk" for j
      using interpolate_shares [of ?xs "coeffs ! j" "nat t - 1"] row [OF that] that len bounds picks(3)
      by (simp add: share_of_def comp_def)
  qed (use bounds picks(3) key(2) len in \<open>auto simp: share_of_def\<close>)
  ultimately show ?thesis
    by (simp only:)
qed

definition sample_db :: pqc_db where
  "sample_db = \<lparr>pqc_initialized = True, pqc_algorithms = pqc_algorithms_table, pqc_stat_counters = None, coins = 0,
     pqc_audit_keys = [\<lparr>key_id = 1, key_purpose = ''pqc'', key_algorithm = ''ML-DSA-65'', public_key = [1],
        encrypted_secret_key = [0x42], is_active = True\<rparr>],
     pqc_audit_log = [], pqc_escrow_metadata = None, key_id_seq = 1, log_id_seq = 0\<rparr>"

theorem escrow_recover_create_witness:
  "\<exists>rows st'. pqc_escrow_create sample_ssl sample_oqs True (\<lambda>m i. m ! i) ''backup'' 3 2 sample_db = (Inr rows, st') \<and>
     pqc_escrow_recover True [Some (snd (rows ! 2)), Some (snd (rows ! 0))] = Inr (''success'', [0x42])"
proof -
  obtain rows st' where create:
    "pqc_escrow_create sample_ssl sample_oqs True (\<lambda>m i. m ! i) ''backup'' 3 2 sample_db = (Inr rows, st')"
    by (simp add: pqc_escrow_create_def sample_db_def pqc_is_available_def load_audit_key_def sample_ssl_def)
  have "load_audit_key ''pqc'' (pqc_audit_keys sample_db) = Some (''ML-DSA-65'', [1], [0x42])"
    by (simp add: sample_db_def load_audit_key_def)
  from escrow_recover_create [OF create this, of "[2, 0]"] create show ?thesis
    by simp
qed

text \<open>C25: Secrecy below the threshold.  For any fewer than t distinct share
  positions and any share bytes seen there, every value of the key byte is
  explained by equally many choices of the random coefficients: the seen bytes
  carry no information about the key byte.\<close>

theorem escrow_secrecy:
  assumes "distinct xs" "0 \<notin> set xs" "length xs < t"
  shows "card {r. Suc (length r) = t \<and> map (gf256_poly_eval (s # r) (t - 1)) xs = ys} =
    card {r. Suc (length r) = t \<and> map (gf256_poly_eval (s' # r) (t - 1)) xs = ys}"
  using card_explanations_le [OF assms, of ys s s'] card_explanations_le [OF assms, of ys s' s]
  by (simp add: explanations_def)

theorem escrow_secrecy_witness:
  "card {r. Suc (length r) = 3 \<and> map (gf256_poly_eval (0x42 # r) (3 - 1)) [1, 2] = [7, 9]} =
    card {r. Suc (length r) = 3 \<and> map (gf256_poly_eval (0x99 # r) (3 - 1)) [1, 2] = [7, 9]}"
  using escrow_secrecy [of "[1, 2]" 3 "0x42" "[7, 9]" "0x99"] by simp

text \<open>Recovery refuses a repeated share.  When two of the supplied shares
  carry the same x-coordinate, recovery ends in the division-by-zero error and
  returns no key, whatever the other shares are.\<close>

theorem escrow_recover_duplicate:
  assumes "2 \<le> length sd" "0 < m" "\<forall>s \<in> set sd. length s = Suc m" "\<not> distinct (map (\<lambda>s. s ! 0) sd)"
  shows "pqc_escrow_recover True (map Some sd) =
    Inl (PgError ERRCODE_DIVISION_BY_ZERO ''GF(256) division by zero'')"
proof -
  have ext: "escrow_extract (map Some sd) = Inr sd"
    using assms by (intro escrow_extract_ok) (auto simp: list_all_iff)
  have "sd ! 0 \<in> set sd"
    using assms(1) by (intro nth_mem) auto
  then have len: "length (sd ! 0) - 1 = m"
    using assms(3) by simp
  have "\<not> list_ex (\<lambda>s. length s - 1 \<noteq> m) (tl sd)"
    using assms(3) by (cases sd) (auto simp: list_ex_iff)
  moreover have "[0..<m] = 0 # [1..<m]"
    using assms(2) by (simp add: upt_conv_Cons)
  ultimately show ?thesis
    using assms(1) gf256_lagrange_interpolate_Inl [OF assms(4)]
    by (simp add: pqc_escrow_recover_def ext len Let_def del: One_nat_def)
qed

theorem escrow_recover_duplicate_witness:
  "pqc_escrow_recover True (map Some [[1, 5], [2, 6], [1, 7]]) =
    Inl (PgError ERRCODE_DIVISION_BY_ZERO ''GF(256) division by zero'')"
  using escrow_recover_duplicate [of "[[1, 5], [2, 6], [1, 7]]" 1] by simp

end
