(* ===== verification/PqcKem.thy ===== *)
theory PqcKem
  imports PqcCommon
begin

text \<open>
  Key encapsulation over liboqs: backend/crypto/pqc/pqc_kem.c.  Contexts and
  buffers that C passes by pointer are options, None being NULL.  Each call
  returns its PqcStatus and output buffers, or leaves through ereport.
\<close>

record PqcKemContext =
  oqs_kem :: OQS_KEM
  kem_ctx_alg :: PqcAlgorithm

definition pqc_kem_new ::
  "liboqs \<Rightarrow> PqcAlgorithm \<Rightarrow> 'a pqc_state_scheme \<Rightarrow> PqcKemContext result \<times> 'a pqc_state_scheme" where
  "pqc_kem_new L alg st =
     (case pqc_get_algorithm_info st alg of
        None \<Rightarrow> (Inl (PgError ERRCODE_INVALID_PARAMETER_VALUE ''invalid KEM algorithm''), st)
      | Some info \<Rightarrow>
          if alg_type info \<noteq> PQC_TYPE_KEM
          then (Inl (PgError ERRCODE_INVALID_PARAMETER_VALUE ''invalid KEM algorithm''), st)
          else
            let (status, st1) = (if \<not> pqc_is_available st then pqc_init L st else (PQC_SUCCESS, st)) in
            if status \<noteq> PQC_SUCCESS
            then (Inl (PgError ERRCODE_SYSTEM_ERROR ''failed to initialize FortressQL PQC subsystem''), st1)
            else (case OQS_KEM_new L (oqs_name info) of
                None \<Rightarrow> (Inl (PgError ERRCODE_EXTERNAL_ROUTINE_EXCEPTION
                  ''liboqs failed to initialize KEM algorithm''), st1)
              | Some kem \<Rightarrow> (Inr \<lparr>oqs_kem = kem, kem_ctx_alg = alg\<rparr>, st1)))"

definition pqc_kem_keygen ::
  "liboqs \<Rightarrow> PqcKemContext option \<Rightarrow> 'a pqc_state_scheme \<Rightarrow>
     (PqcStatus \<times> (bytes \<times> bytes) option) result \<times> 'a pqc_state_scheme" where
  "pqc_kem_keygen L ctx st =
     (case ctx of
        None \<Rightarrow> (Inl (PgError ERRCODE_INTERNAL_ERROR ''pqc_kem_keygen: NULL context''), st)
      | Some c \<Rightarrow>
          let st1 = st\<lparr>coins := coins st + 1\<rparr> in
          (case OQS_KEM_keypair L (oqs_kem c) (coins st) of
             None \<Rightarrow> (Inr (PQC_ERROR_CRYPTO_FAILURE, None), st1)
           | Some keys \<Rightarrow> (Inr (PQC_SUCCESS, Some keys), st1)))"

definition pqc_kem_encaps ::
  "liboqs \<Rightarrow> PqcKemContext option \<Rightarrow> bytes option \<Rightarrow> 'a pqc_state_scheme \<Rightarrow>
     (PqcStatus \<times> (bytes \<times> bytes) option) result \<times> 'a pqc_state_scheme" where
  "pqc_kem_encaps L ctx public_key st =
     (case ctx of
        None \<Rightarrow> (Inl (PgError ERRCODE_INTERNAL_ERROR ''pqc_kem_encaps: NULL context''), st)
      | Some c \<Rightarrow>
        (case public_key of
           None \<Rightarrow> (Inl (PgError ERRCODE_INVALID_PARAMETER_VALUE ''pqc_kem_encaps: NULL public key''), st)
         | Some pk \<Rightarrow>
             if length pk \<noteq> kem_length_public_key (oqs_kem c)
             then (Inl (PgError ERRCODE_INVALID_PARAMETER_VALUE ''invalid public key length''), st)
             else
               let st1 = st\<lparr>coins := coins st + 1\<rparr> in
               (case OQS_KEM_encaps L (oqs_kem c) (coins st) pk of
                  None \<Rightarrow> (Inr (PQC_ERROR_CRYPTO_FAILURE, None), st1)
                | Some ct_ss \<Rightarrow> (Inr (PQC_SUCCESS, Some ct_ss), pqc_stat_count_kem_encaps st1))))"

definition pqc_kem_decaps ::
  "liboqs \<Rightarrow> PqcKemContext option \<Rightarrow> bytes option \<Rightarrow> bytes option \<Rightarrow> 'a pqc_state_scheme \<Rightarrow>
     (PqcStatus \<times> bytes option) result \<times> 'a pqc_state_scheme" where
  "pqc_kem_decaps L ctx ciphertext secret_key st =
     (case ctx of
        None \<Rightarrow> (Inl (PgError ERRCODE_INTERNAL_ERROR ''pqc_kem_decaps: NULL context''), st)
      | Some c \<Rightarrow>
        (case (ciphertext, secret_key) of
           (Some ct, Some sk) \<Rightarrow>
             if length ct \<noteq> kem_length_ciphertext (oqs_kem c)
             then (Inl (PgError ERRCODE_INVALID_PARAMETER_VALUE ''invalid ciphertext length''), st)
             else if length sk \<noteq> kem_length_secret_key (oqs_kem c)
             then (Inl (PgError ERRCODE_INVALID_PARAMETER_VALUE ''invalid secret key length''), st)
             else
               (case OQS_KEM_decaps L (oqs_kem c) ct sk of
                  None \<Rightarrow> (Inr (PQC_ERROR_CRYPTO_FAILURE, None), st)
                | Some ss \<Rightarrow> (Inr (PQC_SUCCESS, Some ss), pqc_stat_count_kem_decaps st))
         | _ \<Rightarrow> (Inl (PgError ERRCODE_INVALID_PARAMETER_VALUE
               ''pqc_kem_decaps: NULL ciphertext or secret key''), st)))"

definition kem_size :: "(PqcAlgorithmInfo \<Rightarrow> nat) \<Rightarrow> 'a pqc_state_scheme \<Rightarrow> PqcAlgorithm \<Rightarrow> nat" where
  "kem_size f st alg = (case pqc_get_algorithm_info st alg of
     Some info \<Rightarrow> if alg_type info = PQC_TYPE_KEM then f info else 0 | None \<Rightarrow> 0)"

definition pqc_kem_public_key_len :: "'a pqc_state_scheme \<Rightarrow> PqcAlgorithm \<Rightarrow> nat" where
  "pqc_kem_public_key_len = kem_size public_key_len"

definition pqc_kem_secret_key_len :: "'a pqc_state_scheme \<Rightarrow> PqcAlgorithm \<Rightarrow> nat" where
  "pqc_kem_secret_key_len = kem_size secret_key_len"

definition pqc_kem_ciphertext_len :: "'a pqc_state_scheme \<Rightarrow> PqcAlgorithm \<Rightarrow> nat" where
  "pqc_kem_ciphertext_len = kem_size ciphertext_len"

definition pqc_kem_shared_secret_len :: "'a pqc_state_scheme \<Rightarrow> PqcAlgorithm \<Rightarrow> nat" where
  "pqc_kem_shared_secret_len = kem_size shared_secret_len"

section \<open>Encapsulation and decapsulation agree\<close>

lemma pqc_kem_new_Inr:
  assumes "pqc_kem_new L alg st = (Inr ctx, st')"
  shows "OQS_KEM_new L (oqs_name (pqc_algorithms st ! nat alg)) = Some (oqs_kem ctx)"
    "kem_ctx_alg ctx = alg" "coins st' = coins st" "pqc_initialized st'" "0 \<le> alg" "alg < PQC_ALG_COUNT"
    "pqc_state.more st' = pqc_state.more st" "registry_ok st' \<longleftrightarrow> registry_ok st"
  using assms
  by (auto simp: pqc_kem_new_def Let_def pqc_get_algorithm_info_def pqc_is_available_def
      split: option.splits if_splits prod.splits)
    (metis pqc_init_fields snd_conv registry_ok_init)+

lemma pqc_kem_decaps_encaps:
  assumes "kem_correct L" "OQS_KEM_new L nm = Some (oqs_kem ctx)"
    "OQS_KEM_keypair L (oqs_kem ctx) c = Some (pk, sk)"
    "pqc_kem_encaps L (Some ctx) (Some pk) st = (Inr (PQC_SUCCESS, Some (ct, ss)), st')"
  shows "fst (pqc_kem_decaps L (Some ctx) (Some ct) (Some sk) st'') = Inr (PQC_SUCCESS, Some ss)"
  using assms by (fastforce simp: kem_correct_def pqc_kem_encaps_def pqc_kem_decaps_def Let_def
      split: if_splits option.splits)

text \<open>With an intact registry the recommended algorithm is found under its liboqs name.\<close>

lemma registry_entry_768:
  assumes "registry_ok st"
  shows "alg_type (pqc_algorithms st ! 1) = PQC_TYPE_KEM" "oqs_name (pqc_algorithms st ! 1) = ''ML-KEM-768''"
proof -
  have "map alg_key (pqc_algorithms st) ! 1 = map alg_key pqc_algorithms_table ! 1"
    using assms by (simp add: registry_ok_def)
  then have "alg_key (pqc_algorithms st ! 1) = alg_key (pqc_algorithms_table ! 1)"
    using registry_length [OF assms] pqc_algorithms_table_facts(1) by simp
  then show "alg_type (pqc_algorithms st ! 1) = PQC_TYPE_KEM" "oqs_name (pqc_algorithms st ! 1) = ''ML-KEM-768''"
    by (simp_all add: alg_key_def pqc_algorithms_table_def alg_entry_def)
qed

lemma pqc_kem_new_768:
  assumes "registry_ok st" "OQS_KEM_new L ''ML-KEM-768'' = Some k"
  shows "pqc_kem_new L PQC_ALG_ML_KEM_768 st =
    (Inr \<lparr>oqs_kem = k, kem_ctx_alg = 1\<rparr>, if pqc_initialized st then st else snd (pqc_init L st))"
  using assms registry_entry_768 [OF assms(1)]
  by (simp add: pqc_kem_new_def pqc_get_algorithm_info_def pqc_is_available_def Let_def split: prod.split)
    (metis fst_conv pqc_init_fields(2) snd_conv)

text \<open>The liboqs name of an algorithm does not depend on the state, so contexts
  for one algorithm, whenever they are made, hold the same liboqs object.\<close>

lemma registry_oqs_name:
  assumes "registry_ok st" "0 \<le> alg" "alg < PQC_ALG_COUNT"
  shows "oqs_name (pqc_algorithms st ! nat alg) = oqs_name (pqc_algorithms_table ! nat alg)"
proof -
  have "map oqs_name (pqc_algorithms st) = map oqs_name pqc_algorithms_table"
    using registry_map [OF assms(1), of "\<lambda>(a, n, q, t, l). q"] by (simp add: comp_def alg_key_def)
  then show ?thesis
    using assms registry_length [OF assms(1)] pqc_algorithms_table_facts(1) by (metis nat_less_iff nth_map of_nat_numeral)
qed

lemma pqc_kem_new_again:
  assumes "pqc_kem_new L alg st = (Inr ctx, st1)" "registry_ok st" "registry_ok st'"
  shows "\<exists>ctx' st2. pqc_kem_new L alg st' = (Inr ctx', st2) \<and> oqs_kem ctx' = oqs_kem ctx"
proof -
  note new = pqc_kem_new_Inr [OF assms(1)]
  have "alg_key (pqc_algorithms st' ! nat alg) = alg_key (pqc_algorithms st ! nat alg)"
    using assms(2,3) new(5,6) registry_length [OF assms(2)] registry_length [OF assms(3)]
    by (metis nat_less_iff nth_map of_nat_numeral registry_ok_def)
  then show ?thesis
    using assms(1) new(1,5,6)
    by (auto simp: pqc_kem_new_def Let_def pqc_get_algorithm_info_def alg_key_def
        split: option.splits if_splits prod.splits) (metis fst_conv pqc_init_fields(2))+
qed

section \<open>Frame conditions\<close>

text \<open>The wrappers touch the registry, the counters and the coins only; whatever
  state extends pqc_state is left alone.\<close>

lemma pqc_kem_more [simp]:
  "pqc_state.more (snd (pqc_kem_new L alg st)) = pqc_state.more st"
  "pqc_state.more (snd (pqc_kem_keygen L ctx st)) = pqc_state.more st"
  "pqc_state.more (snd (pqc_kem_encaps L ctx pk st)) = pqc_state.more st"
  "pqc_state.more (snd (pqc_kem_decaps L ctx ct sk st)) = pqc_state.more st"
  by (auto simp: pqc_kem_new_def pqc_kem_keygen_def pqc_kem_encaps_def pqc_kem_decaps_def Let_def pqc_init_def
      pqc_stat_count_kem_encaps_def pqc_stat_count_kem_decaps_def split: option.splits prod.splits)

end
