(* ===== verification/PqcSig.thy ===== *)
theory PqcSig
  imports PqcCommon
begin

text \<open>
  Signatures over liboqs: backend/crypto/pqc/pqc_sig.c.  A message pointer is
  an option with its length carried by the list; the NULL-message guard fires
  only on NULL with a non-zero length, so the length is passed beside it.
\<close>

record PqcSigContext =
  oqs_sig :: OQS_SIG
  sig_ctx_alg :: PqcAlgorithm

definition pqc_sig_new ::
  "liboqs \<Rightarrow> PqcAlgorithm \<Rightarrow> 'a pqc_state_scheme \<Rightarrow> PqcSigContext result \<times> 'a pqc_state_scheme" where
  "pqc_sig_new L alg st =
     (case pqc_get_algorithm_info st alg of
        None \<Rightarrow> (Inl (PgError ERRCODE_INVALID_PARAMETER_VALUE ''invalid signature algorithm''), st)
      | Some info \<Rightarrow>
          if alg_type info \<noteq> PQC_TYPE_SIG
          then (Inl (PgError ERRCODE_INVALID_PARAMETER_VALUE ''invalid signature algorithm''), st)
          else
            let (status, st1) = (if \<not> pqc_is_available st then pqc_init L st else (PQC_SUCCESS, st)) in
            if status \<noteq> PQC_SUCCESS
            then (Inl (PgError ERRCODE_SYSTEM_ERROR ''failed to initialize FortressQL PQC subsystem''), st1)
            else (case OQS_SIG_new L (oqs_name info) of
                None \<Rightarrow> (Inl (PgError ERRCODE_EXTERNAL_ROUTINE_EXCEPTION
                  ''liboqs failed to initialize signature algorithm''), st1)
              | Some sig \<Rightarrow> (Inr \<lparr>oqs_sig = sig, sig_ctx_alg = alg\<rparr>, st1)))"

definition pqc_sig_keygen ::
  "liboqs \<Rightarrow> PqcSigContext option \<Rightarrow> 'a pqc_state_scheme \<Rightarrow>
     (PqcStatus \<times> (bytes \<times> bytes) option) result \<times> 'a pqc_state_scheme" where
  "pqc_sig_keygen L ctx st =
     (case ctx of
        None \<Rightarrow> (Inl (PgError ERRCODE_INTERNAL_ERROR ''pqc_sig_keygen: NULL context''), st)
      | Some c \<Rightarrow>
          let st1 = st\<lparr>coins := coins st + 1\<rparr> in
          (case OQS_SIG_keypair L (oqs_sig c) (coins st) of
             None \<Rightarrow> (Inr (PQC_ERROR_CRYPTO_FAILURE, None), st1)
           | Some keys \<Rightarrow> (Inr (PQC_SUCCESS, Some keys), st1)))"

text \<open>The message argument: pointer and length.  A non-NULL pointer is followed
  by exactly that many readable bytes.\<close>

definition msg_bytes :: "bytes option \<Rightarrow> bytes" where
  "msg_bytes m = (case m of Some b \<Rightarrow> b | None \<Rightarrow> [])"

definition pqc_sig_sign ::
  "liboqs \<Rightarrow> PqcSigContext option \<Rightarrow> bytes option \<Rightarrow> nat \<Rightarrow> bytes \<Rightarrow> 'a pqc_state_scheme \<Rightarrow>
     (PqcStatus \<times> bytes option) result \<times> 'a pqc_state_scheme" where
  "pqc_sig_sign L ctx message message_len secret_key st =
     (case ctx of
        None \<Rightarrow> (Inl (PgError ERRCODE_INTERNAL_ERROR ''pqc_sig_sign: NULL context''), st)
      | Some c \<Rightarrow>
          if message = None \<and> message_len > 0
          then (Inl (PgError ERRCODE_INVALID_PARAMETER_VALUE
            ''pqc_sig_sign: NULL message with non-zero length''), st)
          else if length secret_key \<noteq> sig_length_secret_key (oqs_sig c)
          then (Inl (PgError ERRCODE_INVALID_PARAMETER_VALUE ''invalid secret key length''), st)
          else
            let st1 = st\<lparr>coins := coins st + 1\<rparr> in
            (case OQS_SIG_sign L (oqs_sig c) (coins st) (msg_bytes message) secret_key of
               None \<Rightarrow> (Inr (PQC_ERROR_CRYPTO_FAILURE, None), st1)
             | Some s \<Rightarrow> (Inr (PQC_SUCCESS, Some s), pqc_stat_count_sig_sign st1)))"

definition pqc_sig_verify ::
  "liboqs \<Rightarrow> PqcSigContext option \<Rightarrow> bytes option \<Rightarrow> nat \<Rightarrow> bytes \<Rightarrow> bytes \<Rightarrow> 'a pqc_state_scheme \<Rightarrow>
     PqcStatus result \<times> 'a pqc_state_scheme" where
  "pqc_sig_verify L ctx message message_len signature public_key st =
     (case ctx of
        None \<Rightarrow> (Inl (PgError ERRCODE_INTERNAL_ERROR ''pqc_sig_verify: NULL context''), st)
      | Some c \<Rightarrow>
          if message = None \<and> message_len > 0
          then (Inl (PgError ERRCODE_INVALID_PARAMETER_VALUE
            ''pqc_sig_verify: NULL message with non-zero length''), st)
          else if length public_key \<noteq> sig_length_public_key (oqs_sig c)
          then (Inl (PgError ERRCODE_INVALID_PARAMETER_VALUE ''invalid public key length''), st)
          else if \<not> OQS_SIG_verify L (oqs_sig c) (msg_bytes message) signature public_key
          then (Inr PQC_ERROR_CRYPTO_FAILURE, st)
          else (Inr PQC_SUCCESS, pqc_stat_count_sig_verify st))"

definition sig_size :: "(PqcAlgorithmInfo \<Rightarrow> nat) \<Rightarrow> 'a pqc_state_scheme \<Rightarrow> PqcAlgorithm \<Rightarrow> nat" where
  "sig_size f st alg = (case pqc_get_algorithm_info st alg of
     Some info \<Rightarrow> if alg_type info = PQC_TYPE_SIG then f info else 0 | None \<Rightarrow> 0)"

definition pqc_sig_public_key_len :: "'a pqc_state_scheme \<Rightarrow> PqcAlgorithm \<Rightarrow> nat" where
  "pqc_sig_public_key_len = sig_size public_key_len"

definition pqc_sig_secret_key_len :: "'a pqc_state_scheme \<Rightarrow> PqcAlgorithm \<Rightarrow> nat" where
  "pqc_sig_secret_key_len = sig_size secret_key_len"

definition pqc_sig_max_signature_len :: "'a pqc_state_scheme \<Rightarrow> PqcAlgorithm \<Rightarrow> nat" where
  "pqc_sig_max_signature_len = sig_size signature_len"

section \<open>Signing and verification agree\<close>

lemma pqc_sig_verify_sign:
  assumes "sig_correct L" "OQS_SIG_new L nm = Some (oqs_sig ctx)"
    "OQS_SIG_keypair L (oqs_sig ctx) c = Some (pk, sk)"
    "pqc_sig_sign L (Some ctx) (Some m) (length m) sk st = (Inr (PQC_SUCCESS, Some s), st')"
  shows "fst (pqc_sig_verify L (Some ctx) (Some m) (length m) s pk st'') = Inr PQC_SUCCESS"
  using assms by (fastforce simp: sig_correct_def pqc_sig_sign_def pqc_sig_verify_def Let_def msg_bytes_def
      split: if_splits option.splits)

section \<open>Contexts in registry-preserving states\<close>

text \<open>What an algorithm index denotes, independent of the state.\<close>

definition sig_alg :: "PqcAlgorithm \<Rightarrow> bool" where
  "sig_alg alg \<longleftrightarrow> 0 \<le> alg \<and> alg < PQC_ALG_COUNT \<and> alg_type (pqc_algorithms_table ! nat alg) = PQC_TYPE_SIG"

definition sig_oqs_name :: "PqcAlgorithm \<Rightarrow> string" where
  "sig_oqs_name alg = oqs_name (pqc_algorithms_table ! nat alg)"

lemma registry_nth:
  assumes "registry_ok st" "0 \<le> alg" "alg < PQC_ALG_COUNT"
  shows "alg_key (pqc_algorithms st ! nat alg) = alg_key (pqc_algorithms_table ! nat alg)"
  using assms registry_length [OF assms(1)] pqc_algorithms_table_facts(1)
  by (metis nat_less_iff nth_map of_nat_numeral registry_ok_def)

lemma pqc_sig_new_ok:
  assumes "registry_ok st" "sig_alg alg" "OQS_SIG_new L (sig_oqs_name alg) = Some k"
  shows "pqc_sig_new L alg st =
    (Inr \<lparr>oqs_sig = k, sig_ctx_alg = alg\<rparr>, if pqc_initialized st then st else snd (pqc_init L st))"
  using assms registry_nth [OF assms(1), of alg]
  by (simp add: pqc_sig_new_def pqc_get_algorithm_info_def pqc_is_available_def sig_alg_def sig_oqs_name_def alg_key_def
      Let_def split: prod.split) (metis fst_conv pqc_init_fields(2) snd_conv)

lemma pqc_sig_new_Inr:
  assumes "pqc_sig_new L alg st = (Inr ctx, st')" "registry_ok st"
  shows "sig_alg alg" "OQS_SIG_new L (sig_oqs_name alg) = Some (oqs_sig ctx)"
  using assms registry_nth [OF assms(2), of alg]
  by (auto simp: pqc_sig_new_def pqc_get_algorithm_info_def sig_alg_def sig_oqs_name_def alg_key_def Let_def
      split: option.splits if_splits prod.splits)

lemma pqc_name_scan_cong:
  "map alg_key xs = map alg_key ys \<Longrightarrow> pqc_name_scan xs s = pqc_name_scan ys s"
proof (induction xs arbitrary: ys)
  case (Cons x xs)
  then obtain y ys' where "ys = y # ys'" "alg_key x = alg_key y" "map alg_key xs = map alg_key ys'"
    by (cases ys) auto
  moreover have "pqc_name_scan xs s = pqc_name_scan ys' s"
    using Cons.IH calculation(3) .
  ultimately show ?case
    by (simp add: alg_key_def)
qed simp

lemma pqc_algorithm_from_name_registry:
  "registry_ok st \<Longrightarrow> pqc_algorithm_from_name st nm = pqc_algorithm_from_name pqc_start_state nm"
  unfolding pqc_algorithm_from_name_def registry_ok_def pqc_start_state_def
  by (auto split: option.split intro: pqc_name_scan_cong)

lemma pqc_algorithm_is_sig_registry: "registry_ok st \<Longrightarrow> pqc_algorithm_is_sig st alg \<longleftrightarrow> sig_alg alg"
  using registry_nth [of st alg]
  by (auto simp: pqc_algorithm_is_sig_def pqc_get_algorithm_info_def sig_alg_def alg_key_def)

lemma registry_ok_coins [simp]: "registry_ok (st\<lparr>coins := c\<rparr>) = registry_ok st"
  by (simp add: registry_ok_def)

lemma registry_ok_counts [simp]:
  "registry_ok (pqc_stat_count_sig_sign st) = registry_ok st" "registry_ok (pqc_stat_count_sig_verify st) = registry_ok st"
  by (simp_all add: registry_ok_def pqc_stat_count_sig_sign_def pqc_stat_count_sig_verify_def)

text \<open>The signature wrappers keep the registry and whatever extends the state.\<close>

lemma pqc_sig_frame:
  "pqc_sig_new L alg st = (r1, st') \<Longrightarrow> (registry_ok st' \<longleftrightarrow> registry_ok st) \<and> pqc_state.more st' = pqc_state.more st"
  "pqc_sig_keygen L ctx st = (r2, st') \<Longrightarrow> (registry_ok st' \<longleftrightarrow> registry_ok st) \<and> pqc_state.more st' = pqc_state.more st"
  "pqc_sig_sign L ctx m n sk st = (r3, st') \<Longrightarrow> (registry_ok st' \<longleftrightarrow> registry_ok st) \<and> pqc_state.more st' = pqc_state.more st"
  "pqc_sig_verify L ctx m n s pk st = (r4, st') \<Longrightarrow> (registry_ok st' \<longleftrightarrow> registry_ok st) \<and> pqc_state.more st' = pqc_state.more st"
  by (auto simp: pqc_sig_new_def pqc_sig_keygen_def pqc_sig_sign_def pqc_sig_verify_def Let_def
      pqc_stat_count_sig_sign_def pqc_stat_count_sig_verify_def registry_ok_def
      split: option.splits prod.splits if_splits dest!: arg_cong [where f = snd] simp del: pqc_init_fields)
    (auto simp: pqc_init_def comp_def if_distrib registry_ok_def cong: if_cong)

section \<open>Sizes reported for signature algorithms\<close>

lemma sig_sizes:
  assumes "registry_ok st" "sizes_ok L st" "sig_alg alg" "OQS_SIG_new L (sig_oqs_name alg) = Some k"
  shows "pqc_sig_public_key_len st alg \<in> {0, sig_length_public_key k}"
    "pqc_sig_secret_key_len st alg \<in> {0, sig_length_secret_key k}"
    "pqc_sig_max_signature_len st alg \<in> {0, sig_length_signature k}"
    "pqc_initialized st \<Longrightarrow> pqc_sig_public_key_len st alg = sig_length_public_key k \<and>
       pqc_sig_secret_key_len st alg = sig_length_secret_key k \<and> pqc_sig_max_signature_len st alg = sig_length_signature k"
proof -
  let ?info = "pqc_algorithms st ! nat alg"
  have alg: "0 \<le> alg" "alg < PQC_ALG_COUNT"
    using assms(3) by (simp_all add: sig_alg_def)
  have key: "alg_key ?info = alg_key (pqc_algorithms_table ! nat alg)"
    using registry_nth [OF assms(1) alg] .
  have "?info \<in> set (pqc_algorithms st)"
    using alg registry_length [OF assms(1)] by simp
  then have "entry_unsized ?info \<or> entry_sized L ?info" "pqc_initialized st \<Longrightarrow> entry_sized L ?info"
    using assms(2) by (auto simp: sizes_ok_def)
  moreover have "alg_type ?info = PQC_TYPE_SIG" "oqs_name ?info = sig_oqs_name alg"
    using key assms(3) by (simp_all add: alg_key_def sig_alg_def sig_oqs_name_def)
  ultimately show "pqc_sig_public_key_len st alg \<in> {0, sig_length_public_key k}"
    "pqc_sig_secret_key_len st alg \<in> {0, sig_length_secret_key k}"
    "pqc_sig_max_signature_len st alg \<in> {0, sig_length_signature k}"
    "pqc_initialized st \<Longrightarrow> pqc_sig_public_key_len st alg = sig_length_public_key k \<and>
       pqc_sig_secret_key_len st alg = sig_length_secret_key k \<and> pqc_sig_max_signature_len st alg = sig_length_signature k"
    using alg assms(4)
    by (auto simp: pqc_sig_public_key_len_def pqc_sig_secret_key_len_def pqc_sig_max_signature_len_def sig_size_def
        pqc_get_algorithm_info_def entry_unsized_def entry_sized_def)
qed

end
