(* ===== verification/SqlCrypto.thy ===== *)
theory SqlCrypto
  imports PqcKem PqcSig Samples
begin

text \<open>
  The SQL functions of contrib/pgcrypto_pqc/pgcrypto_pqc.c over the wrappers:
  key generation, encapsulation, signatures, hybrid encryption and the column
  and text envelopes.  bytea and text values are byte strings; a row result is
  a tuple.  Messages that open with a format directive are given from the
  text after it.
\<close>

section \<open>Arguments\<close>

definition parse_algorithm :: "string \<Rightarrow> 'a pqc_state_scheme \<Rightarrow> PqcAlgorithm result \<times> 'a pqc_state_scheme" where
  "parse_algorithm alg_text st =
     (let alg = pqc_algorithm_from_name st (Some alg_text) in
      if alg \<ge> PQC_ALG_COUNT
      then (Inl (PgError ERRCODE_INVALID_PARAMETER_VALUE ''unknown PQC algorithm:''), st)
      else (Inr alg, st))"

definition require_kem :: "PqcAlgorithm \<Rightarrow> 'a pqc_state_scheme \<Rightarrow> unit result \<times> 'a pqc_state_scheme" where
  "require_kem alg = eguard (\<lambda>st. pqc_algorithm_is_kem st alg)
     (PgError ERRCODE_INVALID_PARAMETER_VALUE '' is not a KEM algorithm'')"

definition require_sig :: "PqcAlgorithm \<Rightarrow> 'a pqc_state_scheme \<Rightarrow> unit result \<times> 'a pqc_state_scheme" where
  "require_sig alg = eguard (\<lambda>st. pqc_algorithm_is_sig st alg)
     (PgError ERRCODE_INVALID_PARAMETER_VALUE '' is not a signature algorithm'')"

definition ensure_init :: "liboqs \<Rightarrow> 'a pqc_state_scheme \<Rightarrow> unit result \<times> 'a pqc_state_scheme" where
  "ensure_init L st = (Inr (), if \<not> pqc_is_available st then snd (pqc_init L st) else st)"

text \<open>A status other than PQC_SUCCESS is turned into an error with this message.\<close>

definition expect_success ::
  "string \<Rightarrow> ('s \<Rightarrow> (PqcStatus \<times> 'b option) result \<times> 's) \<Rightarrow> 's \<Rightarrow> 'b result \<times> 's" where
  "expect_success msg f st =
     (case f st of
        (Inl e, st1) \<Rightarrow> (Inl e, st1)
      | (Inr (PQC_SUCCESS, Some x), st1) \<Rightarrow> (Inr x, st1)
      | (Inr _, st1) \<Rightarrow> (Inl (PgError ERRCODE_EXTERNAL_ROUTINE_EXCEPTION msg), st1))"

section \<open>Key encapsulation and signatures\<close>

definition pgcrypto_pqc_kem_keygen ::
  "liboqs \<Rightarrow> string \<Rightarrow> 'a pqc_state_scheme \<Rightarrow> (bytes \<times> bytes) result \<times> 'a pqc_state_scheme" where
  "pgcrypto_pqc_kem_keygen L alg_text =
     ebind (parse_algorithm alg_text) (\<lambda>alg.
     ebind (require_kem alg) (\<lambda>_.
     ebind (pqc_kem_new L alg) (\<lambda>ctx.
     expect_success ''PQC KEM key generation failed for'' (pqc_kem_keygen L (Some ctx)))))"

definition sql_kem_encapsulate ::
  "liboqs \<Rightarrow> bytes \<Rightarrow> string \<Rightarrow> 'a pqc_state_scheme \<Rightarrow> (bytes \<times> bytes) result \<times> 'a pqc_state_scheme" where
  "sql_kem_encapsulate L pk alg_text =
     ebind (parse_algorithm alg_text) (\<lambda>alg.
     ebind (pqc_kem_new L alg) (\<lambda>ctx.
     expect_success ''PQC KEM encapsulation failed'' (pqc_kem_encaps L (Some ctx) (Some pk))))"

definition sql_kem_decapsulate ::
  "liboqs \<Rightarrow> bytes \<Rightarrow> bytes \<Rightarrow> string \<Rightarrow> 'a pqc_state_scheme \<Rightarrow> bytes result \<times> 'a pqc_state_scheme" where
  "sql_kem_decapsulate L ct sk alg_text =
     ebind (parse_algorithm alg_text) (\<lambda>alg.
     ebind (pqc_kem_new L alg) (\<lambda>ctx.
     expect_success ''PQC KEM decapsulation failed'' (pqc_kem_decaps L (Some ctx) (Some ct) (Some sk))))"

definition pgcrypto_pqc_sig_keygen ::
  "liboqs \<Rightarrow> string \<Rightarrow> 'a pqc_state_scheme \<Rightarrow> (bytes \<times> bytes) result \<times> 'a pqc_state_scheme" where
  "pgcrypto_pqc_sig_keygen L alg_text =
     ebind (parse_algorithm alg_text) (\<lambda>alg.
     ebind (require_sig alg) (\<lambda>_.
     ebind (pqc_sig_new L alg) (\<lambda>ctx.
     expect_success ''PQC signature key generation failed for'' (pqc_sig_keygen L (Some ctx)))))"

definition pqc_sign ::
  "liboqs \<Rightarrow> bytes \<Rightarrow> bytes \<Rightarrow> string \<Rightarrow> 'a pqc_state_scheme \<Rightarrow> bytes result \<times> 'a pqc_state_scheme" where
  "pqc_sign L msg sk alg_text =
     ebind (parse_algorithm alg_text) (\<lambda>alg.
     ebind (pqc_sig_new L alg) (\<lambda>ctx.
     expect_success ''PQC signature generation failed'' (pqc_sig_sign L (Some ctx) (Some msg) (length msg) sk)))"

definition pqc_verify ::
  "liboqs \<Rightarrow> bytes \<Rightarrow> bytes \<Rightarrow> bytes \<Rightarrow> string \<Rightarrow> 'a pqc_state_scheme \<Rightarrow> bool result \<times> 'a pqc_state_scheme" where
  "pqc_verify L msg sig pk alg_text =
     ebind (parse_algorithm alg_text) (\<lambda>alg.
     ebind (pqc_sig_new L alg) (\<lambda>ctx.
     ebind (pqc_sig_verify L (Some ctx) (Some msg) (length msg) sig pk) (\<lambda>status.
     epure (Inr (status = PQC_SUCCESS)))))"

section \<open>Hybrid encryption\<close>

definition AES_GCM_KEY_LEN :: nat where
  "AES_GCM_KEY_LEN = 32"

definition AES_GCM_IV_LEN :: nat where
  "AES_GCM_IV_LEN = 12"

definition AES_GCM_TAG_LEN :: nat where
  "AES_GCM_TAG_LEN = 16"

definition derive_aes_key :: "openssl \<Rightarrow> bytes \<Rightarrow> bytes result" where
  "derive_aes_key ssl shared_secret =
     (case evp_hkdf_sha256 ssl shared_secret (str_bytes ''FortressQL-PQC-v1'') (str_bytes ''aes-256-gcm'') AES_GCM_KEY_LEN of
        Steps_ok aes_key \<Rightarrow> Inr aes_key
      | Step_failed n \<Rightarrow> Inl (PgError ERRCODE_EXTERNAL_ROUTINE_EXCEPTION
          (if n = 0 then ''HKDF initialization failed'' else if n = 1 then ''HKDF parameter setup failed''
           else ''HKDF key derivation failed'')))"

definition aes_gcm_encrypt ::
  "openssl \<Rightarrow> bytes \<Rightarrow> bytes \<Rightarrow> 'a pqc_state_scheme \<Rightarrow> bytes result \<times> 'a pqc_state_scheme" where
  "aes_gcm_encrypt ssl plaintext key st =
     (let iv = rand_buf ssl (coins st) AES_GCM_IV_LEN;
          st1 = st\<lparr>coins := coins st + 1\<rparr> in
      if rand_status ssl (coins st) \<noteq> 1
      then (Inl (PgError ERRCODE_EXTERNAL_ROUTINE_EXCEPTION ''failed to generate random IV''), st1)
      else (case evp_gcm_seal ssl key iv plaintext of
          Steps_ok (ct, tag) \<Rightarrow> (Inr (iv @ ct @ tag), st1)
        | Step_failed n \<Rightarrow>
            (Inl (if n = 0 then PgError ERRCODE_OUT_OF_MEMORY ''failed to create cipher context''
                  else if n < 4 then PgError ERRCODE_EXTERNAL_ROUTINE_EXCEPTION ''AES-256-GCM encryption failed''
                  else PgError ERRCODE_EXTERNAL_ROUTINE_EXCEPTION ''failed to get GCM authentication tag''), st1)))"

definition aes_gcm_decrypt :: "openssl \<Rightarrow> bytes \<Rightarrow> bytes \<Rightarrow> bytes result" where
  "aes_gcm_decrypt ssl data key =
     (if length data < AES_GCM_IV_LEN + AES_GCM_TAG_LEN
      then Inl (PgError ERRCODE_INVALID_PARAMETER_VALUE ''encrypted data too short'')
      else
        let ct_len = length data - AES_GCM_IV_LEN - AES_GCM_TAG_LEN;
            iv = take AES_GCM_IV_LEN data;
            ciphertext = take ct_len (drop AES_GCM_IV_LEN data);
            tag = drop (AES_GCM_IV_LEN + ct_len) data in
        (case evp_gcm_open ssl key iv ciphertext tag of
            Steps_ok plaintext \<Rightarrow> Inr plaintext
          | Step_failed n \<Rightarrow>
              Inl (if n = 0 then PgError ERRCODE_OUT_OF_MEMORY ''failed to create cipher context''
                   else if n < 3 then PgError ERRCODE_EXTERNAL_ROUTINE_EXCEPTION ''AES-256-GCM decryption failed''
                   else if n = 3 then PgError ERRCODE_EXTERNAL_ROUTINE_EXCEPTION ''failed to set GCM tag for verification''
                   else PgError ERRCODE_DATA_CORRUPTED
                     ''AES-256-GCM authentication failed: data has been tampered with'')))"

text \<open>The row of pqc_encrypt: encrypted data, KEM ciphertext, public key, secret key.\<close>

definition pqc_encrypt ::
  "openssl \<Rightarrow> liboqs \<Rightarrow> bytes \<Rightarrow> string \<Rightarrow> 'a pqc_state_scheme \<Rightarrow>
     (bytes \<times> bytes \<times> bytes \<times> bytes) result \<times> 'a pqc_state_scheme" where
  "pqc_encrypt ssl L pt alg_text =
     ebind (parse_algorithm alg_text) (\<lambda>alg.
     ebind (pqc_kem_new L alg) (\<lambda>ctx.
     ebind (expect_success ''KEM key generation failed'' (pqc_kem_keygen L (Some ctx))) (\<lambda>(pk, sk).
     ebind (expect_success ''KEM encapsulation failed'' (pqc_kem_encaps L (Some ctx) (Some pk))) (\<lambda>(ct, ss).
     ebind (epure (derive_aes_key ssl ss)) (\<lambda>aes_key.
     ebind (aes_gcm_encrypt ssl pt aes_key) (\<lambda>encrypted.
     epure (Inr (encrypted, ct, pk, sk))))))))"

definition pqc_decrypt ::
  "openssl \<Rightarrow> liboqs \<Rightarrow> bytes \<Rightarrow> bytes \<Rightarrow> bytes \<Rightarrow> string \<Rightarrow> 'a pqc_state_scheme \<Rightarrow> bytes result \<times> 'a pqc_state_scheme" where
  "pqc_decrypt ssl L enc ct sk alg_text =
     ebind (parse_algorithm alg_text) (\<lambda>alg.
     ebind (pqc_kem_new L alg) (\<lambda>ctx.
     ebind (expect_success ''KEM decapsulation failed'' (pqc_kem_decaps L (Some ctx) (Some ct) (Some sk))) (\<lambda>ss.
     ebind (epure (derive_aes_key ssl ss)) (\<lambda>aes_key.
     epure (aes_gcm_decrypt ssl enc aes_key)))))"

section \<open>Algorithm discovery\<close>

definition algorithm_row :: "PqcAlgorithmInfo \<Rightarrow> string \<times> string \<times> int \<times> 32 word \<times> 32 word \<times> 32 word" where
  "algorithm_row info =
     (alg_name info, if alg_type info = PQC_TYPE_KEM then ''KEM'' else ''SIG'', nist_level info,
      of_nat (public_key_len info), of_nat (secret_key_len info),
      of_nat (if alg_type info = PQC_TYPE_KEM then ciphertext_len info else signature_len info))"

definition sql_pqc_algorithms ::
  "liboqs \<Rightarrow> 'a pqc_state_scheme \<Rightarrow> (string \<times> string \<times> int \<times> 32 word \<times> 32 word \<times> 32 word) list \<times> 'a pqc_state_scheme" where
  "sql_pqc_algorithms L st =
     (let st1 = snd (ensure_init L st);
          available_algs = filter (\<lambda>i. case pqc_get_algorithm_info st1 i of
            None \<Rightarrow> False
          | Some info \<Rightarrow> \<not> (public_key_len info = 0 \<and> secret_key_len info = 0)) (map int [0..<nat PQC_ALG_COUNT]) in
      (map (\<lambda>i. algorithm_row (the (pqc_get_algorithm_info st1 i))) available_algs, st1))"

end
