(* ===== verification/ColumnCrypto.thy ===== *)
theory ColumnCrypto
  imports SqlCrypto
begin

text \<open>
  The envelopes of column and text encryption (pqc_encrypt_column,
  pqc_decrypt_column, pqc_encrypt_text and pqc_decrypt_text of
  contrib/pgcrypto_pqc/pgcrypto_pqc.c): the big-endian length of the KEM
  ciphertext, the ciphertext, and the IV, AES-GCM ciphertext and tag.  The
  decryptor computes its bounds in 32-bit arithmetic and then reads by pointer
  and length, so what lies behind the value in memory is an argument of the
  model.
\<close>

section \<open>Envelopes\<close>

definition envelope_encrypt ::
  "openssl \<Rightarrow> liboqs \<Rightarrow> string \<Rightarrow> bytes \<Rightarrow> bytes \<Rightarrow> string \<Rightarrow> 'a pqc_state_scheme \<Rightarrow> bytes result \<times> 'a pqc_state_scheme" where
  "envelope_encrypt ssl L msg plaintext pk alg_text =
     ebind (parse_algorithm alg_text) (\<lambda>alg.
     ebind (require_kem alg) (\<lambda>_.
     ebind (ensure_init L) (\<lambda>_.
     ebind (pqc_kem_new L alg) (\<lambda>ctx.
     ebind (expect_success msg (pqc_kem_encaps L (Some ctx) (Some pk))) (\<lambda>(ct, ss).
     ebind (epure (derive_aes_key ssl ss)) (\<lambda>aes_key.
     ebind (aes_gcm_encrypt ssl plaintext aes_key) (\<lambda>aes_encrypted.
     epure (Inr (be32 (of_nat (length ct)) @ ct @ aes_encrypted)))))))))"

definition pqc_encrypt_column ::
  "openssl \<Rightarrow> liboqs \<Rightarrow> bytes \<Rightarrow> bytes \<Rightarrow> string \<Rightarrow> 'a pqc_state_scheme \<Rightarrow> bytes result \<times> 'a pqc_state_scheme" where
  "pqc_encrypt_column ssl L = envelope_encrypt ssl L ''KEM encapsulation failed for column encryption''"

definition pqc_encrypt_text ::
  "openssl \<Rightarrow> liboqs \<Rightarrow> bytes \<Rightarrow> bytes \<Rightarrow> string \<Rightarrow> 'a pqc_state_scheme \<Rightarrow> bytes result \<times> 'a pqc_state_scheme" where
  "pqc_encrypt_text ssl L = envelope_encrypt ssl L ''KEM encapsulation failed for text encryption''"

text \<open>The bytes from an offset into the value on, those behind its end given by
  the memory there.\<close>

definition mem_slice :: "(nat \<Rightarrow> byte) \<Rightarrow> bytes \<Rightarrow> nat \<Rightarrow> nat \<Rightarrow> bytes" where
  "mem_slice behind data off n = map (\<lambda>i. if off + i < length data then data ! (off + i) else behind (off + i)) [0..<n]"

text \<open>The bound 4 + ct_len + 12 + 16 is computed in uint32; the blob length
  data_len - 4 - ct_len in size_t.\<close>

definition envelope_decrypt ::
  "openssl \<Rightarrow> liboqs \<Rightarrow> (nat \<Rightarrow> byte) \<Rightarrow> string \<Rightarrow> string \<Rightarrow> string \<Rightarrow> bytes \<Rightarrow> bytes \<Rightarrow> string \<Rightarrow>
     'a pqc_state_scheme \<Rightarrow> bytes result \<times> 'a pqc_state_scheme" where
  "envelope_decrypt ssl L behind msg_short msg_short_kem msg_kem data sk alg_text =
     ebind (parse_algorithm alg_text) (\<lambda>alg.
     ebind (require_kem alg) (\<lambda>_.
     ebind (ensure_init L) (\<lambda>_.
     ebind (eguard (\<lambda>_. 4 \<le> length data) (PgError ERRCODE_INVALID_PARAMETER_VALUE msg_short)) (\<lambda>_.
     let ct_len = of_be32 data in
     ebind (eguard (\<lambda>_. unat (4 + ct_len + 12 + 16) \<le> length data)
       (PgError ERRCODE_INVALID_PARAMETER_VALUE msg_short_kem)) (\<lambda>_.
     let kem_ct = mem_slice behind data 4 (unat ct_len);
         aes_blob_len = nat ((int (length data) - 4 - uint ct_len) mod 2 ^ 64);
         aes_blob = mem_slice behind data (4 + unat ct_len) aes_blob_len in
     ebind (pqc_kem_new L alg) (\<lambda>ctx.
     ebind (expect_success msg_kem (pqc_kem_decaps L (Some ctx) (Some kem_ct) (Some sk))) (\<lambda>ss.
     ebind (epure (derive_aes_key ssl ss)) (\<lambda>aes_key.
     epure (aes_gcm_decrypt ssl aes_blob aes_key)))))))))"

definition pqc_decrypt_column ::
  "openssl \<Rightarrow> liboqs \<Rightarrow> (nat \<Rightarrow> byte) \<Rightarrow> bytes \<Rightarrow> bytes \<Rightarrow> string \<Rightarrow> 'a pqc_state_scheme \<Rightarrow> bytes result \<times> 'a pqc_state_scheme" where
  "pqc_decrypt_column ssl L behind = envelope_decrypt ssl L behind
     ''encrypted column data too short'' ''encrypted column data too short for KEM ciphertext''
     ''KEM decapsulation failed for column decryption''"

definition pqc_decrypt_text ::
  "openssl \<Rightarrow> liboqs \<Rightarrow> (nat \<Rightarrow> byte) \<Rightarrow> bytes \<Rightarrow> bytes \<Rightarrow> string \<Rightarrow> 'a pqc_state_scheme \<Rightarrow> bytes result \<times> 'a pqc_state_scheme" where
  "pqc_decrypt_text ssl L behind = envelope_decrypt ssl L behind
     ''encrypted data too short'' ''encrypted data too short for KEM ciphertext''
     ''KEM decapsulation failed for text decryption''"

section \<open>Facts about the steps\<close>

lemma mem_slice_inside: "off + n \<le> length data \<Longrightarrow> mem_slice behind data off n = take n (drop off data)"
  by (rule nth_equalityI) (auto simp: mem_slice_def)

lemma length_mem_slice [simp]: "length (mem_slice behind data off n) = n"
  by (simp add: mem_slice_def)

lemma parse_algorithm_Inr:
  "parse_algorithm t st = (Inr alg, st') \<longleftrightarrow> pqc_algorithm_from_name st (Some t) = alg \<and> alg < PQC_ALG_COUNT \<and> st' = st"
  by (auto simp: parse_algorithm_def Let_def)

lemma parse_algorithm_again:
  "parse_algorithm t st = (Inr alg, st1) \<Longrightarrow> registry_ok st \<Longrightarrow> registry_ok st' \<Longrightarrow> parse_algorithm t st' = (Inr alg, st')"
  using pqc_algorithm_from_name_registry [of st] pqc_algorithm_from_name_registry [of st'] by (simp add: parse_algorithm_Inr)

lemma ensure_init_Inr: "ensure_init L st = (Inr (), st') \<Longrightarrow> registry_ok st' \<longleftrightarrow> registry_ok st"
  by (auto simp: ensure_init_def split: if_splits)

lemma require_kem_Inr:
  "require_kem alg st = (Inr u, st') \<longleftrightarrow> pqc_algorithm_is_kem st alg \<and> st' = st"
  by (simp add: require_kem_def)

lemma require_kem_again:
  assumes "require_kem alg st = (Inr (), st1)" "registry_ok st" "registry_ok st'"
  shows "require_kem alg st' = (Inr (), st')"
proof -
  have "pqc_algorithm_is_kem st alg"
    using assms(1) by (simp add: require_kem_Inr)
  then have alg: "0 \<le> alg" "alg < PQC_ALG_COUNT"
    by (auto simp: pqc_algorithm_is_kem_def pqc_get_algorithm_info_def split: if_splits)
  then show ?thesis
    using \<open>pqc_algorithm_is_kem st alg\<close> registry_nth [OF assms(2) alg] registry_nth [OF assms(3) alg]
    by (simp add: require_kem_Inr pqc_algorithm_is_kem_def pqc_get_algorithm_info_def alg_key_def)
qed

lemma expect_success_Inr:
  "expect_success msg f st = (Inr x, st') \<longleftrightarrow> f st = (Inr (PQC_SUCCESS, Some x), st')"
  by (auto simp: expect_success_def split: prod.splits sum.splits PqcStatus.splits option.splits)

lemma aes_gcm_decrypt_encrypt:
  assumes "gcm_correct ssl" "aes_gcm_encrypt ssl p k st = (Inr d, st')"
  shows "aes_gcm_decrypt ssl d k = Inr p" "length d = length p + 28"
  using assms unfolding gcm_correct_def
  by (fastforce simp: aes_gcm_encrypt_def aes_gcm_decrypt_def AES_GCM_IV_LEN_def AES_GCM_TAG_LEN_def Let_def
      split: if_splits evp_steps.splits)+

text \<open>What a key pair and an encapsulation to it made anywhere give to a context
  for the same algorithm made in any state.\<close>

lemma kem_recover:
  assumes "kem_correct L" "pqc_kem_new L alg s1 = (Inr ctx1, s2)" "registry_ok s1"
    "pqc_kem_keygen L (Some ctx1) s3 = (Inr (PQC_SUCCESS, Some (pk, sk)), s4)"
    "pqc_kem_new L alg s5 = (Inr ctx2, s6)" "registry_ok s5"
    "pqc_kem_encaps L (Some ctx2) (Some pk) s7 = (Inr (PQC_SUCCESS, Some (ct, ss)), s8)" "registry_ok st"
  shows "\<exists>ctx st1 st2. pqc_kem_new L alg st = (Inr ctx, st1) \<and> oqs_kem ctx = oqs_kem ctx2 \<and>
    pqc_kem_decaps L (Some ctx) (Some ct) (Some sk) st1 = (Inr (PQC_SUCCESS, Some ss), st2) \<and>
    length ct = kem_length_ciphertext (oqs_kem ctx2)"
proof -
  obtain ctx st1 where new: "pqc_kem_new L alg st = (Inr ctx, st1)" "oqs_kem ctx = oqs_kem ctx1"
    using pqc_kem_new_again [OF assms(2,3,8)] by blast
  obtain ctx3 s9 where "pqc_kem_new L alg s5 = (Inr ctx3, s9)" "oqs_kem ctx3 = oqs_kem ctx1"
    using pqc_kem_new_again [OF assms(2,3,6)] by blast
  then have same: "oqs_kem ctx2 = oqs_kem ctx1"
    using assms(5) by simp
  have pair: "OQS_KEM_keypair L (oqs_kem ctx1) (coins s3) = Some (pk, sk)"
    using assms(4) by (auto simp: pqc_kem_keygen_def Let_def split: option.splits)
  have enc: "pqc_kem_encaps L (Some ctx) (Some pk) s7 = (Inr (PQC_SUCCESS, Some (ct, ss)), s8)"
    using assms(7) new(2) same by (simp add: pqc_kem_encaps_def Let_def split: if_splits)
  have "OQS_KEM_encaps L (oqs_kem ctx1) (coins s7) pk = Some (ct, ss)"
    using assms(7) same by (auto simp: pqc_kem_encaps_def Let_def split: option.splits if_splits)
  then have "length ct = kem_length_ciphertext (oqs_kem ctx1)"
    using assms(1) pair pqc_kem_new_Inr(1) [OF assms(2)] unfolding kem_correct_def by blast
  moreover have "fst (pqc_kem_decaps L (Some ctx) (Some ct) (Some sk) st1) = Inr (PQC_SUCCESS, Some ss)"
    using pqc_kem_decaps_encaps [OF assms(1) pqc_kem_new_Inr(1) [OF new(1)] _ enc] pair new(2) by simp
  ultimately show ?thesis
    using new same by (metis prod.collapse)
qed

section \<open>Round trips\<close>

lemma envelope_encrypt_Inr:
  assumes "envelope_encrypt ssl L msg p pk t st = (Inr env, st')" "registry_ok st"
  shows "\<exists>alg s1 ctx s2 ct ss s3 key blob. parse_algorithm t st = (Inr alg, st) \<and> require_kem alg st = (Inr (), st) \<and>
    registry_ok s1 \<and> pqc_kem_new L alg s1 = (Inr ctx, s2) \<and>
    pqc_kem_encaps L (Some ctx) (Some pk) s2 = (Inr (PQC_SUCCESS, Some (ct, ss)), s3) \<and>
    derive_aes_key ssl ss = Inr key \<and> aes_gcm_encrypt ssl p key s3 = (Inr blob, st') \<and>
    env = be32 (of_nat (length ct)) @ ct @ blob"
  using assms unfolding envelope_encrypt_def
  by (auto simp: ebind_Inr_iff expect_success_Inr parse_algorithm_Inr require_kem_Inr split: prod.splits)
    (metis ensure_init_Inr)

text \<open>The bounds check and the two slices on an envelope as it was written.\<close>

lemma envelope_split:
  assumes "env = be32 (of_nat (length ct)) @ ct @ blob" "28 \<le> length blob" "length env < 2 ^ 30"
  shows "of_be32 env = of_nat (length ct)" "unat (of_nat (length ct) :: 32 word) = length ct"
    "unat (4 + of_be32 env + 12 + 16) \<le> length env"
    "mem_slice behind env 4 (length ct) = ct"
    "nat ((int (length env) - 4 - uint (of_be32 env)) mod 2 ^ 64) = length blob"
    "mem_slice behind env (4 + length ct) (length blob) = blob"
proof -
  show ct: "of_be32 env = of_nat (length ct)"
    by (simp add: assms(1) of_be32_be32)
  have len: "length env = 4 + length ct + length blob"
    by (simp add: assms(1))
  then show n: "unat (of_nat (length ct) :: 32 word) = length ct"
    using assms(3) by (simp add: unat_of_nat)
  have "4 + of_be32 env + 12 + 16 = of_nat (length ct + 32)"
    by (simp add: ct)
  then show "unat (4 + of_be32 env + 12 + 16) \<le> length env"
    using len assms(2,3) by (simp add: unat_of_nat del: of_nat_add)
  have "uint (of_be32 env) = int (length ct)"
    using n by (simp add: ct uint_nat)
  then show "nat ((int (length env) - 4 - uint (of_be32 env)) mod 2 ^ 64) = length blob"
    using len assms(3) by simp
  show "mem_slice behind env 4 (length ct) = ct" "mem_slice behind env (4 + length ct) (length blob) = blob"
    using len by (simp_all add: mem_slice_inside) (simp_all add: assms(1))
qed

lemma envelope_decrypt_encrypt:
  assumes "kem_correct L" "gcm_correct ssl" "registry_ok st0" "registry_ok st1" "registry_ok st2"
    and keygen: "pgcrypto_pqc_kem_keygen L t st0 = (Inr (pk, sk), st0')"
    and enc: "envelope_encrypt ssl L msg p pk t st1 = (Inr env, st1')" and small: "length env < 2 ^ 30"
  shows "fst (envelope_decrypt ssl L behind m1 m2 m3 env sk t st2) = Inr p"
proof -
  obtain alg ctx s0 where gen: "parse_algorithm t st0 = (Inr alg, st0)" "pqc_kem_new L alg st0 = (Inr ctx, s0)"
      "pqc_kem_keygen L (Some ctx) s0 = (Inr (PQC_SUCCESS, Some (pk, sk)), st0')"
    using keygen unfolding pgcrypto_pqc_kem_keygen_def
    by (auto simp: ebind_Inr_iff expect_success_Inr parse_algorithm_Inr require_kem_Inr)
  obtain alg' s1 ctx' s2 ct ss s3 key blob where e: "parse_algorithm t st1 = (Inr alg', st1)" "require_kem alg' st1 = (Inr (), st1)"
      "registry_ok s1" "pqc_kem_new L alg' s1 = (Inr ctx', s2)"
      "pqc_kem_encaps L (Some ctx') (Some pk) s2 = (Inr (PQC_SUCCESS, Some (ct, ss)), s3)"
      "derive_aes_key ssl ss = Inr key" "aes_gcm_encrypt ssl p key s3 = (Inr blob, st1')"
      "env = be32 (of_nat (length ct)) @ ct @ blob"
    using envelope_encrypt_Inr [OF enc assms(4)] by blast
  have [simp]: "alg' = alg"
    using parse_algorithm_again [OF gen(1) assms(3,4)] e(1) by simp
  obtain s4 where s4: "ensure_init L st2 = (Inr (), s4)" "registry_ok s4"
    using assms(5) by (auto simp: ensure_init_def)
  obtain ctx2 s5 s6 where d: "pqc_kem_new L alg s4 = (Inr ctx2, s5)"
      "pqc_kem_decaps L (Some ctx2) (Some ct) (Some sk) s5 = (Inr (PQC_SUCCESS, Some ss), s6)"
    using kem_recover [OF assms(1) gen(2) assms(3) gen(3) _ e(3) e(5) s4(2)] e(4) by auto
  have blob: "aes_gcm_decrypt ssl blob key = Inr p" "28 \<le> length blob"
    using aes_gcm_decrypt_encrypt [OF assms(2) e(7)] by simp_all
  note split = envelope_split [OF e(8) blob(2) small]
  have "4 \<le> length env"
    by (simp add: e(8))
  moreover have "parse_algorithm t st2 = (Inr alg, st2)" "require_kem alg st2 = (Inr (), st2)"
    using parse_algorithm_again [OF gen(1) assms(3,5)] require_kem_again [OF e(2) assms(4,5)] by simp_all
  ultimately show ?thesis
    by (simp add: envelope_decrypt_def ebind_def eguard_def s4(1) split split(3,5) [unfolded split(1), simplified]
        d expect_success_def epure_def e(6) blob(1) Let_def)
qed

section \<open>Bounds\<close>

lemma size_t_small: "k < 2 ^ 30 \<Longrightarrow> int k mod 2 ^ 64 = int k"
  by simp

text \<open>Without wrap-around the bounds check keeps both slices inside the value.\<close>

lemma envelope_bounds:
  assumes "unat (w :: 32 word) < 2 ^ 32 - 32" "unat (4 + w + 12 + 16) \<le> length data" "length data < 2 ^ 30"
  shows "mem_slice behind data 4 (unat w) = mem_slice behind' data 4 (unat w)"
    "mem_slice behind data (4 + unat w) (nat ((int (length data) - 4 - uint w) mod 2 ^ 64)) =
     mem_slice behind' data (4 + unat w) (nat ((int (length data) - 4 - uint w) mod 2 ^ 64))"
proof -
  have "unat (4 + w + 12 + 16) = unat (of_nat (unat w + 32) :: 32 word)"
    by (simp add: add.commute)
  then have "unat (4 + w + 12 + 16) = unat w + 32"
    using assms(1) by (simp add: unat_of_nat del: of_nat_add)
  then have le: "unat w + 32 \<le> length data"
    using assms(2) by simp
  then show "mem_slice behind data 4 (unat w) = mem_slice behind' data 4 (unat w)"
    by (simp add: mem_slice_inside)
  have "int (length data) - 4 - uint w = int (length data - 4 - unat w)"
    using le by (simp add: of_nat_diff)
  moreover have "length data - 4 - unat w < 2 ^ 30"
    by (rule le_less_trans [OF _ assms(3)]) simp
  then have "int (length data - 4 - unat w) mod 2 ^ 64 = int (length data - 4 - unat w)"
    by (rule size_t_small)
  ultimately have n: "nat ((int (length data) - 4 - uint w) mod 2 ^ 64) = length data - 4 - unat w"
    by (simp only: nat_int)
  show "mem_slice behind data (4 + unat w) (nat ((int (length data) - 4 - uint w) mod 2 ^ 64)) =
     mem_slice behind' data (4 + unat w) (nat ((int (length data) - 4 - uint w) mod 2 ^ 64))"
    unfolding n using le by (simp add: mem_slice_inside)
qed

text \<open>A length that wraps the check is none of the library's ciphertext lengths.\<close>

lemma decaps_wrong_length:
  assumes "\<forall>n k. OQS_KEM_new L n = Some k \<longrightarrow> kem_length_ciphertext k < N" "N \<le> length ct"
    "pqc_kem_new L alg st = (Inr ctx, st1)"
  shows "pqc_kem_decaps L (Some ctx) (Some ct) (Some sk) st1 =
    (Inl (PgError ERRCODE_INVALID_PARAMETER_VALUE ''invalid ciphertext length''), st1)"
  using assms(1,2) pqc_kem_new_Inr(1) [OF assms(3)] by (fastforce simp: pqc_kem_decaps_def)

lemma envelope_decrypt_in_bounds:
  assumes "\<forall>n k. OQS_KEM_new L n = Some k \<longrightarrow> kem_length_ciphertext k < 2 ^ 32 - 32" "length data < 2 ^ 30"
  shows "envelope_decrypt ssl L behind m1 m2 m3 data sk t st = envelope_decrypt ssl L behind' m1 m2 m3 data sk t st"
proof (cases "unat (of_be32 data) < 2 ^ 32 - 32")
  case True
  note bounds = envelope_bounds [OF True _ assms(2), of behind behind']
  show ?thesis
    unfolding envelope_decrypt_def Let_def by (intro ebind_cong) (simp add: bounds [simplified])
next
  case False
  then have wrong: "expect_success m3 (pqc_kem_decaps L (Some ctx) (Some (mem_slice b data 4 (unat (of_be32 data)))) (Some sk)) s1 =
      (Inl (PgError ERRCODE_INVALID_PARAMETER_VALUE ''invalid ciphertext length''), s1)"
    if "pqc_kem_new L alg s = (Inr ctx, s1)" for b alg s ctx s1
    using decaps_wrong_length [OF assms(1) _ that] by (simp add: expect_success_def)
  show ?thesis
    unfolding envelope_decrypt_def Let_def
    by (intro ebind_cong) (frule wrong [of _ _ _ _ behind], drule wrong [of _ _ _ _ behind'], simp add: ebind_def)
qed

section \<open>A sample run\<close>

lemma parse_algorithm_768: "registry_ok st \<Longrightarrow> parse_algorithm ''ML-KEM-768'' st = (Inr 1, st)"
proof -
  assume ok: "registry_ok st"
  have "pqc_algorithm_from_name pqc_start_state (Some ''ML-KEM-768'') = 1"
    by code_simp
  then show ?thesis
    using pqc_algorithm_from_name_registry [OF ok] by (simp add: parse_algorithm_Inr)
qed

lemma require_kem_768: "registry_ok st \<Longrightarrow> require_kem 1 st = (Inr (), st)"
  using registry_entry_768 [of st] by (simp add: require_kem_def eguard_def pqc_algorithm_is_kem_def pqc_get_algorithm_info_def)

lemma sample_kem_new: "registry_ok st \<Longrightarrow> \<exists>st1. pqc_kem_new sample_oqs 1 st =
    (Inr \<lparr>oqs_kem = sample_kem ''ML-KEM-768'', kem_ctx_alg = 1\<rparr>, st1) \<and> registry_ok st1 \<and> coins st1 = coins st"
  using pqc_kem_new_768 [of st sample_oqs "sample_kem ''ML-KEM-768''"] by (simp add: sample_oqs_def)

lemma sample_keygen:
  assumes "registry_ok st"
  shows "\<exists>st1. pgcrypto_pqc_kem_keygen sample_oqs ''ML-KEM-768'' st = (Inr ([of_nat (coins st), 7], [of_nat (coins st), 7]), st1)"
  using parse_algorithm_768 [OF assms] require_kem_768 [OF assms] sample_kem_new [OF assms]
  by (auto simp: pgcrypto_pqc_kem_keygen_def ebind_def expect_success_def pqc_kem_keygen_def Let_def sample_oqs_def)

lemma sample_encrypt:
  assumes "registry_ok st" "length pk = 2"
  shows "\<exists>env st1. envelope_encrypt sample_ssl sample_oqs msg p pk ''ML-KEM-768'' st = (Inr env, st1) \<and> length env = length p + 34"
proof -
  obtain st1 where "ensure_init sample_oqs st = (Inr (), st1)" "registry_ok st1"
    using assms(1) by (auto simp: ensure_init_def)
  then show ?thesis
    using parse_algorithm_768 [OF assms(1)] require_kem_768 [OF assms(1)] sample_kem_new [of st1] assms(2)
    by (auto simp: envelope_encrypt_def ebind_def expect_success_def pqc_kem_encaps_def Let_def sample_oqs_def sample_kem_def
        epure_def derive_aes_key_def aes_gcm_encrypt_def AES_GCM_IV_LEN_def sample_ssl_def)
qed

section \<open>Properties\<close>

text \<open>C7: A value encrypted by pqc_encrypt_column or pqc_encrypt_text to a public key
  made by the extension's key generation comes back from both decryption
  functions with the secret key, whatever state the three backends are in.\<close>

theorem column_roundtrip:
  assumes "kem_correct L" "gcm_correct ssl" "registry_ok st0" "registry_ok st1" "registry_ok st2"
    and "pgcrypto_pqc_kem_keygen L t st0 = (Inr (pk, sk), st0')"
    and "pqc_encrypt_column ssl L p pk t st1 = (Inr env, st1') \<or> pqc_encrypt_text ssl L p pk t st1 = (Inr env, st1')"
    and "length env < 2 ^ 30"
  shows "fst (pqc_decrypt_column ssl L behind env sk t st2) = Inr p \<and> fst (pqc_decrypt_text ssl L behind env sk t st2) = Inr p"
  using assms(7) envelope_decrypt_encrypt [OF assms(1-6) _ assms(8)]
  by (auto simp: pqc_encrypt_column_def pqc_encrypt_text_def pqc_decrypt_column_def pqc_decrypt_text_def)

theorem column_roundtrip_witness:
  "\<exists>pk sk (st :: pqc_state) env (st' :: pqc_state).
     pgcrypto_pqc_kem_keygen sample_oqs ''ML-KEM-768'' pqc_start_state = (Inr (pk, sk), st) \<and>
     pqc_encrypt_column sample_ssl sample_oqs [1, 2, 3] pk ''ML-KEM-768'' pqc_start_state = (Inr env, st') \<and>
     fst (pqc_decrypt_column sample_ssl sample_oqs (\<lambda>_. 0) env sk ''ML-KEM-768'' pqc_start_state) = Inr [1, 2, 3]"
proof -
  obtain pk sk and st :: pqc_state where gen: "length pk = 2"
      "pgcrypto_pqc_kem_keygen sample_oqs ''ML-KEM-768'' pqc_start_state = (Inr (pk, sk), st)"
    using sample_keygen [OF registry_ok_start] by force
  obtain env and st' :: pqc_state where enc: "length env = 37"
      "pqc_encrypt_column sample_ssl sample_oqs [1, 2, 3] pk ''ML-KEM-768'' pqc_start_state = (Inr env, st')"
    using sample_encrypt [OF registry_ok_start gen(1), of "''KEM encapsulation failed for column encryption''" "[1, 2, 3]"]
    by (auto simp: pqc_encrypt_column_def)
  show ?thesis
    using column_roundtrip [OF kem_correct_sample gcm_correct_sample registry_ok_start registry_ok_start registry_ok_start
        gen(2) disjI1 [OF enc(2)], of "\<lambda>_. 0"] gen(2) enc by auto
qed

text \<open>C20: Decryption of an envelope reads nothing behind the value: although the
  bounds check wraps around at 2^32, a length that gets past it by wrapping
  is rejected as a ciphertext length before anything is read, provided the
  library's ciphertexts are shorter than 2^32 - 32 bytes.\<close>

theorem column_decrypt_in_bounds:
  assumes "\<forall>n k. OQS_KEM_new L n = Some k \<longrightarrow> kem_length_ciphertext k < 2 ^ 32 - 32" "length data < 2 ^ 30"
  shows "pqc_decrypt_column ssl L behind data sk t st = pqc_decrypt_column ssl L behind' data sk t st \<and>
    pqc_decrypt_text ssl L behind data sk t st = pqc_decrypt_text ssl L behind' data sk t st"
  unfolding pqc_decrypt_column_def pqc_decrypt_text_def by (intro conjI envelope_decrypt_in_bounds assms)

theorem column_decrypt_in_bounds_witness:
  "pqc_decrypt_column sample_ssl sample_oqs (\<lambda>_. 0) ([255, 255, 255, 240] @ replicate 12 0) [1, 2] ''ML-KEM-768'' pqc_start_state =
   pqc_decrypt_column sample_ssl sample_oqs (\<lambda>_. 1) ([255, 255, 255, 240] @ replicate 12 0) [1, 2] ''ML-KEM-768'' pqc_start_state"
proof -
  have "\<forall>n k. OQS_KEM_new sample_oqs n = Some k \<longrightarrow> kem_length_ciphertext k < 2 ^ 32 - 32"
    by (simp add: sample_oqs_def sample_kem_def)
  moreover have "length ([255, 255, 255, 240] @ replicate 12 0 :: bytes) < 2 ^ 30"
    by simp
  ultimately show ?thesis
    using column_decrypt_in_bounds by blast
qed

text \<open>Hybrid encryption with an ephemeral key: the row that pqc_encrypt returns
  decrypts to the plaintext in any backend.\<close>

theorem hybrid_roundtrip:
  assumes "kem_correct L" "gcm_correct ssl" "registry_ok st" "registry_ok st2"
    and enc: "pqc_encrypt ssl L p t st = (Inr (encrypted, ct, pk, sk), st1)"
  shows "fst (pqc_decrypt ssl L encrypted ct sk t st2) = Inr p"
proof -
  obtain alg ctx s0 s1 ss s2 key where e: "parse_algorithm t st = (Inr alg, st)" "pqc_kem_new L alg st = (Inr ctx, s0)"
      "pqc_kem_keygen L (Some ctx) s0 = (Inr (PQC_SUCCESS, Some (pk, sk)), s1)"
      "pqc_kem_encaps L (Some ctx) (Some pk) s1 = (Inr (PQC_SUCCESS, Some (ct, ss)), s2)"
      "derive_aes_key ssl ss = Inr key" "aes_gcm_encrypt ssl p key s2 = (Inr encrypted, st1)"
    using enc unfolding pqc_encrypt_def
    by (auto simp: ebind_Inr_iff expect_success_Inr parse_algorithm_Inr split: prod.splits)
  obtain ctx2 s5 s6 where d: "pqc_kem_new L alg st2 = (Inr ctx2, s5)"
      "pqc_kem_decaps L (Some ctx2) (Some ct) (Some sk) s5 = (Inr (PQC_SUCCESS, Some ss), s6)"
    using kem_recover [OF assms(1) e(2) assms(3) e(3) e(2) assms(3) e(4) assms(4)] by auto
  then show ?thesis
    using parse_algorithm_again [OF e(1) assms(3,4)] e(5) aes_gcm_decrypt_encrypt(1) [OF assms(2) e(6)]
    by (simp add: pqc_decrypt_def ebind_def expect_success_def epure_def)
qed

theorem hybrid_roundtrip_witness:
  "\<exists>encrypted ct pk sk (st :: pqc_state).
     pqc_encrypt sample_ssl sample_oqs [4, 5] ''ML-KEM-768'' pqc_start_state = (Inr (encrypted, ct, pk, sk), st) \<and>
     fst (pqc_decrypt sample_ssl sample_oqs encrypted ct sk ''ML-KEM-768'' pqc_start_state) = Inr [4, 5]"
proof -
  obtain encrypted ct pk sk and st :: pqc_state where enc:
      "pqc_encrypt sample_ssl sample_oqs [4, 5] ''ML-KEM-768'' pqc_start_state = (Inr (encrypted, ct, pk, sk), st)"
    using parse_algorithm_768 [OF registry_ok_start] sample_kem_new [OF registry_ok_start]
    by (auto simp: pqc_encrypt_def ebind_def expect_success_def pqc_kem_keygen_def pqc_kem_encaps_def Let_def sample_oqs_def
        sample_kem_def epure_def derive_aes_key_def aes_gcm_encrypt_def sample_ssl_def)
  show ?thesis
    using hybrid_roundtrip [OF kem_correct_sample gcm_correct_sample registry_ok_start registry_ok_start enc] enc by auto
qed

end
