(* ===== verification/TdeKeyCache.thy ===== *)
theory TdeKeyCache
  imports PqcCommon
begin

text \<open>
  The shared-memory cache of tablespace keys: backend/crypto/tde/tde_keycache.c
  and the structures of include/crypto/tde/tde.h and tde_keycache.h.  The
  cache is an array of 256 entries of which the first num_entries are in use.
  It implements a partial map from tablespaces to keys; the locale tdek_store
  is the contract its clients (the page code, the buffer manager) rely on.
  Each operation runs under the cache's LWLock and is one atomic step.
\<close>

section \<open>Structures and operations\<close>

abbreviation (input) "TDE_MAX_CACHED_KEYS \<equiv> 256 :: nat"
abbreviation (input) "TDE_AES_KEY_LEN \<equiv> 32 :: nat"

record TdeKeyEntry =
  spc_oid :: Oid
  tdek :: bytes
  key_version :: int
  active :: bool

record TdeKeyCache =
  num_entries :: nat
  entries :: "TdeKeyEntry list"

text \<open>The part of the process and cluster state the encryption code works on.
  TdeKeyCacheShmem is None before shared memory is set up; master_key_file is
  None while the file does not exist.\<close>

record tde_state = pqc_state +
  tde_enabled :: bool
  TdeKeyCacheShmem :: "TdeKeyCache option"
  MasterKey :: bytes
  MasterKeyLoaded :: bool
  MasterKeyExitRegistered :: bool
  master_key_file :: "bytes option"

definition zero_entry :: TdeKeyEntry where
  "zero_entry = \<lparr>spc_oid = 0, tdek = replicate TDE_AES_KEY_LEN 0, key_version = 0, active = False\<rparr>"

definition zero_cache :: TdeKeyCache where
  "zero_cache = \<lparr>num_entries = 0, entries = replicate TDE_MAX_CACHED_KEYS zero_entry\<rparr>"

text \<open>ShmemInitStruct attaches to a structure another process made (found) or
  gives a fresh one, which is then zeroed.\<close>

definition tde_keycache_shmem_init :: "TdeKeyCache option \<Rightarrow> 'a tde_state_scheme \<Rightarrow> 'a tde_state_scheme" where
  "tde_keycache_shmem_init existing st =
     (case existing of
        Some cache \<Rightarrow> st\<lparr>TdeKeyCacheShmem := Some cache\<rparr>
      | None \<Rightarrow> st\<lparr>TdeKeyCacheShmem := Some zero_cache\<rparr>)"

definition tde_keycache_init :: "'a tde_state_scheme \<Rightarrow> unit result" where
  "tde_keycache_init st =
     (case TdeKeyCacheShmem st of
        None \<Rightarrow> Inl (PgError ERRCODE_INTERNAL_ERROR ''TDE key cache shared memory not initialized'')
      | Some _ \<Rightarrow> Inr ())"

fun keycache_find :: "TdeKeyEntry list \<Rightarrow> Oid \<Rightarrow> TdeKeyEntry option" where
  "keycache_find [] spcOid = None"
| "keycache_find (entry # es) spcOid =
     (if spc_oid entry = spcOid \<and> active entry then Some entry else keycache_find es spcOid)"

definition cache_lookup :: "TdeKeyCache \<Rightarrow> Oid \<Rightarrow> TdeKeyEntry option" where
  "cache_lookup cache spcOid = keycache_find (take (num_entries cache) (entries cache)) spcOid"

definition tde_keycache_lookup :: "'a tde_state_scheme \<Rightarrow> Oid \<Rightarrow> TdeKeyEntry option result" where
  "tde_keycache_lookup st spcOid =
     (case TdeKeyCacheShmem st of
        None \<Rightarrow> Inl (PgError ERRCODE_INTERNAL_ERROR ''TDE key cache not initialized'')
      | Some cache \<Rightarrow> Inr (cache_lookup cache spcOid))"

text \<open>The scan of an insertion: the index of an entry for the same tablespace
  (Inl), or the first inactive slot seen (Inr).\<close>

fun keycache_scan :: "TdeKeyEntry list \<Rightarrow> Oid \<Rightarrow> nat \<Rightarrow> nat option \<Rightarrow> nat + nat option" where
  "keycache_scan [] oid i inactive_slot = Inr inactive_slot"
| "keycache_scan (cached # cs) oid i inactive_slot =
     (if spc_oid cached = oid then Inl i
      else keycache_scan cs oid (Suc i)
        (if \<not> active cached \<and> inactive_slot = None then Some i else inactive_slot))"

definition cache_insert :: "TdeKeyEntry \<Rightarrow> TdeKeyCache \<Rightarrow> TdeKeyCache option" where
  "cache_insert entry cache =
     (case keycache_scan (take (num_entries cache) (entries cache)) (spc_oid entry) 0 None of
        Inl i \<Rightarrow> Some (cache\<lparr>entries := (entries cache)[i :=
            (entries cache ! i)\<lparr>tdek := tdek entry, key_version := key_version entry, active := active entry\<rparr>]\<rparr>)
      | Inr inactive_slot \<Rightarrow>
          if num_entries cache < TDE_MAX_CACHED_KEYS
          then Some (cache\<lparr>num_entries := num_entries cache + 1,
                           entries := (entries cache)[num_entries cache := entry]\<rparr>)
          else (case inactive_slot of
              Some i \<Rightarrow> Some (cache\<lparr>entries := (entries cache)[i := entry]\<rparr>)
            | None \<Rightarrow> None))"

definition tde_keycache_insert :: "TdeKeyEntry \<Rightarrow> 'a tde_state_scheme \<Rightarrow> unit result \<times> 'a tde_state_scheme" where
  "tde_keycache_insert entry st =
     (case TdeKeyCacheShmem st of
        None \<Rightarrow> (Inl (PgError ERRCODE_INTERNAL_ERROR ''TDE key cache not initialized''), st)
      | Some cache \<Rightarrow>
          (case cache_insert entry cache of
             None \<Rightarrow> (Inl (PgError ERRCODE_CONFIGURATION_LIMIT_EXCEEDED ''TDE key cache is full''), st)
           | Some cache' \<Rightarrow> (Inr (), st\<lparr>TdeKeyCacheShmem := Some cache'\<rparr>)))"

definition cache_invalidate :: "TdeKeyCache \<Rightarrow> TdeKeyCache" where
  "cache_invalidate cache = cache\<lparr>entries := replicate TDE_MAX_CACHED_KEYS zero_entry, num_entries := 0\<rparr>"

definition tde_keycache_invalidate :: "'a tde_state_scheme \<Rightarrow> unit result \<times> 'a tde_state_scheme" where
  "tde_keycache_invalidate st =
     (case TdeKeyCacheShmem st of
        None \<Rightarrow> (Inl (PgError ERRCODE_INTERNAL_ERROR ''TDE key cache not initialized''), st)
      | Some cache \<Rightarrow> (Inr (), st\<lparr>TdeKeyCacheShmem := Some (cache_invalidate cache)\<rparr>))"

section \<open>The contract\<close>

text \<open>Storing several entries in turn, stopping at the first refusal.\<close>

fun insert_all :: "('e \<Rightarrow> 's \<Rightarrow> 's option) \<Rightarrow> 'e list \<Rightarrow> 's \<Rightarrow> 's option" where
  "insert_all ins [] s = Some s"
| "insert_all ins (e # es) s = (case ins e s of None \<Rightarrow> None | Some s' \<Rightarrow> insert_all ins es s')"

lemma insert_all_append:
  "insert_all ins (es @ fs) s = (case insert_all ins es s of None \<Rightarrow> None | Some s1 \<Rightarrow> insert_all ins fs s1)"
  by (induction es arbitrary: s) (simp_all split: option.split)

lemma insert_all_ConsE:
  assumes "insert_all ins (e # es) s = Some s'"
  obtains s1 where "ins e s = Some s1" "insert_all ins es s1 = Some s'"
  using assms that by (cases "ins e s") simp_all

locale tdek_store =
  fixes fresh :: 's
    and lookup :: "'s \<Rightarrow> Oid \<Rightarrow> TdeKeyEntry option"
    and insert :: "TdeKeyEntry \<Rightarrow> 's \<Rightarrow> 's option"
    and wipe :: "'s \<Rightarrow> 's"
    and inv :: "'s \<Rightarrow> bool"
  assumes inv_fresh: "inv fresh"
    and inv_insert: "inv s \<Longrightarrow> insert e s = Some s' \<Longrightarrow> inv s'"
    and inv_wipe: "inv s \<Longrightarrow> inv (wipe s)"
    and lookup_fresh: "lookup fresh oid = None"
    and lookup_insert: "inv s \<Longrightarrow> insert e s = Some s' \<Longrightarrow>
      lookup s' oid = (if oid = spc_oid e then (if active e then Some e else None) else lookup s oid)"
    and lookup_wipe: "lookup (wipe s) oid = None"
begin

lemma insert_all_inv: "inv s \<Longrightarrow> insert_all insert es s = Some s' \<Longrightarrow> inv s'"
proof (induction es arbitrary: s)
  case (Cons e es)
  from Cons.prems(2) obtain s1 where "insert e s = Some s1" "insert_all insert es s1 = Some s'"
    by (rule insert_all_ConsE)
  then show ?case
    using Cons.IH inv_insert [OF Cons.prems(1)] by blast
qed simp

text \<open>Work on other tablespaces does not disturb a key.\<close>

lemma insert_all_other:
  "inv s \<Longrightarrow> insert_all insert es s = Some s' \<Longrightarrow> oid \<notin> spc_oid ` set es \<Longrightarrow> lookup s' oid = lookup s oid"
proof (induction es arbitrary: s)
  case (Cons e es)
  from Cons.prems(2) obtain s1 where s1: "insert e s = Some s1" "insert_all insert es s1 = Some s'"
    by (rule insert_all_ConsE)
  then have "lookup s' oid = lookup s1 oid"
    using Cons.IH [OF inv_insert [OF Cons.prems(1) s1(1)]] Cons.prems(3) by simp
  then show ?case
    using lookup_insert [OF Cons.prems(1) s1(1)] Cons.prems(3) by simp
qed simp

text \<open>The last entry stored for a tablespace is the one found.\<close>

lemma insert_all_last:
  assumes "inv s" "insert_all insert (es @ e # fs) s = Some s'" "spc_oid e \<notin> spc_oid ` set fs" "active e"
  shows "lookup s' (spc_oid e) = Some e"
proof -
  obtain s1 where s1: "insert_all insert es s = Some s1" "insert_all insert (e # fs) s1 = Some s'"
    using assms(2) by (auto simp: insert_all_append split: option.splits)
  obtain s2 where s2: "insert e s1 = Some s2" "insert_all insert fs s2 = Some s'"
    using s1(2) by (rule insert_all_ConsE)
  have inv1: "inv s1"
    using insert_all_inv [OF assms(1) s1(1)] .
  have "lookup s' (spc_oid e) = lookup s2 (spc_oid e)"
    using insert_all_other [OF inv_insert [OF inv1 s2(1)] s2(2) assms(3)] .
  then show ?thesis
    using lookup_insert [OF inv1 s2(1)] assms(4) by simp
qed

end

section \<open>The cache implements it\<close>

definition cache_inv :: "TdeKeyCache \<Rightarrow> bool" where
  "cache_inv cache \<longleftrightarrow> length (entries cache) = TDE_MAX_CACHED_KEYS \<and> num_entries cache \<le> TDE_MAX_CACHED_KEYS \<and>
     distinct (map spc_oid (take (num_entries cache) (entries cache)))"

lemma keycache_find_Some:
  "keycache_find es oid = Some e \<Longrightarrow> e \<in> set es \<and> spc_oid e = oid \<and> active e"
  by (induction es) (auto split: if_splits)

lemma keycache_find_None: "keycache_find es oid = None \<longleftrightarrow> (\<forall>e \<in> set es. spc_oid e = oid \<longrightarrow> \<not> active e)"
  by (induction es) auto

text \<open>With one entry per tablespace the scan order does not matter.\<close>

lemma keycache_find_distinct:
  assumes "distinct (map spc_oid es)"
  shows "keycache_find es oid = Some e \<longleftrightarrow> e \<in> set es \<and> spc_oid e = oid \<and> active e"
  using assms
proof (induction es)
  case (Cons a es)
  have "e = a" if "e \<in> set es" "spc_oid a = spc_oid e"
    using that Cons.prems by auto
  then show ?case
    using Cons by auto
qed simp

lemma keycache_find_eqI:
  assumes "distinct (map spc_oid es)" "distinct (map spc_oid fs)"
    "\<And>e. spc_oid e = oid \<Longrightarrow> active e \<Longrightarrow> e \<in> set es \<longleftrightarrow> e \<in> set fs"
  shows "keycache_find es oid = keycache_find fs oid"
proof -
  have "keycache_find es oid = Some e \<longleftrightarrow> keycache_find fs oid = Some e" for e
    unfolding keycache_find_distinct [OF assms(1)] keycache_find_distinct [OF assms(2)]
    using assms(3) by blast
  then show ?thesis
    by (metis option.exhaust)
qed

lemma keycache_scan_Inl:
  "keycache_scan es oid k slot = Inl i \<Longrightarrow> \<exists>j < length es. i = k + j \<and> spc_oid (es ! j) = oid"
proof (induction es arbitrary: k slot)
  case (Cons a es)
  show ?case
  proof (cases "spc_oid a = oid")
    case False
    then have "keycache_scan es oid (Suc k) (if \<not> active a \<and> slot = None then Some k else slot) = Inl i"
      using Cons.prems by simp
    from Cons.IH [OF this] obtain j where "j < length es" "i = Suc k + j" "spc_oid (es ! j) = oid"
      by blast
    then show ?thesis
      by (intro exI [of _ "Suc j"]) simp
  qed (use Cons.prems in auto)
qed simp

lemma keycache_scan_Inr_fresh:
  "keycache_scan es oid k slot = Inr r \<Longrightarrow> oid \<notin> spc_oid ` set es"
  by (induction es arbitrary: k slot) (auto split: if_splits)

lemma keycache_scan_Inr_slot:
  "keycache_scan es oid k slot = Inr (Some i) \<Longrightarrow>
     slot = Some i \<or> (\<exists>j < length es. i = k + j \<and> \<not> active (es ! j))"
proof (induction es arbitrary: k slot)
  case (Cons a es)
  let ?slot = "if \<not> active a \<and> slot = None then Some k else slot"
  have "spc_oid a \<noteq> oid"
    using Cons.prems by auto
  then have "keycache_scan es oid (Suc k) ?slot = Inr (Some i)"
    using Cons.prems by simp
  from Cons.IH [OF this] show ?case
  proof
    assume "?slot = Some i"
    then show ?thesis
      by (auto split: if_splits)
  next
    assume "\<exists>j < length es. i = Suc k + j \<and> \<not> active (es ! j)"
    then obtain j where "j < length es" "i = Suc k + j" "\<not> active (es ! j)"
      by blast
    then show ?thesis
      by (intro disjI2 exI [of _ "Suc j"]) simp
  qed
qed simp

lemma keycache_scan_Inr_full:
  "keycache_scan es oid k slot = Inr None \<Longrightarrow> slot = None \<and> (\<forall>e \<in> set es. active e)"
  by (induction es arbitrary: k slot) (auto split: if_splits)

text \<open>Replacing the entry of the same tablespace, or an inactive one by an entry
  of a new tablespace, changes what is found for that tablespace only.\<close>

lemma keycache_find_update:
  assumes d: "distinct (map spc_oid es)" and i: "i < length es"
    and ok: "spc_oid (es ! i) = spc_oid e \<or> spc_oid e \<notin> spc_oid ` set es \<and> \<not> active (es ! i)"
  shows "distinct (map spc_oid (es[i := e]))"
    "keycache_find (es[i := e]) oid =
      (if oid = spc_oid e then if active e then Some e else None else keycache_find es oid)"
proof -
  have "spc_oid e \<notin> set (map spc_oid es) - {map spc_oid es ! i}"
    using ok i by auto
  then show d': "distinct (map spc_oid (es[i := e]))"
    using d by (simp add: map_update distinct_list_update)
  have mem: "x \<in> set (es[i := e]) \<longleftrightarrow> x \<in> set es" if "spc_oid x \<noteq> spc_oid e" "active x" for x
    using ok i that by (auto simp: in_set_conv_nth nth_list_update)
  have here: "x \<in> set (es[i := e]) \<and> spc_oid x = spc_oid e \<longleftrightarrow> x = e" for x
    using d' i set_update_memI [OF i] by (auto simp: distinct_map inj_on_def)
  show "keycache_find (es[i := e]) oid =
      (if oid = spc_oid e then if active e then Some e else None else keycache_find es oid)"
  proof (cases "oid = spc_oid e")
    case True
    have "keycache_find (es[i := e]) oid = None" if "\<not> active e"
      unfolding keycache_find_None using True that here by metis
    moreover have "keycache_find (es[i := e]) oid = Some e" if "active e"
      unfolding keycache_find_distinct [OF d'] using True that here by metis
    ultimately show ?thesis
      using True by simp
  next
    case False
    then show ?thesis
      using mem by (simp add: keycache_find_eqI [OF d' d])
  qed
qed

lemma keycache_find_append:
  assumes "spc_oid e \<notin> spc_oid ` set es"
  shows "keycache_find (es @ [e]) oid =
    (if oid = spc_oid e then if active e then Some e else None else keycache_find es oid)"
  using assms by (induction es) auto

lemma take_Suc_update: "n < length es \<Longrightarrow> take (Suc n) (es[n := e]) = take n es @ [e]"
  by (simp add: take_Suc_conv_app_nth)

lemma cache_insert_cases:
  assumes inv: "cache_inv c" and ins: "cache_insert e c = Some c'"
  obtains (replace) i where "i < num_entries c" "c' = c\<lparr>entries := (entries c)[i := e]\<rparr>"
      "spc_oid (take (num_entries c) (entries c) ! i) = spc_oid e \<or>
        spc_oid e \<notin> spc_oid ` set (take (num_entries c) (entries c)) \<and> \<not> active (take (num_entries c) (entries c) ! i)"
    | (append) "num_entries c < 256"
      "c' = c\<lparr>num_entries := num_entries c + 1, entries := (entries c)[num_entries c := e]\<rparr>"
      "spc_oid e \<notin> spc_oid ` set (take (num_entries c) (entries c))"
proof (cases "keycache_scan (take (num_entries c) (entries c)) (spc_oid e) 0 None")
  case (Inl i)
  then have i: "i < num_entries c" "spc_oid (entries c ! i) = spc_oid e"
    using keycache_scan_Inl [OF Inl] inv by (auto simp: cache_inv_def)
  have upd: "(entries c ! i)\<lparr>tdek := tdek e, key_version := key_version e, active := active e\<rparr> = e"
    using i(2) by (cases e, cases "entries c ! i") simp
  have "c' = c\<lparr>entries := (entries c)[i := (entries c ! i)
      \<lparr>tdek := tdek e, key_version := key_version e, active := active e\<rparr>]\<rparr>"
    using ins Inl by (simp add: cache_insert_def)
  then have "c' = c\<lparr>entries := (entries c)[i := e]\<rparr>"
    unfolding upd .
  then show ?thesis
    using i by (intro replace [of i]) auto
next
  case (Inr slot)
  show ?thesis
  proof (cases "num_entries c < 256")
    case True
    then show ?thesis
      using ins Inr keycache_scan_Inr_fresh [OF Inr] by (intro append) (auto simp: cache_insert_def)
  next
    case False
    then obtain i where i: "slot = Some i" "c' = c\<lparr>entries := (entries c)[i := e]\<rparr>"
      using ins Inr by (auto simp: cache_insert_def split: option.splits)
    then show ?thesis
      using keycache_scan_Inr_slot [of "take (num_entries c) (entries c)" "spc_oid e" 0 None i]
        keycache_scan_Inr_fresh [OF Inr] Inr inv
      by (intro replace [of i]) (auto simp: cache_inv_def)
  qed
qed

lemma cache_insert_used:
  assumes inv: "cache_inv c" and ins: "cache_insert e c = Some c'"
  shows "cache_inv c' \<and> cache_lookup c' oid =
    (if oid = spc_oid e then if active e then Some e else None else cache_lookup c oid)"
  using inv ins
proof (cases rule: cache_insert_cases)
  case (replace i)
  have "take (num_entries c) ((entries c)[i := e]) = (take (num_entries c) (entries c))[i := e]"
    by (rule take_update_swap)
  moreover have "distinct (map spc_oid (take (num_entries c) (entries c)))" "length (entries c) = 256" "num_entries c \<le> 256"
    using inv by (simp_all add: cache_inv_def)
  ultimately show ?thesis
    using keycache_find_update [of "take (num_entries c) (entries c)" i e] replace
    by (simp add: cache_inv_def cache_lookup_def)
next
  case append
  then show ?thesis
    using inv by (auto simp: cache_inv_def cache_lookup_def take_Suc_update keycache_find_append)
qed

interpretation keycache: tdek_store zero_cache cache_lookup cache_insert cache_invalidate cache_inv
proof
  show "cache_inv zero_cache"
    by (simp add: cache_inv_def zero_cache_def)
  show "cache_inv s'" if "cache_inv s" "cache_insert e s = Some s'" for s e s'
    using cache_insert_used [OF that] by blast
  show "cache_inv (cache_invalidate s)" if "cache_inv s" for s
    by (simp add: cache_inv_def cache_invalidate_def)
  show "cache_lookup zero_cache oid = None" for oid
    by (simp add: cache_lookup_def zero_cache_def)
  show "cache_lookup s' oid = (if oid = spc_oid e then if active e then Some e else None else cache_lookup s oid)"
    if "cache_inv s" "cache_insert e s = Some s'" for s e s' oid
    using cache_insert_used [OF that] by blast
  show "cache_lookup (cache_invalidate s) oid = None" for s oid
    by (simp add: cache_lookup_def cache_invalidate_def)
qed

text \<open>An insertion is refused only when 256 other tablespaces hold active keys.\<close>

lemma cache_insert_None:
  assumes "cache_inv c" "cache_insert e c = None"
  shows "num_entries c = 256" "\<forall>x \<in> set (entries c). active x \<and> spc_oid x \<noteq> spc_oid e"
proof -
  have len: "length (entries c) = 256" "num_entries c \<le> 256"
    using assms(1) by (simp_all add: cache_inv_def)
  obtain slot where slot: "keycache_scan (take (num_entries c) (entries c)) (spc_oid e) 0 None = Inr slot"
    "\<not> num_entries c < 256" "slot = None"
    using assms(2) by (auto simp: cache_insert_def split: sum.splits if_splits option.splits)
  then show "num_entries c = 256" "\<forall>x \<in> set (entries c). active x \<and> spc_oid x \<noteq> spc_oid e"
    using keycache_scan_Inr_fresh [OF slot(1)] keycache_scan_Inr_full [of _ "spc_oid e" 0 None] len
    by (auto simp: image_iff)
qed

section \<open>Histories\<close>

datatype cache_op = Insert_key TdeKeyEntry | Invalidate_all

fun keycache_exec :: "cache_op \<Rightarrow> 'a tde_state_scheme \<Rightarrow> unit result \<times> 'a tde_state_scheme" where
  "keycache_exec (Insert_key entry) st = tde_keycache_insert entry st"
| "keycache_exec Invalidate_all st = tde_keycache_invalidate st"

text \<open>Running a history: the operations that were not refused, and the final state.\<close>

fun keycache_run :: "cache_op list \<Rightarrow> 'a tde_state_scheme \<Rightarrow> cache_op list \<times> 'a tde_state_scheme" where
  "keycache_run [] st = ([], st)"
| "keycache_run (c # cs) st =
     (case keycache_exec c st of (r, st1) \<Rightarrow>
        case keycache_run cs st1 of (done, st2) \<Rightarrow>
          ((case r of Inl _ \<Rightarrow> done | Inr _ \<Rightarrow> c # done), st2))"

text \<open>The specification: a partial map from tablespaces to entries.\<close>

fun map_exec :: "cache_op \<Rightarrow> (Oid \<Rightarrow> TdeKeyEntry option) \<Rightarrow> (Oid \<Rightarrow> TdeKeyEntry option)" where
  "map_exec (Insert_key e) m = m(spc_oid e := if active e then Some e else None)"
| "map_exec Invalidate_all m = Map.empty"

lemma keycache_exec_refines:
  assumes "TdeKeyCacheShmem st = Some c" "cache_inv c" "keycache_exec x st = (r, st')"
  shows "\<exists>c'. TdeKeyCacheShmem st' = Some c' \<and> cache_inv c' \<and>
    cache_lookup c' = (case r of Inl _ \<Rightarrow> cache_lookup c | Inr _ \<Rightarrow> map_exec x (cache_lookup c))"
proof (cases x)
  case (Insert_key e)
  show ?thesis
  proof (cases "cache_insert e c")
    case None
    then show ?thesis
      using assms Insert_key by (auto simp: tde_keycache_insert_def)
  next
    case (Some c')
    then have "r = Inr ()" "TdeKeyCacheShmem st' = Some c'"
      using assms Insert_key by (auto simp: tde_keycache_insert_def)
    then show ?thesis
      using Insert_key keycache.inv_insert [OF assms(2) Some] keycache.lookup_insert [OF assms(2) Some]
      by (auto simp: fun_eq_iff)
  qed
next
  case Invalidate_all
  then have "r = Inr ()" "TdeKeyCacheShmem st' = Some (cache_invalidate c)"
    using assms by (auto simp: tde_keycache_invalidate_def)
  then show ?thesis
    using Invalidate_all keycache.inv_wipe [OF assms(2)] keycache.lookup_wipe by (auto simp: fun_eq_iff)
qed

lemma keycache_run_refines:
  assumes "TdeKeyCacheShmem st = Some c" "cache_inv c" "keycache_run xs st = (accepted, st')"
  shows "\<exists>c'. TdeKeyCacheShmem st' = Some c' \<and> cache_inv c' \<and>
    cache_lookup c' = fold map_exec accepted (cache_lookup c)"
  using assms
proof (induction xs arbitrary: st c accepted)
  case (Cons x xs)
  obtain r st1 where x: "keycache_exec x st = (r, st1)"
    by fastforce
  obtain ys where run: "keycache_run xs st1 = (ys, st')" "accepted = (case r of Inl _ \<Rightarrow> ys | Inr _ \<Rightarrow> x # ys)"
    using Cons.prems(3) x by (auto split: prod.splits)
  obtain c1 where c1: "TdeKeyCacheShmem st1 = Some c1" "cache_inv c1"
    "cache_lookup c1 = (case r of Inl _ \<Rightarrow> cache_lookup c | Inr _ \<Rightarrow> map_exec x (cache_lookup c))"
    using keycache_exec_refines [OF Cons.prems(1,2) x] by blast
  show ?case
    using Cons.IH [OF c1(1,2) run(1)] c1(3) run(2) by (cases r) simp_all
qed auto

text \<open>C9: The key cache refines a map.  After any history of insertions and
  invalidations on freshly created shared memory, refused insertions
  included, a lookup returns what the partial map from tablespaces to keys
  holds after the accepted operations.\<close>

theorem keycache_refines_map:
  assumes "keycache_run ops (tde_keycache_shmem_init None st) = (accepted, st')"
  shows "tde_keycache_lookup st' oid = Inr (fold map_exec accepted Map.empty oid)"
proof -
  have "TdeKeyCacheShmem (tde_keycache_shmem_init None st) = Some zero_cache"
    by (simp add: tde_keycache_shmem_init_def)
  from keycache_run_refines [OF this keycache.inv_fresh assms] show ?thesis
    using keycache.lookup_fresh by (auto simp: tde_keycache_lookup_def fun_eq_iff [of "cache_lookup zero_cache"]
        intro!: arg_cong [where f = "\<lambda>m. fold map_exec accepted m oid"])
qed

definition sample_key :: "Oid \<Rightarrow> int \<Rightarrow> TdeKeyEntry" where
  "sample_key oid v = \<lparr>spc_oid = oid, tdek = replicate 32 5, key_version = v, active = True\<rparr>"

definition sample_cache_state :: tde_state where
  "sample_cache_state = \<lparr>pqc_initialized = False, pqc_algorithms = [], pqc_stat_counters = None, coins = 0,
     tde_enabled = True, TdeKeyCacheShmem = None, MasterKey = [], MasterKeyLoaded = False,
     MasterKeyExitRegistered = False, master_key_file = None\<rparr>"

theorem keycache_refines_map_witness:
  "\<exists>st'. keycache_run [Insert_key (sample_key 7 1), Invalidate_all, Insert_key (sample_key 8 1), Insert_key (sample_key 8 2)]
       (tde_keycache_shmem_init None sample_cache_state) =
     ([Insert_key (sample_key 7 1), Invalidate_all, Insert_key (sample_key 8 1), Insert_key (sample_key 8 2)], st') \<and>
     tde_keycache_lookup st' 8 = Inr (Some (sample_key 8 2)) \<and> tde_keycache_lookup st' 7 = Inr None"
proof -
  let ?ops = "[Insert_key (sample_key 7 1), Invalidate_all, Insert_key (sample_key 8 1), Insert_key (sample_key 8 2)]"
  obtain st' where run: "keycache_run ?ops (tde_keycache_shmem_init None sample_cache_state) = (?ops, st')"
    by (simp add: tde_keycache_shmem_init_def tde_keycache_insert_def tde_keycache_invalidate_def cache_invalidate_def
        cache_insert_def zero_cache_def sample_key_def take_Suc_conv_app_nth)
  show ?thesis
    using run keycache_refines_map [OF run, of 8] keycache_refines_map [OF run, of 7] by (simp add: sample_key_def)
qed

lemma keycache_scan_active:
  "oid \<notin> spc_oid ` set es \<Longrightarrow> \<forall>e \<in> set es. active e \<Longrightarrow> keycache_scan es oid k None = Inr None"
  by (induction es arbitrary: k) auto

lemma dom_cache_lookup:
  "dom (cache_lookup c) = spc_oid ` set (filter active (take (num_entries c) (entries c)))"
  by (auto simp: cache_lookup_def dom_def keycache_find_None image_iff) 

lemma card_dom_cache_lookup:
  "card (dom (cache_lookup c)) \<le> length (filter active (take (num_entries c) (entries c)))"
proof -
  have "dom (cache_lookup c) = set (map spc_oid (filter active (take (num_entries c) (entries c))))"
    by (simp add: dom_cache_lookup)
  then show ?thesis
    using card_length [of "map spc_oid (filter active (take (num_entries c) (entries c)))"] by simp
qed

text \<open>C37: Capacity.  An insertion is refused exactly when 256 tablespaces have an
  active key and the new entry is for none of them; inactive slots are reused.\<close>

theorem keycache_full_iff:
  assumes "cache_inv c"
  shows "cache_insert e c = None \<longleftrightarrow> card (dom (cache_lookup c)) = 256 \<and> spc_oid e \<notin> dom (cache_lookup c)"
proof
  assume none: "cache_insert e c = None"
  have n: "num_entries c = 256" "length (entries c) = 256"
    using cache_insert_None(1) [OF assms none] assms by (simp_all add: cache_inv_def)
  then have all: "take (num_entries c) (entries c) = entries c" "distinct (map spc_oid (entries c))"
    using assms take_all [of "entries c" 256] by (simp_all add: cache_inv_def)
  have "filter active (entries c) = entries c"
    using cache_insert_None(2) [OF assms none] by (simp add: filter_id_conv)
  then have "dom (cache_lookup c) = set (map spc_oid (entries c))"
    using all by (simp add: dom_cache_lookup)
  then show "card (dom (cache_lookup c)) = 256 \<and> spc_oid e \<notin> dom (cache_lookup c)"
    using all cache_insert_None(2) [OF assms none] distinct_card [OF all(2)] n by auto
next
  assume full: "card (dom (cache_lookup c)) = 256 \<and> spc_oid e \<notin> dom (cache_lookup c)"
  let ?es = "take (num_entries c) (entries c)"
  have n: "num_entries c = 256" "length (filter active ?es) = length ?es"
    using full card_dom_cache_lookup [of c] length_filter_le [of active ?es] assms
    by (auto simp: cache_inv_def)
  then have "\<forall>x \<in> set ?es. active x"
    by (metis length_filter_less less_irrefl)
  then show "cache_insert e c = None"
    using full n(1) keycache_scan_active [of "spc_oid e" ?es 0] by (auto simp: dom_cache_lookup cache_insert_def filter_id_conv)
qed

theorem keycache_full_iff_witness:
  "cache_insert (sample_key 300 1) \<lparr>num_entries = 256, entries = map (\<lambda>i. sample_key (of_nat i) 1) [0..<256]\<rparr> = None"
proof -
  let ?c = "\<lparr>num_entries = 256, entries = map (\<lambda>i. sample_key (of_nat i) 1) [0..<256]\<rparr>"
  have inj: "inj_on (\<lambda>i. of_nat i :: Oid) {0..<256}"
  proof (rule inj_onI)
    fix i j :: nat
    assume "i \<in> {0..<256}" "j \<in> {0..<256}" "(of_nat i :: Oid) = of_nat j"
    then show "i = j"
      by (simp add: word_of_nat_eq_iff take_bit_nat_eq_self)
  qed
  have oids: "map spc_oid (entries ?c) = map of_nat [0..<256]"
    by (simp add: sample_key_def comp_def)
  have "filter active (entries ?c) = entries ?c"
    unfolding filter_id_conv by (simp add: sample_key_def)
  then have dom: "dom (cache_lookup ?c) = of_nat ` {0..<256}"
    using arg_cong [OF oids, of set] by (simp add: dom_cache_lookup image_image)
  have "cache_inv ?c"
    using inj by (simp add: cache_inv_def distinct_map comp_def sample_key_def)
  moreover have "card (dom (cache_lookup ?c)) = 256"
    using card_image [OF inj] dom by simp
  moreover have "300 \<notin> dom (cache_lookup ?c)"
  proof
    assume "300 \<in> dom (cache_lookup ?c)"
    then obtain i :: nat where "i < 256" "(of_nat 300 :: Oid) = of_nat i"
      unfolding dom by auto
    then show False
      unfolding word_of_nat_eq_iff by (simp add: take_bit_nat_eq_self)
  qed
  ultimately show ?thesis
    using keycache_full_iff [of ?c "sample_key 300 1"] by (simp add: sample_key_def)
qed

end
