(* ===== verification/TdeKeyProvider.thy ===== *)
theory TdeKeyProvider
  imports Prelude
begin

text \<open>
  Where the administrator's secret key comes from:
  backend/crypto/tde/tde_key_provider.c.  The environment, the key file and
  the key command are what the operating system answers, gathered in one
  record.
\<close>

section \<open>Definitions\<close>

record provider_env =
  tde_key_provider :: int
  env_secret_key :: "string option"
  tde_key_file :: "string option"
  key_file_stat_ok :: bool
  key_file_content :: "string option"
  tde_key_command :: "string option"
  command_output :: "string option"
  command_exit :: int

abbreviation (input) "TDE_MAX_HEX_KEY_LEN \<equiv> 8192 :: nat"

definition is_ws :: "char \<Rightarrow> bool" where
  "is_ws c \<longleftrightarrow> c = CHR '' '' \<or> c = CHR 0x09 \<or> c = CHR 0x0A \<or> c = CHR 0x0D"

text \<open>The C string at the start of a buffer.\<close>

definition c_str :: "string \<Rightarrow> string" where
  "c_str buf = takeWhile (\<lambda>c. c \<noteq> CHR 0x00) buf"

text \<open>The trailing loop stops at the first character (end > str).\<close>

definition strip_whitespace :: "string \<Rightarrow> string" where
  "strip_whitespace s =
     (case dropWhile is_ws s of
        [] \<Rightarrow> []
      | c # cs \<Rightarrow> c # rev (dropWhile is_ws (rev cs)))"

definition tde_key_provider_fetch_env :: "provider_env \<Rightarrow> string result" where
  "tde_key_provider_fetch_env env =
     (case env_secret_key env of
        None \<Rightarrow> Inl (PgError ERRCODE_INVALID_PARAMETER_VALUE
          ''TDE: FORTRESSQL_KEM_SECRET_KEY environment variable not set'')
      | Some hex \<Rightarrow> if length hex = 0
          then Inl (PgError ERRCODE_INVALID_PARAMETER_VALUE
            ''TDE: FORTRESSQL_KEM_SECRET_KEY environment variable not set'')
          else Inr hex)"

definition tde_key_provider_fetch_file :: "provider_env \<Rightarrow> string result" where
  "tde_key_provider_fetch_file env =
     (case tde_key_file env of
        None \<Rightarrow> Inl (PgError ERRCODE_INVALID_PARAMETER_VALUE ''TDE: tde_key_file is not set'')
      | Some path \<Rightarrow>
          if path = [] then Inl (PgError ERRCODE_INVALID_PARAMETER_VALUE ''TDE: tde_key_file is not set'')
          else if \<not> key_file_stat_ok env
          then Inl (PgError ERRCODE_FILE_ACCESS ''TDE: could not access key file'')
          else (case key_file_content env of
              None \<Rightarrow> Inl (PgError ERRCODE_FILE_ACCESS ''TDE: could not open key file'')
            | Some content \<Rightarrow>
                let buf = take TDE_MAX_HEX_KEY_LEN content in
                if buf = [] then Inl (PgError ERRCODE_DATA_CORRUPTED ''TDE: key file is empty'')
                else let trimmed = strip_whitespace (c_str buf) in
                if length trimmed = 0
                then Inl (PgError ERRCODE_DATA_CORRUPTED ''TDE: key file contains only whitespace'')
                else Inr trimmed))"

definition tde_key_provider_fetch_command :: "provider_env \<Rightarrow> string result" where
  "tde_key_provider_fetch_command env =
     (case tde_key_command env of
        None \<Rightarrow> Inl (PgError ERRCODE_INVALID_PARAMETER_VALUE ''TDE: tde_key_command is not set'')
      | Some cmd \<Rightarrow>
          if cmd = [] then Inl (PgError ERRCODE_INVALID_PARAMETER_VALUE ''TDE: tde_key_command is not set'')
          else (case command_output env of
              None \<Rightarrow> Inl (PgError ERRCODE_FILE_ACCESS ''TDE: could not execute key command'')
            | Some output \<Rightarrow>
                let buf = take TDE_MAX_HEX_KEY_LEN output in
                if command_exit env \<noteq> 0
                then Inl (PgError ERRCODE_EXTERNAL_ROUTINE_EXCEPTION ''TDE: key command failed'')
                else if buf = []
                then Inl (PgError ERRCODE_EXTERNAL_ROUTINE_EXCEPTION ''TDE: key command produced no output'')
                else let trimmed = strip_whitespace (c_str buf) in
                if length trimmed = 0
                then Inl (PgError ERRCODE_EXTERNAL_ROUTINE_EXCEPTION ''TDE: key command produced only whitespace'')
                else Inr trimmed))"

definition tde_key_provider_fetch :: "provider_env \<Rightarrow> string result" where
  "tde_key_provider_fetch env =
     (if tde_key_provider env = 0 then tde_key_provider_fetch_env env
      else if tde_key_provider env = 1 then tde_key_provider_fetch_file env
      else if tde_key_provider env = 2 then tde_key_provider_fetch_command env
      else Inl (PgError ERRCODE_INVALID_PARAMETER_VALUE ''TDE: unknown key provider type''))"

section \<open>What a fetch returns\<close>

lemma strip_whitespace_ends:
  assumes "strip_whitespace s = c # cs"
  shows "\<not> is_ws c" "\<not> is_ws (last (c # cs))"
proof -
  obtain d ds where d: "dropWhile is_ws s = d # ds"
    using assms by (cases "dropWhile is_ws s") (auto simp: strip_whitespace_def)
  have "\<not> is_ws d"
    using hd_dropWhile [of is_ws s] d by simp
  moreover have "cs = rev (dropWhile is_ws (rev ds))" "c = d"
    using assms d by (simp_all add: strip_whitespace_def)
  ultimately show "\<not> is_ws c" "\<not> is_ws (last (c # cs))"
    using hd_dropWhile [of is_ws "rev ds"] by (auto simp: last_rev)
qed

text \<open>Surrounding blanks are removed and nothing else.\<close>

lemma strip_whitespace_pad:
  assumes "list_all is_ws a" "list_all is_ws b" "\<not> is_ws c" "\<not> is_ws (last (c # cs))"
  shows "strip_whitespace (a @ (c # cs) @ b) = c # cs"
proof -
  have "dropWhile is_ws (a @ (c # cs) @ b) = c # cs @ b"
    using assms(1,3) by (induction a) auto
  moreover have "dropWhile is_ws (rev (cs @ b)) = rev cs"
  proof -
    have "dropWhile is_ws (rev b @ rev cs) = dropWhile is_ws (rev cs)"
      using assms(2) by (induction b rule: rev_induct) auto
    also have "\<dots> = rev cs"
      using assms(4) by (cases cs rule: rev_cases) auto
    finally show ?thesis
      by simp
  qed
  ultimately show ?thesis
    by (simp add: strip_whitespace_def)
qed

lemma tde_key_provider_fetch_nonempty: "tde_key_provider_fetch env = Inr hex \<Longrightarrow> hex \<noteq> []"
  by (auto simp: tde_key_provider_fetch_def tde_key_provider_fetch_env_def tde_key_provider_fetch_file_def
      tde_key_provider_fetch_command_def Let_def split: option.splits if_splits)

end
