(* ===== verification/TdeKeyManage.thy ===== *)
theory TdeKeyManage
  imports TdeKeyCache TdeKeyProvider PqcKem
begin

text \<open>
  The master key and the tablespace keys: backend/crypto/tde/tde_keymanage.c.
  The key file is the list of its bytes; what the file system does (directory
  creation, how many bytes a write accepts, closing) is a parameter of each
  call.
\<close>

section \<open>The key file\<close>

record MasterKeyFileHeader =
  hdr_magic :: "32 word"
  hdr_version :: "32 word"
  hdr_kem_alg :: "32 word"
  hdr_pubkey_len :: "32 word"
  hdr_ciphertext_len :: "32 word"
  hdr_reserved :: "32 word"

abbreviation "TDE_MASTER_KEY_MAGIC \<equiv> 0x54444531 :: 32 word"
abbreviation (input) "TDE_VERSION \<equiv> 1 :: 32 word"
abbreviation (input) "TDE_IV_LEN \<equiv> 16 :: nat"
abbreviation (input) "TDE_GCM_IV_LEN \<equiv> 12 :: nat"
abbreviation (input) "TDE_GCM_TAG_LEN \<equiv> 16 :: nat"

definition header_words :: "MasterKeyFileHeader \<Rightarrow> 32 word list" where
  "header_words h = [hdr_magic h, hdr_version h, hdr_kem_alg h, hdr_pubkey_len h, hdr_ciphertext_len h, hdr_reserved h]"

definition header_bytes :: "MasterKeyFileHeader \<Rightarrow> bytes" where
  "header_bytes h = concat (map le32 (header_words h))"

definition parse_header :: "bytes \<Rightarrow> MasterKeyFileHeader" where
  "parse_header b = \<lparr>hdr_magic = of_le32 b, hdr_version = of_le32 (drop 4 b), hdr_kem_alg = of_le32 (drop 8 b),
     hdr_pubkey_len = of_le32 (drop 12 b), hdr_ciphertext_len = of_le32 (drop 16 b), hdr_reserved = of_le32 (drop 20 b)\<rparr>"

record os_io =
  mkdir_ok :: bool
  create_ok :: bool
  write_room :: nat
  close_ok :: bool

text \<open>A sequence of fwrite calls of one item each: the first item that does not
  fit (or has size 0) ends it, leaving what was accepted.\<close>

fun fwrite_all :: "nat \<Rightarrow> bytes list \<Rightarrow> bytes \<Rightarrow> bool \<times> bytes" where
  "fwrite_all room [] file = (True, file)"
| "fwrite_all room (c # cs) file =
     (if c = [] then (False, file)
      else if room < length c then (False, file @ take room c)
      else fwrite_all (room - length c) cs (file @ c))"

text \<open>A sequence of fread calls of one item each.\<close>

fun fread_all :: "nat list \<Rightarrow> bytes \<Rightarrow> bytes list option" where
  "fread_all [] file = Some []"
| "fread_all (n # ns) file =
     (if n = 0 \<or> length file < n then None
      else map_option (\<lambda>rest. take n file # rest) (fread_all ns (drop n file)))"

definition tde_write_master_key_file ::
  "os_io \<Rightarrow> bytes \<Rightarrow> bytes \<Rightarrow> PqcAlgorithm \<Rightarrow> bytes \<Rightarrow> bytes \<Rightarrow> bytes \<Rightarrow> 'a tde_state_scheme \<Rightarrow>
     unit result \<times> 'a tde_state_scheme" where
  "tde_write_master_key_file os pubkey ct alg encrypted_mk gcm_iv gcm_tag st =
     (if \<not> create_ok os
      then (Inl (PgError ERRCODE_FILE_ACCESS ''TDE: could not create master key file''), st)
      else
        let hdr = \<lparr>hdr_magic = TDE_MASTER_KEY_MAGIC, hdr_version = TDE_VERSION, hdr_kem_alg = word_of_int alg,
              hdr_pubkey_len = of_nat (length pubkey), hdr_ciphertext_len = of_nat (length ct), hdr_reserved = 0\<rparr>;
            (ok, file) = fwrite_all (write_room os)
              [header_bytes hdr, pubkey, ct, gcm_iv, encrypted_mk, gcm_tag] [];
            st1 = st\<lparr>master_key_file := Some file\<rparr>
        in if \<not> ok then (Inl (PgError ERRCODE_FILE_ACCESS ''TDE: could not write master key file''), st1)
           else if \<not> close_ok os then (Inl (PgError ERRCODE_FILE_ACCESS ''TDE: could not close master key file''), st1)
           else (Inr (), st1))"

section \<open>Generating and unwrapping the master key\<close>

definition tde_wipe_master_key_on_exit :: "'a tde_state_scheme \<Rightarrow> 'a tde_state_scheme" where
  "tde_wipe_master_key_on_exit st = st\<lparr>MasterKey := replicate TDE_AES_KEY_LEN 0, MasterKeyLoaded := False\<rparr>"

definition tde_generate_master_key ::
  "openssl \<Rightarrow> liboqs \<Rightarrow> os_io \<Rightarrow> 'a tde_state_scheme \<Rightarrow> unit result \<times> 'a tde_state_scheme" where
  "tde_generate_master_key ssl L os st =
     (if \<not> mkdir_ok os then (Inl (PgError ERRCODE_FILE_ACCESS ''TDE: could not create directory''), st)
      else
        let raw_master_key = rand_buf ssl (coins st) TDE_AES_KEY_LEN;
            st1 = st\<lparr>coins := coins st + 1\<rparr> in
        if rand_status ssl (coins st) \<noteq> 1
        then (Inl (PgError ERRCODE_INTERNAL_ERROR ''TDE: failed to generate random master key''), st1)
        else (case pqc_kem_new L PQC_ALG_ML_KEM_768 st1 of
          (Inl e, st2) \<Rightarrow> (Inl e, st2)
        | (Inr kem_ctx, st2) \<Rightarrow>
          (case pqc_kem_keygen L (Some kem_ctx) st2 of
            (Inr (PQC_SUCCESS, Some (pubkey, seckey)), st3) \<Rightarrow>
              (case pqc_kem_encaps L (Some kem_ctx) (Some pubkey) st3 of
                (Inr (PQC_SUCCESS, Some (kem_ct, shared_secret)), st4) \<Rightarrow>
                  let gcm_iv = rand_buf ssl (coins st4) TDE_GCM_IV_LEN;
                      st5 = st4\<lparr>coins := coins st4 + 1\<rparr> in
                  if rand_status ssl (coins st4) \<noteq> 1
                  then (Inl (PgError ERRCODE_INTERNAL_ERROR ''TDE: failed to generate GCM IV''), st5)
                  else (case evp_gcm_seal ssl shared_secret gcm_iv raw_master_key of
                      Step_failed 0 \<Rightarrow> (Inl (PgError ERRCODE_OUT_OF_MEMORY ''TDE: failed to allocate GCM context''), st5)
                    | Step_failed (Suc _) \<Rightarrow> (Inl (PgError ERRCODE_INTERNAL_ERROR
                        ''TDE: AES-256-GCM wrapping of master key failed''), st5)
                    | Steps_ok (encrypted_mk, gcm_tag) \<Rightarrow>
                        (case tde_write_master_key_file os pubkey kem_ct PQC_ALG_ML_KEM_768
                                encrypted_mk gcm_iv gcm_tag st5 of
                          (Inl e, st6) \<Rightarrow> (Inl e, st6)
                        | (Inr _, st6) \<Rightarrow>
                            (Inr (), st6\<lparr>MasterKey := raw_master_key, MasterKeyLoaded := True,
                                         MasterKeyExitRegistered := True\<rparr>)))
              | (Inl e, st4) \<Rightarrow> (Inl e, st4)
              | (Inr _, st4) \<Rightarrow> (Inl (PgError ERRCODE_INTERNAL_ERROR ''TDE: ML-KEM-768 encapsulation failed''), st4))
          | (Inl e, st3) \<Rightarrow> (Inl e, st3)
          | (Inr _, st3) \<Rightarrow> (Inl (PgError ERRCODE_INTERNAL_ERROR ''TDE: ML-KEM-768 key generation failed''), st3))))"

text \<open>The item sscanf converts for a two-column hexadecimal directive: blanks are
  skipped, then at most two characters of an optionally signed hexadecimal
  number are taken; a bare sign or a bare 0x prefix does not match.\<close>

definition is_space :: "char \<Rightarrow> bool" where
  "is_space c \<longleftrightarrow> c = CHR '' '' \<or> (9 \<le> (of_char c :: nat) \<and> (of_char c :: nat) \<le> 13)"

definition hex_val :: "char \<Rightarrow> nat option" where
  "hex_val c = (let n = of_char c :: nat in
     if 48 \<le> n \<and> n \<le> 57 then Some (n - 48)
     else if 97 \<le> n \<and> n \<le> 102 then Some (n - 87)
     else if 65 \<le> n \<and> n \<le> 70 then Some (n - 55) else None)"

definition hd_opt :: "'b list \<Rightarrow> 'b option" where
  "hd_opt xs = (case xs of [] \<Rightarrow> None | x # _ \<Rightarrow> Some x)"

definition sscanf_02x :: "string \<Rightarrow> 32 word option" where
  "sscanf_02x s =
     (case dropWhile is_space s of
        [] \<Rightarrow> None
      | c # cs \<Rightarrow>
          (case hex_val c of
             Some v \<Rightarrow>
               if c = CHR ''0'' \<and> (hd_opt cs = Some CHR ''x'' \<or> hd_opt cs = Some CHR ''X'') then None
               else (case Option.bind (hd_opt cs) hex_val of
                   Some w \<Rightarrow> Some (of_nat (16 * v + w))
                 | None \<Rightarrow> Some (of_nat v))
           | None \<Rightarrow>
               if c = CHR ''+'' then map_option of_nat (Option.bind (hd_opt cs) hex_val)
               else if c = CHR ''-'' then map_option (\<lambda>v. - of_nat v) (Option.bind (hd_opt cs) hex_val)
               else None))"

fun hex_decode_loop :: "string \<Rightarrow> nat list \<Rightarrow> bytes result" where
  "hex_decode_loop seckey_hex [] = Inr []"
| "hex_decode_loop seckey_hex (i # is) =
     (case sscanf_02x (drop (i * 2) seckey_hex) of
        None \<Rightarrow> Inl (PgError ERRCODE_INVALID_PARAMETER_VALUE ''TDE: invalid hex in FORTRESSQL_KEM_SECRET_KEY'')
      | Some b \<Rightarrow> (case hex_decode_loop seckey_hex is of Inl e \<Rightarrow> Inl e | Inr bs \<Rightarrow> Inr (ucast b # bs)))"

text \<open>The checks on the file up to the secret key: header, its fields, the body.\<close>

definition read_master_key_file :: "bytes \<Rightarrow> (MasterKeyFileHeader \<times> bytes list) result" where
  "read_master_key_file file =
     (case fread_all [24] file of
        None \<Rightarrow> Inl (PgError ERRCODE_DATA_CORRUPTED ''TDE: could not read master key file header'')
      | Some _ \<Rightarrow>
          let hdr = parse_header (take 24 file) in
          if hdr_magic hdr \<noteq> TDE_MASTER_KEY_MAGIC
          then Inl (PgError ERRCODE_DATA_CORRUPTED ''TDE: invalid master key file magic'')
          else if hdr_version hdr \<noteq> TDE_VERSION
          then Inl (PgError ERRCODE_DATA_CORRUPTED ''TDE: unsupported master key file version'')
          else if hdr_pubkey_len hdr = 0 \<or> hdr_pubkey_len hdr > 8192 \<or>
            hdr_ciphertext_len hdr = 0 \<or> hdr_ciphertext_len hdr > 8192
          then Inl (PgError ERRCODE_DATA_CORRUPTED ''TDE: master key file has invalid field sizes'')
          else (case fread_all [unat (hdr_pubkey_len hdr), unat (hdr_ciphertext_len hdr),
                    TDE_GCM_IV_LEN, TDE_AES_KEY_LEN, TDE_GCM_TAG_LEN] (drop 24 file) of
              None \<Rightarrow> Inl (PgError ERRCODE_DATA_CORRUPTED ''TDE: master key file is truncated'')
            | Some body \<Rightarrow> Inr (hdr, body)))"

definition tde_unwrap_master_key ::
  "openssl \<Rightarrow> liboqs \<Rightarrow> provider_env \<Rightarrow> 'a tde_state_scheme \<Rightarrow> unit result \<times> 'a tde_state_scheme" where
  "tde_unwrap_master_key ssl L env st =
     (if MasterKeyLoaded st then (Inr (), st)
      else case master_key_file st of
        None \<Rightarrow> (Inl (PgError ERRCODE_FILE_ACCESS ''TDE: could not open master key file''), st)
      | Some file \<Rightarrow>
        (case read_master_key_file file of
          Inl e \<Rightarrow> (Inl e, st)
        | Inr (hdr, body) \<Rightarrow>
          (case tde_key_provider_fetch env of
            Inl e \<Rightarrow> (Inl e, st)
          | Inr seckey_hex \<Rightarrow>
            if length seckey_hex mod 2 \<noteq> 0
            then (Inl (PgError ERRCODE_INVALID_PARAMETER_VALUE
              ''TDE: FORTRESSQL_KEM_SECRET_KEY has odd-length hex string''), st)
            else (case hex_decode_loop seckey_hex [0..<length seckey_hex div 2] of
              Inl e \<Rightarrow> (Inl e, st)
            | Inr seckey \<Rightarrow>
              (case pqc_kem_new L (uint (hdr_kem_alg hdr)) st of
                (Inl e, st1) \<Rightarrow> (Inl e, st1)
              | (Inr kem_ctx, st1) \<Rightarrow>
                (case pqc_kem_decaps L (Some kem_ctx) (Some (body ! 1)) (Some seckey) st1 of
                  (Inl e, st2) \<Rightarrow> (Inl e, st2)
                | (Inr (PQC_SUCCESS, Some shared_secret), st2) \<Rightarrow>
                    (case evp_gcm_open ssl shared_secret (body ! 2) (body ! 3) (body ! 4) of
                      Step_failed 0 \<Rightarrow> (Inl (PgError ERRCODE_OUT_OF_MEMORY
                        ''TDE: failed to allocate GCM context for unwrap''), st2)
                    | Step_failed (Suc _) \<Rightarrow> (Inl (PgError ERRCODE_INTERNAL_ERROR
                        ''TDE: AES-256-GCM unwrapping of master key failed''),
                        st2\<lparr>MasterKey := replicate TDE_AES_KEY_LEN 0\<rparr>)
                    | Steps_ok mk \<Rightarrow> (Inr (), st2\<lparr>MasterKey := mk, MasterKeyLoaded := True,
                        MasterKeyExitRegistered := True\<rparr>))
                | (Inr _, st2) \<Rightarrow> (Inl (PgError ERRCODE_INTERNAL_ERROR
                    ''TDE: ML-KEM decapsulation failed''), st2)))))))"

section \<open>Tablespace keys, rotation and page counters\<close>

definition tde_generate_tablespace_key ::
  "openssl \<Rightarrow> Oid \<Rightarrow> 'a tde_state_scheme \<Rightarrow> unit result \<times> 'a tde_state_scheme" where
  "tde_generate_tablespace_key ssl spcOid st =
     (if \<not> MasterKeyLoaded st
      then (Inl (PgError ERRCODE_INTERNAL_ERROR ''TDE: master key is not loaded''), st)
      else
        let st1 = st\<lparr>coins := coins st + 1\<rparr> in
        if rand_status ssl (coins st) \<noteq> 1
        then (Inl (PgError ERRCODE_INTERNAL_ERROR ''TDE: failed to generate tablespace key''), st1)
        else tde_keycache_insert \<lparr>spc_oid = spcOid, tdek = rand_buf ssl (coins st) TDE_AES_KEY_LEN,
               key_version = 1, active = True\<rparr> st1)"

definition tde_rotate_master_key ::
  "openssl \<Rightarrow> liboqs \<Rightarrow> os_io \<Rightarrow> 'a tde_state_scheme \<Rightarrow> unit result \<times> 'a tde_state_scheme" where
  "tde_rotate_master_key ssl L os st =
     (if \<not> MasterKeyLoaded st
      then (Inl (PgError ERRCODE_INTERNAL_ERROR ''TDE: cannot rotate master key - current key not loaded''), st)
      else
        let old_master_key = MasterKey st in
        (case tde_generate_master_key ssl L os st of
           (Inl e, st1) \<Rightarrow> (Inl e, st1\<lparr>MasterKey := old_master_key, MasterKeyLoaded := True\<rparr>)
         | (Inr _, st1) \<Rightarrow> tde_keycache_invalidate st1))"

text \<open>The identity of a page, in the order it enters the key derivation.\<close>

record page_id =
  pg_spcOid :: Oid
  pg_dbOid :: Oid
  pg_relNumber :: Oid
  pg_forkNum :: "32 word"
  pg_blockNum :: "32 word"

definition page_info :: "page_id \<Rightarrow> bytes" where
  "page_info p = concat (map le32 [pg_spcOid p, pg_dbOid p, pg_relNumber p, pg_forkNum p, pg_blockNum p])"

definition tde_derive_page_iv :: "openssl \<Rightarrow> bytes \<Rightarrow> page_id \<Rightarrow> bytes result" where
  "tde_derive_page_iv ssl key p =
     (case evp_hkdf_sha256 ssl key (str_bytes ''FortressQL-TDE-Page-IV-v1'') (page_info p) TDE_IV_LEN of
        Step_failed 0 \<Rightarrow> Inl (PgError ERRCODE_OUT_OF_MEMORY ''TDE: failed to allocate HKDF context for page IV'')
      | Step_failed (Suc _) \<Rightarrow> Inl (PgError ERRCODE_INTERNAL_ERROR ''TDE: HKDF derivation failed for page IV'')
      | Steps_ok iv \<Rightarrow> Inr iv)"

section \<open>Key file round trip\<close>

interpretation header_code: fixed_code header_bytes parse_header 24
proof
  show "length (header_bytes h) = 24" for h
    by (simp add: header_bytes_def le32_code.enc_concat_length header_words_def)
  show "parse_header (header_bytes h @ r) = h" for h r
  proof -
    have "of_le32 (drop (4 * i) (header_bytes h @ r)) = header_words h ! i" if "i < 6" for i
      using le32_code.dec_concat_nth [of i "header_words h" r] that by (simp add: header_bytes_def header_words_def)
    from this [of 0] this [of 1] this [of 2] this [of 3] this [of 4] this [of 5] show ?thesis
      by (simp add: parse_header_def header_words_def)
  qed
qed

lemma fwrite_all_True:
  "fwrite_all room cs f = (True, f') \<Longrightarrow> f' = f @ concat cs \<and> list_all (\<lambda>c. c \<noteq> []) cs"
  by (induction room cs f rule: fwrite_all.induct) (auto split: if_splits)

lemma fread_all_concat:
  "list_all (\<lambda>c. c \<noteq> []) cs \<Longrightarrow> fread_all (map length cs) (concat cs @ r) = Some cs"
  by (induction cs) auto

lemma fread_all_short: "length f < sum_list ns \<Longrightarrow> fread_all ns f = None"
  by (induction ns f rule: fread_all.induct) auto

lemma parse_header_take: "24 \<le> length b \<Longrightarrow> parse_header (take 24 b) = parse_header b"
  by (simp add: parse_header_def of_le32_def)

text \<open>A file laid out as both writers lay it out is read back field by field.\<close>

lemma read_master_key_file_ok:
  assumes "hdr_magic h = TDE_MASTER_KEY_MAGIC" "hdr_version h = 1"
    "unat (hdr_pubkey_len h) = length pk" "unat (hdr_ciphertext_len h) = length ct"
    "0 < length pk" "length pk \<le> 8192" "0 < length ct" "length ct \<le> 8192"
    "length iv = 12" "length mk = 32" "length tag = 16"
  shows "read_master_key_file (header_bytes h @ pk @ ct @ iv @ mk @ tag) = Inr (h, [pk, ct, iv, mk, tag])"
proof -
  have "fread_all (map length [pk, ct, iv, mk, tag]) (concat [pk, ct, iv, mk, tag] @ []) = Some [pk, ct, iv, mk, tag]"
    using assms by (intro fread_all_concat) auto
  then have body: "fread_all [length pk, length ct, 12, 32, 16] (pk @ ct @ iv @ mk @ tag) = Some [pk, ct, iv, mk, tag]"
    using assms by simp
  have "parse_header (take 24 (header_bytes h @ pk @ ct @ iv @ mk @ tag)) = h"
    using header_code.dec_enc header_code.enc_length by (subst parse_header_take) simp_all
  moreover have "hdr_pubkey_len h \<noteq> 0" "hdr_ciphertext_len h \<noteq> 0"
    using assms by auto
  moreover have "\<not> hdr_pubkey_len h > 8192" "\<not> hdr_ciphertext_len h > 8192"
    using assms by (simp_all add: word_less_nat_alt)
  ultimately show ?thesis
    using assms body by (simp add: read_master_key_file_def Let_def header_code.enc_length)
qed

text \<open>Conversely an accepted file has all its fields in full.\<close>

lemma read_master_key_file_Inr_length:
  assumes "read_master_key_file file = Inr (h, body)"
  shows "length file \<ge> 24 + unat (hdr_pubkey_len h) + unat (hdr_ciphertext_len h) + 60"
proof (rule ccontr)
  assume "\<not> ?thesis"
  then have "length (drop 24 file) < sum_list [unat (hdr_pubkey_len h), unat (hdr_ciphertext_len h), 12, 32, 16]"
    by auto
  from fread_all_short [OF this] show False
    using assms by (auto simp: read_master_key_file_def Let_def simp del: fread_all.simps
        split: if_splits option.splits)
qed

section \<open>What key management leaves alone\<close>

lemma tde_fields_more:
  assumes "pqc_state.more s = pqc_state.more t"
  shows "TdeKeyCacheShmem s = TdeKeyCacheShmem t" "tde_enabled s = tde_enabled t"
    "MasterKey s = MasterKey t" "MasterKeyLoaded s = MasterKeyLoaded t" "master_key_file s = master_key_file t"
  using assms by (cases s; cases t; simp)+

lemma tde_write_master_key_file_frame:
  "TdeKeyCacheShmem (snd (tde_write_master_key_file os pk ct alg mk iv tag st)) = TdeKeyCacheShmem st"
  "tde_enabled (snd (tde_write_master_key_file os pk ct alg mk iv tag st)) = tde_enabled st"
  "MasterKey (snd (tde_write_master_key_file os pk ct alg mk iv tag st)) = MasterKey st"
  "MasterKeyLoaded (snd (tde_write_master_key_file os pk ct alg mk iv tag st)) = MasterKeyLoaded st"
  by (simp_all add: tde_write_master_key_file_def Let_def split: prod.split)

text \<open>The same for a call whose result is named, to follow a routine step by step.\<close>

lemma tde_step_frame:
  "pqc_kem_new L alg st = (r1, st') \<Longrightarrow> TdeKeyCacheShmem st' = TdeKeyCacheShmem st \<and> tde_enabled st' = tde_enabled st"
  "pqc_kem_keygen L ctx st = (r2, st') \<Longrightarrow> TdeKeyCacheShmem st' = TdeKeyCacheShmem st \<and> tde_enabled st' = tde_enabled st"
  "pqc_kem_encaps L ctx pk st = (r2, st') \<Longrightarrow> TdeKeyCacheShmem st' = TdeKeyCacheShmem st \<and> tde_enabled st' = tde_enabled st"
  "pqc_kem_decaps L ctx ct sk st = (r3, st') \<Longrightarrow> TdeKeyCacheShmem st' = TdeKeyCacheShmem st \<and> tde_enabled st' = tde_enabled st"
  "tde_write_master_key_file os pk2 ct2 alg2 mk iv tag st = (r4, st') \<Longrightarrow>
     TdeKeyCacheShmem st' = TdeKeyCacheShmem st \<and> tde_enabled st' = tde_enabled st"
  using tde_fields_more(1,2) [of st' st] pqc_kem_more [where st = st] tde_write_master_key_file_frame [of os pk2 ct2 alg2 mk iv tag st]
  by (metis snd_conv)+

lemma tde_generate_master_key_frame:
  "TdeKeyCacheShmem (snd (tde_generate_master_key ssl L os st)) = TdeKeyCacheShmem st \<and>
   tde_enabled (snd (tde_generate_master_key ssl L os st)) = tde_enabled st"
  unfolding tde_generate_master_key_def Let_def
  by (simp split: prod.split sum.split option.split PqcStatus.split evp_steps.split nat.split)
    (auto dest!: tde_step_frame)

lemma tde_unwrap_master_key_frame:
  "TdeKeyCacheShmem (snd (tde_unwrap_master_key ssl L env st)) = TdeKeyCacheShmem st \<and>
   tde_enabled (snd (tde_unwrap_master_key ssl L env st)) = tde_enabled st"
  unfolding tde_unwrap_master_key_def
  by (simp split: prod.split sum.split option.split PqcStatus.split evp_steps.split nat.split)
    (auto dest!: tde_step_frame)

lemma tde_rotate_master_key_Inr:
  assumes "tde_rotate_master_key ssl L os st = (Inr (), st')"
  shows "\<exists>c. TdeKeyCacheShmem st = Some c \<and> TdeKeyCacheShmem st' = Some (cache_invalidate c)"
    "tde_enabled st' = tde_enabled st"
  using assms tde_generate_master_key_frame [of ssl L os st]
  by (auto simp: tde_rotate_master_key_def tde_keycache_invalidate_def Let_def
      split: if_splits prod.splits sum.splits option.splits)

lemma tde_rotate_master_key_Inl:
  assumes "tde_rotate_master_key ssl L os st = (Inl e, st')" "TdeKeyCacheShmem st \<noteq> None"
  shows "MasterKey st' = MasterKey st" "MasterKeyLoaded st' = MasterKeyLoaded st"
    "TdeKeyCacheShmem st' = TdeKeyCacheShmem st" "tde_enabled st' = tde_enabled st"
  using assms tde_generate_master_key_frame [of ssl L os st]
  by (auto simp: tde_rotate_master_key_def tde_keycache_invalidate_def Let_def
      split: if_splits prod.splits sum.splits option.splits)

end
