(* ===== verification/BufPage.thy ===== *)
theory BufPage
  imports Prelude
begin

text \<open>
  Pages as the buffer manager sees them: the header fields of
  include/storage/bufpage.h, the checksum of include/storage/checksum_impl.h
  and the routines of backend/storage/page/bufpage.c that set and verify it.
  A page is the list of its BLCKSZ = 8192 bytes.
\<close>

section \<open>Header fields\<close>

abbreviation (input) "BLCKSZ \<equiv> 8192 :: nat"

definition field16 :: "bytes \<Rightarrow> nat \<Rightarrow> 16 word" where
  "field16 page off = ucast (page ! off) OR push_bit 8 (ucast (page ! (off + 1)))"

definition pd_checksum :: "bytes \<Rightarrow> 16 word" where "pd_checksum page = field16 page 8"
definition pd_flags :: "bytes \<Rightarrow> 16 word" where "pd_flags page = field16 page 10"
definition pd_lower :: "bytes \<Rightarrow> 16 word" where "pd_lower page = field16 page 12"
definition pd_upper :: "bytes \<Rightarrow> 16 word" where "pd_upper page = field16 page 14"
definition pd_special :: "bytes \<Rightarrow> 16 word" where "pd_special page = field16 page 16"

definition PageIsNew :: "bytes \<Rightarrow> bool" where
  "PageIsNew page \<longleftrightarrow> pd_upper page = 0"

definition set_pd_checksum :: "bytes \<Rightarrow> 16 word \<Rightarrow> bytes" where
  "set_pd_checksum page v = page[8 := ucast v, 9 := ucast (drop_bit 8 v)]"

section \<open>Checksum\<close>

abbreviation (input) "N_SUMS \<equiv> 32 :: nat"
abbreviation (input) "FNV_PRIME \<equiv> 16777619 :: 32 word"

definition checksumBaseOffsets :: "32 word list" where
  "checksumBaseOffsets =
     [0x5B1F36E9, 0xB8525960, 0x02AB50AA, 0x1DE66D2A, 0x79FF467A, 0x9BB9F8A3, 0x217E7CD2, 0x83E13D2C,
      0xF8D4474F, 0xE39EB970, 0x42C6AE16, 0x993216FA, 0x7B093B5D, 0x98DAFF3C, 0xF718902A, 0x0B1C9CDB,
      0xE58F764B, 0x187636BC, 0x5D7B3BB1, 0xE73DE7DE, 0x92BEC979, 0xCCA6C0B2, 0x304A0979, 0x85AA43D4,
      0x783125BB, 0x6CA8EAA2, 0xE407EAC6, 0x4B5CFC3E, 0x9FBF8C76, 0x15CA20BE, 0xF2CA9FD3, 0x959BD756]"

definition CHECKSUM_COMP :: "32 word \<Rightarrow> 32 word \<Rightarrow> 32 word" where
  "CHECKSUM_COMP checksum v = (let tmp = checksum XOR v in (tmp * FNV_PRIME) XOR drop_bit 17 tmp)"

definition pg_checksum_block :: "bytes \<Rightarrow> 32 word" where
  "pg_checksum_block page =
     (let row = (\<lambda>i. map (\<lambda>j. of_le32 (drop (4 * (N_SUMS * i + j)) page)) [0..<N_SUMS]);
          sums = fold (\<lambda>i sums. map2 CHECKSUM_COMP sums (row i)) [0..<64] checksumBaseOffsets;
          sums2 = fold (\<lambda>i sums. map (\<lambda>s. CHECKSUM_COMP s 0) sums) [0..<2] sums
      in fold (\<lambda>s result. result XOR s) sums2 0)"

definition pg_checksum_page :: "bytes \<Rightarrow> 32 word \<Rightarrow> 16 word" where
  "pg_checksum_page page blkno =
     (let checksum = pg_checksum_block (set_pd_checksum page 0) XOR blkno in ucast (checksum mod 65535 + 1))"

text \<open>What PageSetChecksumCopy and PageSetChecksumInplace store; checksums is
  DataChecksumsEnabled().  The copy differs from its argument exactly when a
  checksum is computed.\<close>

definition PageSetChecksumInplace :: "bool \<Rightarrow> bytes \<Rightarrow> 32 word \<Rightarrow> bytes" where
  "PageSetChecksumInplace checksums page blkno =
     (if PageIsNew page \<or> \<not> checksums then page else set_pd_checksum page (pg_checksum_page page blkno))"

definition header_sane :: "bytes \<Rightarrow> bool" where
  "header_sane page \<longleftrightarrow> pd_flags page AND NOT 0x0007 = 0 \<and> pd_lower page \<le> pd_upper page \<and>
     pd_upper page \<le> pd_special page \<and> unat (pd_special page) \<le> BLCKSZ \<and>
     (unat (pd_special page) + 7) div 8 * 8 = unat (pd_special page)"

definition PageIsVerifiedExtended :: "bool \<Rightarrow> bool \<Rightarrow> bytes \<Rightarrow> 32 word \<Rightarrow> bool" where
  "PageIsVerifiedExtended checksums ignore_checksum_failure page blkno =
     (let checksum_failure = (\<not> PageIsNew page \<and> checksums \<and> pg_checksum_page page blkno \<noteq> pd_checksum page);
          sane = (\<not> PageIsNew page \<and> header_sane page)
      in if sane \<and> \<not> checksum_failure then True
         else if list_all (\<lambda>b. b = 0) page then True
         else checksum_failure \<and> sane \<and> ignore_checksum_failure)"

section \<open>Facts\<close>

lemma length_set_pd_checksum [simp]: "length (set_pd_checksum page v) = length page"
  by (simp add: set_pd_checksum_def)

lemma set_pd_checksum_twice: "set_pd_checksum (set_pd_checksum page v) w = set_pd_checksum page w"
  by (simp add: set_pd_checksum_def list_update_swap)

lemma field16_set_pd_checksum:
  "10 \<le> off \<Longrightarrow> field16 (set_pd_checksum page v) off = field16 page off"
  by (simp add: field16_def set_pd_checksum_def)

lemma pd_checksum_set:
  assumes "10 \<le> length page"
  shows "pd_checksum (set_pd_checksum page v) = v"
proof -
  have "(ucast (ucast v :: byte) :: 16 word) OR push_bit 8 (ucast (ucast (drop_bit 8 v) :: byte)) = v"
  proof (rule bit_word_eqI)
    fix n
    assume "n < LENGTH(16)"
    then consider "n < 8" | "8 \<le> n" "n < 16"
      by fastforce
    then show "bit ((ucast (ucast v :: byte) :: 16 word) OR push_bit 8 (ucast (ucast (drop_bit 8 v) :: byte))) n = bit v n"
      by cases (auto simp: bit_simps)
  qed
  then show ?thesis
    using assms by (simp add: pd_checksum_def field16_def set_pd_checksum_def)
qed

text \<open>The checksum does not depend on the checksum field.\<close>

lemma pg_checksum_page_set: "pg_checksum_page (set_pd_checksum page v) blkno = pg_checksum_page page blkno"
  by (simp add: pg_checksum_page_def set_pd_checksum_twice)

lemma PageIsNew_set [simp]: "PageIsNew (set_pd_checksum page v) = PageIsNew page"
  by (simp add: PageIsNew_def pd_upper_def field16_set_pd_checksum)

lemma header_sane_set [simp]: "header_sane (set_pd_checksum page v) = header_sane page"
  by (simp add: header_sane_def pd_flags_def pd_lower_def pd_upper_def pd_special_def field16_set_pd_checksum)

lemma PageIsNew_checksum [simp]: "PageIsNew (PageSetChecksumInplace cks page blkno) = PageIsNew page"
  by (simp add: PageSetChecksumInplace_def)

lemma length_PageSetChecksumInplace [simp]: "length (PageSetChecksumInplace cks page blkno) = length page"
  by (simp add: PageSetChecksumInplace_def)

text \<open>A page that was sane and got its checksum verifies.\<close>

lemma PageIsVerified_checksummed:
  assumes "\<not> PageIsNew page" "header_sane page" "10 \<le> length page"
  shows "PageIsVerifiedExtended cks ign (PageSetChecksumInplace cks page blkno) blkno"
  using assms by (simp add: PageIsVerifiedExtended_def PageSetChecksumInplace_def Let_def pd_checksum_set pg_checksum_page_set)

text \<open>Header fields are read from the first 24 bytes only.\<close>

lemma field16_prefix: "off + 1 < 24 \<Longrightarrow> 24 \<le> length a \<Longrightarrow> field16 (take 24 a @ d) off = field16 a off"
  by (simp add: field16_def nth_append)

lemma PageIsNew_prefix: "24 \<le> length a \<Longrightarrow> PageIsNew (take 24 a @ d) = PageIsNew a"
  by (simp add: PageIsNew_def pd_upper_def field16_prefix)

lemma header_sane_prefix: "24 \<le> length a \<Longrightarrow> header_sane (take 24 a @ d) = header_sane a"
  by (simp add: header_sane_def pd_flags_def pd_lower_def pd_upper_def pd_special_def field16_prefix)

end
