(* ===== verification/TdePage.thy ===== *)
theory TdePage
  imports TdeKeyManage BufPage
begin

text \<open>
  Page encryption: backend/crypto/tde/tde_page.c.  The routines work in place;
  each returns the error it raised, if any, together with the page as it
  leaves it.
\<close>

section \<open>Definitions\<close>

abbreviation (input) "TDE_PAGE_HEADER_SIZE \<equiv> 24 :: nat"

definition tde_page_crypt ::
  "openssl \<Rightarrow> 'a tde_state_scheme \<Rightarrow> page_id \<Rightarrow> bytes \<Rightarrow> pg_error option \<times> bytes" where
  "tde_page_crypt ssl st p page =
     (if length page \<le> TDE_PAGE_HEADER_SIZE
      then (Some (PgError ERRCODE_DATA_CORRUPTED ''TDE: page size is too small for encryption''), page)
      else case tde_keycache_lookup st (pg_spcOid p) of
        Inl e \<Rightarrow> (Some e, page)
      | Inr None \<Rightarrow> (Some (PgError ERRCODE_INTERNAL_ERROR ''TDE: no encryption key found for tablespace''), page)
      | Inr (Some entry) \<Rightarrow>
        (case tde_derive_page_iv ssl (tdek entry) p of
          Inl e \<Rightarrow> (Some e, page)
        | Inr iv \<Rightarrow>
          let header = take TDE_PAGE_HEADER_SIZE page; payload = drop TDE_PAGE_HEADER_SIZE page in
          (case evp_aes_256_ctr ssl (tdek entry) iv payload of
            Evp_ctx_null \<Rightarrow> (Some (PgError ERRCODE_OUT_OF_MEMORY ''TDE: failed to allocate cipher context''), page)
          | Evp_init_failed \<Rightarrow> (Some (PgError ERRCODE_INTERNAL_ERROR
              ''TDE: failed to initialize AES-256-CTR for page''), page)
          | Evp_update_failed out \<Rightarrow> (Some (PgError ERRCODE_INTERNAL_ERROR
              ''TDE: AES-256-CTR encryption/decryption failed for page''), header @ out)
          | Evp_final_failed out \<Rightarrow> (Some (PgError ERRCODE_INTERNAL_ERROR
              ''TDE: AES-256-CTR finalization failed for page''), header @ out)
          | Evp_ok out \<Rightarrow> (None, header @ out))))"

text \<open>Encryption either returns the page or stops the server.\<close>

datatype encrypt_outcome = Encrypted bytes | Panic string

definition tde_encrypt_page :: "openssl \<Rightarrow> 'a tde_state_scheme \<Rightarrow> page_id \<Rightarrow> bytes \<Rightarrow> encrypt_outcome" where
  "tde_encrypt_page ssl st p page =
     (case tde_page_crypt ssl st p page of
        (None, page') \<Rightarrow> Encrypted page'
      | (Some _, _) \<Rightarrow> Panic ''TDE: encryption failed for page'')"

text \<open>Decryption reports a failure as a warning (True) and keeps the page as it is then.\<close>

definition tde_decrypt_page :: "openssl \<Rightarrow> 'a tde_state_scheme \<Rightarrow> page_id \<Rightarrow> bytes \<Rightarrow> bool \<times> bytes" where
  "tde_decrypt_page ssl st p page =
     (case tde_page_crypt ssl st p page of
        (None, page') \<Rightarrow> (False, page')
      | (Some _, page') \<Rightarrow> (True, page'))"

section \<open>Behaviour under a working cipher\<close>

text \<open>The pad that masks the payload of a page.\<close>

definition page_pad :: "(bytes \<Rightarrow> bytes \<Rightarrow> nat \<Rightarrow> byte) \<Rightarrow> bytes \<Rightarrow> bytes \<Rightarrow> nat \<Rightarrow> bytes" where
  "page_pad pad key iv n = map (pad key iv) [0..<n]"

lemma length_page_pad [simp]: "length (page_pad pad key iv n) = n"
  by (simp add: page_pad_def)

lemma tde_page_crypt_ok:
  assumes "ctr_mode ssl pad" "tde_keycache_lookup st (pg_spcOid p) = Inr (Some entry)"
    "tde_derive_page_iv ssl (tdek entry) p = Inr iv" "24 < length page"
  shows "tde_page_crypt ssl st p page =
    (None, take 24 page @ xor_bytes (drop 24 page) (page_pad pad (tdek entry) iv (length page - 24)))"
  using assms by (simp add: tde_page_crypt_def ctr_mode_def page_pad_def Let_def)

lemma tde_page_crypt_twice:
  assumes "ctr_mode ssl pad" "tde_keycache_lookup st (pg_spcOid p) = Inr (Some entry)"
    "tde_derive_page_iv ssl (tdek entry) p = Inr iv" "24 < length page"
    "tde_page_crypt ssl st p page = (None, page')"
  shows "tde_page_crypt ssl st p page' = (None, page)"
proof -
  let ?pad = "page_pad pad (tdek entry) iv (length page - 24)"
  have page': "page' = take 24 page @ xor_bytes (drop 24 page) ?pad"
    using tde_page_crypt_ok [OF assms(1-4)] assms(5) by simp
  then have "tde_page_crypt ssl st p page' =
      (None, take 24 page @ xor_bytes (xor_bytes (drop 24 page) ?pad) ?pad)"
    using tde_page_crypt_ok [OF assms(1-3), of page'] assms(4) by simp
  also have "xor_bytes (xor_bytes (drop 24 page) ?pad) ?pad = drop 24 page"
    by (rule xor_bytes_cancel) simp
  finally show ?thesis
    by simp
qed

lemma page_info_inject: "page_info p = page_info q \<longleftrightarrow> p = q"
proof
  assume "page_info p = page_info q"
  then have "[pg_spcOid p, pg_dbOid p, pg_relNumber p, pg_forkNum p, pg_blockNum p] =
      [pg_spcOid q, pg_dbOid q, pg_relNumber q, pg_forkNum q, pg_blockNum q]"
    unfolding page_info_def by (subst (asm) le32_code.enc_concat_inject) simp_all
  then show "p = q"
    by (cases p; cases q) simp
qed simp

end
