(* ===== verification/BufMgr.thy ===== *)
theory BufMgr
  imports TdePage Samples
begin

text \<open>
  The encryption hooks of the buffer manager: FlushBuffer and the
  verification loop of WaitReadBuffers in backend/storage/buffer/bufmgr.c, and
  the page write of backend/storage/smgr/bulk_write.c that bypasses them.
  FlushBuffer passes pointers, so the memory it works on is explicit: the
  buffer pool's page and the two static copies.  The write-ahead flush, I/O
  accounting and buffer locking around the write are not part of the model.
\<close>

section \<open>Writing a buffer\<close>

datatype page_ptr = BufBlock | PageCopy | TdePageCopy

record flush_mem =
  buf_block :: bytes
  page_copy :: "bytes option"
  tde_page_copy :: "bytes option"

type_synonym disk = "page_id \<Rightarrow> bytes option"

definition load_page :: "flush_mem \<Rightarrow> page_ptr \<Rightarrow> bytes" where
  "load_page m ptr = (case ptr of BufBlock \<Rightarrow> buf_block m | PageCopy \<Rightarrow> the (page_copy m)
     | TdePageCopy \<Rightarrow> the (tde_page_copy m))"

definition store_page :: "flush_mem \<Rightarrow> page_ptr \<Rightarrow> bytes \<Rightarrow> flush_mem" where
  "store_page m ptr page = (case ptr of BufBlock \<Rightarrow> m\<lparr>buf_block := page\<rparr> | PageCopy \<Rightarrow> m\<lparr>page_copy := Some page\<rparr>
     | TdePageCopy \<Rightarrow> m\<lparr>tde_page_copy := Some page\<rparr>)"

text \<open>PageSetChecksumCopy returns its argument when no checksum is due.\<close>

definition PageSetChecksumCopy :: "bool \<Rightarrow> flush_mem \<Rightarrow> 32 word \<Rightarrow> page_ptr \<times> flush_mem" where
  "PageSetChecksumCopy checksums m blkno =
     (if PageIsNew (buf_block m) \<or> \<not> checksums then (BufBlock, m)
      else (PageCopy, store_page m PageCopy
        (set_pd_checksum (buf_block m) (pg_checksum_page (buf_block m) blkno))))"

datatype flush_outcome = Written | AlreadyFlushed | FlushError pg_error | FlushPanic string

definition FlushBuffer ::
  "openssl \<Rightarrow> bool \<Rightarrow> bool \<Rightarrow> 'a tde_state_scheme \<Rightarrow> page_id \<Rightarrow> flush_mem \<Rightarrow> disk \<Rightarrow>
     flush_outcome \<times> flush_mem \<times> disk" where
  "FlushBuffer ssl start_io checksums st p m d =
     (if \<not> start_io then (AlreadyFlushed, m, d)
      else case PageSetChecksumCopy checksums m (pg_blockNum p) of (bufToWrite, m1) \<Rightarrow>
        if \<not> tde_enabled st then (Written, m1, d(p \<mapsto> load_page m1 bufToWrite))
        else (case tde_keycache_lookup st (pg_spcOid p) of
          Inl e \<Rightarrow> (FlushError e, m1, d)
        | Inr None \<Rightarrow> (Written, m1, d(p \<mapsto> load_page m1 bufToWrite))
        | Inr (Some _) \<Rightarrow>
            let (ptr, m2) = (if bufToWrite = BufBlock
                  then (TdePageCopy, store_page m1 TdePageCopy (load_page m1 bufToWrite))
                  else (bufToWrite, m1)) in
            (case tde_encrypt_page ssl st p (load_page m2 ptr) of
               Panic msg \<Rightarrow> (FlushPanic msg, m2, d)
             | Encrypted page \<Rightarrow> (Written, store_page m2 ptr page, d(p \<mapsto> page)))))"

section \<open>Reading a block\<close>

definition read_decrypt :: "openssl \<Rightarrow> 'a tde_state_scheme \<Rightarrow> page_id \<Rightarrow> bytes \<Rightarrow> bytes result" where
  "read_decrypt ssl st p page =
     (if tde_enabled st \<and> \<not> PageIsNew page
      then (case tde_keycache_lookup st (pg_spcOid p) of
          Inl e \<Rightarrow> Inl e
        | Inr None \<Rightarrow> Inr page
        | Inr (Some _) \<Rightarrow> Inr (snd (tde_decrypt_page ssl st p page)))
      else Inr page)"

text \<open>One turn of the loop over the blocks just read; zero stands for
  READ_BUFFERS_ZERO_ON_ERROR or zero_damaged_pages.\<close>

definition WaitReadBuffers_block ::
  "openssl \<Rightarrow> bool \<Rightarrow> bool \<Rightarrow> bool \<Rightarrow> 'a tde_state_scheme \<Rightarrow> page_id \<Rightarrow> bytes \<Rightarrow> bytes result" where
  "WaitReadBuffers_block ssl checksums ignore_failure zero st p page =
     (case read_decrypt ssl st p page of
        Inl e \<Rightarrow> Inl e
      | Inr page' \<Rightarrow>
          if PageIsVerifiedExtended checksums ignore_failure page' (pg_blockNum p) then Inr page'
          else if zero then Inr (replicate BLCKSZ 0)
          else Inl (PgError ERRCODE_DATA_CORRUPTED ''invalid page in block''))"

text \<open>Reading a block that exists on disk.\<close>

definition read_block ::
  "openssl \<Rightarrow> bool \<Rightarrow> bool \<Rightarrow> bool \<Rightarrow> 'a tde_state_scheme \<Rightarrow> page_id \<Rightarrow> disk \<Rightarrow> bytes result option" where
  "read_block ssl checksums ignore_failure zero st p d =
     map_option (WaitReadBuffers_block ssl checksums ignore_failure zero st p) (d p)"

section \<open>Bulk writes\<close>

text \<open>The loop body of smgr_bulk_flush: block blkno of the fork of p, the blocks
  between the current end and it filled with zeroes.\<close>

definition bulk_write_page ::
  "bool \<Rightarrow> page_id \<Rightarrow> nat \<Rightarrow> bytes \<Rightarrow> nat \<times> disk \<Rightarrow> nat \<times> disk" where
  "bulk_write_page checksums p blkno page rd =
     (case rd of (relsize, d) \<Rightarrow>
        let page' = PageSetChecksumInplace checksums page (of_nat blkno) in
        if blkno \<ge> relsize
        then (blkno + 1,
          (fold (\<lambda>b d. d(p\<lparr>pg_blockNum := of_nat b\<rparr> \<mapsto> replicate BLCKSZ 0)) [relsize..<blkno] d)
            (p\<lparr>pg_blockNum := of_nat blkno\<rparr> \<mapsto> page'))
        else (relsize, d(p\<lparr>pg_blockNum := of_nat blkno\<rparr> \<mapsto> page')))"

section \<open>Properties\<close>

lemma tde_encrypt_page_Encrypted:
  "tde_encrypt_page ssl st p page = Encrypted page' \<longleftrightarrow> tde_page_crypt ssl st p page = (None, page')"
  by (auto simp: tde_encrypt_page_def split: prod.splits option.splits)

text \<open>What a successful flush puts on disk.\<close>

lemma FlushBuffer_Written:
  assumes "FlushBuffer ssl True checksums st p m d = (Written, m', d')"
  shows "\<exists>page. d' = d(p \<mapsto> page) \<and>
    (if tde_enabled st \<and> (\<exists>e. tde_keycache_lookup st (pg_spcOid p) = Inr (Some e))
     then tde_page_crypt ssl st p (PageSetChecksumInplace checksums (buf_block m) (pg_blockNum p)) = (None, page)
     else page = PageSetChecksumInplace checksums (buf_block m) (pg_blockNum p))"
  using assms
  by (auto simp: FlushBuffer_def PageSetChecksumCopy_def PageSetChecksumInplace_def load_page_def store_page_def
      tde_encrypt_page_Encrypted Let_def split: if_splits sum.splits option.splits encrypt_outcome.splits)

lemma tde_page_crypt_None:
  assumes "tde_page_crypt ssl st p page = (None, page')"
  obtains entry iv where "24 < length page" "tde_keycache_lookup st (pg_spcOid p) = Inr (Some entry)"
    "tde_derive_page_iv ssl (tdek entry) p = Inr iv"
  using assms by (auto simp: tde_page_crypt_def Let_def split: if_splits sum.splits option.splits)

lemma tde_page_crypt_cong:
  "tde_keycache_lookup st' (pg_spcOid p) = tde_keycache_lookup st (pg_spcOid p) \<Longrightarrow>
     tde_page_crypt ssl st' p page = tde_page_crypt ssl st p page"
  by (simp add: tde_page_crypt_def)

lemma read_decrypt_flushed:
  assumes "ctr_mode ssl pad" "tde_page_crypt ssl st p page = (None, page')" "\<not> PageIsNew page"
    "tde_enabled st"
  shows "read_decrypt ssl st p page' = Inr page"
proof -
  obtain entry iv where k: "24 < length page" "tde_keycache_lookup st (pg_spcOid p) = Inr (Some entry)"
    "tde_derive_page_iv ssl (tdek entry) p = Inr iv"
    using assms(2) by (rule tde_page_crypt_None)
  have "tde_page_crypt ssl st p page' = (None, page)"
    by (rule tde_page_crypt_twice [OF assms(1) k(2,3,1) assms(2)])
  moreover have "\<not> PageIsNew page'"
    using tde_page_crypt_ok [OF assms(1) k(2,3,1)] assms(2,3) k(1) by (auto simp: PageIsNew_prefix)
  ultimately show ?thesis
    using assms(4) k(2) by (simp add: read_decrypt_def tde_decrypt_page_def)
qed

text \<open>A flush changes only the static copies in memory, and the disk only
  when it reports the page as written.\<close>

lemma FlushBuffer_pool:
  "case FlushBuffer ssl start_io checksums st p m d of (outcome, m', d') \<Rightarrow>
     buf_block m' = buf_block m \<and> (if outcome = Written then \<exists>page. d' = d(p \<mapsto> page) else d' = d)"
  by (auto simp: FlushBuffer_def PageSetChecksumCopy_def store_page_def Let_def
      split: sum.split option.split encrypt_outcome.split)

text \<open>C2: A page survives the disk.  After FlushBuffer wrote an initialised page
  with a sane header, and whatever keys other tablespaces received in the
  meantime, reading the block returns the page that was in the buffer, with
  its checksum set when checksums are on: encryption, key lookup and
  verification compose to the identity, with and without a tablespace key.\<close>

theorem flush_read_roundtrip:
  assumes ctr: "ctr_mode ssl pad"
    and flush: "FlushBuffer ssl True checksums st p m d = (Written, m', d')"
    and page: "length (buf_block m) = 8192" "\<not> PageIsNew (buf_block m)" "header_sane (buf_block m)"
    and cache: "TdeKeyCacheShmem st = Some c" "cache_inv c"
    and others: "insert_all cache_insert es c = Some c'" "pg_spcOid p \<notin> spc_oid ` set es"
  shows "read_block ssl checksums ign zero (st\<lparr>TdeKeyCacheShmem := Some c'\<rparr>) p d' =
    Some (Inr (PageSetChecksumInplace checksums (buf_block m) (pg_blockNum p)))"
proof -
  let ?st' = "st\<lparr>TdeKeyCacheShmem := Some c'\<rparr>"
    and ?page = "PageSetChecksumInplace checksums (buf_block m) (pg_blockNum p)"
  have lookup: "tde_keycache_lookup ?st' (pg_spcOid p) = tde_keycache_lookup st (pg_spcOid p)"
    using keycache.insert_all_other [OF cache(2) others] cache(1) by (simp add: tde_keycache_lookup_def)
  obtain stored where d': "d' = d(p \<mapsto> stored)"
    and stored: "if tde_enabled st \<and> (\<exists>e. tde_keycache_lookup st (pg_spcOid p) = Inr (Some e))
      then tde_page_crypt ssl st p ?page = (None, stored) else stored = ?page"
    using FlushBuffer_Written [OF flush] by blast
  have "read_decrypt ssl ?st' p stored = Inr ?page"
  proof (cases "tde_enabled st \<and> (\<exists>e. tde_keycache_lookup st (pg_spcOid p) = Inr (Some e))")
    case True
    then show ?thesis
      using stored page(2) by (intro read_decrypt_flushed [OF ctr]) (simp_all add: tde_page_crypt_cong [OF lookup])
  next
    case False
    moreover have "\<exists>r. tde_keycache_lookup st (pg_spcOid p) = Inr r"
      using cache(1) by (simp add: tde_keycache_lookup_def)
    ultimately show ?thesis
      using stored lookup by (auto simp: read_decrypt_def split: option.splits)
  qed
  moreover have "PageIsVerifiedExtended checksums ign ?page (pg_blockNum p)"
    using page by (intro PageIsVerified_checksummed) simp_all
  ultimately show ?thesis
    using d' by (simp add: read_block_def WaitReadBuffers_block_def)
qed

definition sample_entry :: "Oid \<Rightarrow> TdeKeyEntry" where
  "sample_entry oid = \<lparr>spc_oid = oid, tdek = replicate 32 5, key_version = 1, active = True\<rparr>"

definition sample_cache :: TdeKeyCache where
  "sample_cache = \<lparr>num_entries = 1, entries = (replicate 256 zero_entry)[0 := sample_entry 1663]\<rparr>"

definition sample_tde :: tde_state where
  "sample_tde = \<lparr>pqc_initialized = False, pqc_algorithms = pqc_algorithms_table, pqc_stat_counters = None, coins = 0,
     tde_enabled = True, TdeKeyCacheShmem = Some sample_cache, MasterKey = replicate 32 1, MasterKeyLoaded = True,
     MasterKeyExitRegistered = True, master_key_file = None\<rparr>"

definition sample_pid :: page_id where
  "sample_pid = \<lparr>pg_spcOid = 1663, pg_dbOid = 5, pg_relNumber = 16384, pg_forkNum = 0, pg_blockNum = 7\<rparr>"

definition sample_page :: "byte \<Rightarrow> bytes" where
  "sample_page b = replicate 12 0 @ [24, 0, 0, 0x20, 0, 0x20, 4, 0x20, 0, 0, 0, 0] @ replicate 8168 b"

definition sample_mem :: "bytes \<Rightarrow> flush_mem" where
  "sample_mem page = \<lparr>buf_block = page, page_copy = None, tde_page_copy = None\<rparr>"

lemma sample_page_facts:
  "length (sample_page b) = 8192" "\<not> PageIsNew (sample_page b)" "header_sane (sample_page b)"
  by (simp_all add: sample_page_def PageIsNew_def header_sane_def pd_upper_def pd_lower_def pd_flags_def pd_special_def
      field16_def nth_append)

lemma sample_cache_facts:
  "cache_inv sample_cache" "cache_lookup sample_cache 1663 = Some (sample_entry 1663)"
  "insert_all cache_insert [sample_entry 1700] sample_cache =
     Some (sample_cache\<lparr>num_entries := 2, entries := (entries sample_cache)[1 := sample_entry 1700]\<rparr>)"
  by (simp_all add: cache_inv_def sample_cache_def cache_lookup_def sample_entry_def cache_insert_def
      take_Suc_conv_app_nth)

lemma sample_lookup: "tde_keycache_lookup sample_tde (pg_spcOid sample_pid) = Inr (Some (sample_entry 1663))"
  using sample_cache_facts(2) by (simp add: tde_keycache_lookup_def sample_tde_def sample_pid_def)

lemma sample_iv: "\<exists>iv. tde_derive_page_iv sample_ssl key sample_pid = Inr iv"
  by (simp add: tde_derive_page_iv_def sample_ssl_def)

text \<open>With a key and a working cipher the flush goes through.\<close>

lemma FlushBuffer_encrypts:
  assumes "ctr_mode ssl pad" "tde_enabled st" "tde_keycache_lookup st (pg_spcOid p) = Inr (Some entry)"
    "tde_derive_page_iv ssl (tdek entry) p = Inr iv" "length (buf_block m) = 8192"
  shows "\<exists>m'. FlushBuffer ssl True checksums st p m d = (Written, m', d(p \<mapsto>
    (let page = PageSetChecksumInplace checksums (buf_block m) (pg_blockNum p) in
     take 24 page @ xor_bytes (drop 24 page) (page_pad pad (tdek entry) iv 8168))))"
proof -
  have "tde_encrypt_page ssl st p page = Encrypted (take 24 page @ xor_bytes (drop 24 page) (page_pad pad (tdek entry) iv 8168))"
    if "length page = 8192" for page
    using tde_page_crypt_ok [OF assms(1,3,4), of page] that by (simp add: tde_encrypt_page_Encrypted)
  then show ?thesis
    using assms(2,3,5)
    by (auto simp: FlushBuffer_def PageSetChecksumCopy_def PageSetChecksumInplace_def load_page_def store_page_def Let_def)
qed

theorem flush_read_roundtrip_witness:
  "\<exists>m' d'. FlushBuffer sample_ssl True False sample_tde sample_pid (sample_mem (sample_page 7)) Map.empty = (Written, m', d') \<and>
     read_block sample_ssl False False False
       (sample_tde\<lparr>TdeKeyCacheShmem := Some (sample_cache\<lparr>num_entries := 2,
          entries := (entries sample_cache)[1 := sample_entry 1700]\<rparr>)\<rparr>) sample_pid d' = Some (Inr (sample_page 7))"
proof -
  obtain iv where iv: "tde_derive_page_iv sample_ssl (tdek (sample_entry 1663)) sample_pid = Inr iv"
    using sample_iv by blast
  obtain m' d' where flush:
    "FlushBuffer sample_ssl True False sample_tde sample_pid (sample_mem (sample_page 7)) Map.empty = (Written, m', d')"
    using FlushBuffer_encrypts [OF ctr_mode_sample _ sample_lookup iv, of "sample_mem (sample_page 7)" False Map.empty]
    by (auto simp: sample_tde_def sample_mem_def sample_page_facts)
  have "pg_spcOid sample_pid \<notin> spc_oid ` set [sample_entry 1700]"
    by (simp add: sample_pid_def sample_entry_def)
  then show ?thesis
    using flush_read_roundtrip [OF ctr_mode_sample flush, of sample_cache "[sample_entry 1700]" _ False False]
      sample_cache_facts flush
    by (simp add: sample_mem_def sample_page_facts sample_tde_def PageSetChecksumInplace_def)
qed

text \<open>C15: What a flush with encryption on and a key for the tablespace stores:
  the page header in clear, the payload masked with the pad of the page's
  key and IV, on the block's place and nowhere else; the pool's copy of the
  page is as it was.\<close>

theorem flush_encrypts:
  assumes "ctr_mode ssl pad" "tde_enabled st" "tde_keycache_lookup st (pg_spcOid p) = Inr (Some entry)"
    "tde_derive_page_iv ssl (tdek entry) p = Inr iv" "length (buf_block m) = 8192"
  shows "\<exists>m'. buf_block m' = buf_block m \<and> FlushBuffer ssl True checksums st p m d = (Written, m', d(p \<mapsto>
    (let page = PageSetChecksumInplace checksums (buf_block m) (pg_blockNum p) in
     take 24 page @ xor_bytes (drop 24 page) (page_pad pad (tdek entry) iv 8168))))"
  using FlushBuffer_encrypts [OF assms, of checksums d] FlushBuffer_pool [where ssl = ssl and start_io = True and checksums = checksums and st = st and p = p and m = m and d = d]
  by fastforce

theorem flush_encrypts_witness:
  "\<exists>iv m'. tde_derive_page_iv sample_ssl (replicate 32 5) sample_pid = Inr iv \<and>
     FlushBuffer sample_ssl True False sample_tde sample_pid (sample_mem (sample_page 7)) Map.empty =
       (Written, m', [sample_pid \<mapsto> take 24 (sample_page 7) @
          xor_bytes (replicate 8168 7) (page_pad sample_pad (replicate 32 5) iv 8168)])"
proof -
  obtain iv where iv: "tde_derive_page_iv sample_ssl (tdek (sample_entry 1663)) sample_pid = Inr iv"
    using sample_iv by blast
  have "drop 24 (sample_page 7) = replicate 8168 7"
    by (simp add: sample_page_def)
  then show ?thesis
    using flush_encrypts [OF ctr_mode_sample _ sample_lookup iv, of "sample_mem (sample_page 7)" False Map.empty] iv
    by (auto simp: sample_tde_def sample_mem_def sample_page_facts PageSetChecksumInplace_def sample_entry_def)
qed

text \<open>C40: Rewriting a page leaks: the IV depends on the page's identity alone, so
  two versions of a page stored under one key are masked with one pad, and
  the XOR of the stored payloads is the XOR of the plaintext payloads.\<close>

theorem rewrite_reuses_pad:
  assumes ctr: "ctr_mode ssl pad"
    and on: "tde_enabled st" "tde_keycache_lookup st (pg_spcOid p) = Inr (Some entry)"
    and len: "length (buf_block m1) = 8192" "length (buf_block m2) = 8192"
    and flush: "FlushBuffer ssl True checksums st p m1 d1 = (Written, m1', d1')"
      "FlushBuffer ssl True checksums st p m2 d2 = (Written, m2', d2')"
  shows "xor_bytes (drop 24 (the (d1' p))) (drop 24 (the (d2' p))) =
    xor_bytes (drop 24 (PageSetChecksumInplace checksums (buf_block m1) (pg_blockNum p)))
      (drop 24 (PageSetChecksumInplace checksums (buf_block m2) (pg_blockNum p)))"
proof -
  obtain stored where "tde_page_crypt ssl st p (PageSetChecksumInplace checksums (buf_block m1) (pg_blockNum p)) = (None, stored)"
    using FlushBuffer_Written [OF flush(1)] on by auto
  then obtain iv where "tde_derive_page_iv ssl (tdek entry) p = Inr iv"
    using on(2) by (elim tde_page_crypt_None) simp
  then show ?thesis
    using FlushBuffer_encrypts [OF ctr on _ len(1), of iv checksums d1] FlushBuffer_encrypts [OF ctr on _ len(2), of iv checksums d2]
      flush len by (auto simp: Let_def xor_bytes_same_pad)
qed

theorem rewrite_reuses_pad_witness:
  "\<exists>m1 d1 m2 d2. FlushBuffer sample_ssl True False sample_tde sample_pid (sample_mem (sample_page 7)) Map.empty = (Written, m1, d1) \<and>
     FlushBuffer sample_ssl True False sample_tde sample_pid (sample_mem (sample_page 9)) d1 = (Written, m2, d2) \<and>
     xor_bytes (drop 24 (the (d1 sample_pid))) (drop 24 (the (d2 sample_pid))) = xor_bytes (replicate 8168 7) (replicate 8168 9)"
proof -
  obtain iv where iv: "tde_derive_page_iv sample_ssl (tdek (sample_entry 1663)) sample_pid = Inr iv"
    using sample_iv by blast
  have on: "tde_enabled sample_tde" and len: "length (buf_block (sample_mem (sample_page b))) = 8192"
    and pl: "drop 24 (sample_page b) = replicate 8168 b" for b
    by (simp_all add: sample_tde_def sample_mem_def sample_page_facts) (simp add: sample_page_def)
  obtain m1 d1 where f1: "FlushBuffer sample_ssl True False sample_tde sample_pid (sample_mem (sample_page 7)) Map.empty = (Written, m1, d1)"
    using FlushBuffer_encrypts [OF ctr_mode_sample on sample_lookup iv len] by blast
  moreover obtain m2 d2 where f2: "FlushBuffer sample_ssl True False sample_tde sample_pid (sample_mem (sample_page 9)) d1 = (Written, m2, d2)"
    using FlushBuffer_encrypts [OF ctr_mode_sample on sample_lookup iv len] by blast
  ultimately show ?thesis
    using rewrite_reuses_pad [OF ctr_mode_sample on sample_lookup len len f1 f2]
    by (simp add: sample_mem_def PageSetChecksumInplace_def pl)
qed

text \<open>New pages do not survive.  FlushBuffer encrypts an all-zero page like
  any other; its header stays zero, so the read side takes it for a new page,
  does not decrypt it, and reports an invalid page.\<close>

theorem new_page_unreadable:
  assumes "ctr_mode ssl pad" "tde_enabled st" "tde_keycache_lookup st (pg_spcOid p) = Inr (Some entry)"
    and "tde_derive_page_iv ssl (tdek entry) p = Inr iv" "i < 8168" "pad (tdek entry) iv i \<noteq> 0"
    and "buf_block m = replicate 8192 0" "FlushBuffer ssl True checksums st p m d = (Written, m', d')"
  shows "read_block ssl checksums ign False st p d' =
    Some (Inl (PgError ERRCODE_DATA_CORRUPTED ''invalid page in block''))"
proof -
  let ?stored = "take 24 (replicate 8192 0) @ xor_bytes (drop 24 (replicate 8192 0)) (page_pad pad (tdek entry) iv 8168)"
  have new: "PageIsNew (replicate 8192 0)"
    by (simp add: PageIsNew_def pd_upper_def field16_def)
  then have "d' p = Some ?stored"
    using FlushBuffer_encrypts [OF assms(1-4), of m checksums d] assms(7,8) by (auto simp: PageSetChecksumInplace_def)
  moreover have "PageIsNew ?stored"
    using new PageIsNew_prefix [of "replicate 8192 0"] by simp
  moreover have "?stored ! (24 + i) \<noteq> 0"
    using assms(5,6) by (simp add: nth_append page_pad_def xor_bytes_def)
  then have "\<not> list_all (\<lambda>b. b = 0) ?stored"
    using assms(5) by (auto simp: list_all_length intro!: exI [of _ "24 + i"])
  ultimately show ?thesis
    by (simp add: read_block_def WaitReadBuffers_block_def read_decrypt_def PageIsVerifiedExtended_def)
qed

theorem new_page_unreadable_witness:
  "\<exists>m' d'. FlushBuffer sample_ssl True False sample_tde sample_pid (sample_mem (replicate 8192 0)) Map.empty = (Written, m', d') \<and>
     read_block sample_ssl False False False sample_tde sample_pid d' =
       Some (Inl (PgError ERRCODE_DATA_CORRUPTED ''invalid page in block''))"
proof -
  obtain iv where iv: "tde_derive_page_iv sample_ssl (tdek (sample_entry 1663)) sample_pid = Inr iv"
    using sample_iv by blast
  have on: "tde_enabled sample_tde"
    by (simp add: sample_tde_def)
  obtain m' d' where flush:
    "FlushBuffer sample_ssl True False sample_tde sample_pid (sample_mem (replicate 8192 0)) Map.empty = (Written, m', d')"
    using FlushBuffer_encrypts [OF ctr_mode_sample on sample_lookup iv, of "sample_mem (replicate 8192 0)" False Map.empty]
    by (auto simp: sample_mem_def)
  have "sample_pad (tdek (sample_entry 1663)) iv 0 \<noteq> 0 \<or> sample_pad (tdek (sample_entry 1663)) iv 1 \<noteq> 0"
    by (auto simp: sample_pad_def)
  then obtain i where "i < 8168" "sample_pad (tdek (sample_entry 1663)) iv i \<noteq> 0"
    by (metis one_less_numeral_iff semiring_norm(76) zero_less_numeral)
  then show ?thesis
    using new_page_unreadable [OF ctr_mode_sample on sample_lookup iv _ _ _ flush, of i False] flush
    by (auto simp: sample_mem_def)
qed

text \<open>Pages written by the bulk-load path are garbled.  smgr_bulk_flush writes
  the page in clear; when the tablespace has a key, reading the block applies
  the pad to it, and without checksums the result is handed out as the page.\<close>

theorem bulk_page_garbled:
  assumes "ctr_mode ssl pad" "tde_enabled st" "tde_keycache_lookup st (pg_spcOid p) = Inr (Some entry)"
    and "tde_derive_page_iv ssl (tdek entry) (p\<lparr>pg_blockNum := of_nat blkno\<rparr>) = Inr iv"
    and "length page = 8192" "\<not> PageIsNew page" "header_sane page"
    and "bulk_write_page False p blkno page (relsize, d) = (relsize', d')"
  shows "read_block ssl False ign zero st (p\<lparr>pg_blockNum := of_nat blkno\<rparr>) d' =
    Some (Inr (take 24 page @ xor_bytes (drop 24 page) (page_pad pad (tdek entry) iv 8168)))"
proof -
  let ?p = "p\<lparr>pg_blockNum := of_nat blkno\<rparr>" and ?g = "take 24 page @ xor_bytes (drop 24 page) (page_pad pad (tdek entry) iv 8168)"
  have "d' ?p = Some page"
    using assms(8) by (auto simp: bulk_write_page_def PageSetChecksumInplace_def Let_def split: if_splits)
  moreover have "tde_page_crypt ssl st ?p page = (None, ?g)"
    using tde_page_crypt_ok [OF assms(1), of st ?p entry iv page] assms(3-5) by simp
  moreover have "PageIsVerifiedExtended False ign ?g blk" for blk
    using assms(5-7) by (simp add: PageIsVerifiedExtended_def PageIsNew_prefix header_sane_prefix)
  ultimately show ?thesis
    using assms(2,3,6) by (simp add: read_block_def WaitReadBuffers_block_def read_decrypt_def tde_decrypt_page_def)
qed

theorem bulk_page_garbled_witness:
  "\<exists>iv d'. bulk_write_page False sample_pid 0 (sample_page 7) (0, Map.empty) = (1, d') \<and>
     read_block sample_ssl False False False sample_tde (sample_pid\<lparr>pg_blockNum := 0\<rparr>) d' =
       Some (Inr (take 24 (sample_page 7) @
         xor_bytes (drop 24 (sample_page 7)) (page_pad sample_pad (replicate 32 5) iv 8168)))"
proof -
  obtain iv where iv: "tde_derive_page_iv sample_ssl (tdek (sample_entry 1663)) (sample_pid\<lparr>pg_blockNum := of_nat 0\<rparr>) = Inr iv"
    by (simp add: tde_derive_page_iv_def sample_ssl_def)
  have on: "tde_enabled sample_tde"
    by (simp add: sample_tde_def)
  obtain d' where bulk: "bulk_write_page False sample_pid 0 (sample_page 7) (0, Map.empty) = (1, d')"
    by (simp add: bulk_write_page_def Let_def)
  show ?thesis
    using bulk_page_garbled [OF ctr_mode_sample on sample_lookup iv sample_page_facts bulk, of False False] bulk
    by (auto simp: sample_entry_def)
qed

end
