(* ===== verification/TdeServer.thy ===== *)
theory TdeServer
  imports BufMgr
begin

text \<open>
  The life of the encryption state in a running server.  The entry points
  that change it are the start-up hook of backend/storage/ipc/ipci.c, the
  unwrapping of the master key, the SQL-level key rotation of
  contrib/pgcrypto/pgcrypto_pqc.c (which calls tde_rotate_master_key) and
  the exit callback; they are the rules of the step relation tde_server_step.
\<close>

section \<open>Entry points\<close>

text \<open>The part of CreateOrAttachShmemStructs that sets up encryption.\<close>

definition CreateOrAttachShmemStructs_tde ::
  "openssl \<Rightarrow> liboqs \<Rightarrow> provider_env \<Rightarrow> bool \<Rightarrow> TdeKeyCache option \<Rightarrow> 'a tde_state_scheme \<Rightarrow>
     unit result \<times> 'a tde_state_scheme" where
  "CreateOrAttachShmemStructs_tde ssl L env IsUnderPostmaster existing st =
     (if tde_enabled st then
        let st1 = tde_keycache_shmem_init existing st in
        if \<not> IsUnderPostmaster then tde_unwrap_master_key ssl L env st1 else (Inr (), st1)
      else (Inr (), st))"

inductive tde_server_step :: "openssl \<Rightarrow> liboqs \<Rightarrow> 'a tde_state_scheme \<Rightarrow> 'a tde_state_scheme \<Rightarrow> bool"
  for ssl :: openssl and L :: liboqs where
  attach: "tde_server_step ssl L st
     (snd (CreateOrAttachShmemStructs_tde ssl L env True (TdeKeyCacheShmem st) st))"
| unwrap: "tde_server_step ssl L st (snd (tde_unwrap_master_key ssl L env st))"
| rotate: "tde_server_step ssl L st (snd (tde_rotate_master_key ssl L os st))"
| exit: "tde_server_step ssl L st (tde_wipe_master_key_on_exit st)"

text \<open>The states of a server that booted with encryption on.\<close>

inductive tde_server_reachable :: "openssl \<Rightarrow> liboqs \<Rightarrow> 'a tde_state_scheme \<Rightarrow> bool"
  for ssl :: openssl and L :: liboqs where
  boot: "tde_enabled st \<Longrightarrow>
     tde_server_reachable ssl L (snd (CreateOrAttachShmemStructs_tde ssl L env False None st))"
| step: "tde_server_reachable ssl L st \<Longrightarrow> tde_server_step ssl L st st' \<Longrightarrow> tde_server_reachable ssl L st'"

inductive_cases tde_server_stepE: "tde_server_step ssl L st st'"

section \<open>The reachable cache\<close>

definition no_tablespace_keys :: "'a tde_state_scheme \<Rightarrow> bool" where
  "no_tablespace_keys st \<longleftrightarrow> tde_enabled st \<and> (\<exists>c. TdeKeyCacheShmem st = Some c \<and> num_entries c = 0)"

lemma tde_rotate_no_keys:
  assumes "no_tablespace_keys st"
  shows "no_tablespace_keys (snd (tde_rotate_master_key ssl L os st))"
proof (cases "tde_rotate_master_key ssl L os st")
  case (Pair r st')
  show ?thesis
  proof (cases r)
    case (Inl e)
    then show ?thesis
      using tde_rotate_master_key_Inl [of ssl L os st e st'] Pair assms by (auto simp: no_tablespace_keys_def)
  next
    case (Inr u)
    then show ?thesis
      using tde_rotate_master_key_Inr [of ssl L os st st'] Pair assms
      by (auto simp: no_tablespace_keys_def cache_invalidate_def)
  qed
qed

lemma tde_server_step_no_keys: "tde_server_step ssl L st st' \<Longrightarrow> no_tablespace_keys st \<Longrightarrow> no_tablespace_keys st'"
  by (erule tde_server_stepE; (simp add: tde_rotate_no_keys)?)
    (auto simp: no_tablespace_keys_def tde_unwrap_master_key_frame tde_wipe_master_key_on_exit_def
      CreateOrAttachShmemStructs_tde_def tde_keycache_shmem_init_def split: option.split)

lemma tde_server_reachable_no_keys: "tde_server_reachable ssl L st \<Longrightarrow> no_tablespace_keys st"
proof (induction rule: tde_server_reachable.induct)
  case (boot st env)
  then show ?case
    by (simp add: no_tablespace_keys_def CreateOrAttachShmemStructs_tde_def tde_unwrap_master_key_frame
        tde_keycache_shmem_init_def zero_cache_def)
next
  case (step st st')
  then show ?case
    using tde_server_step_no_keys by blast
qed

section \<open>What the disk gets\<close>

lemma flush_without_key:
  assumes "tde_enabled st" "TdeKeyCacheShmem st = Some c" "num_entries c = 0"
  shows "\<exists>m'. FlushBuffer ssl True checksums st p m d =
    (Written, m', d(p \<mapsto> PageSetChecksumInplace checksums (buf_block m) (pg_blockNum p)))"
  using assms
  by (auto simp: FlushBuffer_def PageSetChecksumCopy_def PageSetChecksumInplace_def load_page_def store_page_def
      tde_keycache_lookup_def cache_lookup_def)

text \<open>C13: In every state a server that booted with encryption on can reach, no
  tablespace has a key (nothing in the tree calls
  tde_generate_tablespace_key), so every flush stores its page in clear.\<close>

theorem server_writes_plaintext:
  assumes "tde_server_reachable ssl L st"
  shows "\<exists>m'. FlushBuffer ssl True checksums st p m d =
    (Written, m', d(p \<mapsto> PageSetChecksumInplace checksums (buf_block m) (pg_blockNum p)))"
  using tde_server_reachable_no_keys [OF assms] flush_without_key by (auto simp: no_tablespace_keys_def)

theorem server_writes_plaintext_witness:
  "\<exists>(st :: tde_state) m'. tde_server_reachable sample_ssl sample_oqs st \<and> tde_enabled st \<and>
     FlushBuffer sample_ssl True False st sample_pid (sample_mem (sample_page 7)) Map.empty =
       (Written, m', [sample_pid \<mapsto> sample_page 7])"
proof -
  define st where "st = snd (CreateOrAttachShmemStructs_tde sample_ssl sample_oqs undefined False None sample_tde)"
  have "tde_enabled sample_tde"
    by (simp add: sample_tde_def)
  then have reach: "tde_server_reachable sample_ssl sample_oqs st"
    unfolding st_def by (rule tde_server_reachable.boot)
  moreover have "tde_enabled st"
    using tde_server_reachable_no_keys [OF reach] by (simp add: no_tablespace_keys_def)
  ultimately show ?thesis
    using server_writes_plaintext [OF reach, of False sample_pid "sample_mem (sample_page 7)" Map.empty]
    by (auto simp: sample_mem_def PageSetChecksumInplace_def)
qed

text \<open>Rotation loses the encrypted pages.  A successful rotation drops the
  tablespace keys, which exist nowhere else: a page encrypted before it is
  handed out as its ciphertext afterwards, without an error when checksums
  are off.\<close>

theorem rotation_loses_pages:
  assumes "ctr_mode ssl pad" "tde_enabled st" "tde_keycache_lookup st (pg_spcOid p) = Inr (Some entry)"
    and "tde_derive_page_iv ssl (tdek entry) p = Inr iv"
    and page: "length (buf_block m) = 8192" "\<not> PageIsNew (buf_block m)" "header_sane (buf_block m)"
    and flush: "FlushBuffer ssl True False st p m d = (Written, m', d')"
    and rotate: "tde_rotate_master_key ssl L os st = (Inr (), st')"
  shows "read_block ssl False ign zero st' p d' =
    Some (Inr (take 24 (buf_block m) @ xor_bytes (drop 24 (buf_block m)) (page_pad pad (tdek entry) iv 8168)))"
proof -
  let ?g = "take 24 (buf_block m) @ xor_bytes (drop 24 (buf_block m)) (page_pad pad (tdek entry) iv 8168)"
  have "d' p = Some ?g"
    using FlushBuffer_encrypts [OF assms(1-4) page(1), of False d] flush by (auto simp: PageSetChecksumInplace_def Let_def)
  moreover have "tde_keycache_lookup st' oid = Inr None" for oid
    using tde_rotate_master_key_Inr(1) [OF rotate] keycache.lookup_wipe by (auto simp: tde_keycache_lookup_def)
  moreover have "PageIsVerifiedExtended False ign ?g blk" for blk
    using page by (simp add: PageIsVerifiedExtended_def PageIsNew_prefix header_sane_prefix)
  ultimately show ?thesis
    by (simp add: read_block_def WaitReadBuffers_block_def read_decrypt_def)
qed

definition sample_os :: "nat \<Rightarrow> os_io" where
  "sample_os room = \<lparr>mkdir_ok = True, create_ok = True, write_room = room, close_ok = True\<rparr>"

lemma sample_registry: "registry_ok sample_tde"
  by (simp add: registry_ok_def sample_tde_def)

text \<open>The sample key file has 88 bytes: generation succeeds with that much room.\<close>

lemma sample_generate:
  "\<exists>st'. tde_generate_master_key sample_ssl sample_oqs (sample_os room) sample_tde =
     (if room < 88 then Inl (PgError ERRCODE_FILE_ACCESS ''TDE: could not write master key file'') else Inr (), st')"
proof -
  have new: "pqc_kem_new sample_oqs PQC_ALG_ML_KEM_768 (sample_tde\<lparr>coins := c\<rparr>) =
      (Inr \<lparr>oqs_kem = sample_kem ''ML-KEM-768'', kem_ctx_alg = 1\<rparr>, snd (pqc_init sample_oqs (sample_tde\<lparr>coins := c\<rparr>)))" for c
    using sample_registry by (subst pqc_kem_new_768) (simp_all add: registry_ok_def sample_oqs_def, simp add: sample_tde_def)
  have ops: "OQS_KEM_keypair sample_oqs k c = Some ([of_nat c, 7], [of_nat c, 7])"
    "OQS_KEM_encaps sample_oqs k c pk = Some (map2 (XOR) pk [of_nat c + 1, 3], [of_nat c + 1, 3])"
    "rand_status sample_ssl c = 1"
    "evp_gcm_seal sample_ssl key iv pt = Steps_ok (map (\<lambda>b. b XOR byte_sum key) pt,
        replicate 16 (byte_sum key + byte_sum iv + byte_sum (map (\<lambda>b. b XOR byte_sum key) pt)))" for k c pk key iv pt
    by (simp_all add: sample_oqs_def sample_ssl_def)
  have sizes: "header_bytes h \<noteq> []" "rand_buf ssl c (Suc n) \<noteq> []" for h ssl c n
    using header_code.enc_length [of h] by (auto simp: rand_buf_def)
  then have "rand_buf ssl c 12 \<noteq> []" "rand_buf ssl c 32 \<noteq> []" for ssl c
    by (auto simp: rand_buf_def)
  then show ?thesis
    by (simp add: tde_generate_master_key_def Let_def sample_os_def new ops pqc_kem_keygen_def pqc_kem_encaps_def
        tde_write_master_key_file_def header_code.enc_length sample_kem_def sizes) arith
qed

lemma sample_rotate:
  "\<exists>st'. tde_rotate_master_key sample_ssl sample_oqs (sample_os room) sample_tde =
     (if room < 88 then Inl (PgError ERRCODE_FILE_ACCESS ''TDE: could not write master key file'') else Inr (), st')"
proof -
  have "TdeKeyCacheShmem (snd (tde_generate_master_key sample_ssl sample_oqs (sample_os room) sample_tde)) = Some sample_cache"
    by (simp add: tde_generate_master_key_frame) (simp add: sample_tde_def)
  moreover have "MasterKeyLoaded sample_tde"
    by (simp add: sample_tde_def)
  ultimately show ?thesis
    using sample_generate [of room] by (auto simp: tde_rotate_master_key_def tde_keycache_invalidate_def Let_def)
qed

theorem rotation_loses_pages_witness:
  "\<exists>iv m' d' st'. FlushBuffer sample_ssl True False sample_tde sample_pid (sample_mem (sample_page 7)) Map.empty = (Written, m', d') \<and>
     tde_rotate_master_key sample_ssl sample_oqs (sample_os 10000) sample_tde = (Inr (), st') \<and>
     read_block sample_ssl False False False st' sample_pid d' = Some (Inr (take 24 (sample_page 7) @
       xor_bytes (drop 24 (sample_page 7)) (page_pad sample_pad (replicate 32 5) iv 8168)))"
proof -
  obtain iv where iv: "tde_derive_page_iv sample_ssl (tdek (sample_entry 1663)) sample_pid = Inr iv"
    using sample_iv by blast
  have on: "tde_enabled sample_tde" and page: "buf_block (sample_mem (sample_page 7)) = sample_page 7"
    by (simp_all add: sample_tde_def sample_mem_def)
  obtain m' d' where flush:
    "FlushBuffer sample_ssl True False sample_tde sample_pid (sample_mem (sample_page 7)) Map.empty = (Written, m', d')"
    using FlushBuffer_encrypts [OF ctr_mode_sample on sample_lookup iv, of "sample_mem (sample_page 7)" False Map.empty]
    by (auto simp: page sample_page_facts)
  obtain st' where rotate: "tde_rotate_master_key sample_ssl sample_oqs (sample_os 10000) sample_tde = (Inr (), st')"
    using sample_rotate [of 10000] by auto
  show ?thesis
    using rotation_loses_pages [OF ctr_mode_sample on sample_lookup iv _ _ _ flush rotate, of False False]
      flush rotate sample_page_facts by (auto simp: page sample_entry_def)
qed

section \<open>A rotation that fails\<close>

lemma kem_no_file_error:
  "pqc_kem_new L alg st \<noteq> (Inl (PgError ERRCODE_FILE_ACCESS s), st')"
  "pqc_kem_keygen L ctx st \<noteq> (Inl (PgError ERRCODE_FILE_ACCESS s), st')"
  "pqc_kem_encaps L ctx pk st \<noteq> (Inl (PgError ERRCODE_FILE_ACCESS s), st')"
  by (auto simp: pqc_kem_new_def pqc_kem_keygen_def pqc_kem_encaps_def Let_def split: option.splits prod.splits if_splits)

text \<open>The way to the write of the key file.\<close>

lemma tde_generate_master_key_write_failed:
  assumes "tde_generate_master_key ssl L os st = (Inl (PgError ERRCODE_FILE_ACCESS ''TDE: could not write master key file''), st')"
    "OQS_KEM_new L ''ML-KEM-768'' = Some k" "registry_ok st"
  obtains pk sk ct ss c1 c2 iv mk emk tag s where
    "OQS_KEM_keypair L k c1 = Some (pk, sk)" "OQS_KEM_encaps L k c2 pk = Some (ct, ss)"
    "evp_gcm_seal ssl ss iv mk = Steps_ok (emk, tag)" "length iv = 12" "length mk = 32"
    "tde_write_master_key_file os pk ct PQC_ALG_ML_KEM_768 emk iv tag s =
       (Inl (PgError ERRCODE_FILE_ACCESS ''TDE: could not write master key file''), st')"
proof -
  have "pqc_kem_new L PQC_ALG_ML_KEM_768 (st\<lparr>coins := coins st + 1\<rparr>) = (Inr \<lparr>oqs_kem = k, kem_ctx_alg = 1\<rparr>,
      snd (pqc_kem_new L PQC_ALG_ML_KEM_768 (st\<lparr>coins := coins st + 1\<rparr>)))"
    using assms(2,3) by (simp add: pqc_kem_new_768 registry_ok_def)
  then show ?thesis
    using assms(1) that
    by (auto simp: tde_generate_master_key_def Let_def kem_no_file_error pqc_kem_keygen_def pqc_kem_encaps_def
        split: if_splits prod.splits sum.splits option.splits PqcStatus.splits evp_steps.splits nat.splits)
qed

lemma fwrite_all_False:
  "fwrite_all room cs f = (False, f') \<Longrightarrow> list_all (\<lambda>c. c \<noteq> []) cs \<Longrightarrow>
     \<exists>n < length (concat cs). f' = f @ take n (concat cs)"
proof (induction room cs f rule: fwrite_all.induct)
  case (2 room c cs f)
  show ?case
  proof (cases "room < length c")
    case True
    then show ?thesis
      using 2 by (intro exI [of _ room]) auto
  next
    case False
    then obtain n where "n < length (concat cs)" "f' = (f @ c) @ take n (concat cs)"
      using 2 by auto
    then show ?thesis
      by (intro exI [of _ "length c + n"]) simp
  qed
qed simp

text \<open>A key file cut short is rejected, wherever it was cut.\<close>

lemma read_master_key_file_cut:
  assumes "n < 24 + unat (hdr_pubkey_len h) + unat (hdr_ciphertext_len h) + 60"
  shows "\<exists>e. read_master_key_file (take n (header_bytes h @ body)) = Inl e"
proof (cases "read_master_key_file (take n (header_bytes h @ body))")
  case (Inr r)
  obtain h' fs where r: "r = (h', fs)"
    by fastforce
  have long: "24 + unat (hdr_pubkey_len h') + unat (hdr_ciphertext_len h') + 60 \<le> length (take n (header_bytes h @ body))"
    using read_master_key_file_Inr_length Inr unfolding r by blast
  then have "24 \<le> n"
    by simp
  moreover have "h' = parse_header (take 24 (take n (header_bytes h @ body)))"
    using Inr r by (auto simp: read_master_key_file_def Let_def simp del: take_take fread_all.simps
        split: option.splits if_splits)
  ultimately have "h' = h"
    using header_code.dec_enc [of h "[]"] by (simp add: header_code.enc_length min_def)
  then show ?thesis
    using long assms by simp
qed simp

text \<open>C30: A rotation that fails while writing the key file keeps the master key
  in memory, but the file was truncated before: once the server exits, no
  secret key unwraps a master key again.\<close>

theorem failed_rotation_loses_key:
  assumes lib: "kem_correct L" "gcm_correct ssl" "OQS_KEM_new L ''ML-KEM-768'' = Some k"
    and sizes: "0 < kem_length_public_key k" "kem_length_public_key k \<le> 8192"
      "0 < kem_length_ciphertext k" "kem_length_ciphertext k \<le> 8192"
    and st: "registry_ok st" "MasterKeyLoaded st" "TdeKeyCacheShmem st \<noteq> None"
    and rotate: "tde_rotate_master_key ssl L os st =
      (Inl (PgError ERRCODE_FILE_ACCESS ''TDE: could not write master key file''), st')"
  shows "MasterKey st' = MasterKey st \<and> MasterKeyLoaded st' \<and>
    (\<exists>e. fst (tde_unwrap_master_key ssl L env (tde_wipe_master_key_on_exit st')) = Inl e)"
proof -
  obtain st1 where gen: "tde_generate_master_key ssl L os st =
      (Inl (PgError ERRCODE_FILE_ACCESS ''TDE: could not write master key file''), st1)"
    and st': "master_key_file st' = master_key_file st1"
    using rotate st(2,3) tde_generate_master_key_frame [of ssl L os st]
    by (auto simp: tde_rotate_master_key_def tde_keycache_invalidate_def Let_def split: prod.splits sum.splits option.splits)
  obtain pk sk ct ss c1 c2 iv mk emk tag s where
    kem: "OQS_KEM_keypair L k c1 = Some (pk, sk)" "OQS_KEM_encaps L k c2 pk = Some (ct, ss)"
    and gcm: "evp_gcm_seal ssl ss iv mk = Steps_ok (emk, tag)" "length iv = 12" "length mk = 32"
    and wr: "tde_write_master_key_file os pk ct PQC_ALG_ML_KEM_768 emk iv tag s =
       (Inl (PgError ERRCODE_FILE_ACCESS ''TDE: could not write master key file''), st1)"
    using tde_generate_master_key_write_failed [OF gen lib(3) st(1)] by metis
  have len: "length pk = kem_length_public_key k" "length ct = kem_length_ciphertext k" "length emk = 32" "length tag = 16"
    using lib kem gcm unfolding kem_correct_def gcm_correct_def by (metis)+
  let ?h = "\<lparr>hdr_magic = TDE_MASTER_KEY_MAGIC, hdr_version = 1, hdr_kem_alg = 1,
       hdr_pubkey_len = of_nat (length pk), hdr_ciphertext_len = of_nat (length ct), hdr_reserved = 0\<rparr>"
  obtain f where f: "fwrite_all (write_room os) [header_bytes ?h, pk, ct, iv, emk, tag] [] = (False, f)"
      "master_key_file st1 = Some f"
    using wr by (auto simp: tde_write_master_key_file_def Let_def simp del: fwrite_all.simps split: if_splits prod.splits)
  have "list_all (\<lambda>c. c \<noteq> []) [header_bytes ?h, pk, ct, iv, emk, tag]"
    using len sizes gcm header_code.enc_length [of ?h] by auto
  from fwrite_all_False [OF f(1) this] obtain n where
    n: "n < 24 + length pk + length ct + 60" "f = take n (header_bytes ?h @ pk @ ct @ iv @ emk @ tag)"
    using len gcm header_code.enc_length [of ?h] by auto
  have "unat (of_nat i :: 32 word) = i" if "i \<le> 8192" for i
    using that by (simp add: unsigned_of_nat take_bit_nat_eq_self)
  then obtain e where "read_master_key_file f = Inl e"
    using read_master_key_file_cut [of n ?h "pk @ ct @ iv @ emk @ tag"] n len sizes by auto
  then show ?thesis
    using tde_rotate_master_key_Inl [OF rotate st(3)] st(2) st' f(2)
    by (simp add: tde_unwrap_master_key_def tde_wipe_master_key_on_exit_def)
qed

theorem failed_rotation_loses_key_witness:
  "\<exists>st'. tde_rotate_master_key sample_ssl sample_oqs (sample_os 40) sample_tde =
       (Inl (PgError ERRCODE_FILE_ACCESS ''TDE: could not write master key file''), st') \<and>
     MasterKey st' = replicate 32 1 \<and> MasterKeyLoaded st' \<and>
     (\<forall>env. \<exists>e. fst (tde_unwrap_master_key sample_ssl sample_oqs env (tde_wipe_master_key_on_exit st')) = Inl e)"
proof -
  obtain st' where rotate: "tde_rotate_master_key sample_ssl sample_oqs (sample_os 40) sample_tde =
      (Inl (PgError ERRCODE_FILE_ACCESS ''TDE: could not write master key file''), st')"
    using sample_rotate [of 40] by auto
  have "OQS_KEM_new sample_oqs ''ML-KEM-768'' = Some (sample_kem ''ML-KEM-768'')"
    "MasterKeyLoaded sample_tde" "TdeKeyCacheShmem sample_tde \<noteq> None" "MasterKey sample_tde = replicate 32 1"
    by (simp_all add: sample_oqs_def sample_tde_def)
  then show ?thesis
    using failed_rotation_loses_key [OF kem_correct_sample gcm_correct_sample _ _ _ _ _ sample_registry _ _ rotate,
        of "sample_kem ''ML-KEM-768''"] rotate by (simp add: sample_kem_def)
qed

end
