(* ===== verification/CText.thy ===== *)
theory CText
  imports PgPort
begin

text \<open>
  The C library's text functions the authentication code calls, in the C
  locale: strtok, strspn, strtol in base 10 with its range error, and the
  decimal directive of printf.  A C string is the list of its characters
  before the terminating zero.
\<close>

section \<open>Tokens\<close>

text \<open>strlen of a buffer that may hold a zero before its end.\<close>

definition c_strlen :: "string \<Rightarrow> nat" where
  "c_strlen s = length (takeWhile (\<lambda>c. c \<noteq> CHR 0x00) s)"

text \<open>strtok on the text left: the token and the text left after it.\<close>

definition strtok :: "string \<Rightarrow> string \<Rightarrow> (string \<times> string) option" where
  "strtok delims s =
     (let t = dropWhile (\<lambda>c. c \<in> set delims) s in
      if t = [] then None
      else Some (takeWhile (\<lambda>c. c \<notin> set delims) t, drop 1 (dropWhile (\<lambda>c. c \<notin> set delims) t)))"

definition strspn :: "string \<Rightarrow> string \<Rightarrow> nat" where
  "strspn s accept = length (takeWhile (\<lambda>c. c \<in> set accept) s)"

lemma strtok_token:
  assumes "w \<noteq> []" and "set w \<inter> set delims = {}"
  shows "d \<in> set delims \<Longrightarrow> strtok delims (w @ d # r) = Some (w, r)"
    and "strtok delims w = Some (w, [])"
proof -
  let ?P = "\<lambda>c. c \<notin> set delims"
  have all: "?P c" if "c \<in> set w" for c
    using assms(2) that by blast
  have skip: "dropWhile (\<lambda>c. c \<in> set delims) (w @ s) = w @ s" for s
    using assms(1) all by (cases w) auto
  have ends: "takeWhile ?P (w @ s) = w @ takeWhile ?P s" "dropWhile ?P (w @ s) = dropWhile ?P s" for s
    using takeWhile_append2 [of w ?P s] dropWhile_append2 [of w ?P s] all by blast+
  have "dropWhile (\<lambda>c. c \<in> set delims) w = w" "takeWhile ?P w = w" "dropWhile ?P w = []"
    using skip [of "[]"] ends [of "[]"] by (simp_all only: append_Nil2 takeWhile.simps dropWhile.simps)
  then show "strtok delims w = Some (w, [])"
    using assms(1) unfolding strtok_def Let_def by (simp only: if_False drop_Nil)
  assume "d \<in> set delims"
  then have "takeWhile ?P (d # r) = []" "dropWhile ?P (d # r) = d # r"
    by simp_all
  with skip [of "d # r"] ends [of "d # r"]
  have "dropWhile (\<lambda>c. c \<in> set delims) (w @ d # r) = w @ d # r"
      "takeWhile ?P (w @ d # r) = w" "dropWhile ?P (w @ d # r) = d # r"
    by (simp_all only: append_Nil2)
  then show "strtok delims (w @ d # r) = Some (w, r)"
    using assms(1) unfolding strtok_def Let_def by (simp only: append_is_Nil_conv if_False drop_Suc_Cons One_nat_def drop_0 simp_thms)
qed

section \<open>Decimal numbers\<close>

definition isdigit :: "char \<Rightarrow> bool" where
  "isdigit c \<longleftrightarrow> (of_char c :: nat) \<in> {48..57}"

definition digit_value :: "char \<Rightarrow> nat" where
  "digit_value c = of_char c - 48"

definition digit_char :: "nat \<Rightarrow> char" where
  "digit_char n = char_of (48 + n)"

definition isspace :: "char \<Rightarrow> bool" where
  "isspace c \<longleftrightarrow> (of_char c :: nat) \<in> {9..13} \<or> c = CHR '' ''"

definition digits_value :: "string \<Rightarrow> nat" where
  "digits_value ds = foldl (\<lambda>v c. 10 * v + digit_value c) 0 ds"

text \<open>strtol with base 10: the value, the text after the number (the whole text
  when there is no number) and whether errno is set to ERANGE.  A long has 64
  bits.\<close>

definition strtol_sign :: "string \<Rightarrow> bool \<times> string" where
  "strtol_sign s =
     (case dropWhile isspace s of
        [] \<Rightarrow> (False, [])
      | c # r \<Rightarrow> if c = CHR ''-'' then (True, r) else if c = CHR ''+'' then (False, r) else (False, c # r))"

definition strtol_clamp :: "int \<Rightarrow> int \<times> bool" where
  "strtol_clamp v =
     (if v < - (2 ^ 63) then (- (2 ^ 63), True) else if v > 2 ^ 63 - 1 then (2 ^ 63 - 1, True) else (v, False))"

definition strtol10 :: "string \<Rightarrow> int \<times> string \<times> bool" where
  "strtol10 s =
     (case strtol_sign s of (neg, u) \<Rightarrow>
        let ds = takeWhile isdigit u in
        if ds = [] then (0, s, False)
        else case strtol_clamp (if neg then - int (digits_value ds) else int (digits_value ds)) of
          (v, range_error) \<Rightarrow> (v, dropWhile isdigit u, range_error))"

text \<open>Assignment of a long to an int.\<close>

definition int_of_long :: "int \<Rightarrow> int" where
  "int_of_long v = sint (word_of_int v :: 32 word)"

fun nat_text :: "nat \<Rightarrow> string" where
  "nat_text n = (if n < 10 then [digit_char n] else nat_text (n div 10) @ [digit_char (n mod 10)])"

declare nat_text.simps [simp del]

definition int_text :: "int \<Rightarrow> string" where
  "int_text i = (if i < 0 then CHR ''-'' # nat_text (nat (- i)) else nat_text (nat i))"

lemma digit_char_facts:
  "n < 10 \<Longrightarrow> isdigit (digit_char n)"
  "n < 10 \<Longrightarrow> digit_value (digit_char n) = n"
  "n < 10 \<Longrightarrow> digit_char n \<notin> {CHR ''-'', CHR ''+'', CHR '','', CHR ''$'', CHR '':'', CHR 0x00}"
  "n < 10 \<Longrightarrow> \<not> isspace (digit_char n)"
proof -
  show a: "isdigit (digit_char n)" if "n < 10"
    using that by (simp add: isdigit_def digit_char_def)
  show "digit_value (digit_char n) = n" if "n < 10"
    using that by (simp add: digit_value_def digit_char_def)
  show "digit_char n \<notin> {CHR ''-'', CHR ''+'', CHR '','', CHR ''$'', CHR '':'', CHR 0x00}" if "n < 10"
    using a [OF that] by (auto simp: isdigit_def)
  show "\<not> isspace (digit_char n)" if "n < 10"
    using a [OF that] by (auto simp: isdigit_def isspace_def)
qed

lemma nat_text_digits:
  "nat_text n \<noteq> []"
  "list_all (\<lambda>c. \<exists>d < 10. c = digit_char d) (nat_text n)"
proof -
  show "nat_text n \<noteq> []"
    by (subst nat_text.simps) simp
  show "list_all (\<lambda>c. \<exists>d < 10. c = digit_char d) (nat_text n)"
  proof (induction n rule: nat_text.induct)
    case (1 n)
    then show ?case
      by (subst nat_text.simps) (auto intro: exI [of _ "n mod 10"])
  qed
qed

lemma nat_text_all:
  assumes "\<And>d. d < 10 \<Longrightarrow> P (digit_char d)" and "c \<in> set (nat_text n)"
  shows "P c"
proof -
  obtain d where "d < 10" "c = digit_char d"
    using nat_text_digits(2) [of n] assms(2) unfolding list_all_iff by blast
  then show ?thesis
    using assms(1) [of d] by simp
qed

lemma nat_text_value: "digits_value (nat_text n) = n"
proof (induction n rule: nat_text.induct)
  case (1 n)
  then show ?case
    by (subst nat_text.simps) (auto simp: digits_value_def digit_char_facts)
qed

lemma strtol10_nat_text:
  assumes "int n < 2 ^ 63"
  shows "strtol10 (nat_text n) = (int n, [], False)"
proof -
  obtain c cs where n: "nat_text n = c # cs" "isdigit c" "c \<noteq> CHR ''-''" "c \<noteq> CHR ''+''" "\<not> isspace c"
  proof (cases "nat_text n")
    case Nil
    then show ?thesis
      using nat_text_digits(1) [of n] by simp
  next
    case (Cons c cs)
    then obtain d where "d < 10" "c = digit_char d"
      using nat_text_digits(2) [of n] by auto
    with Cons that show ?thesis
      using digit_char_facts [of d] by auto
  qed
  have all: "\<forall>x \<in> set (nat_text n). isdigit x"
    using nat_text_all [where P = isdigit and n = n, OF digit_char_facts(1)] by (rule ballI)
  have "takeWhile isdigit (nat_text n) = nat_text n" "dropWhile isdigit (nat_text n) = []"
    unfolding takeWhile_eq_all_conv dropWhile_eq_Nil_conv by (rule all)+
  moreover have "strtol_sign (nat_text n) = (False, nat_text n)" "nat_text n \<noteq> []"
    using n by (simp_all add: strtol_sign_def)
  moreover have "strtol_clamp (int n) = (int n, False)"
    using assms by (simp add: strtol_clamp_def)
  ultimately show ?thesis
    unfolding strtol10_def by (simp only: prod.case Let_def nat_text_value if_False)
qed

lemma int_of_long_small: "- (2 ^ 31) \<le> v \<Longrightarrow> v < 2 ^ 31 \<Longrightarrow> int_of_long v = v"
  by (simp add: int_of_long_def sint_sbintrunc' signed_take_bit_int_eq_self)

end
