(* ===== verification/FeCommon.thy ===== *)
theory FeCommon
  imports External CText
begin

text \<open>
  The frontend copy of the PQC helpers, used by pg_dump and
  pg_tde_master_key: common/pqc-common.c.  Results are 0 and -1 as in C.
  Allocation succeeds.  When a call returns -1 the buffers it allocated hold no
  defined contents and no caller reads them; the model leaves the context as
  it was.  The index of the next randomised call is passed along.
\<close>

text \<open>What fopen finds at a path: nothing, a file whose size can be determined with
  fseek and ftell and which is then read in full, or one on which these fail,
  such as a pipe.\<close>

datatype fe_file = Seekable bytes | Unseekable

type_synonym fs = "string \<Rightarrow> fe_file option"

record FeKemContext =
  fk_algorithm :: string
  fk_public_key :: "bytes option"
  fk_public_key_len :: nat
  fk_secret_key :: "bytes option"
  fk_secret_key_len :: nat
  fk_shared_secret :: "bytes option"
  fk_shared_secret_len :: nat
  fk_ciphertext :: "bytes option"
  fk_ciphertext_len :: nat

record FeSigContext =
  fs_algorithm :: string
  fs_public_key :: "bytes option"
  fs_public_key_len :: nat
  fs_secret_key :: "bytes option"
  fs_secret_key_len :: nat

definition pqc_kem_ctx_new :: "liboqs \<Rightarrow> string \<Rightarrow> FeKemContext option" where
  "pqc_kem_ctx_new L algorithm =
     (case OQS_KEM_new L algorithm of
        None \<Rightarrow> None
      | Some kem \<Rightarrow> Some \<lparr>fk_algorithm = algorithm, fk_public_key = None, fk_public_key_len = kem_length_public_key kem,
          fk_secret_key = None, fk_secret_key_len = kem_length_secret_key kem,
          fk_shared_secret = None, fk_shared_secret_len = kem_length_shared_secret kem,
          fk_ciphertext = None, fk_ciphertext_len = kem_length_ciphertext kem\<rparr>)"

definition pqc_kem_generate_keypair :: "liboqs \<Rightarrow> FeKemContext \<Rightarrow> nat \<Rightarrow> int \<times> FeKemContext \<times> nat" where
  "pqc_kem_generate_keypair L ctx c =
     (case OQS_KEM_new L (fk_algorithm ctx) of
        None \<Rightarrow> (-1, ctx, c)
      | Some kem \<Rightarrow>
          (case OQS_KEM_keypair L kem c of
             None \<Rightarrow> (-1, ctx, c + 1)
           | Some (pk, sk) \<Rightarrow> (0, ctx\<lparr>fk_public_key := Some pk, fk_secret_key := Some sk\<rparr>, c + 1)))"

definition pqc_kem_encapsulate :: "liboqs \<Rightarrow> FeKemContext \<Rightarrow> nat \<Rightarrow> int \<times> FeKemContext \<times> nat" where
  "pqc_kem_encapsulate L ctx c =
     (case fk_public_key ctx of
        None \<Rightarrow> (-1, ctx, c)
      | Some pk \<Rightarrow>
        (case OQS_KEM_new L (fk_algorithm ctx) of
           None \<Rightarrow> (-1, ctx, c)
         | Some kem \<Rightarrow>
             (case OQS_KEM_encaps L kem c pk of
                None \<Rightarrow> (-1, ctx, c + 1)
              | Some (ct, ss) \<Rightarrow> (0, ctx\<lparr>fk_ciphertext := Some ct, fk_shared_secret := Some ss\<rparr>, c + 1))))"

definition pqc_kem_decapsulate :: "liboqs \<Rightarrow> FeKemContext \<Rightarrow> bytes \<Rightarrow> int \<times> FeKemContext" where
  "pqc_kem_decapsulate L ctx ciphertext =
     (case fk_secret_key ctx of
        None \<Rightarrow> (-1, ctx)
      | Some sk \<Rightarrow>
        (case OQS_KEM_new L (fk_algorithm ctx) of
           None \<Rightarrow> (-1, ctx)
         | Some kem \<Rightarrow>
             if length ciphertext \<noteq> kem_length_ciphertext kem then (-1, ctx)
             else (case OQS_KEM_decaps L kem ciphertext sk of
                None \<Rightarrow> (-1, ctx)
              | Some ss \<Rightarrow> (0, ctx\<lparr>fk_shared_secret := Some ss\<rparr>))))"

definition read_file_contents :: "fs \<Rightarrow> string \<Rightarrow> bytes option" where
  "read_file_contents files path =
     (case files path of Some (Seekable data) \<Rightarrow> Some data | _ \<Rightarrow> None)"

definition pqc_kem_load_public_key :: "fs \<Rightarrow> FeKemContext \<Rightarrow> string option \<Rightarrow> int \<times> FeKemContext" where
  "pqc_kem_load_public_key files ctx path =
     (case path of
        None \<Rightarrow> (-1, ctx)
      | Some p \<Rightarrow>
        (case read_file_contents files p of
           None \<Rightarrow> (-1, ctx)
         | Some data \<Rightarrow>
             if length data \<noteq> fk_public_key_len ctx then (-1, ctx)
             else (0, ctx\<lparr>fk_public_key := Some data\<rparr>)))"

definition pqc_kem_load_secret_key :: "fs \<Rightarrow> FeKemContext \<Rightarrow> string option \<Rightarrow> int \<times> FeKemContext" where
  "pqc_kem_load_secret_key files ctx path =
     (case path of
        None \<Rightarrow> (-1, ctx)
      | Some p \<Rightarrow>
        (case read_file_contents files p of
           None \<Rightarrow> (-1, ctx)
         | Some data \<Rightarrow>
             if length data \<noteq> fk_secret_key_len ctx then (-1, ctx)
             else (0, ctx\<lparr>fk_secret_key := Some data\<rparr>)))"

definition pqc_sig_ctx_new :: "liboqs \<Rightarrow> string \<Rightarrow> FeSigContext option" where
  "pqc_sig_ctx_new L algorithm =
     (case OQS_SIG_new L algorithm of
        None \<Rightarrow> None
      | Some sig \<Rightarrow> Some \<lparr>fs_algorithm = algorithm, fs_public_key = None, fs_public_key_len = sig_length_public_key sig,
          fs_secret_key = None, fs_secret_key_len = sig_length_secret_key sig\<rparr>)"

text \<open>The two parts of pqc_sig_load_keys; the second runs only if the first did not fail.\<close>

definition sig_load_public :: "fs \<Rightarrow> FeSigContext \<Rightarrow> string option \<Rightarrow> int \<times> FeSigContext" where
  "sig_load_public files ctx pub_path =
     (case pub_path of
        None \<Rightarrow> (0, ctx)
      | Some p \<Rightarrow>
        (case read_file_contents files p of
           None \<Rightarrow> (-1, ctx)
         | Some data \<Rightarrow>
             if length data \<noteq> fs_public_key_len ctx then (-1, ctx)
             else (0, ctx\<lparr>fs_public_key := Some data\<rparr>)))"

definition sig_load_secret :: "fs \<Rightarrow> FeSigContext \<Rightarrow> string option \<Rightarrow> int \<times> FeSigContext" where
  "sig_load_secret files ctx sec_path =
     (case sec_path of
        None \<Rightarrow> (0, ctx)
      | Some p \<Rightarrow>
        (case read_file_contents files p of
           None \<Rightarrow> (-1, ctx)
         | Some data \<Rightarrow>
             if length data \<noteq> fs_secret_key_len ctx then (-1, ctx)
             else (0, ctx\<lparr>fs_secret_key := Some data\<rparr>)))"

definition pqc_sig_load_keys :: "fs \<Rightarrow> FeSigContext \<Rightarrow> string option \<Rightarrow> string option \<Rightarrow> int \<times> FeSigContext" where
  "pqc_sig_load_keys files ctx pub_path sec_path =
     (case sig_load_public files ctx pub_path of
        (rc, ctx1) \<Rightarrow> if rc \<noteq> 0 then (rc, ctx1) else sig_load_secret files ctx1 sec_path)"

definition pqc_common_sign :: "liboqs \<Rightarrow> FeSigContext \<Rightarrow> bytes option \<Rightarrow> nat \<Rightarrow> int \<times> bytes option \<times> nat" where
  "pqc_common_sign L ctx msg c =
     (case (fs_secret_key ctx, msg) of
        (Some sk, Some m) \<Rightarrow>
          (case OQS_SIG_new L (fs_algorithm ctx) of
             None \<Rightarrow> (-1, None, c)
           | Some sig \<Rightarrow>
               (case OQS_SIG_sign L sig c m sk of
                  None \<Rightarrow> (-1, None, c + 1)
                | Some s \<Rightarrow> (0, Some s, c + 1)))
      | _ \<Rightarrow> (-1, None, c))"

definition pqc_common_verify :: "liboqs \<Rightarrow> FeSigContext \<Rightarrow> bytes option \<Rightarrow> bytes option \<Rightarrow> int" where
  "pqc_common_verify L ctx msg s =
     (case (fs_public_key ctx, msg, s) of
        (Some pk, Some m, Some sg) \<Rightarrow>
          (case OQS_SIG_new L (fs_algorithm ctx) of
             None \<Rightarrow> -1
           | Some sig \<Rightarrow> if OQS_SIG_verify L sig m sg pk then 0 else -1)
      | _ \<Rightarrow> -1)"

text \<open>The lengths are size_t and are converted to int for OpenSSL: of an input of
  2 to the 31 bytes or more the call sees another length.\<close>

definition pqc_aes256gcm_encrypt :: "openssl \<Rightarrow> bytes \<Rightarrow> bytes \<Rightarrow> bytes \<Rightarrow> (bytes \<times> bytes) option" where
  "pqc_aes256gcm_encrypt ssl key iv plaintext =
     (let inl = int_of_long (int (length plaintext)) in
      case (if 0 \<le> inl then evp_gcm_seal ssl key iv (take (nat inl) plaintext)
            else evp_gcm_seal_negative ssl key iv plaintext inl) of
        Steps_ok r \<Rightarrow> Some r
      | _ \<Rightarrow> None)"

definition pqc_aes256gcm_decrypt :: "openssl \<Rightarrow> bytes \<Rightarrow> bytes \<Rightarrow> bytes \<Rightarrow> bytes \<Rightarrow> bytes option" where
  "pqc_aes256gcm_decrypt ssl key iv ciphertext tag =
     (let inl = int_of_long (int (length ciphertext)) in
      case (if 0 \<le> inl then evp_gcm_open ssl key iv (take (nat inl) ciphertext) tag
            else evp_gcm_open_negative ssl key iv ciphertext inl tag) of
        Steps_ok p \<Rightarrow> Some p
      | _ \<Rightarrow> None)"

lemma pqc_aes256gcm_decrypt_encrypt:
  assumes "gcm_correct ssl" and "length p < 2 ^ 31" and "pqc_aes256gcm_encrypt ssl k iv p = Some (ct, tag)"
  shows "pqc_aes256gcm_decrypt ssl k iv ct tag = Some p \<and> length ct = length p \<and> length tag = 16"
proof -
  have i: "int_of_long (int (length p)) = int (length p)"
    using assms(2) by (intro int_of_long_small) simp_all
  then have "evp_gcm_seal ssl k iv p = Steps_ok (ct, tag)"
    using assms(3) by (simp add: pqc_aes256gcm_encrypt_def split: evp_steps.splits)
  then have "evp_gcm_open ssl k iv ct tag = Steps_ok p \<and> length ct = length p \<and> length tag = 16"
    using assms(1) unfolding gcm_correct_def by blast
  with i show ?thesis
    by (simp add: pqc_aes256gcm_decrypt_def)
qed

end
