(* ===== verification/TdeTool.thy ===== *)
theory TdeTool
  imports FeCommon TdeKeyManage Samples
begin

text \<open>
  The offline key tool: bin/pg_tde_master_key/pg_tde_master_key.c.  The data
  directory is the pair of key file and public key file; standard output is
  the list of printed values that matter (the secret key in hexadecimal).
\<close>

section \<open>Definitions\<close>

definition hexchars :: string where
  "hexchars = ''0123456789abcdef''"

definition bytes_to_hex :: "bytes \<Rightarrow> string" where
  "bytes_to_hex data = concat (map (\<lambda>b. [hexchars ! unat (drop_bit 4 b AND 0x0F), hexchars ! unat (b AND 0x0F)]) data)"

text \<open>write_secure_file: open with truncation, one write, close.\<close>

record tool_io =
  dirs_ok :: bool
  open_ok :: bool
  write_len :: nat
  fclose_ok :: bool

definition write_secure_file :: "tool_io \<Rightarrow> bytes \<Rightarrow> bytes option \<Rightarrow> int \<times> bytes option" where
  "write_secure_file io data old =
     (if \<not> open_ok io then (-1, old)
      else if write_len io < length data then (-1, Some (take (write_len io) data))
      else if \<not> fclose_ok io then (-1, Some data)
      else (0, Some data))"

record data_dir =
  dd_master_key :: "bytes option"
  dd_master_pub :: "bytes option"

text \<open>Exit status, data directory, printed secret key, coins.\<close>

definition generate_and_write_master_key ::
  "openssl \<Rightarrow> liboqs \<Rightarrow> tool_io \<Rightarrow> data_dir \<Rightarrow> nat \<Rightarrow> int \<times> data_dir \<times> string option \<times> nat" where
  "generate_and_write_master_key ssl L io dd c =
     (case pqc_kem_ctx_new L ''ML-KEM-768'' of
        None \<Rightarrow> (1, dd, None, c)
      | Some ctx0 \<Rightarrow>
        (case pqc_kem_generate_keypair L ctx0 c of
          (rc1, ctx1, c1) \<Rightarrow>
          if rc1 \<noteq> 0 then (1, dd, None, c1)
          else (case pqc_kem_encapsulate L ctx1 c1 of
            (rc2, ctx2, c2) \<Rightarrow>
            if rc2 \<noteq> 0 then (1, dd, None, c2)
            else if rand_status ssl c2 \<noteq> 1 then (1, dd, None, c2 + 1)
            else if rand_status ssl (c2 + 1) \<noteq> 1 then (1, dd, None, c2 + 2)
            else
              let master_key = rand_buf ssl c2 TDE_AES_KEY_LEN;
                  gcm_iv = rand_buf ssl (c2 + 1) TDE_GCM_IV_LEN in
              (case evp_gcm_seal ssl (the (fk_shared_secret ctx2)) gcm_iv master_key of
                Step_failed 0 \<Rightarrow> (1, dd, None, c2 + 2)
              | Step_failed (Suc _) \<Rightarrow> (1, dd, None, c2 + 2)
              | Steps_ok (encrypted_mk, gcm_tag) \<Rightarrow>
                if \<not> dirs_ok io then (1, dd, None, c2 + 2)
                else
                  let hdr = \<lparr>hdr_magic = TDE_MASTER_KEY_MAGIC, hdr_version = TDE_VERSION, hdr_kem_alg = 1,
                        hdr_pubkey_len = of_nat (fk_public_key_len ctx2),
                        hdr_ciphertext_len = of_nat (fk_ciphertext_len ctx2), hdr_reserved = 0\<rparr>;
                      filebuf = header_bytes hdr @ the (fk_public_key ctx2) @ the (fk_ciphertext ctx2) @
                        gcm_iv @ encrypted_mk @ gcm_tag in
                  (case write_secure_file io filebuf (dd_master_key dd) of
                    (rc3, mk) \<Rightarrow>
                    if rc3 \<noteq> 0 then (1, dd\<lparr>dd_master_key := mk\<rparr>, None, c2 + 2)
                    else (0, dd\<lparr>dd_master_key := mk,
                             dd_master_pub := snd (write_secure_file io (the (fk_public_key ctx2)) (dd_master_pub dd))\<rparr>,
                          Some (bytes_to_hex (the (fk_secret_key ctx2))), c2 + 2))))))"

definition cmd_init ::
  "openssl \<Rightarrow> liboqs \<Rightarrow> tool_io \<Rightarrow> bool \<Rightarrow> data_dir \<Rightarrow> nat \<Rightarrow> int \<times> data_dir \<times> string option \<times> nat" where
  "cmd_init ssl L io force dd c =
     (if dd_master_key dd \<noteq> None \<and> \<not> force then (1, dd, None, c)
      else generate_and_write_master_key ssl L io dd c)"

definition cmd_rotate ::
  "openssl \<Rightarrow> liboqs \<Rightarrow> tool_io \<Rightarrow> data_dir \<Rightarrow> nat \<Rightarrow> int \<times> data_dir \<times> string option \<times> nat" where
  "cmd_rotate ssl L io dd c =
     (if dd_master_key dd = None then (1, dd, None, c)
      else generate_and_write_master_key ssl L io dd c)"

definition cmd_export_pubkey :: "data_dir \<Rightarrow> int \<times> string option" where
  "cmd_export_pubkey dd =
     (case dd_master_key dd of
        None \<Rightarrow> (1, None)
      | Some data \<Rightarrow>
          if length data < 24 then (1, None)
          else let hdr = parse_header data in
          if hdr_magic hdr \<noteq> TDE_MASTER_KEY_MAGIC then (1, None)
          else if length data < 24 + unat (hdr_pubkey_len hdr) then (1, None)
          else (0, Some (bytes_to_hex (take (unat (hdr_pubkey_len hdr)) (drop 24 data)))))"

definition cmd_info :: "data_dir \<Rightarrow> int \<times> (32 word \<times> 32 word \<times> 32 word \<times> nat) option" where
  "cmd_info dd =
     (case dd_master_key dd of
        None \<Rightarrow> (1, None)
      | Some data \<Rightarrow>
          if length data < 24 then (1, None)
          else let hdr = parse_header data in
          if hdr_magic hdr \<noteq> TDE_MASTER_KEY_MAGIC then (1, None)
          else (0, Some (hdr_version hdr, hdr_pubkey_len hdr, hdr_ciphertext_len hdr, length data)))"

section \<open>Hexadecimal\<close>

lemma hexchars_facts:
  "list_all (\<lambda>n. hex_val (hexchars ! n) = Some n \<and> \<not> is_space (hexchars ! n)) [0..<16]"
  by code_simp

lemma hex_val_hexchars: "n < 16 \<Longrightarrow> hex_val (hexchars ! n) = Some n \<and> \<not> is_space (hexchars ! n)"
  using hexchars_facts by (simp add: list_all_iff)

lemma hex_val_x: "hex_val CHR ''x'' = None" "hex_val CHR ''X'' = None"
  by (simp_all add: hex_val_def)

lemma sscanf_02x_pair:
  assumes "h < 16" "l < 16"
  shows "sscanf_02x (hexchars ! h # hexchars ! l # rest) = Some (of_nat (16 * h + l))"
proof -
  have "hexchars ! l \<noteq> CHR ''x''" "hexchars ! l \<noteq> CHR ''X''"
    using hex_val_hexchars [OF assms(2)] hex_val_x by auto
  then show ?thesis
    using hex_val_hexchars [OF assms(1)] hex_val_hexchars [OF assms(2)]
    by (simp add: sscanf_02x_def hd_opt_def)
qed

lemma byte_nibbles:
  fixes b :: byte
  shows "unat (drop_bit 4 b AND 0x0F) < 16" "unat (b AND 0x0F) < 16"
    "16 * unat (drop_bit 4 b AND 0x0F) + unat (b AND 0x0F) = unat b"
proof -
  have mask: "x AND 0x0F = take_bit 4 x" for x :: byte
    by (simp add: take_bit_eq_mask mask_eq_exp_minus_1)
  have nat: "unat (take_bit 4 x) = unat x mod 16" for x :: byte
    unfolding unsigned_take_bit_eq by (simp add: take_bit_nat_def)
  have lo: "unat (b AND 0x0F) = unat b mod 16"
    by (simp add: mask nat)
  have "unat b < 256"
    using unsigned_less [of b] by simp
  then have "unat (drop_bit 4 b) = unat b div 16"
    unfolding unsigned_drop_bit_eq by (simp add: drop_bit_nat_def take_bit_nat_eq_self)
  with \<open>unat b < 256\<close> have hi: "unat (drop_bit 4 b AND 0x0F) = unat b div 16"
    by (simp add: mask nat)
  show "unat (drop_bit 4 b AND 0x0F) < 16" "unat (b AND 0x0F) < 16"
    "16 * unat (drop_bit 4 b AND 0x0F) + unat (b AND 0x0F) = unat b"
    using \<open>unat b < 256\<close> unfolding lo hi by auto
qed

lemma bytes_to_hex_Cons:
  "bytes_to_hex (b # bs) = hexchars ! unat (drop_bit 4 b AND 0x0F) # hexchars ! unat (b AND 0x0F) # bytes_to_hex bs"
  by (simp add: bytes_to_hex_def)

lemma length_bytes_to_hex [simp]: "length (bytes_to_hex bs) = 2 * length bs"
  by (induction bs) (simp_all add: bytes_to_hex_Cons bytes_to_hex_def)

lemma drop_bytes_to_hex: "drop (i * 2) (bytes_to_hex bs) = bytes_to_hex (drop i bs)"
  by (induction bs arbitrary: i) (simp add: bytes_to_hex_def, case_tac i, simp_all add: bytes_to_hex_Cons)

lemma ucast_byte_word: "ucast (ucast b :: 32 word) = (b :: byte)"
  by (rule bit_word_eqI) (simp add: bit_simps)

text \<open>The server decodes what the tool prints.\<close>

lemma hex_decode_bytes_to_hex:
  "list_all (\<lambda>i. i < length bs) is \<Longrightarrow> hex_decode_loop (bytes_to_hex bs) is = Inr (map ((!) bs) is)"
proof (induction "is")
  case (Cons i "is")
  then have "drop (i * 2) (bytes_to_hex bs) = bytes_to_hex (bs ! i # drop (Suc i) bs)"
    by (simp add: drop_bytes_to_hex Cons_nth_drop_Suc)
  then have "sscanf_02x (drop (i * 2) (bytes_to_hex bs)) = Some (of_nat (unat (bs ! i)))"
    using byte_nibbles [of "bs ! i"] by (simp add: bytes_to_hex_Cons sscanf_02x_pair del: of_nat_add of_nat_mult)
  then show ?case
    using Cons by (simp add: ucast_byte_word)
qed simp

lemma hex_decode_all: "hex_decode_loop (bytes_to_hex bs) [0..<length (bytes_to_hex bs) div 2] = Inr bs"
  using hex_decode_bytes_to_hex [of bs "[0..<length bs]"] by (simp add: list_all_iff map_nth)

section \<open>The tool and the server agree\<close>

text \<open>What a successful run leaves behind.\<close>

lemma generate_and_write_master_key_0:
  assumes "generate_and_write_master_key ssl L io dd c = (0, dd', Some hex, c')"
    "OQS_KEM_new L ''ML-KEM-768'' = Some k"
  obtains pk sk ct ss mk tag where
    "OQS_KEM_keypair L k c = Some (pk, sk)" "OQS_KEM_encaps L k (c + 1) pk = Some (ct, ss)"
    "evp_gcm_seal ssl ss (rand_buf ssl (c + 3) 12) (rand_buf ssl (c + 2) 32) = Steps_ok (mk, tag)"
    "hex = bytes_to_hex sk"
    "dd_master_key dd' = Some (header_bytes \<lparr>hdr_magic = TDE_MASTER_KEY_MAGIC, hdr_version = 1, hdr_kem_alg = 1,
       hdr_pubkey_len = of_nat (kem_length_public_key k), hdr_ciphertext_len = of_nat (kem_length_ciphertext k),
       hdr_reserved = 0\<rparr> @ pk @ ct @ rand_buf ssl (c + 3) 12 @ mk @ tag)"
  using assms
  by (auto simp: generate_and_write_master_key_def pqc_kem_ctx_new_def pqc_kem_generate_keypair_def
      pqc_kem_encapsulate_def write_secure_file_def Let_def numeral_2_eq_2 numeral_3_eq_3
      split: option.splits if_splits evp_steps.splits nat.splits prod.splits)

text \<open>The server unwraps a well-formed file when the provider hands it the
  matching secret key.\<close>

lemma tde_unwrap_master_key_ok:
  assumes "kem_correct L" "gcm_correct ssl" "registry_ok st" "\<not> MasterKeyLoaded st"
    and k: "OQS_KEM_new L ''ML-KEM-768'' = Some k"
    and pair: "OQS_KEM_keypair L k c1 = Some (pk, sk)" "OQS_KEM_encaps L k c2 pk = Some (ct, ss)"
    and seal: "evp_gcm_seal ssl ss iv mk = Steps_ok (emk, tag)" "length iv = 12" "length mk = 32"
    and sizes: "0 < kem_length_public_key k" "kem_length_public_key k \<le> 8192"
      "0 < kem_length_ciphertext k" "kem_length_ciphertext k \<le> 8192"
    and fetch: "tde_key_provider_fetch env = Inr (bytes_to_hex sk)"
    and stored: "master_key_file st = Some (header_bytes \<lparr>hdr_magic = TDE_MASTER_KEY_MAGIC, hdr_version = 1, hdr_kem_alg = 1,
       hdr_pubkey_len = of_nat (kem_length_public_key k), hdr_ciphertext_len = of_nat (kem_length_ciphertext k),
       hdr_reserved = 0\<rparr> @ pk @ ct @ iv @ emk @ tag)"
  shows "\<exists>st'. tde_unwrap_master_key ssl L env st = (Inr (), st') \<and> MasterKeyLoaded st' \<and> MasterKey st' = mk"
proof -
  have kem: "length pk = kem_length_public_key k" "length sk = kem_length_secret_key k"
    "length ct = kem_length_ciphertext k" "OQS_KEM_decaps L k ct sk = Some ss"
    using assms(1) k pair unfolding kem_correct_def by blast+
  have gcm: "length emk = 32" "length tag = 16" "evp_gcm_open ssl ss iv emk tag = Steps_ok mk"
    using assms(2) seal unfolding gcm_correct_def by auto
  have nat: "unat (of_nat n :: 32 word) = n" if "n \<le> 8192" for n
    using that by (simp add: unsigned_of_nat take_bit_nat_eq_self)
  let ?h = "\<lparr>hdr_magic = TDE_MASTER_KEY_MAGIC, hdr_version = 1, hdr_kem_alg = 1,
       hdr_pubkey_len = of_nat (kem_length_public_key k), hdr_ciphertext_len = of_nat (kem_length_ciphertext k),
       hdr_reserved = 0\<rparr>"
  have read: "read_master_key_file (header_bytes ?h @ pk @ ct @ iv @ emk @ tag) = Inr (?h, [pk, ct, iv, emk, tag])"
    using kem gcm seal sizes by (intro read_master_key_file_ok) (simp_all add: nat)
  have dec: "pqc_kem_decaps L (Some \<lparr>oqs_kem = k, kem_ctx_alg = 1\<rparr>) (Some ct) (Some sk) s =
      (Inr (PQC_SUCCESS, Some ss), pqc_stat_count_kem_decaps s)" for s :: "'a tde_state_scheme"
    using kem by (simp add: pqc_kem_decaps_def)
  have hexd: "hex_decode_loop (bytes_to_hex sk) [0..<length sk] = Inr sk"
    using hex_decode_all [of sk] by simp
  show ?thesis
    using assms(4) stored read fetch pqc_kem_new_768 [OF assms(3) k] dec hexd gcm(3)
    by (simp add: tde_unwrap_master_key_def)
qed

text \<open>The key file of a successful run is unwrapped to the key the run drew.\<close>

lemma tool_file_unwraps:
  assumes "kem_correct L" "gcm_correct ssl"
    and "OQS_KEM_new L ''ML-KEM-768'' = Some k"
    and "0 < kem_length_public_key k" "kem_length_public_key k \<le> 8192"
    and "0 < kem_length_ciphertext k" "kem_length_ciphertext k \<le> 8192"
    and run: "generate_and_write_master_key ssl L io dd c = (0, dd', Some hex, c')"
    and "registry_ok st" "\<not> MasterKeyLoaded st" "master_key_file st = dd_master_key dd'"
    and "tde_key_provider_fetch env = Inr hex"
  shows "\<exists>st'. tde_unwrap_master_key ssl L env st = (Inr (), st') \<and> MasterKeyLoaded st' \<and>
    MasterKey st' = rand_buf ssl (c + 2) 32"
  using run assms(3)
proof (rule generate_and_write_master_key_0)
  fix pk sk ct ss mk tag
  assume "OQS_KEM_keypair L k c = Some (pk, sk)" "OQS_KEM_encaps L k (c + 1) pk = Some (ct, ss)"
    "evp_gcm_seal ssl ss (rand_buf ssl (c + 3) 12) (rand_buf ssl (c + 2) 32) = Steps_ok (mk, tag)"
    "hex = bytes_to_hex sk"
    "dd_master_key dd' = Some (header_bytes \<lparr>hdr_magic = TDE_MASTER_KEY_MAGIC, hdr_version = 1, hdr_kem_alg = 1,
       hdr_pubkey_len = of_nat (kem_length_public_key k), hdr_ciphertext_len = of_nat (kem_length_ciphertext k),
       hdr_reserved = 0\<rparr> @ pk @ ct @ rand_buf ssl (c + 3) 12 @ mk @ tag)"
  then show ?thesis
    using assms by (intro tde_unwrap_master_key_ok) simp_all
qed

text \<open>C4: Key file agreement between the offline tool and the server.  When
  pg_tde_master_key (init or rotate) exits with status 0, a server started on
  that data directory whose key provider returns the printed secret key
  unwraps exactly the master key the tool generated.\<close>

theorem tool_key_unwraps:
  assumes "kem_correct L" "gcm_correct ssl"
    and "OQS_KEM_new L ''ML-KEM-768'' = Some k"
    and "0 < kem_length_public_key k" "kem_length_public_key k \<le> 8192"
    and "0 < kem_length_ciphertext k" "kem_length_ciphertext k \<le> 8192"
    and "generate_and_write_master_key ssl L io dd c = (0, dd', Some hex, c')"
    and "registry_ok st" "\<not> MasterKeyLoaded st" "master_key_file st = dd_master_key dd'"
    and "tde_key_provider_fetch env = Inr hex"
  shows "\<exists>st'. tde_unwrap_master_key ssl L env st = (Inr (), st') \<and> MasterKeyLoaded st' \<and>
    MasterKey st' = rand_buf ssl (c + 2) 32"
  using tool_file_unwraps [OF assms] .

definition sample_tool_io :: tool_io where
  "sample_tool_io = \<lparr>dirs_ok = True, open_ok = True, write_len = 10000, fclose_ok = True\<rparr>"

definition sample_run :: "int \<times> data_dir \<times> string option \<times> nat" where
  "sample_run = generate_and_write_master_key sample_ssl sample_oqs sample_tool_io
     \<lparr>dd_master_key = None, dd_master_pub = None\<rparr> 0"

definition sample_server :: tde_state where
  "sample_server = \<lparr>pqc_initialized = False, pqc_algorithms = pqc_algorithms_table, pqc_stat_counters = None, coins = 0,
     tde_enabled = True, TdeKeyCacheShmem = Some zero_cache, MasterKey = replicate 32 0, MasterKeyLoaded = False,
     MasterKeyExitRegistered = False, master_key_file = dd_master_key (fst (snd sample_run))\<rparr>"

definition sample_provider :: provider_env where
  "sample_provider = \<lparr>tde_key_provider = 0, env_secret_key = Some ''0007'', tde_key_file = None,
     key_file_stat_ok = False, key_file_content = None, tde_key_command = None, command_output = None, command_exit = 0\<rparr>"

lemma sample_run_eq: "sample_run = (0, fst (snd sample_run), Some ''0007'', 4)"
  by (simp add: sample_run_def generate_and_write_master_key_def pqc_kem_ctx_new_def pqc_kem_generate_keypair_def
      pqc_kem_encapsulate_def write_secure_file_def Let_def sample_oqs_def sample_ssl_def sample_kem_def
      sample_tool_io_def bytes_to_hex_def hexchars_def header_code.enc_length rand_buf_def)

theorem tool_key_unwraps_witness:
  "\<exists>st'. tde_unwrap_master_key sample_ssl sample_oqs sample_provider sample_server = (Inr (), st') \<and>
     MasterKeyLoaded st' \<and> MasterKey st' = rand_buf sample_ssl 2 32"
proof -
  have "generate_and_write_master_key sample_ssl sample_oqs sample_tool_io
      \<lparr>dd_master_key = None, dd_master_pub = None\<rparr> 0 = (0, fst (snd sample_run), Some ''0007'', 4)"
    using sample_run_eq by (simp only: sample_run_def)
  moreover have "OQS_KEM_new sample_oqs ''ML-KEM-768'' = Some (sample_kem ''ML-KEM-768'')"
    by (simp add: sample_oqs_def)
  moreover have "registry_ok sample_server"
    by (simp add: registry_ok_def sample_server_def)
  moreover have "tde_key_provider_fetch sample_provider = Inr ''0007''"
    by (simp add: sample_provider_def tde_key_provider_fetch_def tde_key_provider_fetch_env_def)
  ultimately show ?thesis
    using tool_key_unwraps [of sample_oqs sample_ssl "sample_kem ''ML-KEM-768''" sample_tool_io
        "\<lparr>dd_master_key = None, dd_master_pub = None\<rparr>" 0 "fst (snd sample_run)" "''0007''" 4
        sample_server sample_provider] kem_correct_sample gcm_correct_sample
    by (simp add: sample_kem_def sample_server_def numeral_2_eq_2)
qed

end
