(* ===== verification/Json.thy ===== *)
theory Json
  imports PgPort
begin

text \<open>
  JSON string literals: escape_json of backend/utils/adt/json.c writes them,
  json_lex_string of common/jsonapi.c reads them (a complete input with
  de-escaping on, UTF-8 as the server encoding), with the code point
  conversions of include/mb/pg_wchar.h.  The audit log stores its event
  details in this form.
\<close>

section \<open>Code points\<close>

definition is_valid_unicode_codepoint :: "32 word \<Rightarrow> bool" where
  "is_valid_unicode_codepoint c \<longleftrightarrow> c > 0 \<and> c \<le> 0x10FFFF"

definition is_utf16_surrogate_first :: "32 word \<Rightarrow> bool" where
  "is_utf16_surrogate_first c \<longleftrightarrow> c \<ge> 0xD800 \<and> c \<le> 0xDBFF"

definition is_utf16_surrogate_second :: "32 word \<Rightarrow> bool" where
  "is_utf16_surrogate_second c \<longleftrightarrow> c \<ge> 0xDC00 \<and> c \<le> 0xDFFF"

definition surrogate_pair_to_codepoint :: "32 word \<Rightarrow> 32 word \<Rightarrow> 32 word" where
  "surrogate_pair_to_codepoint hi lo = push_bit 10 (hi AND 0x3FF) + 0x10000 + (lo AND 0x3FF)"

definition unicode_to_utf8 :: "32 word \<Rightarrow> bytes" where
  "unicode_to_utf8 c =
     (if c \<le> 0x7F then [ucast c]
      else if c \<le> 0x7FF then [ucast (0xC0 OR (drop_bit 6 c AND 0x1F)), ucast (0x80 OR (c AND 0x3F))]
      else if c \<le> 0xFFFF then [ucast (0xE0 OR (drop_bit 12 c AND 0x0F)), ucast (0x80 OR (drop_bit 6 c AND 0x3F)),
        ucast (0x80 OR (c AND 0x3F))]
      else [ucast (0xF0 OR (drop_bit 18 c AND 0x07)), ucast (0x80 OR (drop_bit 12 c AND 0x3F)),
        ucast (0x80 OR (drop_bit 6 c AND 0x3F)), ucast (0x80 OR (c AND 0x3F))])"

definition pg_unicode_to_server_noerror :: "32 word \<Rightarrow> string option" where
  "pg_unicode_to_server_noerror c =
     (if \<not> is_valid_unicode_codepoint c then None
      else if c \<le> 0x7F then Some [char_of (unat c)]
      else Some (map (\<lambda>b. char_of (unat b)) (unicode_to_utf8 c)))"

section \<open>Writing\<close>

definition json_hexdigit :: "nat \<Rightarrow> char" where
  "json_hexdigit n = (if n < 10 then char_of (48 + n) else char_of (87 + n))"

text \<open>The four-digit hexadecimal directive, on values below 65536.\<close>

definition fmt_04x :: "nat \<Rightarrow> string" where
  "fmt_04x n = map (\<lambda>i. json_hexdigit (n div 16 ^ i mod 16)) [3, 2, 1, 0]"

definition escape_json_char :: "char \<Rightarrow> string" where
  "escape_json_char c =
     (if c = CHR 0x08 then [CHR 0x5C, CHR ''b'']
      else if c = CHR 0x0C then [CHR 0x5C, CHR ''f'']
      else if c = CHR 0x0A then [CHR 0x5C, CHR ''n'']
      else if c = CHR 0x0D then [CHR 0x5C, CHR ''r'']
      else if c = CHR 0x09 then [CHR 0x5C, CHR ''t'']
      else if c = CHR 0x22 then [CHR 0x5C, CHR 0x22]
      else if c = CHR 0x5C then [CHR 0x5C, CHR 0x5C]
      else if of_char c < (32 :: nat) then [CHR 0x5C, CHR ''u''] @ fmt_04x (of_char c)
      else [c])"

definition escape_json :: "string \<Rightarrow> string" where
  "escape_json str = CHR 0x22 # concat (map escape_json_char str) @ [CHR 0x22]"

section \<open>Reading\<close>

datatype JsonParseErrorType =
    JSON_INVALID_TOKEN | JSON_UNICODE_ESCAPE_FORMAT | JSON_UNICODE_HIGH_SURROGATE | JSON_UNICODE_LOW_SURROGATE
  | JSON_UNICODE_CODE_POINT_ZERO | JSON_UNICODE_UNTRANSLATABLE | JSON_ESCAPING_INVALID | JSON_ESCAPING_REQUIRED

definition json_hexval :: "char \<Rightarrow> nat option" where
  "json_hexval c = (let n = of_char c :: nat in
     if 48 \<le> n \<and> n \<le> 57 then Some (n - 48)
     else if 97 \<le> n \<and> n \<le> 102 then Some (n - 97 + 10)
     else if 65 \<le> n \<and> n \<le> 70 then Some (n - 65 + 10)
     else None)"

fun json_hex_loop :: "nat \<Rightarrow> nat \<Rightarrow> string \<Rightarrow> JsonParseErrorType + nat \<times> string" where
  "json_hex_loop 0 ch s = Inr (ch, s)"
| "json_hex_loop (Suc k) ch [] = Inl JSON_INVALID_TOKEN"
| "json_hex_loop (Suc k) ch (c # s) =
     (case json_hexval c of
        Some v \<Rightarrow> json_hex_loop k (ch * 16 + v) s
      | None \<Rightarrow> Inl JSON_UNICODE_ESCAPE_FORMAT)"

definition json_simple_escape :: "char \<Rightarrow> char option" where
  "json_simple_escape c =
     (if c = CHR 0x22 \<or> c = CHR 0x5C \<or> c = CHR ''/'' then Some c
      else if c = CHR ''b'' then Some (CHR 0x08)
      else if c = CHR ''f'' then Some (CHR 0x0C)
      else if c = CHR ''n'' then Some (CHR 0x0A)
      else if c = CHR ''r'' then Some (CHR 0x0D)
      else if c = CHR ''t'' then Some (CHR 0x09)
      else None)"

lemma json_hex_loop_length: "json_hex_loop k ch s = Inr (ch', s') \<Longrightarrow> length s' \<le> length s"
  by (induction k ch s rule: json_hex_loop.induct) (auto split: option.splits)

text \<open>The main loop from the position after the opening quote: pending high
  surrogate, de-escaped text so far, remaining input.  The result is the
  text and the input after the closing quote.\<close>

function json_lex_loop :: "32 word option \<Rightarrow> string \<Rightarrow> string \<Rightarrow> JsonParseErrorType + string \<times> string" where
  "json_lex_loop hi strval [] = Inl JSON_INVALID_TOKEN"
| "json_lex_loop hi strval (c # s) =
     (if c = CHR 0x22 then (if hi \<noteq> None then Inl JSON_UNICODE_LOW_SURROGATE else Inr (strval, s))
      else if c = CHR 0x5C then
        (case s of
           [] \<Rightarrow> Inl JSON_INVALID_TOKEN
         | e # s1 \<Rightarrow>
             if e = CHR ''u'' then
               (case json_hex_loop 4 0 s1 of
                  Inl err \<Rightarrow> Inl err
                | Inr (n, s2) \<Rightarrow>
                    let ch = of_nat n in
                    if is_utf16_surrogate_first ch then
                      if hi \<noteq> None then Inl JSON_UNICODE_HIGH_SURROGATE else json_lex_loop (Some ch) strval s2
                    else if is_utf16_surrogate_second ch \<and> hi = None then Inl JSON_UNICODE_LOW_SURROGATE
                    else if \<not> is_utf16_surrogate_second ch \<and> hi \<noteq> None then Inl JSON_UNICODE_LOW_SURROGATE
                    else
                      let ch = (case hi of Some h \<Rightarrow> surrogate_pair_to_codepoint h ch | None \<Rightarrow> ch) in
                      if ch = 0 then Inl JSON_UNICODE_CODE_POINT_ZERO
                      else (case pg_unicode_to_server_noerror ch of
                          None \<Rightarrow> Inl JSON_UNICODE_UNTRANSLATABLE
                        | Some cbuf \<Rightarrow> json_lex_loop None (strval @ cbuf) s2))
             else if hi \<noteq> None then Inl JSON_UNICODE_LOW_SURROGATE
             else (case json_simple_escape e of
                 None \<Rightarrow> Inl JSON_ESCAPING_INVALID
               | Some x \<Rightarrow> json_lex_loop None (strval @ [x]) s1))
      else if hi \<noteq> None then Inl JSON_UNICODE_LOW_SURROGATE
      else if of_char c \<le> (31 :: nat) then Inl JSON_ESCAPING_REQUIRED
      else json_lex_loop None (strval @ [c]) s)"
  by pat_completeness auto
termination
  by (relation "measure (\<lambda>(hi, strval, s). length s)") (auto dest!: json_hex_loop_length)

declare json_lex_loop.simps(2) [simp del]

text \<open>The token starts at its opening quote, which the lexer steps over.\<close>

definition json_lex_string :: "string \<Rightarrow> JsonParseErrorType + string \<times> string" where
  "json_lex_string token = json_lex_loop None [] (tl token)"

section \<open>Reading what was written\<close>

lemma json_hexval_digit: "n < 16 \<Longrightarrow> json_hexval (json_hexdigit n) = Some n"
  by (auto simp: json_hexval_def json_hexdigit_def of_char_of Let_def)

lemma json_hex_loop_04x: "n < 65536 \<Longrightarrow> json_hex_loop 4 0 (fmt_04x n @ r) = Inr (n, r)"
proof -
  assume "n < 65536"
  define a b c where abc: "a = n div 16" "b = a div 16" "c = b div 16"
  have div: "n div 4096 = c" "n div 256 = b"
    by (simp_all add: abc div_mult2_eq [symmetric])
  have c: "c < 16"
    using \<open>n < 65536\<close> unfolding abc by (simp add: less_mult_imp_div_less)
  then have "((c * 16 + b mod 16) * 16 + a mod 16) * 16 + n mod 16 = n"
    using div_mult_mod_eq [of n 16] div_mult_mod_eq [of a 16] div_mult_mod_eq [of b 16] unfolding abc by simp
  moreover have four: "(4 :: nat) = Suc (Suc (Suc (Suc 0)))"
    by simp
  ultimately show ?thesis
    using c unfolding four by (simp add: fmt_04x_def json_hexval_digit div flip: abc)
qed

lemma json_lex_control:
  assumes "(of_char c :: nat) < 32" "(of_char c :: nat) \<noteq> 0"
  shows "json_lex_loop None out ([CHR 0x5C, CHR ''u''] @ fmt_04x (of_char c) @ r) = json_lex_loop None (out @ [c]) r"
proof -
  let ?n = "of_char c :: nat"
  have n: "unat (of_nat ?n :: 32 word) = ?n"
    using assms by (simp add: unsigned_of_nat take_bit_nat_eq_self)
  then have "\<not> is_utf16_surrogate_first (of_nat ?n)" "\<not> is_utf16_surrogate_second (of_nat ?n)"
    "(of_nat ?n :: 32 word) \<noteq> 0" "is_valid_unicode_codepoint (of_nat ?n)" "(of_nat ?n :: 32 word) \<le> 0x7F"
    using assms by (auto simp: is_utf16_surrogate_first_def is_utf16_surrogate_second_def
        is_valid_unicode_codepoint_def word_le_nat_alt word_less_nat_alt)
  then show ?thesis
    using assms n by (simp add: json_lex_loop.simps json_hex_loop_04x pg_unicode_to_server_noerror_def)
qed

lemma json_lex_char:
  assumes "(of_char c :: nat) \<noteq> 0"
  shows "json_lex_loop None out (escape_json_char c @ r) = json_lex_loop None (out @ [c]) r"
proof (cases "c \<in> {CHR 0x08, CHR 0x0C, CHR 0x0A, CHR 0x0D, CHR 0x09, CHR 0x22, CHR 0x5C}")
  case True
  then show ?thesis
    by (auto simp: escape_json_char_def json_lex_loop.simps json_simple_escape_def)
next
  case False
  then show ?thesis
    using assms json_lex_control [of c out r] by (auto simp: escape_json_char_def json_lex_loop.simps)
qed

lemma json_lex_chars:
  "c_string s \<Longrightarrow> json_lex_loop None out (concat (map escape_json_char s) @ CHR 0x22 # r) = Inr (out @ s, r)"
  by (induction s arbitrary: out) (simp_all add: json_lex_char json_lex_loop.simps)

text \<open>C21: A string written as a JSON literal is read back as it was, and the
  reader stops right after the literal whatever follows: quotes, backslashes
  and control characters in an object name or a query text cannot end the
  literal early.\<close>

theorem json_string_roundtrip:
  assumes "c_string s"
  shows "json_lex_string (escape_json s @ rest) = Inr (s, rest)"
  using json_lex_chars [OF assms, of "[]" rest] by (simp add: json_lex_string_def escape_json_def)

theorem json_string_roundtrip_witness:
  "json_lex_string (escape_json [CHR ''a'', CHR 0x22, CHR 0x01, CHR 0x5C] @ ''}'') =
     Inr ([CHR ''a'', CHR 0x22, CHR 0x01, CHR 0x5C], ''}'')"
  by (rule json_string_roundtrip) simp

end
