(* ===== verification/AuditLog.thy ===== *)
theory AuditLog
  imports PqcSql PqcSig Json
begin

text \<open>
  The hybrid audit log of contrib/pgcrypto_pqc/pgcrypto_pqc.c: the Ed25519 and
  SHA-384 helpers, the selection of events, the signed and chained entries,
  and the SQL functions that create keys, sign, and verify.  An error raised
  by ereport(ERROR) is Inl; a WARNING with which an event is skipped is
  returned as Inr (Some message).  The entry columns that take no part in
  hashing or signing (event_time, session_id, user_name, database_name) are
  not represented.  A jsonb value is its output text; casting that text to
  jsonb and back does not change it.
\<close>

section \<open>Digest and Ed25519 helpers\<close>

abbreviation (input) "AUDIT_HASH_LEN \<equiv> 48 :: nat"

definition ed25519_keygen :: "openssl \<Rightarrow> 'a pqc_state_scheme \<Rightarrow> (bytes \<times> bytes) result \<times> 'a pqc_state_scheme" where
  "ed25519_keygen ssl st =
     ((case ed25519_keypair ssl (coins st) of
         Steps_ok keys \<Rightarrow> Inr keys
       | Step_failed n \<Rightarrow> Inl (PgError ERRCODE_EXTERNAL_ROUTINE_EXCEPTION
           (if n = 0 then ''Ed25519 context creation failed''
            else if n = 1 then ''Ed25519 key generation failed''
            else if n = 2 then ''failed to get Ed25519 public key length''
            else if n = 3 then ''failed to extract Ed25519 public key''
            else if n = 4 then ''failed to get Ed25519 private key length''
            else ''failed to extract Ed25519 private key''))),
      st\<lparr>coins := coins st + 1\<rparr>)"

definition ed25519_sign :: "openssl \<Rightarrow> bytes \<Rightarrow> bytes \<Rightarrow> bytes result" where
  "ed25519_sign ssl message secret_key =
     (case ed25519_sign_msg ssl secret_key message of
        Steps_ok sig \<Rightarrow> Inr sig
      | Step_failed n \<Rightarrow>
          if n = 0 then Inl (PgError ERRCODE_EXTERNAL_ROUTINE_EXCEPTION ''failed to load Ed25519 private key'')
          else if n = 1 then Inl (PgError ERRCODE_OUT_OF_MEMORY ''failed to create digest context'')
          else if n = 2 then Inl (PgError ERRCODE_EXTERNAL_ROUTINE_EXCEPTION ''Ed25519 sign init failed'')
          else if n = 3 then Inl (PgError ERRCODE_EXTERNAL_ROUTINE_EXCEPTION ''Ed25519 sign size query failed'')
          else Inl (PgError ERRCODE_EXTERNAL_ROUTINE_EXCEPTION ''Ed25519 signature generation failed''))"

definition ed25519_verify :: "openssl \<Rightarrow> bytes \<Rightarrow> bytes \<Rightarrow> bytes \<Rightarrow> bool" where
  "ed25519_verify ssl message signature pubkey =
     (case ed25519_verify_msg ssl pubkey message signature of Steps_ok ok \<Rightarrow> ok | Step_failed _ \<Rightarrow> False)"

definition compute_sha384 :: "openssl \<Rightarrow> bytes \<Rightarrow> bytes result" where
  "compute_sha384 ssl data =
     (case evp_sha384 ssl data of
        Digest h \<Rightarrow> Inr h
      | Digest_no_ctx \<Rightarrow> Inl (PgError ERRCODE_OUT_OF_MEMORY ''failed to create SHA-384 digest context'')
      | Digest_init_failed \<Rightarrow> Inl (PgError ERRCODE_EXTERNAL_ROUTINE_EXCEPTION ''SHA-384 hash computation failed'')
      | Digest_final_failed \<Rightarrow> Inl (PgError ERRCODE_EXTERNAL_ROUTINE_EXCEPTION ''SHA-384 hash computation failed''))"

text \<open>What goes into the digest of an entry, in order and without separators.\<close>

definition entry_bytes :: "string \<Rightarrow> string \<Rightarrow> bytes \<Rightarrow> bytes \<Rightarrow> bytes option \<Rightarrow> bytes" where
  "entry_bytes etype detail csig psig prev =
     str_bytes etype @ str_bytes detail @ csig @ psig @ (case prev of Some h \<Rightarrow> h | None \<Rightarrow> [])"

definition compute_entry_hash ::
  "openssl \<Rightarrow> string \<Rightarrow> string \<Rightarrow> bytes \<Rightarrow> bytes \<Rightarrow> bytes option \<Rightarrow> bytes result" where
  "compute_entry_hash ssl etype detail csig psig prev =
     (case evp_sha384 ssl (entry_bytes etype detail csig psig prev) of
        Digest h \<Rightarrow> Inr h
      | Digest_no_ctx \<Rightarrow> Inl (PgError ERRCODE_OUT_OF_MEMORY ''failed to create digest context for entry hash'')
      | Digest_init_failed \<Rightarrow> Inl (PgError ERRCODE_EXTERNAL_ROUTINE_EXCEPTION ''SHA-384 init failed for entry hash'')
      | Digest_final_failed \<Rightarrow> Inl (PgError ERRCODE_EXTERNAL_ROUTINE_EXCEPTION
          ''SHA-384 finalize failed for entry hash''))"

section \<open>Which events are audited\<close>

text \<open>Dropping trailing blanks from a token.\<close>

definition trim_right :: "string \<Rightarrow> string" where
  "trim_right tok = rev (dropWhile (\<lambda>c. c = CHR '' '') (rev tok))"

function audit_event_scan :: "string \<Rightarrow> string \<Rightarrow> bool" where
  "audit_event_scan p etype =
     (let start = dropWhile (\<lambda>c. c = CHR '' '' \<or> c = CHR '','') p in
      if start = [] then False
      else
        let tok = trim_right (takeWhile (\<lambda>c. c \<noteq> CHR '','') start) in
        if length tok = length etype \<and> pg_strncasecmp start etype (length etype) = 0 then True
        else audit_event_scan (dropWhile (\<lambda>c. c \<noteq> CHR '','') start) etype)"
  by pat_completeness auto

lemma audit_event_scan_decreases:
  assumes "start = dropWhile (\<lambda>c. c = CHR '' '' \<or> c = CHR '','') p" "start \<noteq> []"
  shows "length (dropWhile (\<lambda>c. c \<noteq> CHR '','') start) < length p"
proof -
  obtain c cs where start: "start = c # cs"
    using assms(2) by (cases start) auto
  have "c \<noteq> CHR '',''"
    using hd_dropWhile [of "\<lambda>c. c = CHR '' '' \<or> c = CHR '',''" p, folded assms(1)] assms(2) start by simp
  then have "length (dropWhile (\<lambda>c. c \<noteq> CHR '','') start) < length start"
    using length_dropWhile_le [of "\<lambda>c. c \<noteq> CHR '',''" cs] start by simp
  also have "length start \<le> length p"
    using assms(1) by (simp add: length_dropWhile_le)
  finally show ?thesis .
qed

termination audit_event_scan
  by (relation "measure (\<lambda>(p, e). length p)") (use audit_event_scan_decreases in auto)

declare audit_event_scan.simps [simp del]

definition audit_event_is_enabled :: "string option \<Rightarrow> string \<Rightarrow> bool" where
  "audit_event_is_enabled pqc_audit_events etype =
     (case pqc_audit_events of None \<Rightarrow> False | Some [] \<Rightarrow> False | Some p \<Rightarrow> audit_event_scan p etype)"

section \<open>Writing an entry\<close>

text \<open>The SELECT that builds the event detail.  jsonb orders keys by length, so
  query comes before object in the output.\<close>

definition jsonb_object_text :: "string \<Rightarrow> string \<Rightarrow> string" where
  "jsonb_object_text object query =
     ''{'' @ escape_json ''query'' @ '': '' @ escape_json query @ '', '' @
     escape_json ''object'' @ '': '' @ escape_json object @ ''}''"

definition audit_event_json :: "bool \<Rightarrow> string option \<Rightarrow> string option \<Rightarrow> string" where
  "audit_event_json json_ok object_name query_string =
     (if json_ok then jsonb_object_text (case object_name of Some s \<Rightarrow> s | None \<Rightarrow> [])
        (case query_string of Some s \<Rightarrow> s | None \<Rightarrow> [])
      else ''{}'')"

definition insert_audit_log ::
  "string \<Rightarrow> string \<Rightarrow> string \<Rightarrow> bytes \<Rightarrow> string \<Rightarrow> bytes \<Rightarrow> bytes option \<Rightarrow> bytes \<Rightarrow>
     'a pqc_db_scheme \<Rightarrow> 'a pqc_db_scheme" where
  "insert_audit_log etype detail calg csig palg psig prev h db =
     db\<lparr>pqc_audit_log := pqc_audit_log db @ [\<lparr>log_id = Suc (log_id_seq db), event_type = etype, event_detail = detail,
          classical_sig_alg = calg, classical_signature = csig, pqc_sig_alg = palg, pqc_signature = psig,
          prev_hash = prev, entry_hash = h\<rparr>],
        log_id_seq := Suc (log_id_seq db)\<rparr>"

definition audit_log_ddl_event ::
  "openssl \<Rightarrow> liboqs \<Rightarrow> bool \<Rightarrow> string \<Rightarrow> string option \<Rightarrow> string option \<Rightarrow> 'a pqc_db_scheme \<Rightarrow>
     string option result \<times> 'a pqc_db_scheme" where
  "audit_log_ddl_event ssl L json_ok etype object_name query_string db =
     (let db0 = (if pqc_is_available db then db else snd (pqc_init L db)) in
      case load_audit_key ''classical'' (pqc_audit_keys db0) of
        None \<Rightarrow> (Inr (Some ''pqc_audit: no active classical signing key found, skipping audit''), db0)
      | Some (classical_alg, classical_pk, classical_sk) \<Rightarrow>
      (case load_audit_key ''pqc'' (pqc_audit_keys db0) of
        None \<Rightarrow> (Inr (Some ''pqc_audit: no active PQC signing key found, skipping audit''), db0)
      | Some (pqc_alg_name, pqc_pk, pqc_sk) \<Rightarrow>
        let event_json = audit_event_json json_ok object_name query_string in
        (case compute_sha384 ssl (str_bytes event_json) of
          Inl e \<Rightarrow> (Inl e, db0)
        | Inr message_hash \<Rightarrow>
        (case ed25519_sign ssl message_hash classical_sk of
          Inl e \<Rightarrow> (Inl e, db0)
        | Inr classical_sig \<Rightarrow>
          let pqc_alg = pqc_algorithm_from_name db0 (Some pqc_alg_name) in
          if pqc_alg \<ge> PQC_ALG_COUNT then (Inr (Some ''pqc_audit: unknown PQC algorithm''), db0)
          else (case pqc_sig_new L pqc_alg db0 of
            (Inl e, db1) \<Rightarrow> (Inl e, db1)
          | (Inr sig_ctx, db1) \<Rightarrow>
            (case pqc_sig_sign L (Some sig_ctx) (Some message_hash) AUDIT_HASH_LEN pqc_sk db1 of
              (Inl e, db2) \<Rightarrow> (Inl e, db2)
            | (Inr (PQC_SUCCESS, Some pqc_sig), db2) \<Rightarrow>
                let prev = get_prev_hash (pqc_audit_log db2) in
                (case compute_entry_hash ssl etype event_json classical_sig pqc_sig prev of
                  Inl e \<Rightarrow> (Inl e, db2)
                | Inr h \<Rightarrow> (Inr None,
                    insert_audit_log etype event_json classical_alg classical_sig pqc_alg_name pqc_sig prev h db2))
            | (Inr _, db2) \<Rightarrow> (Inr (Some ''pqc_audit: PQC signature generation failed, skipping audit''), db2)))))))"

section \<open>The utility hook\<close>

datatype utility_stmt =
    CreateRoleStmt string
  | AlterRoleStmt "string option"
  | DropRoleStmt
  | GrantStmt bool
  | GrantRoleStmt bool
  | AlterSystemStmt "string option"
  | OtherStmt

text \<open>The audited event of a statement: category, type, object.\<close>

definition classify_stmt :: "utility_stmt \<Rightarrow> (string \<times> string \<times> string option) option" where
  "classify_stmt stmt =
     (case stmt of
        CreateRoleStmt role \<Rightarrow> Some (''ddl'', ''CREATE_ROLE'', Some role)
      | AlterRoleStmt role \<Rightarrow> Some (''ddl'', ''ALTER_ROLE'', role)
      | DropRoleStmt \<Rightarrow> Some (''ddl'', ''DROP_ROLE'', Some ''multiple'')
      | GrantStmt is_grant \<Rightarrow> Some (''grant'', if is_grant then ''GRANT'' else ''REVOKE'', Some ''privileges'')
      | GrantRoleStmt is_grant \<Rightarrow>
          Some (''grant'', if is_grant then ''GRANT_ROLE'' else ''REVOKE_ROLE'', Some ''role_membership'')
      | AlterSystemStmt nm \<Rightarrow> Some (''policy'', ''ALTER_SYSTEM'', nm)
      | OtherStmt \<Rightarrow> None)"

text \<open>exec is the execution of the statement by the previous hook; the error of an
  audit attempt is caught, its effects up to the error stay.\<close>

definition pqc_audit_process_utility ::
  "openssl \<Rightarrow> liboqs \<Rightarrow> bool \<Rightarrow> bool \<Rightarrow> string option \<Rightarrow> ('a pqc_db_scheme \<Rightarrow> unit result \<times> 'a pqc_db_scheme) \<Rightarrow>
     utility_stmt option \<Rightarrow> string option \<Rightarrow> 'a pqc_db_scheme \<Rightarrow> unit result \<times> 'a pqc_db_scheme" where
  "pqc_audit_process_utility ssl L json_ok enabled events exec stmt queryString db =
     (case exec db of
        (Inl e, db1) \<Rightarrow> (Inl e, db1)
      | (Inr _, db1) \<Rightarrow>
          if \<not> enabled then (Inr (), db1)
          else (case Option.bind stmt classify_stmt of
              None \<Rightarrow> (Inr (), db1)
            | Some (category, etype, object_name) \<Rightarrow>
                if \<not> audit_event_is_enabled events category then (Inr (), db1)
                else (Inr (), snd (audit_log_ddl_event ssl L json_ok etype object_name queryString db1))))"

section \<open>Keys and signatures\<close>

definition insert_audit_key :: "string \<Rightarrow> string \<Rightarrow> bytes \<Rightarrow> bytes \<Rightarrow> 'a pqc_db_scheme \<Rightarrow> 'a pqc_db_scheme" where
  "insert_audit_key purpose alg pk sk db =
     db\<lparr>pqc_audit_keys := pqc_audit_keys db @ [\<lparr>key_id = Suc (key_id_seq db), key_purpose = purpose,
          key_algorithm = alg, public_key = pk, encrypted_secret_key = sk, is_active = True\<rparr>],
        key_id_seq := Suc (key_id_seq db)\<rparr>"

definition deactivate_audit_keys :: "'a pqc_db_scheme \<Rightarrow> 'a pqc_db_scheme" where
  "deactivate_audit_keys db = db\<lparr>pqc_audit_keys :=
     map (\<lambda>r. if is_active r then r\<lparr>is_active := False\<rparr> else r) (pqc_audit_keys db)\<rparr>"

definition pqc_audit_init_keys ::
  "openssl \<Rightarrow> liboqs \<Rightarrow> string \<Rightarrow> string \<Rightarrow> 'a pqc_db_scheme \<Rightarrow> unit result \<times> 'a pqc_db_scheme" where
  "pqc_audit_init_keys ssl L classical_alg_name pqc_alg_name db =
     (if pg_strcasecmp classical_alg_name ''Ed25519'' \<noteq> 0
      then (Inl (PgError ERRCODE_INVALID_PARAMETER_VALUE ''unsupported classical algorithm:''), db)
      else
        let pqc_alg = pqc_algorithm_from_name db (Some pqc_alg_name) in
        if pqc_alg \<ge> PQC_ALG_COUNT \<or> \<not> pqc_algorithm_is_sig db pqc_alg
        then (Inl (PgError ERRCODE_INVALID_PARAMETER_VALUE ''unsupported PQC signature algorithm:''), db)
        else
          let db0 = (if pqc_is_available db then db else snd (pqc_init L db)) in
          (case ed25519_keygen ssl db0 of
            (Inl e, db1) \<Rightarrow> (Inl e, db1)
          | (Inr (ed_pk, ed_sk), db1) \<Rightarrow>
            (case pqc_sig_new L pqc_alg db1 of
              (Inl e, db2) \<Rightarrow> (Inl e, db2)
            | (Inr sig_ctx, db2) \<Rightarrow>
              (case pqc_sig_keygen L (Some sig_ctx) db2 of
                (Inl e, db3) \<Rightarrow> (Inl e, db3)
              | (Inr (PQC_SUCCESS, Some (pqc_pk, pqc_sk)), db3) \<Rightarrow>
                  (Inr (), insert_audit_key ''pqc'' pqc_alg_name pqc_pk pqc_sk
                    (insert_audit_key ''classical'' classical_alg_name ed_pk ed_sk (deactivate_audit_keys db3)))
              | (Inr _, db3) \<Rightarrow> (Inl (PgError ERRCODE_EXTERNAL_ROUTINE_EXCEPTION
                  ''PQC signature key generation failed for''), db3)))))"

definition pqc_audit_sign ::
  "openssl \<Rightarrow> liboqs \<Rightarrow> bytes \<Rightarrow> 'a pqc_db_scheme \<Rightarrow> (bytes \<times> bytes \<times> string \<times> string) result \<times> 'a pqc_db_scheme" where
  "pqc_audit_sign ssl L msg db =
     (let db0 = (if pqc_is_available db then db else snd (pqc_init L db)) in
      case load_audit_key ''classical'' (pqc_audit_keys db0) of
        None \<Rightarrow> (Inl (PgError ERRCODE_OBJECT_NOT_IN_PREREQUISITE_STATE ''no active classical audit key found''), db0)
      | Some (classical_alg, classical_pk, classical_sk) \<Rightarrow>
      (case load_audit_key ''pqc'' (pqc_audit_keys db0) of
        None \<Rightarrow> (Inl (PgError ERRCODE_OBJECT_NOT_IN_PREREQUISITE_STATE ''no active PQC audit key found''), db0)
      | Some (pqc_alg_name, pqc_pk, pqc_sk) \<Rightarrow>
        (case ed25519_sign ssl msg classical_sk of
          Inl e \<Rightarrow> (Inl e, db0)
        | Inr classical_sig \<Rightarrow>
          (case pqc_sig_new L (pqc_algorithm_from_name db0 (Some pqc_alg_name)) db0 of
            (Inl e, db1) \<Rightarrow> (Inl e, db1)
          | (Inr sig_ctx, db1) \<Rightarrow>
            (case pqc_sig_sign L (Some sig_ctx) (Some msg) (length msg) pqc_sk db1 of
              (Inl e, db2) \<Rightarrow> (Inl e, db2)
            | (Inr (PQC_SUCCESS, Some pqc_sig), db2) \<Rightarrow>
                (Inr (classical_sig, pqc_sig, classical_alg, pqc_alg_name), db2)
            | (Inr _, db2) \<Rightarrow> (Inl (PgError ERRCODE_EXTERNAL_ROUTINE_EXCEPTION
                ''PQC audit signature generation failed''), db2))))))"

text \<open>The two halves of a verification under the active keys, as they stand both
  in pqc_audit_verify and in pqc_audit_verify_chain.\<close>

definition audit_verify_classical :: "openssl \<Rightarrow> bytes \<Rightarrow> bytes \<Rightarrow> string \<Rightarrow> audit_key_row list \<Rightarrow> bool" where
  "audit_verify_classical ssl msg csig calg keys =
     (case load_audit_key ''classical'' keys of
        None \<Rightarrow> False
      | Some (key_alg, pub_key, sec_key) \<Rightarrow>
          pg_strcasecmp calg ''Ed25519'' = 0 \<and> ed25519_verify ssl msg csig pub_key)"

definition audit_verify_pqc ::
  "liboqs \<Rightarrow> bytes \<Rightarrow> bytes \<Rightarrow> string \<Rightarrow> 'a pqc_db_scheme \<Rightarrow> bool result \<times> 'a pqc_db_scheme" where
  "audit_verify_pqc L msg psig palg db =
     (case load_audit_key ''pqc'' (pqc_audit_keys db) of
        None \<Rightarrow> (Inr False, db)
      | Some (key_alg, pub_key, sec_key) \<Rightarrow>
          let pqc_alg = pqc_algorithm_from_name db (Some palg) in
          if pqc_alg < PQC_ALG_COUNT \<and> pqc_algorithm_is_sig db pqc_alg then
            (case pqc_sig_new L pqc_alg db of
              (Inl e, db1) \<Rightarrow> (Inl e, db1)
            | (Inr sig_ctx, db1) \<Rightarrow>
              (case pqc_sig_verify L (Some sig_ctx) (Some msg) (length msg) psig pub_key db1 of
                (Inl e, db2) \<Rightarrow> (Inl e, db2)
              | (Inr status, db2) \<Rightarrow> (Inr (status = PQC_SUCCESS), db2)))
          else (Inr False, db))"

definition pqc_audit_verify ::
  "openssl \<Rightarrow> liboqs \<Rightarrow> bytes \<Rightarrow> bytes \<Rightarrow> string \<Rightarrow> bytes \<Rightarrow> string \<Rightarrow> 'a pqc_db_scheme \<Rightarrow>
     (bool \<times> bool) result \<times> 'a pqc_db_scheme" where
  "pqc_audit_verify ssl L msg csig calg psig palg db =
     (let db0 = (if pqc_is_available db then db else snd (pqc_init L db));
          classical_valid = audit_verify_classical ssl msg csig calg (pqc_audit_keys db0) in
      case audit_verify_pqc L msg psig palg db0 of
        (Inl e, db1) \<Rightarrow> (Inl e, db1)
      | (Inr pqc_valid, db1) \<Rightarrow> (Inr (classical_valid, pqc_valid), db1))"

section \<open>Verifying the chain\<close>

text \<open>One row of pqc_audit_verify_chain: log_id, chain_valid, classical_sig_valid,
  pqc_sig_valid.\<close>

definition audit_verify_entry ::
  "openssl \<Rightarrow> liboqs \<Rightarrow> audit_log_row \<Rightarrow> 'a pqc_db_scheme \<Rightarrow> (nat \<times> bool \<times> bool \<times> bool) result \<times> 'a pqc_db_scheme" where
  "audit_verify_entry ssl L r db =
     (case compute_entry_hash ssl (event_type r) (event_detail r) (classical_signature r) (pqc_signature r) (prev_hash r) of
        Inl e \<Rightarrow> (Inl e, db)
      | Inr recomputed_hash \<Rightarrow>
          let chain_valid = (length (entry_hash r) = AUDIT_HASH_LEN \<and> take AUDIT_HASH_LEN recomputed_hash = entry_hash r) in
          (case compute_sha384 ssl (str_bytes (event_detail r)) of
            Inl e \<Rightarrow> (Inl e, db)
          | Inr message_hash \<Rightarrow>
              let classical_valid = audit_verify_classical ssl message_hash (classical_signature r) (classical_sig_alg r)
                    (pqc_audit_keys db) in
              (case audit_verify_pqc L message_hash (pqc_signature r) (pqc_sig_alg r) db of
                (Inl e, db1) \<Rightarrow> (Inl e, db1)
              | (Inr pqc_valid, db1) \<Rightarrow> (Inr (log_id r, chain_valid, classical_valid, pqc_valid), db1))))"

fun audit_verify_rows ::
  "openssl \<Rightarrow> liboqs \<Rightarrow> audit_log_row list \<Rightarrow> 'a pqc_db_scheme \<Rightarrow>
     (nat \<times> bool \<times> bool \<times> bool) list result \<times> 'a pqc_db_scheme" where
  "audit_verify_rows ssl L [] db = (Inr [], db)"
| "audit_verify_rows ssl L (r # rs) db =
     (case audit_verify_entry ssl L r db of
        (Inl e, db1) \<Rightarrow> (Inl e, db1)
      | (Inr x, db1) \<Rightarrow>
          (case audit_verify_rows ssl L rs db1 of
             (Inl e, db2) \<Rightarrow> (Inl e, db2)
           | (Inr xs, db2) \<Rightarrow> (Inr (x # xs), db2)))"

definition pqc_audit_verify_chain ::
  "openssl \<Rightarrow> liboqs \<Rightarrow> int option \<Rightarrow> int option \<Rightarrow> 'a pqc_db_scheme \<Rightarrow>
     (nat \<times> bool \<times> bool \<times> bool) list result \<times> 'a pqc_db_scheme" where
  "pqc_audit_verify_chain ssl L start_id end_id db =
     (let db0 = (if pqc_is_available db then db else snd (pqc_init L db));
          start = (case start_id of None \<Rightarrow> 1 | Some s \<Rightarrow> s);
          rows = sort_key log_id (filter (\<lambda>r. int (log_id r) \<ge> start \<and>
            (case end_id of None \<Rightarrow> True | Some e \<Rightarrow> int (log_id r) \<le> e)) (pqc_audit_log db0))
      in audit_verify_rows ssl L rows db0)"

end
