(* ===== verification/AuditChain.thy ===== *)
theory AuditChain
  imports AuditLog Samples
begin

text \<open>
  What the audit log guarantees: every entry the extension writes verifies, an
  audit failure never changes the outcome of the statement, the selection of
  events is membership in a comma-separated list; and what it does not: the
  verification compares no entry with its predecessor and the signatures
  cover the event detail only.
\<close>

section \<open>Selection of events\<close>

text \<open>Reference: split at commas, strip blanks on both sides, compare without
  regard to case.\<close>

fun split_commas :: "string \<Rightarrow> string list" where
  "split_commas [] = [[]]"
| "split_commas (c # cs) = (if c = CHR '','' then [] # split_commas cs
     else (c # hd (split_commas cs)) # tl (split_commas cs))"

definition trim_blanks :: "string \<Rightarrow> string" where
  "trim_blanks s = trim_right (dropWhile (\<lambda>c. c = CHR '' '') s)"

definition event_listed :: "string \<Rightarrow> string \<Rightarrow> bool" where
  "event_listed events etype \<longleftrightarrow>
     list_ex (\<lambda>tok. map pg_tolower (trim_blanks tok) = map pg_tolower etype) (split_commas events)"

lemma split_commas_ne [simp]: "split_commas s \<noteq> []"
  by (induction s) auto

lemma split_commas_token:
  "split_commas s = takeWhile (\<lambda>c. c \<noteq> CHR '','') s #
     (case dropWhile (\<lambda>c. c \<noteq> CHR '','') s of [] \<Rightarrow> [] | _ # r \<Rightarrow> split_commas r)"
  by (induction s) (auto split: list.splits)

lemma event_listed_blank: "etype \<noteq> [] \<Longrightarrow> event_listed (CHR '' '' # s) etype = event_listed s etype"
  by (subst (1 2) event_listed_def, subst (1 2) split_commas_token) (simp add: trim_blanks_def)

lemma event_listed_comma: "etype \<noteq> [] \<Longrightarrow> event_listed (CHR '','' # s) etype = event_listed s etype"
  by (simp add: event_listed_def trim_blanks_def trim_right_def)

lemma event_listed_skip:
  "etype \<noteq> [] \<Longrightarrow>
     event_listed (dropWhile (\<lambda>c. c = CHR '' '' \<or> c = CHR '','') s) etype = event_listed s etype"
  by (induction s) (auto simp: event_listed_blank event_listed_comma)

lemma event_listed_Nil: "etype \<noteq> [] \<Longrightarrow> \<not> event_listed [] etype"
  by (simp add: event_listed_def trim_blanks_def trim_right_def)

lemma trim_right_prefix: "\<exists>r. s = trim_right s @ r"
  by (rule exI [of _ "rev (takeWhile (\<lambda>c. c = CHR '' '') (rev s))"])
    (simp add: trim_right_def flip: rev_append)

lemma take_token:
  "length (trim_right (takeWhile P s)) = n \<Longrightarrow> take n s = trim_right (takeWhile P s)"
  using trim_right_prefix [of "takeWhile P s"] takeWhile_dropWhile_id [of P s]
  by (metis append.assoc append_eq_conv_conj)

text \<open>One item of the list.\<close>

lemma event_listed_item:
  assumes "etype \<noteq> []" "c \<noteq> CHR '' ''"
  shows "event_listed (c # cs) etype \<longleftrightarrow>
    map pg_tolower (trim_right (takeWhile (\<lambda>c. c \<noteq> CHR '','') (c # cs))) = map pg_tolower etype \<or>
    event_listed (dropWhile (\<lambda>c. c \<noteq> CHR '','') (c # cs)) etype"
proof -
  let ?s = "c # cs"
  let ?tok = "takeWhile (\<lambda>c. c \<noteq> CHR '','') ?s" and ?rest = "dropWhile (\<lambda>c. c \<noteq> CHR '','') ?s"
  have trim: "trim_blanks ?tok = trim_right ?tok"
    using assms(2) by (simp add: trim_blanks_def)
  have first: "event_listed ?s etype \<longleftrightarrow> map pg_tolower (trim_right ?tok) = map pg_tolower etype \<or>
      list_ex (\<lambda>tok. map pg_tolower (trim_blanks tok) = map pg_tolower etype)
        (case ?rest of [] \<Rightarrow> [] | _ # r \<Rightarrow> split_commas r)"
    unfolding event_listed_def split_commas_token [of ?s] by (simp add: trim del: takeWhile.simps dropWhile.simps)
  show ?thesis
  proof (cases ?rest)
    case Nil
    show ?thesis
      unfolding first Nil using event_listed_Nil [OF assms(1)] by simp
  next
    case (Cons d r)
    then have "d = CHR '',''"
      by (metis (mono_tags, lifting) hd_dropWhile list.discI list.sel(1))
    then show ?thesis
      unfolding first Cons using event_listed_comma [OF assms(1), of r] by (simp add: event_listed_def)
  qed
qed

lemma token_matches:
  assumes "c_string s" "c_string etype"
  shows "length (trim_right (takeWhile P s)) = length etype \<and> pg_strncasecmp s etype (length etype) = 0 \<longleftrightarrow>
    map pg_tolower (trim_right (takeWhile P s)) = map pg_tolower etype"
proof (cases "length (trim_right (takeWhile P s)) = length etype")
  case True
  show ?thesis
    using pg_strncasecmp_eq_0 [OF assms, of "length etype"] True unfolding take_token [OF True] by simp
next
  case False
  then show ?thesis
    by (metis length_map)
qed

lemma audit_event_scan_listed:
  assumes "c_string p" "c_string etype" "etype \<noteq> []"
  shows "audit_event_scan p etype = event_listed p etype"
  using assms
proof (induction p etype rule: audit_event_scan.induct)
  case (1 p etype)
  define s where s: "s = dropWhile (\<lambda>c. c = CHR '' '' \<or> c = CHR '','') p"
  have skip: "event_listed p etype = event_listed s etype"
    using event_listed_skip [OF 1(4), of p] unfolding s by simp
  have step: "audit_event_scan p etype = (if s = [] then False
      else if length (trim_right (takeWhile (\<lambda>c. c \<noteq> CHR '','') s)) = length etype \<and> pg_strncasecmp s etype (length etype) = 0
      then True else audit_event_scan (dropWhile (\<lambda>c. c \<noteq> CHR '','') s) etype)"
    unfolding s by (subst audit_event_scan.simps) (simp only: Let_def)
  show ?case
  proof (cases s)
    case Nil
    then show ?thesis
      using skip event_listed_Nil [OF 1(4)] step by simp
  next
    case (Cons c cs)
    then have "c \<noteq> CHR '' ''"
      using hd_dropWhile [of "\<lambda>c. c = CHR '' '' \<or> c = CHR '',''" p, folded s] by simp
    note item = event_listed_item [OF 1(4) this, of cs, folded Cons]
    have "c_string s" "c_string (dropWhile (\<lambda>c. c \<noteq> CHR '','') s)"
      using 1(2) unfolding s c_string_def list_all_iff by (auto dest!: set_dropWhileD)
    moreover have "s \<noteq> []"
      using Cons by simp
    moreover have "audit_event_scan (dropWhile (\<lambda>c. c \<noteq> CHR '','') s) etype =
        event_listed (dropWhile (\<lambda>c. c \<noteq> CHR '','') s) etype"
      if "\<not> (length (trim_right (takeWhile (\<lambda>c. c \<noteq> CHR '','') s)) = length etype \<and> pg_strncasecmp s etype (length etype) = 0)"
      using 1(1) [OF s \<open>s \<noteq> []\<close> refl that] calculation(2) 1(3,4) by blast
    ultimately show ?thesis
      unfolding step skip item using token_matches [of s etype "\<lambda>c. c \<noteq> CHR '',''"] 1(3) by auto
  qed
qed

text \<open>C19: The scanner over pqc_audit.events is membership in the list: an event
  category is enabled exactly when one of the comma-separated items, stripped
  of blanks, equals it up to letter case.\<close>

theorem audit_event_is_enabled_listed:
  assumes "c_string events" "c_string etype" "etype \<noteq> []"
  shows "audit_event_is_enabled (Some events) etype = event_listed events etype"
  using audit_event_scan_listed [OF assms] event_listed_Nil [OF assms(3)]
  by (cases events) (simp_all add: audit_event_is_enabled_def)

theorem audit_event_is_enabled_listed_witness:
  "audit_event_is_enabled (Some '' DDL ,auth'') ''ddl'' = event_listed '' DDL ,auth'' ''ddl''"
  by (rule audit_event_is_enabled_listed) simp_all

section \<open>Entries that verify\<close>

text \<open>The signing keys in force, with the library's signature object.\<close>

record audit_keyset =
  ks_calg :: string
  ks_cpk :: bytes
  ks_csk :: bytes
  ks_palg :: string
  ks_ppk :: bytes
  ks_psk :: bytes
  ks_sig :: OQS_SIG

definition ks_alg :: "audit_keyset \<Rightarrow> PqcAlgorithm" where
  "ks_alg K = pqc_algorithm_from_name pqc_start_state (Some (ks_palg K))"

definition keys_ok :: "openssl \<Rightarrow> liboqs \<Rightarrow> audit_keyset \<Rightarrow> audit_key_row list \<Rightarrow> bool" where
  "keys_ok ssl L K rows \<longleftrightarrow>
     load_audit_key ''classical'' rows = Some (ks_calg K, ks_cpk K, ks_csk K) \<and>
     pg_strcasecmp (ks_calg K) ''Ed25519'' = 0 \<and> (\<exists>c. ed25519_keypair ssl c = Steps_ok (ks_cpk K, ks_csk K)) \<and>
     load_audit_key ''pqc'' rows = Some (ks_palg K, ks_ppk K, ks_psk K) \<and> sig_alg (ks_alg K) \<and>
     OQS_SIG_new L (sig_oqs_name (ks_alg K)) = Some (ks_sig K) \<and>
     (\<exists>c. OQS_SIG_keypair L (ks_sig K) c = Some (ks_ppk K, ks_psk K))"

definition row_ok :: "openssl \<Rightarrow> liboqs \<Rightarrow> (bytes \<Rightarrow> bytes) \<Rightarrow> audit_keyset \<Rightarrow> audit_log_row \<Rightarrow> bool" where
  "row_ok ssl L h K r \<longleftrightarrow>
     entry_hash r = h (entry_bytes (event_type r) (event_detail r) (classical_signature r) (pqc_signature r) (prev_hash r)) \<and>
     pg_strcasecmp (classical_sig_alg r) ''Ed25519'' = 0 \<and>
     ed25519_verify ssl (h (str_bytes (event_detail r))) (classical_signature r) (ks_cpk K) \<and>
     pqc_sig_alg r = ks_palg K \<and>
     OQS_SIG_verify L (ks_sig K) (h (str_bytes (event_detail r))) (pqc_signature r) (ks_ppk K)"

lemma db_fields_more:
  assumes "pqc_state.more s = pqc_state.more t"
  shows "pqc_audit_keys s = pqc_audit_keys t" "pqc_audit_log s = pqc_audit_log t" "log_id_seq s = log_id_seq t"
    "key_id_seq s = key_id_seq t"
  using assms by (cases s; cases t; simp)+

lemma pqc_init_db [simp]:
  "pqc_audit_keys (snd (pqc_init L db)) = pqc_audit_keys db" "pqc_audit_log (snd (pqc_init L db)) = pqc_audit_log db"
  "log_id_seq (snd (pqc_init L db)) = log_id_seq db" "key_id_seq (snd (pqc_init L db)) = key_id_seq db"
  using db_fields_more [of "snd (pqc_init L db)" db] by simp_all

lemma pqc_count_db [simp]: "pqc_audit_keys (pqc_stat_count_sig_verify db) = pqc_audit_keys db"
  by (simp add: pqc_stat_count_sig_verify_def)

lemma compute_hashes:
  assumes "sha384_total ssl h"
  shows "compute_sha384 ssl m = Inr (h m)"
    "compute_entry_hash ssl e d c p v = Inr (h (entry_bytes e d c p v))"
    "length (h m) = 48"
  using assms by (simp_all add: sha384_total_def compute_sha384_def compute_entry_hash_def)

lemma audit_verify_pqc_ok:
  assumes "sig_correct L" "registry_ok db" "keys_ok ssl L K (pqc_audit_keys db)"
    "OQS_SIG_verify L (ks_sig K) m s (ks_ppk K)"
  shows "\<exists>db'. audit_verify_pqc L m s (ks_palg K) db = (Inr True, db') \<and> registry_ok db' \<and>
    pqc_audit_keys db' = pqc_audit_keys db"
proof -
  let ?alg = "ks_alg K" and ?db1 = "if pqc_initialized db then db else snd (pqc_init L db)"
  have alg: "pqc_algorithm_from_name db (Some (ks_palg K)) = ?alg" "sig_alg ?alg"
    using pqc_algorithm_from_name_registry [OF assms(2)] assms(3) by (simp_all add: keys_ok_def ks_alg_def)
  have new: "pqc_sig_new L ?alg db = (Inr \<lparr>oqs_sig = ks_sig K, sig_ctx_alg = ?alg\<rparr>, ?db1)"
    using pqc_sig_new_ok [OF assms(2)] assms(3) by (simp add: keys_ok_def)
  have "length (ks_ppk K) = sig_length_public_key (ks_sig K)"
    using assms(1,3) unfolding sig_correct_def keys_ok_def by blast
  then have "pqc_sig_verify L (Some \<lparr>oqs_sig = ks_sig K, sig_ctx_alg = ?alg\<rparr>) (Some m) (length m) s (ks_ppk K) ?db1 =
      (Inr PQC_SUCCESS, pqc_stat_count_sig_verify ?db1)"
    using assms(4) by (simp add: pqc_sig_verify_def msg_bytes_def)
  then show ?thesis
    using assms(2,3) alg new pqc_algorithm_is_sig_registry [OF assms(2), of ?alg]
    by (auto simp: audit_verify_pqc_def keys_ok_def sig_alg_def)
qed

lemma audit_verify_entry_ok:
  assumes "sha384_total ssl h" "sig_correct L" "registry_ok db" "keys_ok ssl L K (pqc_audit_keys db)" "row_ok ssl L h K r"
  shows "\<exists>db'. audit_verify_entry ssl L r db = (Inr (log_id r, True, True, True), db') \<and> registry_ok db' \<and>
    pqc_audit_keys db' = pqc_audit_keys db"
proof -
  have "audit_verify_classical ssl (h (str_bytes (event_detail r))) (classical_signature r) (classical_sig_alg r) (pqc_audit_keys db)"
    using assms(4,5) by (simp add: audit_verify_classical_def keys_ok_def row_ok_def)
  moreover have "pqc_sig_alg r = ks_palg K"
    using assms(5) by (simp add: row_ok_def)
  moreover obtain db' where "audit_verify_pqc L (h (str_bytes (event_detail r))) (pqc_signature r) (ks_palg K) db = (Inr True, db')"
      "registry_ok db'" "pqc_audit_keys db' = pqc_audit_keys db"
    using audit_verify_pqc_ok [OF assms(2-4)] assms(5) unfolding row_ok_def by blast
  ultimately show ?thesis
    using assms(5) by (auto simp: audit_verify_entry_def compute_hashes [OF assms(1)] row_ok_def)
qed

lemma audit_verify_rows_ok:
  assumes "sha384_total ssl h" "sig_correct L" "registry_ok db" "keys_ok ssl L K (pqc_audit_keys db)"
    "\<forall>r \<in> set rs. row_ok ssl L h K r"
  shows "\<exists>db'. audit_verify_rows ssl L rs db = (Inr (map (\<lambda>r. (log_id r, True, True, True)) rs), db')"
  using assms(3-5)
proof (induction rs arbitrary: db)
  case (Cons r rs)
  obtain db1 where db1: "audit_verify_entry ssl L r db = (Inr (log_id r, True, True, True), db1)" "registry_ok db1"
      "pqc_audit_keys db1 = pqc_audit_keys db"
    using audit_verify_entry_ok [OF assms(1,2) Cons.prems(1,2), of r] Cons.prems(3) by auto
  then obtain db2 where "audit_verify_rows ssl L rs db1 = (Inr (map (\<lambda>r. (log_id r, True, True, True)) rs), db2)"
    using Cons.IH [OF db1(2)] Cons.prems by auto
  then show ?case
    using db1(1) by simp
qed simp

section \<open>Every entry written verifies\<close>

inductive audit_reachable :: "openssl \<Rightarrow> liboqs \<Rightarrow> pqc_db \<Rightarrow> bool" for ssl :: openssl and L :: liboqs where
  init: "registry_ok db \<Longrightarrow> pqc_audit_log db = [] \<Longrightarrow> pqc_audit_init_keys ssl L calg palg db = (Inr (), db') \<Longrightarrow>
     audit_reachable ssl L db'"
| event: "audit_reachable ssl L db \<Longrightarrow> audit_reachable ssl L (snd (audit_log_ddl_event ssl L json_ok etype obj query db))"

definition audit_inv :: "openssl \<Rightarrow> liboqs \<Rightarrow> (bytes \<Rightarrow> bytes) \<Rightarrow> audit_keyset \<Rightarrow> pqc_db \<Rightarrow> bool" where
  "audit_inv ssl L h K db \<longleftrightarrow> registry_ok db \<and> keys_ok ssl L K (pqc_audit_keys db) \<and>
     (\<forall>r \<in> set (pqc_audit_log db). row_ok ssl L h K r \<and> 1 \<le> log_id r \<and> log_id r \<le> log_id_seq db) \<and>
     sorted (map log_id (pqc_audit_log db))"

lemma verify_chain_all:
  assumes "sha384_total ssl h" "sig_correct L" "registry_ok db" "keys_ok ssl L K (pqc_audit_keys db)"
    "\<forall>r \<in> set (pqc_audit_log db). row_ok ssl L h K r \<and> 1 \<le> log_id r" "sorted (map log_id (pqc_audit_log db))"
  shows "\<exists>db'. pqc_audit_verify_chain ssl L None None db =
    (Inr (map (\<lambda>r. (log_id r, True, True, True)) (pqc_audit_log db)), db')"
proof -
  let ?db0 = "if pqc_is_available db then db else snd (pqc_init L db)"
  have "filter (\<lambda>r. int (log_id r) \<ge> 1 \<and> True) (pqc_audit_log ?db0) = pqc_audit_log db"
    using assms(5) by (auto simp: filter_id_conv)
  then have rows: "sort_key log_id (filter (\<lambda>r. int (log_id r) \<ge> 1 \<and> True) (pqc_audit_log ?db0)) = pqc_audit_log db"
    using assms(6) by (simp add: sort_key_id_if_sorted)
  show ?thesis
    using audit_verify_rows_ok [OF assms(1,2), of ?db0 K "pqc_audit_log db"] assms(3-5) rows
    by (simp add: pqc_audit_verify_chain_def Let_def)
qed

text \<open>Key creation leaves exactly one active key per purpose.\<close>

lemma pqc_audit_init_keys_ok:
  assumes "registry_ok db" "pqc_audit_init_keys ssl L calg palg db = (Inr (), db')"
  shows "\<exists>K. keys_ok ssl L K (pqc_audit_keys db') \<and> registry_ok db' \<and> pqc_audit_log db' = pqc_audit_log db"
proof -
  let ?db0 = "if pqc_is_available db then db else snd (pqc_init L db)"
  let ?alg = "pqc_algorithm_from_name pqc_start_state (Some palg)"
  have alg: "pqc_algorithm_from_name db (Some palg) = ?alg"
    using pqc_algorithm_from_name_registry [OF assms(1)] .
  obtain cpk csk ppk psk ctx db2 db3 where ed: "pg_strcasecmp calg ''Ed25519'' = 0"
      "ed25519_keypair ssl (coins ?db0) = Steps_ok (cpk, csk)"
    and new: "pqc_sig_new L ?alg (?db0\<lparr>coins := coins ?db0 + 1\<rparr>) = (Inr ctx, db2)"
    and gen: "pqc_sig_keygen L (Some ctx) db2 = (Inr (PQC_SUCCESS, Some (ppk, psk)), db3)"
    and db': "db' = insert_audit_key ''pqc'' palg ppk psk (insert_audit_key ''classical'' calg cpk csk (deactivate_audit_keys db3))"
    using assms(2) unfolding pqc_audit_init_keys_def ed25519_keygen_def alg
    by (auto simp: Let_def split: if_splits prod.splits sum.splits evp_steps.splits PqcStatus.splits option.splits)
  have ok: "registry_ok (?db0\<lparr>coins := coins ?db0 + 1\<rparr>)"
    using assms(1) by simp
  have sig: "sig_alg ?alg" "OQS_SIG_new L (sig_oqs_name ?alg) = Some (oqs_sig ctx)"
    using pqc_sig_new_Inr [OF new ok] .
  have frame: "registry_ok db3" "pqc_state.more db3 = pqc_state.more (?db0\<lparr>coins := coins ?db0 + 1\<rparr>)"
    using pqc_sig_frame(1) [OF new] pqc_sig_frame(2) [OF gen] ok by simp_all
  have pair: "OQS_SIG_keypair L (oqs_sig ctx) (coins db2) = Some (ppk, psk)"
    using gen by (auto simp: pqc_sig_keygen_def Let_def split: option.splits)
  let ?K = "\<lparr>ks_calg = calg, ks_cpk = cpk, ks_csk = csk, ks_palg = palg, ks_ppk = ppk, ks_psk = psk, ks_sig = oqs_sig ctx\<rparr>"
  have none: "filter (\<lambda>r. key_purpose r = p \<and> is_active r)
      (map (\<lambda>r. if is_active r then r\<lparr>is_active := False\<rparr> else r) rows) = []" for p rows
    by (auto simp: filter_empty_conv)
  have "keys_ok ssl L ?K (pqc_audit_keys db')"
    using ed sig pair by (auto simp: db' keys_ok_def ks_alg_def load_audit_key_def insert_audit_key_def deactivate_audit_keys_def none)
  moreover have "registry_ok db'"
    using frame(1) by (simp add: db' insert_audit_key_def deactivate_audit_keys_def registry_ok_def)
  moreover have "pqc_audit_log db' = pqc_audit_log db"
    using db_fields_more(2) [OF frame(2)] by (simp add: db' insert_audit_key_def deactivate_audit_keys_def)
  ultimately show ?thesis
    by blast
qed

text \<open>With the keys in place, an event comes down to its two signatures.\<close>

lemma audit_log_ddl_event_form:
  fixes db :: "'a pqc_db_scheme" and L :: liboqs and K :: audit_keyset
  defines "db0 \<equiv> if pqc_is_available db then db else snd (pqc_init L db)"
    and "ctx \<equiv> \<lparr>oqs_sig = ks_sig K, sig_ctx_alg = ks_alg K\<rparr>"
  assumes "sha384_total ssl h" "registry_ok db" "keys_ok ssl L K (pqc_audit_keys db)"
  shows "audit_log_ddl_event ssl L json_ok etype obj query db =
    (let json = audit_event_json json_ok obj query; m = h (str_bytes json) in
     case ed25519_sign ssl m (ks_csk K) of
       Inl e \<Rightarrow> (Inl e, db0)
     | Inr cs \<Rightarrow> (case pqc_sig_sign L (Some ctx) (Some m) 48 (ks_psk K) db0 of
         (Inl e, db2) \<Rightarrow> (Inl e, db2)
       | (Inr (PQC_SUCCESS, Some ps), db2) \<Rightarrow> (Inr None, insert_audit_log etype json (ks_calg K) cs (ks_palg K) ps
           (get_prev_hash (pqc_audit_log db2)) (h (entry_bytes etype json cs ps (get_prev_hash (pqc_audit_log db2)))) db2)
       | (Inr _, db2) \<Rightarrow> (Inr (Some ''pqc_audit: PQC signature generation failed, skipping audit''), db2)))"
proof -
  have ok: "registry_ok db0" "pqc_audit_keys db0 = pqc_audit_keys db"
    using assms(4) by (simp_all add: db0_def)
  have alg: "pqc_algorithm_from_name db0 (Some (ks_palg K)) = ks_alg K" "\<not> ks_alg K \<ge> PQC_ALG_COUNT"
    using pqc_algorithm_from_name_registry [OF ok(1)] assms(5) by (simp_all add: keys_ok_def ks_alg_def sig_alg_def)
  have new: "pqc_sig_new L (ks_alg K) db0 = (Inr ctx, db0)"
    using pqc_sig_new_ok [OF ok(1)] assms(5) by (simp add: keys_ok_def pqc_is_available_def ctx_def db0_def)
  have keys: "load_audit_key ''classical'' (pqc_audit_keys db) = Some (ks_calg K, ks_cpk K, ks_csk K)"
    "load_audit_key ''pqc'' (pqc_audit_keys db) = Some (ks_palg K, ks_ppk K, ks_psk K)"
    using assms(5) by (simp_all add: keys_ok_def)
  show ?thesis
    unfolding audit_log_ddl_event_def Let_def db0_def [symmetric] ok(2) keys option.case prod.case
      compute_hashes(1,2) [OF assms(3)] sum.case alg(1) new
    using alg(2) by (simp only: if_False)
qed

text \<open>What an event does to the log: nothing, or one entry that verifies.\<close>

lemma audit_log_ddl_event_cases:
  assumes "sha384_total ssl h" "ed25519_correct ssl" "sig_correct L" "registry_ok db" "keys_ok ssl L K (pqc_audit_keys db)"
    and ev: "audit_log_ddl_event ssl L json_ok etype obj query db = (res, db')"
  obtains (skip) "registry_ok db'" "pqc_audit_keys db' = pqc_audit_keys db" "pqc_audit_log db' = pqc_audit_log db"
      "log_id_seq db' = log_id_seq db" "res \<noteq> Inr None"
    | (logged) r where "registry_ok db'" "pqc_audit_keys db' = pqc_audit_keys db" "pqc_audit_log db' = pqc_audit_log db @ [r]"
      "log_id_seq db' = Suc (log_id_seq db)" "log_id r = Suc (log_id_seq db)" "row_ok ssl L h K r" "res = Inr None"
      "event_type r = etype" "prev_hash r = get_prev_hash (pqc_audit_log db)"
proof -
  let ?db0 = "if pqc_is_available db then db else snd (pqc_init L db)"
  let ?json = "audit_event_json json_ok obj query"
  let ?m = "h (str_bytes ?json)" and ?ctx = "\<lparr>oqs_sig = ks_sig K, sig_ctx_alg = ks_alg K\<rparr>"
  let ?row = "\<lambda>cs ps db2. insert_audit_log etype ?json (ks_calg K) cs (ks_palg K) ps (get_prev_hash (pqc_audit_log db2))
      (h (entry_bytes etype ?json cs ps (get_prev_hash (pqc_audit_log db2)))) db2"
  note form = audit_log_ddl_event_form [OF assms(1,4,5), of json_ok etype obj query, unfolded Let_def]
  have ok: "registry_ok ?db0" "pqc_audit_keys ?db0 = pqc_audit_keys db" "pqc_audit_log ?db0 = pqc_audit_log db"
      "log_id_seq ?db0 = log_id_seq db"
    using assms(4) by simp_all
  show thesis
  proof (cases "ed25519_sign ssl ?m (ks_csk K)")
    case (Inl e)
    then show ?thesis
      using ev form ok by (intro skip) auto
  next
    case (Inr cs)
    obtain r2 db2 where sign: "pqc_sig_sign L (Some ?ctx) (Some ?m) 48 (ks_psk K) ?db0 = (r2, db2)"
      by fastforce
    have fr: "registry_ok db2" "pqc_audit_keys db2 = pqc_audit_keys db" "pqc_audit_log db2 = pqc_audit_log db"
        "log_id_seq db2 = log_id_seq db"
      using pqc_sig_frame(3) [OF sign] ok db_fields_more [of db2 ?db0] by simp_all
    show ?thesis
    proof (cases "\<exists>ps. r2 = Inr (PQC_SUCCESS, Some ps)")
      case False
      then have "db' = db2 \<and> res \<noteq> Inr None"
        using ev form sign Inr by (auto split: sum.splits prod.splits PqcStatus.splits option.splits)
      then show ?thesis
        using fr by (intro skip) auto
    next
      case True
      then obtain ps where r2: "r2 = Inr (PQC_SUCCESS, Some ps)"
        by blast
      then have db': "db' = ?row cs ps db2" "res = Inr None"
        using ev form sign Inr by auto
      have "OQS_SIG_sign L (ks_sig K) (coins ?db0) ?m (ks_psk K) = Some ps"
        using sign r2 by (auto simp: pqc_sig_sign_def msg_bytes_def Let_def split: if_splits option.splits)
      then have "OQS_SIG_verify L (ks_sig K) ?m ps (ks_ppk K)"
        using assms(3,5) unfolding sig_correct_def keys_ok_def by blast
      moreover have "ed25519_verify ssl ?m cs (ks_cpk K)"
        using assms(2,5) Inr unfolding ed25519_correct_def keys_ok_def ed25519_sign_def ed25519_verify_def
        by (fastforce split: evp_steps.splits if_splits)
      moreover have "pg_strcasecmp (ks_calg K) ''Ed25519'' = 0"
        using assms(5) by (simp add: keys_ok_def)
      ultimately show ?thesis
        using fr by (intro logged [of "last (pqc_audit_log db')"])
          (simp_all add: db' insert_audit_log_def row_ok_def registry_ok_def)
    qed
  qed
qed

lemma audit_inv_event:
  assumes "sha384_total ssl h" "ed25519_correct ssl" "sig_correct L" "audit_inv ssl L h K db"
  shows "audit_inv ssl L h K (snd (audit_log_ddl_event ssl L json_ok etype obj query db))"
proof -
  obtain res db' where ev: "audit_log_ddl_event ssl L json_ok etype obj query db = (res, db')"
    by fastforce
  have "registry_ok db" "keys_ok ssl L K (pqc_audit_keys db)"
    using assms(4) by (simp_all add: audit_inv_def)
  with assms(1-3) show ?thesis
    using ev
  proof (cases rule: audit_log_ddl_event_cases)
    case skip
    then show ?thesis
      using assms(4) ev by (simp add: audit_inv_def)
  next
    case (logged r)
    then show ?thesis
      using assms(4) ev by (fastforce simp: audit_inv_def sorted_append)
  qed
qed

lemma audit_reachable_inv:
  assumes "sha384_total ssl h" "ed25519_correct ssl" "sig_correct L" "audit_reachable ssl L db"
  shows "\<exists>K. audit_inv ssl L h K db"
  using assms(4)
proof (induction rule: audit_reachable.induct)
  case (init db calg palg db')
  then show ?case
    using pqc_audit_init_keys_ok [OF init(1,3)] by (auto simp: audit_inv_def)
next
  case (event db json_ok etype obj query)
  then show ?case
    using audit_inv_event [OF assms(1-3)] by blast
qed

text \<open>The newest entry of a log in order.\<close>

lemma latest_sorted: "sorted (map log_id rs) \<Longrightarrow> rs \<noteq> [] \<Longrightarrow> latest log_id rs = Some (last rs)"
proof (induction rs)
  case (Cons r rs)
  then show ?case
    by (cases rs rule: rev_cases) (auto simp: sorted_append)
qed simp

lemma audit_log_ddl_event_logs:
  assumes "sha384_total ssl h" "ed25519_correct ssl" "sig_correct L" "audit_inv ssl L h K db"
    and "\<And>sk m. \<exists>s. ed25519_sign_msg ssl sk m = Steps_ok s" "\<And>k c m sk. \<exists>s. OQS_SIG_sign L k c m sk = Some s"
  shows "\<exists>r db'. audit_log_ddl_event ssl L json_ok etype obj query db = (Inr None, db') \<and>
    pqc_audit_log db' = pqc_audit_log db @ [r] \<and> event_type r = etype \<and>
    prev_hash r = (if pqc_audit_log db = [] then None else Some (entry_hash (last (pqc_audit_log db))))"
proof -
  obtain res db' where ev: "audit_log_ddl_event ssl L json_ok etype obj query db = (res, db')"
    by fastforce
  have inv: "registry_ok db" "keys_ok ssl L K (pqc_audit_keys db)" "sorted (map log_id (pqc_audit_log db))"
    using assms(4) by (simp_all add: audit_inv_def)
  let ?db0 = "if pqc_is_available db then db else snd (pqc_init L db)"
  have "length (ks_psk K) = sig_length_secret_key (ks_sig K)"
    using assms(3) inv(2) unfolding sig_correct_def keys_ok_def by blast
  moreover define m where "m = h (str_bytes (audit_event_json json_ok obj query))"
  ultimately obtain ps db2 where "pqc_sig_sign L (Some \<lparr>oqs_sig = ks_sig K, sig_ctx_alg = ks_alg K\<rparr>) (Some m) 48 (ks_psk K) ?db0 =
      (Inr (PQC_SUCCESS, Some ps), db2)"
    using assms(6) [of "ks_sig K" "coins ?db0" m "ks_psk K"] by (auto simp: pqc_sig_sign_def msg_bytes_def)
  moreover obtain cs where "ed25519_sign ssl m (ks_csk K) = Inr cs"
    using assms(5) [of "ks_csk K" m] by (auto simp: ed25519_sign_def)
  ultimately have res: "res = Inr None"
    using ev audit_log_ddl_event_form [OF assms(1) inv(1,2), of json_ok etype obj query, folded m_def] by (simp add: m_def Let_def)
  from assms(1-3) inv(1,2) ev show ?thesis
  proof (cases rule: audit_log_ddl_event_cases)
    case (logged r)
    then show ?thesis
      using ev latest_sorted [OF inv(3)] by (auto simp: get_prev_hash_def)
  qed (use res in simp)
qed

text \<open>C6: Every entry verifies.  However many events were logged, skipped or
  failed since the keys were created, pqc_audit_verify_chain reports the whole
  log, in order, with hash and both signatures valid.\<close>

theorem audit_chain_verifies:
  assumes "sha384_total ssl h" "ed25519_correct ssl" "sig_correct L" "audit_reachable ssl L db"
  shows "\<exists>db'. pqc_audit_verify_chain ssl L None None db =
    (Inr (map (\<lambda>r. (log_id r, True, True, True)) (pqc_audit_log db)), db')"
proof -
  obtain K where "audit_inv ssl L h K db"
    using audit_reachable_inv [OF assms] by blast
  then show ?thesis
    using verify_chain_all [OF assms(1,3), of db K] by (simp add: audit_inv_def)
qed

text \<open>C39: Deleted entries are not noticed.  Remove any entries from the log: the
  rest is still reported valid throughout, because no entry's prev_hash is
  compared with the entry before it.\<close>

theorem audit_deletion_unnoticed:
  assumes "sha384_total ssl h" "ed25519_correct ssl" "sig_correct L" "audit_reachable ssl L db"
  shows "\<exists>db'. pqc_audit_verify_chain ssl L None None (db\<lparr>pqc_audit_log := filter keep (pqc_audit_log db)\<rparr>) =
    (Inr (map (\<lambda>r. (log_id r, True, True, True)) (filter keep (pqc_audit_log db))), db')"
proof -
  obtain K where inv: "audit_inv ssl L h K db"
    using audit_reachable_inv [OF assms] by blast
  moreover have "sorted (map log_id (filter keep (pqc_audit_log db)))"
    using inv by (simp add: audit_inv_def sorted_filter)
  ultimately show ?thesis
    using verify_chain_all [OF assms(1,3), of "db\<lparr>pqc_audit_log := filter keep (pqc_audit_log db)\<rparr>" K]
    by (simp add: audit_inv_def registry_ok_def)
qed

text \<open>The event type is not protected by a signature.  Give an entry another
  type and recompute its hash, which needs no key: the log is still reported
  valid throughout.\<close>

theorem audit_retyping_unnoticed:
  assumes "sha384_total ssl h" "ed25519_correct ssl" "sig_correct L" "audit_reachable ssl L db"
    and "i < length (pqc_audit_log db)" "r = pqc_audit_log db ! i"
    and "compute_entry_hash ssl t (event_detail r) (classical_signature r) (pqc_signature r) (prev_hash r) = Inr x"
  shows "\<exists>db'. pqc_audit_verify_chain ssl L None None
      (db\<lparr>pqc_audit_log := (pqc_audit_log db)[i := r\<lparr>event_type := t, entry_hash := x\<rparr>]\<rparr>) =
    (Inr (map (\<lambda>r. (log_id r, True, True, True)) (pqc_audit_log db)), db')"
proof -
  obtain K where inv: "audit_inv ssl L h K db"
    using audit_reachable_inv [OF assms(1-4)] by blast
  let ?rows = "(pqc_audit_log db)[i := r\<lparr>event_type := t, entry_hash := x\<rparr>]"
  have ids: "map log_id ?rows = map log_id (pqc_audit_log db)"
    using assms(5,6) by (simp add: map_update list_update_same_conv)
  have "row_ok ssl L h K r" "1 \<le> log_id r"
    using inv assms(5,6) by (simp_all add: audit_inv_def)
  then have "row_ok ssl L h K (r\<lparr>event_type := t, entry_hash := x\<rparr>) \<and> 1 \<le> log_id r"
    using assms(7) compute_hashes(2) [OF assms(1)] by (simp add: row_ok_def)
  then have "\<forall>y \<in> set ?rows. row_ok ssl L h K y \<and> 1 \<le> log_id y"
    using inv by (auto simp: audit_inv_def dest!: set_update_subset_insert [THEN subsetD])
  moreover have "map (\<lambda>r. (log_id r, True, True, True)) ?rows = map (\<lambda>r. (log_id r, True, True, True)) (pqc_audit_log db)"
    using arg_cong [OF ids, of "map (\<lambda>n. (n, True, True, True))"] by (simp add: comp_def)
  ultimately show ?thesis
    using verify_chain_all [OF assms(1,3), of "db\<lparr>pqc_audit_log := ?rows\<rparr>" K] inv ids
    by (simp add: audit_inv_def registry_ok_def)
qed

text \<open>A message signed by pqc_audit_sign verifies under both algorithms with
  pqc_audit_verify, given the returned signatures and algorithm names.\<close>

theorem audit_sign_verify:
  assumes "sha384_total ssl h" "ed25519_correct ssl" "sig_correct L" "audit_reachable ssl L db"
    and "pqc_audit_sign ssl L msg db = (Inr (csig, psig, calg, palg), db')"
  shows "fst (pqc_audit_verify ssl L msg csig calg psig palg db') = Inr (True, True)"
proof -
  let ?db0 = "if pqc_is_available db then db else snd (pqc_init L db)"
  obtain K where "audit_inv ssl L h K db"
    using audit_reachable_inv [OF assms(1-4)] by blast
  then have inv: "registry_ok ?db0" "keys_ok ssl L K (pqc_audit_keys db)" "pqc_audit_keys ?db0 = pqc_audit_keys db"
    by (simp_all add: audit_inv_def)
  have new: "pqc_sig_new L (pqc_algorithm_from_name ?db0 (Some (ks_palg K))) ?db0 =
      (Inr \<lparr>oqs_sig = ks_sig K, sig_ctx_alg = ks_alg K\<rparr>, ?db0)"
    using pqc_sig_new_ok [OF inv(1)] pqc_algorithm_from_name_registry [OF inv(1)] inv(2)
    by (simp add: keys_ok_def pqc_is_available_def ks_alg_def)
  have ed: "ed25519_sign ssl msg (ks_csk K) = Inr csig" "calg = ks_calg K" "palg = ks_palg K"
    and sign: "pqc_sig_sign L (Some \<lparr>oqs_sig = ks_sig K, sig_ctx_alg = ks_alg K\<rparr>) (Some msg) (length msg) (ks_psk K) ?db0 =
      (Inr (PQC_SUCCESS, Some psig), db')"
    using assms(5) inv(2) new unfolding pqc_audit_sign_def Let_def inv(3) keys_ok_def
    by (auto split: sum.splits prod.splits PqcStatus.splits option.splits)
  have "OQS_SIG_verify L (ks_sig K) msg psig (ks_ppk K)"
    using sign assms(3) inv(2) unfolding sig_correct_def keys_ok_def
    by (fastforce simp: pqc_sig_sign_def msg_bytes_def Let_def split: if_splits option.splits)
  moreover have fr: "registry_ok db'" "pqc_audit_keys db' = pqc_audit_keys db"
    using pqc_sig_frame(3) [OF sign] inv db_fields_more(1) [of db' ?db0] by simp_all
  ultimately obtain db'' where
    "audit_verify_pqc L msg psig (ks_palg K) (if pqc_is_available db' then db' else snd (pqc_init L db')) = (Inr True, db'')"
    using audit_verify_pqc_ok [OF assms(3), of "if pqc_is_available db' then db' else snd (pqc_init L db')" ssl K msg psig] inv(2)
    by (cases "pqc_is_available db'") auto
  moreover have "ed25519_verify ssl msg csig (ks_cpk K)"
    using assms(2) inv(2) ed(1) unfolding ed25519_correct_def keys_ok_def ed25519_sign_def ed25519_verify_def
    by (fastforce split: evp_steps.splits if_splits)
  then have "audit_verify_classical ssl msg csig (ks_calg K) (pqc_audit_keys db)"
    using inv(2) by (simp add: audit_verify_classical_def keys_ok_def)
  ultimately show ?thesis
    using ed(2,3) fr(2) by (auto simp: pqc_audit_verify_def Let_def)
qed

section \<open>The utility hook\<close>

text \<open>Auditing never changes the outcome of a statement: whatever happens in
  the audit code, the hook returns what the execution of the statement
  returned.\<close>

theorem audit_never_blocks:
  "fst (pqc_audit_process_utility ssl L json_ok enabled events exec stmt query db) = fst (exec db)"
  by (auto simp: pqc_audit_process_utility_def split: prod.split sum.split option.split)

text \<open>C17: Security-relevant statements are recorded.  With auditing on, the
  category of the statement in the configured list and the cryptographic
  calls succeeding, the hook appends one entry of the statement's type whose
  prev_hash is the entry hash of the entry before it.\<close>

theorem audited_statement_logged:
  assumes "sha384_total ssl h" "ed25519_correct ssl" "sig_correct L"
    and "\<And>sk m. \<exists>s. ed25519_sign_msg ssl sk m = Steps_ok s" "\<And>k c m sk. \<exists>s. OQS_SIG_sign L k c m sk = Some s"
    and "audit_reachable ssl L db" "exec db = (Inr (), db)"
    and "classify_stmt stmt = Some (category, etype, obj)" "c_string events" "event_listed events category"
  shows "\<exists>r db'. pqc_audit_process_utility ssl L json_ok True (Some events) exec (Some stmt) query db = (Inr (), db') \<and>
    pqc_audit_log db' = pqc_audit_log db @ [r] \<and> event_type r = etype \<and>
    prev_hash r = (if pqc_audit_log db = [] then None else Some (entry_hash (last (pqc_audit_log db))))"
proof -
  obtain K where "audit_inv ssl L h K db"
    using audit_reachable_inv [OF assms(1-3,6)] by blast
  then obtain r db' where "audit_log_ddl_event ssl L json_ok etype obj query db = (Inr None, db')"
    "pqc_audit_log db' = pqc_audit_log db @ [r]" "event_type r = etype"
    "prev_hash r = (if pqc_audit_log db = [] then None else Some (entry_hash (last (pqc_audit_log db))))"
    using audit_log_ddl_event_logs [OF assms(1-3) _ assms(4,5)] by blast
  moreover have "c_string category" "category \<noteq> []"
    using assms(8) by (auto simp: classify_stmt_def split: utility_stmt.splits)
  then have "audit_event_is_enabled (Some events) category"
    using audit_event_scan_listed [OF assms(9)] assms(10) event_listed_Nil [of category]
    by (cases events) (auto simp: audit_event_is_enabled_def)
  ultimately show ?thesis
    using assms(7,8) by (simp add: pqc_audit_process_utility_def)
qed

section \<open>Examples\<close>

definition sample_audit_db :: pqc_db where
  "sample_audit_db = \<lparr>pqc_initialized = True, pqc_algorithms = pqc_algorithms_table, pqc_stat_counters = None, coins = 0,
     pqc_audit_keys = [], pqc_audit_log = [], pqc_escrow_metadata = None, key_id_seq = 0, log_id_seq = 0\<rparr>"

lemma sample_alg: "pqc_algorithm_from_name sample_audit_db (Some ''ML-DSA-65'') = 4"
  by (simp add: pqc_algorithm_from_name_def sample_audit_db_def pqc_algorithms_table_def alg_entry_def pg_tolower_def)

lemma sample_signing:
  "\<exists>s. ed25519_sign_msg sample_ssl sk m = Steps_ok s" "\<exists>s. OQS_SIG_sign sample_oqs k c m sk = Some s"
  by (simp_all add: sample_ssl_def sample_oqs_def)

text \<open>A log with one entry.\<close>

lemma sample_audit:
  obtains db r where "audit_reachable sample_ssl sample_oqs db" "pqc_audit_log db = [r]" "event_type r = ''GRANT''"
proof -
  have ok: "registry_ok sample_audit_db"
    by (simp add: registry_ok_def sample_audit_db_def)
  have avail: "pqc_initialized sample_audit_db"
    by (simp add: sample_audit_db_def)
  have alg: "sig_alg 4"
    by (simp add: sig_alg_def pqc_algorithms_table_def alg_entry_def)
  have new: "pqc_sig_new sample_oqs 4 (sample_audit_db\<lparr>coins := c\<rparr>) =
      (Inr \<lparr>oqs_sig = sample_sig (sig_oqs_name 4), sig_ctx_alg = 4\<rparr>, sample_audit_db\<lparr>coins := c\<rparr>)" for c
    using ok alg by (subst pqc_sig_new_ok) (simp_all add: sample_oqs_def, simp add: sample_audit_db_def)
  have "\<exists>db0. pqc_audit_init_keys sample_ssl sample_oqs ''Ed25519'' ''ML-DSA-65'' sample_audit_db = (Inr (), db0)"
    using alg pqc_algorithm_is_sig_registry [OF ok, of 4] avail
    by (simp add: pqc_audit_init_keys_def sample_alg Let_def pqc_is_available_def ed25519_keygen_def new pqc_sig_keygen_def
        sample_ssl_def sample_oqs_def [THEN arg_cong, where f = OQS_SIG_keypair])
  then obtain db0 where db0: "pqc_audit_init_keys sample_ssl sample_oqs ''Ed25519'' ''ML-DSA-65'' sample_audit_db = (Inr (), db0)"
    by blast
  then have reach: "audit_reachable sample_ssl sample_oqs db0"
    using ok by (intro audit_reachable.init) (auto simp: sample_audit_db_def)
  obtain K where "audit_inv sample_ssl sample_oqs sample_sha384 K db0"
    using audit_reachable_inv [OF sha384_total_sample ed25519_correct_sample sig_correct_sample reach] by blast
  then obtain r db where "audit_log_ddl_event sample_ssl sample_oqs True ''GRANT'' None None db0 = (Inr None, db)"
      "pqc_audit_log db = pqc_audit_log db0 @ [r]" "event_type r = ''GRANT''"
    using audit_log_ddl_event_logs [OF sha384_total_sample ed25519_correct_sample sig_correct_sample _ sample_signing] by metis
  moreover have "pqc_audit_log db0 = []"
    using pqc_audit_init_keys_ok [OF ok db0] by (auto simp: sample_audit_db_def)
  ultimately show thesis
    using that [of db r] audit_reachable.event [OF reach, of True "''GRANT''" None None] by simp
qed

lemmas sample_laws = sha384_total_sample ed25519_correct_sample sig_correct_sample

theorem audit_chain_verifies_witness:
  "\<exists>(db :: pqc_db) r db'. pqc_audit_log db = [r] \<and>
     pqc_audit_verify_chain sample_ssl sample_oqs None None db = (Inr [(log_id r, True, True, True)], db')"
proof -
  obtain db r where "audit_reachable sample_ssl sample_oqs db" "pqc_audit_log db = [r]"
    by (rule sample_audit)
  then show ?thesis
    using audit_chain_verifies [OF sample_laws, of db] by auto
qed

text \<open>A log of two entries whose first one is deleted, with the second still
  pointing to it.\<close>

theorem audit_deletion_unnoticed_witness:
  "\<exists>(db :: pqc_db) r s db'. pqc_audit_log db = [r, s] \<and> event_type r = ''GRANT'' \<and> event_type s = ''REVOKE'' \<and>
     pqc_audit_verify_chain sample_ssl sample_oqs None None (db\<lparr>pqc_audit_log := [s]\<rparr>) = (Inr [(log_id s, True, True, True)], db')"
proof -
  obtain db0 r where reach: "audit_reachable sample_ssl sample_oqs db0" and log: "pqc_audit_log db0 = [r]" "event_type r = ''GRANT''"
    by (rule sample_audit)
  obtain K where "audit_inv sample_ssl sample_oqs sample_sha384 K db0"
    using audit_reachable_inv [OF sample_laws reach] by blast
  then obtain s db where ev: "audit_log_ddl_event sample_ssl sample_oqs True ''REVOKE'' None None db0 = (Inr None, db)"
      "pqc_audit_log db = pqc_audit_log db0 @ [s]" "event_type s = ''REVOKE''"
    using audit_log_ddl_event_logs [OF sample_laws _ sample_signing] by metis
  have "audit_reachable sample_ssl sample_oqs db"
    using audit_reachable.event [OF reach, of True "''REVOKE''" None None] ev(1) by simp
  moreover have "pqc_audit_log db = [r, s]" "filter (\<lambda>r. event_type r = ''REVOKE'') [r, s] = [s]"
    using ev(2,3) log by simp_all
  ultimately show ?thesis
    using audit_deletion_unnoticed [OF sample_laws, of db "\<lambda>r. event_type r = ''REVOKE''"] log(2) ev(3) by auto
qed

theorem audit_retyping_unnoticed_witness:
  "\<exists>(db :: pqc_db) r x db'. pqc_audit_log db = [r] \<and> event_type r = ''GRANT'' \<and>
     pqc_audit_verify_chain sample_ssl sample_oqs None None
       (db\<lparr>pqc_audit_log := [r\<lparr>event_type := ''REVOKE'', entry_hash := x\<rparr>]\<rparr>) = (Inr [(log_id r, True, True, True)], db')"
proof -
  obtain db r where reach: "audit_reachable sample_ssl sample_oqs db" and log: "pqc_audit_log db = [r]" "event_type r = ''GRANT''"
    by (rule sample_audit)
  then have at: "0 < length (pqc_audit_log db)" "r = pqc_audit_log db ! 0"
    by simp_all
  obtain x where x: "compute_entry_hash sample_ssl ''REVOKE'' (event_detail r) (classical_signature r) (pqc_signature r)
      (prev_hash r) = Inr x"
    by (simp add: compute_hashes [OF sha384_total_sample])
  obtain db' where "pqc_audit_verify_chain sample_ssl sample_oqs None None
      (db\<lparr>pqc_audit_log := [r\<lparr>event_type := ''REVOKE'', entry_hash := x\<rparr>]\<rparr>) = (Inr [(log_id r, True, True, True)], db')"
    using audit_retyping_unnoticed [OF sample_laws reach at x] unfolding log(1) by auto
  then show ?thesis
    using log by blast
qed

theorem audited_statement_logged_witness:
  "\<exists>(db :: pqc_db) r s db'. pqc_audit_log db = [r] \<and>
     pqc_audit_process_utility sample_ssl sample_oqs True True (Some ''ddl, Grant'') (\<lambda>d. (Inr (), d))
       (Some (GrantStmt False)) None db = (Inr (), db') \<and>
     pqc_audit_log db' = [r, s] \<and> event_type s = ''REVOKE'' \<and> prev_hash s = Some (entry_hash r)"
proof -
  obtain db r where "audit_reachable sample_ssl sample_oqs db" "pqc_audit_log db = [r]"
    by (rule sample_audit)
  moreover have "event_listed ''ddl, Grant'' ''grant''"
    by (simp add: event_listed_def trim_blanks_def trim_right_def) code_simp
  ultimately show ?thesis
    using audited_statement_logged [OF sample_laws sample_signing, of db "\<lambda>d. (Inr (), d)" "GrantStmt False" "''grant''" "''REVOKE''"
        "Some ''privileges''" "''ddl, Grant''" True None] by (auto simp: classify_stmt_def)
qed

theorem audit_sign_verify_witness:
  "\<exists>(db :: pqc_db) csig psig calg palg db'. pqc_audit_sign sample_ssl sample_oqs [1, 2] db = (Inr (csig, psig, calg, palg), db') \<and>
     fst (pqc_audit_verify sample_ssl sample_oqs [1, 2] csig calg psig palg db') = Inr (True, True)"
proof -
  obtain db r where reach: "audit_reachable sample_ssl sample_oqs db" "pqc_audit_log db = [r]"
    by (rule sample_audit)
  let ?db0 = "if pqc_is_available db then db else snd (pqc_init sample_oqs db)"
  obtain K where "audit_inv sample_ssl sample_oqs sample_sha384 K db"
    using audit_reachable_inv [OF sample_laws reach(1)] by blast
  then have inv: "registry_ok ?db0" "keys_ok sample_ssl sample_oqs K (pqc_audit_keys db)"
      "pqc_audit_keys ?db0 = pqc_audit_keys db"
    by (simp_all add: audit_inv_def)
  have new: "pqc_sig_new sample_oqs (pqc_algorithm_from_name ?db0 (Some (ks_palg K))) ?db0 =
      (Inr \<lparr>oqs_sig = ks_sig K, sig_ctx_alg = ks_alg K\<rparr>, ?db0)"
    using pqc_sig_new_ok [OF inv(1)] pqc_algorithm_from_name_registry [OF inv(1)] inv(2)
    by (simp add: keys_ok_def pqc_is_available_def ks_alg_def)
  have "length (ks_psk K) = sig_length_secret_key (ks_sig K)"
    using sig_correct_sample inv(2) unfolding sig_correct_def keys_ok_def by blast
  then obtain psig db' where "pqc_sig_sign sample_oqs (Some \<lparr>oqs_sig = ks_sig K, sig_ctx_alg = ks_alg K\<rparr>) (Some [1, 2])
      (length [1 :: byte, 2]) (ks_psk K) ?db0 = (Inr (PQC_SUCCESS, Some psig), db')"
    using sample_signing(2) [of "ks_sig K" "coins ?db0" "[1, 2]" "ks_psk K"] by (auto simp: pqc_sig_sign_def msg_bytes_def)
  moreover obtain csig where "ed25519_sign sample_ssl [1, 2] (ks_csk K) = Inr csig"
    using sample_signing(1) [of "ks_csk K" "[1, 2]"] by (auto simp: ed25519_sign_def)
  ultimately have "pqc_audit_sign sample_ssl sample_oqs [1, 2] db = (Inr (csig, psig, ks_calg K, ks_palg K), db')"
    using inv(2) new unfolding pqc_audit_sign_def Let_def inv(3) by (simp add: keys_ok_def)
  then show ?thesis
    using audit_sign_verify [OF sample_laws reach(1)] by blast
qed

end
