(* ===== verification/WalPage.thy ===== *)
theory WalPage
  imports TdePage Samples
begin

text \<open>
  Encryption of WAL pages: backend/crypto/tde/tde_wal.c, with the page header
  of include/access/xlog_internal.h and the header check of
  backend/access/transam/xlogreader.c that a reader applies to every page.
  The routines work in place; each returns the error it raised, if any, and
  the page as it leaves it.
\<close>

section \<open>Page headers\<close>

definition of_le64 :: "bytes \<Rightarrow> 64 word" where
  "of_le64 b = ucast (of_le32 b) OR push_bit 32 (ucast (of_le32 (drop 4 b)))"

abbreviation (input) "XLOG_PAGE_MAGIC \<equiv> 0xD116 :: 16 word"
abbreviation (input) "XLP_LONG_HEADER \<equiv> 0x0002 :: 16 word"
abbreviation (input) "XLP_ALL_FLAGS \<equiv> 0x000F :: 16 word"
abbreviation (input) "XLP_ENCRYPTED \<equiv> 0x0010 :: 16 word"
abbreviation (input) "XLOG_BLCKSZ \<equiv> 8192 :: nat"

definition xlp_magic :: "bytes \<Rightarrow> 16 word" where "xlp_magic page = field16 page 0"
definition xlp_info :: "bytes \<Rightarrow> 16 word" where "xlp_info page = field16 page 2"
definition xlp_tli :: "bytes \<Rightarrow> 32 word" where "xlp_tli page = of_le32 (drop 4 page)"
definition xlp_pageaddr :: "bytes \<Rightarrow> 64 word" where "xlp_pageaddr page = of_le64 (drop 8 page)"
definition xlp_sysid :: "bytes \<Rightarrow> 64 word" where "xlp_sysid page = of_le64 (drop 24 page)"
definition xlp_seg_size :: "bytes \<Rightarrow> 32 word" where "xlp_seg_size page = of_le32 (drop 32 page)"
definition xlp_xlog_blcksz :: "bytes \<Rightarrow> 32 word" where "xlp_xlog_blcksz page = of_le32 (drop 36 page)"

definition set_xlp_info :: "bytes \<Rightarrow> 16 word \<Rightarrow> bytes" where
  "set_xlp_info page v = page[2 := ucast v, 3 := ucast (drop_bit 8 v)]"

definition XLogPageHeaderSize :: "bytes \<Rightarrow> nat" where
  "XLogPageHeaderSize page = (if xlp_info page AND XLP_LONG_HEADER \<noteq> 0 then 40 else 24)"

section \<open>Encryption\<close>

definition tde_derive_wal_iv :: "openssl \<Rightarrow> bytes \<Rightarrow> 64 word \<Rightarrow> 32 word \<Rightarrow> bytes result" where
  "tde_derive_wal_iv ssl wal_key segno offset =
     (case evp_hkdf_sha256 ssl wal_key (str_bytes ''FortressQL-TDE-WAL-IV-v1'') (le64 segno @ le32 offset) TDE_IV_LEN of
        Step_failed 0 \<Rightarrow> Inl (PgError ERRCODE_OUT_OF_MEMORY ''TDE: failed to allocate HKDF context for WAL IV'')
      | Step_failed (Suc _) \<Rightarrow> Inl (PgError ERRCODE_INTERNAL_ERROR ''TDE: HKDF derivation failed for WAL IV'')
      | Steps_ok iv \<Rightarrow> Inr iv)"

definition tde_wal_crypt ::
  "openssl \<Rightarrow> 'a tde_state_scheme \<Rightarrow> 64 word \<Rightarrow> 32 word \<Rightarrow> bytes \<Rightarrow> pg_error option \<times> bytes" where
  "tde_wal_crypt ssl st segno offset page =
     (let hdr_size = XLogPageHeaderSize page in
      if hdr_size \<ge> length page
      then (Some (PgError ERRCODE_DATA_CORRUPTED ''TDE: WAL page header size''), page)
      else case tde_keycache_lookup st 0 of
        Inl e \<Rightarrow> (Some e, page)
      | Inr None \<Rightarrow> (Some (PgError ERRCODE_INTERNAL_ERROR ''TDE: no WAL encryption key found''), page)
      | Inr (Some entry) \<Rightarrow>
        (case tde_derive_wal_iv ssl (tdek entry) segno offset of
          Inl e \<Rightarrow> (Some e, page)
        | Inr iv \<Rightarrow>
          let header = take hdr_size page in
          (case evp_aes_256_ctr ssl (tdek entry) iv (drop hdr_size page) of
            Evp_ctx_null \<Rightarrow> (Some (PgError ERRCODE_OUT_OF_MEMORY ''TDE: failed to allocate cipher context for WAL''), page)
          | Evp_init_failed \<Rightarrow> (Some (PgError ERRCODE_INTERNAL_ERROR
              ''TDE: failed to initialize AES-256-CTR for WAL''), page)
          | Evp_update_failed out \<Rightarrow> (Some (PgError ERRCODE_INTERNAL_ERROR
              ''TDE: AES-256-CTR failed for WAL page''), header @ out)
          | Evp_final_failed out \<Rightarrow> (Some (PgError ERRCODE_INTERNAL_ERROR
              ''TDE: AES-256-CTR finalization failed for WAL''), header @ out)
          | Evp_ok out \<Rightarrow> (None, header @ out))))"

definition tde_encrypt_wal_page ::
  "openssl \<Rightarrow> 'a tde_state_scheme \<Rightarrow> 64 word \<Rightarrow> 32 word \<Rightarrow> bytes \<Rightarrow> pg_error option \<times> bytes" where
  "tde_encrypt_wal_page ssl st segno offset page =
     (case tde_wal_crypt ssl st segno offset page of
        (Some e, page1) \<Rightarrow> (Some e, page1)
      | (None, page1) \<Rightarrow> (None, set_xlp_info page1 (xlp_info page1 OR XLP_ENCRYPTED)))"

definition tde_decrypt_wal_page ::
  "openssl \<Rightarrow> 'a tde_state_scheme \<Rightarrow> 64 word \<Rightarrow> 32 word \<Rightarrow> bytes \<Rightarrow> pg_error option \<times> bytes" where
  "tde_decrypt_wal_page ssl st segno offset page =
     (if xlp_info page AND XLP_ENCRYPTED = 0 then (None, page)
      else case tde_wal_crypt ssl st segno offset page of
        (Some e, page1) \<Rightarrow> (Some e, page1)
      | (None, page1) \<Rightarrow> (None, set_xlp_info page1 (xlp_info page1 AND NOT XLP_ENCRYPTED)))"

section \<open>The reader's header check\<close>

record XLogReaderState =
  system_identifier :: "64 word"
  ws_segsize :: "32 word"
  latestPagePtr :: "64 word"
  latestPageTLI :: "32 word"

text \<open>None accepts the page; a message rejects it.\<close>

definition XLogReaderValidatePageHeader ::
  "XLogReaderState \<Rightarrow> 64 word \<Rightarrow> bytes \<Rightarrow> string option \<times> XLogReaderState" where
  "XLogReaderValidatePageHeader state recptr page =
     (let offset = ucast (recptr AND scast (ws_segsize state - 1)) :: 32 word in
      if xlp_magic page \<noteq> XLOG_PAGE_MAGIC then (Some ''invalid magic number'', state)
      else if xlp_info page AND NOT XLP_ALL_FLAGS \<noteq> 0 then (Some ''invalid info bits'', state)
      else if xlp_info page AND XLP_LONG_HEADER \<noteq> 0 \<and> system_identifier state \<noteq> 0 \<and>
        xlp_sysid page \<noteq> system_identifier state
      then (Some ''WAL file is from different database system: WAL file database system identifier is'', state)
      else if xlp_info page AND XLP_LONG_HEADER \<noteq> 0 \<and> xlp_seg_size page \<noteq> ws_segsize state
      then (Some ''WAL file is from different database system: incorrect segment size in page header'', state)
      else if xlp_info page AND XLP_LONG_HEADER \<noteq> 0 \<and> xlp_xlog_blcksz page \<noteq> of_nat XLOG_BLCKSZ
      then (Some ''WAL file is from different database system: incorrect XLOG_BLCKSZ in page header'', state)
      else if xlp_info page AND XLP_LONG_HEADER = 0 \<and> offset = 0 then (Some ''invalid info bits'', state)
      else if xlp_pageaddr page \<noteq> recptr then (Some ''unexpected pageaddr'', state)
      else if recptr > latestPagePtr state \<and> xlp_tli page < latestPageTLI state
      then (Some ''out-of-sequence timeline ID'', state)
      else (None, state\<lparr>latestPagePtr := recptr, latestPageTLI := xlp_tli page\<rparr>))"

section \<open>Facts\<close>

lemma length_set_xlp_info [simp]: "length (set_xlp_info page v) = length page"
  by (simp add: set_xlp_info_def)

lemma word16_join: "ucast (ucast v :: byte) OR push_bit 8 (ucast (ucast (drop_bit 8 v) :: byte)) = (v :: 16 word)"
proof (rule bit_word_eqI)
  fix n
  assume "n < LENGTH(16)"
  then consider "n < 8" | "8 \<le> n" "n < 16"
    by fastforce
  then show "bit (ucast (ucast v :: byte) OR push_bit 8 (ucast (ucast (drop_bit 8 v) :: byte)) :: 16 word) n = bit v n"
    by cases (auto simp: bit_simps)
qed

lemma xlp_info_set [simp]: "4 \<le> length page \<Longrightarrow> xlp_info (set_xlp_info page v) = v"
  using word16_join by (simp add: xlp_info_def set_xlp_info_def field16_def)

lemma set_xlp_info_set [simp]: "set_xlp_info (set_xlp_info page v) w = set_xlp_info page w"
  by (simp add: set_xlp_info_def list_update_swap)

lemma byte_parts:
  "ucast (ucast a OR push_bit 8 (ucast b) :: 16 word) = (a :: byte)"
  "ucast (drop_bit 8 (ucast a OR push_bit 8 (ucast b) :: 16 word)) = (b :: byte)"
  by (auto intro!: bit_word_eqI simp: bit_simps) (drule bit_imp_le_length, simp)

lemma set_xlp_info_same [simp]: "set_xlp_info page (xlp_info page) = page"
  unfolding set_xlp_info_def xlp_info_def field16_def byte_parts by simp

lemma xlp_info_take: "4 \<le> n \<Longrightarrow> n \<le> length page \<Longrightarrow> xlp_info (take n page @ d) = xlp_info page"
  by (simp add: xlp_info_def field16_def nth_append)

lemma set_xlp_info_split:
  "4 \<le> length h \<Longrightarrow> set_xlp_info (h @ d) v = set_xlp_info h v @ d"
  by (simp add: set_xlp_info_def list_update_append)

lemma set_xlp_info_take: "set_xlp_info (take n page) v = take n (set_xlp_info page v)"
  by (simp add: set_xlp_info_def take_update_swap)

lemma info_bits:
  fixes i :: "16 word"
  shows "(i OR 0x0010) AND 0x0002 = i AND 0x0002" "(i OR 0x0010) AND 0x0010 \<noteq> 0"
    "(i OR 0x0010) AND NOT 0x000F \<noteq> 0" "i AND 0x0010 = 0 \<Longrightarrow> (i OR 0x0010) AND NOT 0x0010 = i"
proof -
  have bits: "bit (i OR 0x0010) 4" "bit (0x0010 :: 16 word) 4" "\<not> bit (0x000F :: 16 word) 4"
    by (simp_all add: bit_or_iff)
  show "(i OR 0x0010) AND 0x0002 = i AND 0x0002"
    by (simp add: and.commute bit.conj_disj_distrib)
  show "(i OR 0x0010) AND 0x0010 \<noteq> 0" "(i OR 0x0010) AND NOT 0x000F \<noteq> 0"
    using bits by (auto simp: bit_and_iff bit_not_iff dest!: arg_cong [where f = "\<lambda>w. bit w 4"])
  show "(i OR 0x0010) AND NOT 0x0010 = i" if "i AND 0x0010 = 0"
  proof (rule bit_word_eqI)
    fix n
    have "\<not> (bit i n \<and> bit (0x0010 :: 16 word) n)"
      using arg_cong [OF that, of "\<lambda>w. bit w n"] by (simp add: bit_and_iff)
    then show "n < LENGTH(16) \<Longrightarrow> bit ((i OR 0x0010) AND NOT 0x0010) n = bit i n"
      unfolding bit_and_iff bit_or_iff bit_not_iff by auto
  qed
qed

lemma tde_wal_crypt_ok:
  assumes "ctr_mode ssl pad" "tde_keycache_lookup st 0 = Inr (Some entry)"
    "tde_derive_wal_iv ssl (tdek entry) segno offset = Inr iv" "XLogPageHeaderSize page < length page"
  shows "tde_wal_crypt ssl st segno offset page =
    (None, take (XLogPageHeaderSize page) page @
       xor_bytes (drop (XLogPageHeaderSize page) page) (page_pad pad (tdek entry) iv (length page - XLogPageHeaderSize page)))"
  using assms by (simp add: tde_wal_crypt_def ctr_mode_def page_pad_def Let_def)

lemma XLogPageHeaderSize_ge: "24 \<le> XLogPageHeaderSize page"
  by (simp add: XLogPageHeaderSize_def)

lemma tde_encrypt_wal_page_ok:
  assumes "ctr_mode ssl pad" "tde_keycache_lookup st 0 = Inr (Some entry)"
    "tde_derive_wal_iv ssl (tdek entry) segno offset = Inr iv" "XLogPageHeaderSize page < length page"
  defines "h \<equiv> XLogPageHeaderSize page"
  shows "tde_encrypt_wal_page ssl st segno offset page =
    (None, take h (set_xlp_info page (xlp_info page OR XLP_ENCRYPTED)) @
       xor_bytes (drop h page) (page_pad pad (tdek entry) iv (length page - h)))"
  using tde_wal_crypt_ok [OF assms(1-4)] assms(4) XLogPageHeaderSize_ge [of page]
  by (simp add: tde_encrypt_wal_page_def xlp_info_take set_xlp_info_split set_xlp_info_take h_def)

lemma tde_decrypt_encrypt_wal_page:
  assumes "ctr_mode ssl pad" "tde_keycache_lookup st 0 = Inr (Some entry)"
    "tde_derive_wal_iv ssl (tdek entry) segno offset = Inr iv" "XLogPageHeaderSize page < length page"
    "xlp_info page AND XLP_ENCRYPTED = 0" "tde_encrypt_wal_page ssl st segno offset page = (None, page')"
  shows "tde_decrypt_wal_page ssl st segno offset page' = (None, page)" "xlp_info page' = xlp_info page OR XLP_ENCRYPTED"
proof -
  define h where "h = XLogPageHeaderSize page"
  define P where "P = page_pad pad (tdek entry) iv (length page - h)"
  define marked where "marked = set_xlp_info page (xlp_info page OR XLP_ENCRYPTED)"
  have h: "24 \<le> h" "h < length page" "length marked = length page"
    using XLogPageHeaderSize_ge assms(4) by (simp_all add: h_def marked_def)
  have page': "page' = take h marked @ xor_bytes (drop h page) P"
    using tde_encrypt_wal_page_ok [OF assms(1-4)] assms(6) by (simp add: h_def P_def marked_def)
  then show info: "xlp_info page' = xlp_info page OR XLP_ENCRYPTED"
    using h xlp_info_take [of h marked] by (simp add: marked_def)
  then have size: "XLogPageHeaderSize page' = h"
    by (simp add: XLogPageHeaderSize_def h_def info_bits)
  have len: "length page' = length page" "length P = length page - h"
    using page' h by (simp_all add: P_def)
  then have "tde_wal_crypt ssl st segno offset page' = (None, take h marked @ xor_bytes (xor_bytes (drop h page) P) P)"
    using tde_wal_crypt_ok [OF assms(1-3), of page'] h size page' by (simp add: P_def)
  also have "xor_bytes (xor_bytes (drop h page) P) P = drop h page"
    using len by (intro xor_bytes_cancel) simp
  also have "take h marked @ drop h page = marked"
    unfolding marked_def set_xlp_info_take [symmetric] using h by (subst set_xlp_info_split [symmetric]) simp_all
  finally show "tde_decrypt_wal_page ssl st segno offset page' = (None, page)"
    using info h info_bits(2) [of "xlp_info page"] info_bits(4) [OF assms(5)]
    by (simp add: tde_decrypt_wal_page_def marked_def)
qed

section \<open>Properties\<close>

text \<open>C22: A WAL page that is encrypted and then decrypted at the same position is
  the page it was.  While it is encrypted a reader that does not decrypt first
  rejects it, since the flag that marks it is not among the header's defined
  bits.\<close>

theorem wal_page_roundtrip:
  assumes "ctr_mode ssl pad" "tde_keycache_lookup st 0 = Inr (Some entry)"
    "tde_derive_wal_iv ssl (tdek entry) segno offset = Inr iv" "XLogPageHeaderSize page < length page"
    "xlp_info page AND XLP_ENCRYPTED = 0"
  shows "\<exists>page'. tde_encrypt_wal_page ssl st segno offset page = (None, page') \<and>
    tde_decrypt_wal_page ssl st segno offset page' = (None, page) \<and>
    fst (XLogReaderValidatePageHeader rs recptr page') \<noteq> None"
proof -
  obtain page' where enc: "tde_encrypt_wal_page ssl st segno offset page = (None, page')"
    using tde_encrypt_wal_page_ok [OF assms(1-4)] by simp
  then have dec: "tde_decrypt_wal_page ssl st segno offset page' = (None, page)" "xlp_info page' = xlp_info page OR XLP_ENCRYPTED"
    using tde_decrypt_encrypt_wal_page [OF assms] by simp_all
  then have "fst (XLogReaderValidatePageHeader rs recptr page') \<noteq> None"
    using info_bits(3) [of "xlp_info page"] by (simp add: XLogReaderValidatePageHeader_def Let_def)
  then show ?thesis
    using enc dec(1) by blast
qed

text \<open>Two WAL pages written at one segment number and offset, such as those of
  two timelines that forked before it, are masked with the same pad: the
  stored payloads tell their difference.\<close>

theorem wal_timelines_share_pad:
  assumes "ctr_mode ssl pad" "tde_keycache_lookup st 0 = Inr (Some entry)"
    "tde_derive_wal_iv ssl (tdek entry) segno offset = Inr iv"
    "XLogPageHeaderSize p = h" "XLogPageHeaderSize q = h" "h < length p" "length q = length p"
  shows "xor_bytes (drop h (snd (tde_encrypt_wal_page ssl st segno offset p)))
      (drop h (snd (tde_encrypt_wal_page ssl st segno offset q))) = xor_bytes (drop h p) (drop h q)"
  using tde_encrypt_wal_page_ok [OF assms(1-3), of p] tde_encrypt_wal_page_ok [OF assms(1-3), of q] assms(4-7)
  by (simp add: xor_bytes_same_pad)

definition sample_wal_state :: tde_state where
  "sample_wal_state = \<lparr>pqc_initialized = False, pqc_algorithms = pqc_algorithms_table, pqc_stat_counters = None, coins = 0,
     tde_enabled = True, TdeKeyCacheShmem = Some \<lparr>num_entries = 1, entries = (replicate 256 zero_entry)[0 :=
       \<lparr>spc_oid = 0, tdek = replicate 32 5, key_version = 1, active = True\<rparr>]\<rparr>, MasterKey = replicate 32 1,
     MasterKeyLoaded = True, MasterKeyExitRegistered = True, master_key_file = None\<rparr>"

definition sample_wal_page :: "byte \<Rightarrow> byte \<Rightarrow> bytes" where
  "sample_wal_page tli v = [0x16, 0xD1, 0, 0, tli, 0, 0, 0] @ replicate 16 0 @ replicate 8168 v"

lemma sample_wal_key: "tde_keycache_lookup sample_wal_state 0 =
    Inr (Some \<lparr>spc_oid = 0, tdek = replicate 32 5, key_version = 1, active = True\<rparr>)"
  by (simp add: tde_keycache_lookup_def sample_wal_state_def cache_lookup_def take_Suc_conv_app_nth)

lemma sample_wal_iv: "\<exists>iv. tde_derive_wal_iv sample_ssl key segno offset = Inr iv"
  by (simp add: tde_derive_wal_iv_def sample_ssl_def)

lemma sample_wal_header:
  "XLogPageHeaderSize (sample_wal_page tli v) = 24" "xlp_info (sample_wal_page tli v) AND XLP_ENCRYPTED = 0"
  "length (sample_wal_page tli v) = 8192"
  by (simp_all add: XLogPageHeaderSize_def xlp_info_def field16_def sample_wal_page_def)

theorem wal_page_roundtrip_witness:
  "\<exists>page'. tde_encrypt_wal_page sample_ssl sample_wal_state 3 8192 (sample_wal_page 1 7) = (None, page') \<and>
    tde_decrypt_wal_page sample_ssl sample_wal_state 3 8192 page' = (None, sample_wal_page 1 7)"
proof -
  obtain iv where "tde_derive_wal_iv sample_ssl (replicate 32 5) 3 8192 = Inr iv"
    using sample_wal_iv by blast
  then show ?thesis
    using wal_page_roundtrip [OF ctr_mode_sample sample_wal_key, of 3 8192 iv "sample_wal_page 1 7"]
    by (auto simp: sample_wal_header)
qed

theorem wal_timelines_share_pad_witness:
  "xor_bytes (drop 24 (snd (tde_encrypt_wal_page sample_ssl sample_wal_state 3 8192 (sample_wal_page 1 7))))
     (drop 24 (snd (tde_encrypt_wal_page sample_ssl sample_wal_state 3 8192 (sample_wal_page 2 9)))) =
   xor_bytes (replicate 8168 7) (replicate 8168 9)"
proof -
  obtain iv where "tde_derive_wal_iv sample_ssl (replicate 32 5) 3 8192 = Inr iv"
    using sample_wal_iv by blast
  then show ?thesis
    using wal_timelines_share_pad [OF ctr_mode_sample sample_wal_key, of 3 8192 iv "sample_wal_page 1 7" 24 "sample_wal_page 2 9"]
    by (simp add: sample_wal_header) (simp add: sample_wal_page_def)
qed

end
