(* ===== verification/WalKeys.thy ===== *)
theory WalKeys
  imports PqcSig Samples
begin

text \<open>
  The WAL signing keys: backend/crypto/pqc/pqc_wal_keys.c.  The process-local
  variables extend the state of the PQC subsystem; files are a map from paths
  to contents.  Which system calls fail is an argument, so that every error
  exit is a branch.
\<close>

section \<open>State and files\<close>

record wal_state = pqc_state +
  wal_pqc_signing :: bool
  wal_secret_key :: "bytes option"
  wal_public_key :: "bytes option"
  wal_sig_algorithm :: PqcAlgorithm
  wal_keys_loaded :: bool
  wal_files :: "string \<Rightarrow> bytes option"

text \<open>Behaviour of the file system by path: whether open, fstat, creation, fdopen
  and close succeed, how many bytes a read or write transfers before an error
  (None: no error), and what stat says of a directory (None: absent, Some b:
  b tells whether it is one).\<close>

record wal_io =
  open_ok :: "string \<Rightarrow> bool"
  stat_ok :: "string \<Rightarrow> bool"
  read_limit :: "string \<Rightarrow> nat option"
  create_ok :: "string \<Rightarrow> bool"
  fdopen_ok :: "string \<Rightarrow> bool"
  write_limit :: "string \<Rightarrow> nat option"
  close_ok :: "string \<Rightarrow> bool"
  dir_stat :: "string \<Rightarrow> bool option"

abbreviation (input) "MAXPGPATH \<equiv> 1024 :: nat"

text \<open>snprintf into a buffer of n bytes.\<close>

definition snprintf_cut :: "nat \<Rightarrow> string \<Rightarrow> string" where
  "snprintf_cut n s = take (n - 1) s"

definition WAL_SIGNING_KEY_FILE :: string where
  "WAL_SIGNING_KEY_FILE = ''wal_signing.key''"

definition WAL_SIGNING_PUB_FILE :: string where
  "WAL_SIGNING_PUB_FILE = ''wal_signing.pub''"

definition key_file_path :: "string \<Rightarrow> string \<Rightarrow> string" where
  "key_file_path key_path file = snprintf_cut MAXPGPATH (key_path @ ''/'' @ file)"

text \<open>What fread delivers of the contents, and what fwrite leaves in a new file.\<close>

definition transfer :: "nat option \<Rightarrow> bytes \<Rightarrow> bytes" where
  "transfer limit data = (case limit of None \<Rightarrow> data | Some n \<Rightarrow> take n data)"

definition read_key_file :: "wal_io \<Rightarrow> (string \<Rightarrow> bytes option) \<Rightarrow> string \<Rightarrow> bytes result" where
  "read_key_file io files filepath =
     (case (if open_ok io filepath then files filepath else None) of
        None \<Rightarrow> Inl (PgError ERRCODE_FILE_ACCESS ''could not open WAL signing key file'')
      | Some contents \<Rightarrow>
          if \<not> stat_ok io filepath
          then Inl (PgError ERRCODE_FILE_ACCESS ''could not stat WAL signing key file'')
          else if length contents = 0
          then Inl (PgError ERRCODE_DATA_CORRUPTED ''WAL signing key file is empty'')
          else if length contents > 102400
          then Inl (PgError ERRCODE_DATA_CORRUPTED ''WAL signing key file is unreasonably large'')
          else if length (transfer (read_limit io filepath) contents) \<noteq> length contents
          then Inl (PgError ERRCODE_FILE_ACCESS ''could not read WAL signing key file'')
          else Inr contents)"

text \<open>Creating the file truncates it; a failed write leaves what was transferred.\<close>

definition write_key_file ::
  "wal_io \<Rightarrow> string \<Rightarrow> bytes \<Rightarrow> 'a wal_state_scheme \<Rightarrow> unit result \<times> 'a wal_state_scheme" where
  "write_key_file io filepath data st =
     (if \<not> create_ok io filepath
      then (Inl (PgError ERRCODE_FILE_ACCESS ''could not create WAL signing key file''), st)
      else if \<not> fdopen_ok io filepath
      then (Inl (PgError ERRCODE_FILE_ACCESS ''could not fdopen WAL signing key file''),
            st\<lparr>wal_files := (wal_files st)(filepath \<mapsto> [])\<rparr>)
      else
        let written = transfer (write_limit io filepath) data;
            st1 = st\<lparr>wal_files := (wal_files st)(filepath \<mapsto> written)\<rparr> in
        if length written \<noteq> length data
        then (Inl (PgError ERRCODE_FILE_ACCESS ''could not write WAL signing key file''), st1)
        else if \<not> close_ok io filepath
        then (Inl (PgError ERRCODE_FILE_ACCESS ''could not close WAL signing key file''), st1)
        else (Inr (), st1))"

section \<open>Loading, generating and using keys\<close>

definition pqc_wal_resolve_algorithm :: "string option \<Rightarrow> 'a pqc_state_scheme \<Rightarrow> PqcAlgorithm result" where
  "pqc_wal_resolve_algorithm algorithm st =
     (let alg = pqc_algorithm_from_name st algorithm in
      if \<not> pqc_algorithm_is_sig st alg
      then Inl (PgError ERRCODE_INVALID_PARAMETER_VALUE ''invalid WAL signing algorithm:'')
      else Inr alg)"

definition path_unset :: "string option \<Rightarrow> bool" where
  "path_unset key_path \<longleftrightarrow> key_path = None \<or> key_path = Some []"

definition disable_signing :: "'a wal_state_scheme \<Rightarrow> 'a wal_state_scheme" where
  "disable_signing st = st\<lparr>wal_secret_key := None, wal_public_key := None, wal_pqc_signing := False,
     wal_keys_loaded := False\<rparr>"

definition pqc_wal_load_signing_keys ::
  "wal_io \<Rightarrow> string option \<Rightarrow> string option \<Rightarrow> 'a wal_state_scheme \<Rightarrow> unit result \<times> 'a wal_state_scheme" where
  "pqc_wal_load_signing_keys io key_path algorithm st =
     (if path_unset key_path
      then (Inl (PgError ERRCODE_INVALID_PARAMETER_VALUE
        ''wal_pqc_key_path must be set when wal_pqc_signing is enabled''), st)
      else case pqc_wal_resolve_algorithm algorithm st of
        Inl e \<Rightarrow> (Inl e, st)
      | Inr alg \<Rightarrow>
          let st1 = st\<lparr>wal_sig_algorithm := alg, wal_secret_key := None, wal_public_key := None\<rparr> in
          (case read_key_file io (wal_files st1) (key_file_path (the key_path) WAL_SIGNING_KEY_FILE) of
            Inl e \<Rightarrow> (Inl e, st1)
          | Inr sk \<Rightarrow>
              let st2 = st1\<lparr>wal_secret_key := Some sk\<rparr> in
              (case read_key_file io (wal_files st2) (key_file_path (the key_path) WAL_SIGNING_PUB_FILE) of
                Inl e \<Rightarrow> (Inl e, st2)
              | Inr pk \<Rightarrow>
                  let st3 = st2\<lparr>wal_public_key := Some pk\<rparr>;
                      expected_sk = pqc_sig_secret_key_len st3 alg;
                      expected_pk = pqc_sig_public_key_len st3 alg in
                  if expected_sk > 0 \<and> length sk \<noteq> expected_sk then (Inr (), disable_signing st3)
                  else if expected_pk > 0 \<and> length pk \<noteq> expected_pk then (Inr (), disable_signing st3)
                  else (Inr (), st3\<lparr>wal_keys_loaded := True\<rparr>))))"

definition pqc_wal_generate_signing_keys ::
  "liboqs \<Rightarrow> wal_io \<Rightarrow> string option \<Rightarrow> string option \<Rightarrow> 'a wal_state_scheme \<Rightarrow> unit result \<times> 'a wal_state_scheme" where
  "pqc_wal_generate_signing_keys L io key_path algorithm st =
     (if path_unset key_path
      then (Inl (PgError ERRCODE_INVALID_PARAMETER_VALUE ''wal_pqc_key_path must be set for key generation''), st)
      else if dir_stat io (the key_path) = None
      then (Inl (PgError ERRCODE_FILE_ACCESS ''WAL signing key directory does not exist''), st)
      else if dir_stat io (the key_path) = Some False
      then (Inl (PgError ERRCODE_WRONG_OBJECT_TYPE ''WAL signing key path is not a directory''), st)
      else case pqc_wal_resolve_algorithm algorithm st of
        Inl e \<Rightarrow> (Inl e, st)
      | Inr alg \<Rightarrow>
          ebind (pqc_sig_new L alg) (\<lambda>ctx.
          ebind (pqc_sig_keygen L (Some ctx)) (\<lambda>(status, keys).
          if status \<noteq> PQC_SUCCESS
          then epure (Inl (PgError ERRCODE_EXTERNAL_ROUTINE_EXCEPTION ''failed to generate PQC WAL signing key pair''))
          else
            let (pk, sk) = the keys in
            ebind (write_key_file io (key_file_path (the key_path) WAL_SIGNING_KEY_FILE) sk) (\<lambda>_.
            ebind (write_key_file io (key_file_path (the key_path) WAL_SIGNING_PUB_FILE) pk) (\<lambda>_ st'.
            (Inr (), st'\<lparr>wal_secret_key := Some sk, wal_public_key := Some pk, wal_keys_loaded := True\<rparr>)))))
          (st\<lparr>wal_sig_algorithm := alg\<rparr>))"

text \<open>A NULL key pointer goes with length 0.\<close>

definition key_bytes :: "bytes option \<Rightarrow> bytes" where
  "key_bytes k = (case k of None \<Rightarrow> [] | Some b \<Rightarrow> b)"

text \<open>Return code 0 with the signature, or -1 (None).\<close>

definition pqc_wal_sign_data ::
  "liboqs \<Rightarrow> bytes \<Rightarrow> nat \<Rightarrow> 'a wal_state_scheme \<Rightarrow> bytes option result \<times> 'a wal_state_scheme" where
  "pqc_wal_sign_data L data sig_out_buflen st =
     (if \<not> wal_keys_loaded st then (Inr None, st)
      else
        ebind (pqc_sig_new L (wal_sig_algorithm st)) (\<lambda>ctx.
        ebind (pqc_sig_sign L (Some ctx) (Some data) (length data) (key_bytes (wal_secret_key st))) (\<lambda>(status, sig).
        epure (Inr (if status \<noteq> PQC_SUCCESS then None
          else case sig of
            None \<Rightarrow> None
          | Some s \<Rightarrow> if length s = 0 \<or> length s > sig_out_buflen then None else Some s)))) st)"

definition pqc_wal_verify_data ::
  "liboqs \<Rightarrow> bytes \<Rightarrow> bytes \<Rightarrow> bytes \<Rightarrow> 'a wal_state_scheme \<Rightarrow> int result \<times> 'a wal_state_scheme" where
  "pqc_wal_verify_data L data sig pubkey st =
     ebind (pqc_sig_new L (wal_sig_algorithm st)) (\<lambda>ctx.
     ebind (pqc_sig_verify L (Some ctx) (Some data) (length data) sig pubkey) (\<lambda>status.
     epure (Inr (if status \<noteq> PQC_SUCCESS then -1 else 0)))) st"

definition pqc_wal_get_public_key :: "'a wal_state_scheme \<Rightarrow> bytes result" where
  "pqc_wal_get_public_key st =
     (if \<not> wal_keys_loaded st
      then Inl (PgError ERRCODE_OBJECT_NOT_IN_PREREQUISITE_STATE ''PQC WAL signing keys have not been loaded'')
      else Inr (key_bytes (wal_public_key st)))"

section \<open>Rotation\<close>

text \<open>The fingerprint is the first four bytes of the key as an unsigned integer.\<close>

definition key_fingerprint :: "bytes \<Rightarrow> 32 word" where
  "key_fingerprint pk = (if length pk > 4 then of_le32 pk else 0)"

text \<open>Result: fingerprint of the old key (None: no key) and of the new one.\<close>

definition pqc_rotate_wal_signing_keys ::
  "liboqs \<Rightarrow> wal_io \<Rightarrow> bool \<Rightarrow> string option \<Rightarrow> string \<Rightarrow> 'a wal_state_scheme \<Rightarrow>
     (32 word option \<times> 32 word) result \<times> 'a wal_state_scheme" where
  "pqc_rotate_wal_signing_keys L io superuser key_path algorithm st =
     (if \<not> superuser
      then (Inl (PgError ERRCODE_INSUFFICIENT_PRIVILEGE ''must be superuser to rotate WAL signing keys''), st)
      else
        let st0 = (if \<not> pqc_is_available st then snd (pqc_init L st) else st) in
        if path_unset key_path
        then (Inl (PgError ERRCODE_INVALID_PARAMETER_VALUE ''wal_pqc_key_path must be set to rotate WAL signing keys''), st0)
        else
          let old_id = (case pqc_wal_get_public_key st0 of Inl _ \<Rightarrow> None | Inr pk \<Rightarrow> Some (key_fingerprint pk)) in
          ebind (pqc_wal_generate_signing_keys L io key_path (Some algorithm)) (\<lambda>_.
          ebind (pqc_wal_load_signing_keys io key_path (Some algorithm)) (\<lambda>_ st1.
          (case pqc_wal_get_public_key st1 of
             Inl e \<Rightarrow> (Inl e, st1)
           | Inr pk \<Rightarrow> (Inr (old_id, key_fingerprint pk), st1)))) st0)"

text \<open>A file of admissible size is read in full.\<close>

lemma read_key_file_ok:
  "open_ok io p \<Longrightarrow> stat_ok io p \<Longrightarrow> read_limit io p = None \<Longrightarrow> files p = Some d \<Longrightarrow> d \<noteq> [] \<Longrightarrow> length d \<le> 102400 \<Longrightarrow>
   read_key_file io files p = Inr d"
  by (simp add: read_key_file_def transfer_def)


end
