(* ===== verification/WalSign.thy ===== *)
theory WalSign
  imports WalKeys
begin

text \<open>
  Signing of completed WAL segments and their verification: the deferred
  signing queue and XLogPqcSignSegment of backend/access/transam/xlog.c,
  backend/crypto/pqc/pqc_wal_verify.c, and the check the WAL receiver makes in
  XLogWalRcvClose (backend/replication/walreceiver.c).
\<close>

section \<open>Segment names\<close>

definition HEXDIGITS :: string where
  "HEXDIGITS = ''0123456789ABCDEF''"

definition fmt_08X :: "32 word \<Rightarrow> string" where
  "fmt_08X w = map (\<lambda>i. HEXDIGITS ! unat (drop_bit (4 * (7 - i)) w AND 15)) [0..<8]"

definition XLogSegmentsPerXLogId :: "nat \<Rightarrow> nat" where
  "XLogSegmentsPerXLogId wal_segsz = 0x100000000 div wal_segsz"

definition XLogFileName :: "32 word \<Rightarrow> 64 word \<Rightarrow> nat \<Rightarrow> string" where
  "XLogFileName tli segno wal_segsz =
     fmt_08X tli @ fmt_08X (of_nat (unat segno div XLogSegmentsPerXLogId wal_segsz)) @
     fmt_08X (of_nat (unat segno mod XLogSegmentsPerXLogId wal_segsz))"

definition XLogFilePath :: "32 word \<Rightarrow> 64 word \<Rightarrow> nat \<Rightarrow> string" where
  "XLogFilePath tli segno wal_segsz = ''pg_wal/'' @ XLogFileName tli segno wal_segsz"

definition sig_file_path :: "string \<Rightarrow> string" where
  "sig_file_path segpath = snprintf_cut MAXPGPATH (segpath @ ''.sig'')"

section \<open>The signing queue\<close>

abbreviation (input) "PQC_SIGN_QUEUE_SIZE \<equiv> 8 :: nat"

record pqc_sign_queue =
  q_count :: nat
  q_segno :: "64 word list"
  q_tli :: "32 word list"

definition empty_queue :: pqc_sign_queue where
  "empty_queue = \<lparr>q_count = 0, q_segno = replicate PQC_SIGN_QUEUE_SIZE 0, q_tli = replicate PQC_SIGN_QUEUE_SIZE 0\<rparr>"

definition XLogPqcEnqueueSign :: "64 word \<Rightarrow> 32 word \<Rightarrow> pqc_sign_queue \<Rightarrow> pqc_sign_queue" where
  "XLogPqcEnqueueSign segno tli q =
     (if q_count q < PQC_SIGN_QUEUE_SIZE
      then q\<lparr>q_count := q_count q + 1, q_segno := (q_segno q)[q_count q := segno], q_tli := (q_tli q)[q_count q := tli]\<rparr>
      else q)"

section \<open>Signing\<close>

definition sign_buf_len :: "'a pqc_state_scheme \<Rightarrow> nat" where
  "sign_buf_len st =
     (let max_sig_len = pqc_sig_max_signature_len st PQC_ALG_ML_DSA_65 in if max_sig_len = 0 then 8192 else max_sig_len)"

definition XLogPqcSignSegment ::
  "openssl \<Rightarrow> liboqs \<Rightarrow> wal_io \<Rightarrow> nat \<Rightarrow> 64 word \<Rightarrow> 32 word \<Rightarrow> 'a wal_state_scheme \<Rightarrow> unit result \<times> 'a wal_state_scheme" where
  "XLogPqcSignSegment ssl L io wal_segsz segno tli st =
     (let segpath = XLogFilePath tli segno wal_segsz in
      case (if open_ok io segpath then wal_files st segpath else None) of
        None \<Rightarrow> (Inr (), st)
      | Some contents \<Rightarrow>
        (case evp_sha256 ssl (transfer (read_limit io segpath) contents) of
          Digest hash \<Rightarrow>
            (case pqc_wal_sign_data L hash (sign_buf_len st) st of
              (Inl e, st1) \<Rightarrow> (Inl e, st1)
            | (Inr None, st1) \<Rightarrow> (Inr (), st1)
            | (Inr (Some sig), st1) \<Rightarrow>
                let sigpath = sig_file_path segpath in
                if \<not> create_ok io sigpath then (Inr (), st1)
                else (Inr (), st1\<lparr>wal_files := (wal_files st1)(sigpath \<mapsto> transfer (write_limit io sigpath) sig)\<rparr>))
        | _ \<Rightarrow> (Inr (), st)))"

fun sign_segments ::
  "openssl \<Rightarrow> liboqs \<Rightarrow> wal_io \<Rightarrow> nat \<Rightarrow> (64 word \<times> 32 word) list \<Rightarrow> 'a wal_state_scheme \<Rightarrow> unit result \<times> 'a wal_state_scheme" where
  "sign_segments ssl L io wal_segsz [] st = (Inr (), st)"
| "sign_segments ssl L io wal_segsz ((segno, tli) # rest) st =
     (case XLogPqcSignSegment ssl L io wal_segsz segno tli st of
        (Inl e, st1) \<Rightarrow> (Inl e, st1)
      | (Inr _, st1) \<Rightarrow> sign_segments ssl L io wal_segsz rest st1)"

text \<open>The entries in use, oldest first.\<close>

definition queue_contents :: "pqc_sign_queue \<Rightarrow> (64 word \<times> 32 word) list" where
  "queue_contents q = map (\<lambda>i. (q_segno q ! i, q_tli q ! i)) [0..<q_count q]"

definition XLogPqcProcessDeferredSigning ::
  "openssl \<Rightarrow> liboqs \<Rightarrow> wal_io \<Rightarrow> nat \<Rightarrow> pqc_sign_queue \<Rightarrow> 'a wal_state_scheme \<Rightarrow>
     unit result \<times> pqc_sign_queue \<times> 'a wal_state_scheme" where
  "XLogPqcProcessDeferredSigning ssl L io wal_segsz q st =
     (if q_count q = 0 then (Inr (), q, st)
      else
        let (r, st1) = sign_segments ssl L io wal_segsz (queue_contents q) st in
        (r, q\<lparr>q_count := 0\<rparr>, st1))"

section \<open>Verification\<close>

definition pqc_wal_verify_segment ::
  "liboqs \<Rightarrow> wal_io \<Rightarrow> string \<Rightarrow> 'a wal_state_scheme \<Rightarrow> bool result \<times> 'a wal_state_scheme" where
  "pqc_wal_verify_segment L io segpath st =
     (let sigpath = sig_file_path segpath in
      case (if stat_ok io segpath then wal_files st segpath else None) of
        None \<Rightarrow> (Inr False, st)
      | Some seg \<Rightarrow>
        (case (if stat_ok io sigpath then wal_files st sigpath else None) of
          None \<Rightarrow> (Inr False, st)
        | Some sig \<Rightarrow>
            if length seg = 0 \<or> length sig = 0 then (Inr False, st)
            else if \<not> open_ok io segpath \<or> length (transfer (read_limit io segpath) seg) \<noteq> length seg then (Inr False, st)
            else if \<not> open_ok io sigpath \<or> length (transfer (read_limit io sigpath) sig) \<noteq> length sig then (Inr False, st)
            else (case pqc_wal_get_public_key st of
                Inl e \<Rightarrow> (Inl e, st)
              | Inr pubkey \<Rightarrow>
                  (case pqc_wal_verify_data L seg sig pubkey st of
                    (Inl e, st1) \<Rightarrow> (Inl e, st1)
                  | (Inr rc, st1) \<Rightarrow> (Inr (rc = 0), st1)))))"

text \<open>What the WAL receiver reports of a received segment: nothing, verified, a
  warning that verification failed, or a warning that it could not be done.\<close>

datatype rcv_report = Rcv_none | Rcv_verified | Rcv_failed | Rcv_not_verified

definition XLogWalRcvClose_verify ::
  "liboqs \<Rightarrow> wal_io \<Rightarrow> bool \<Rightarrow> string option \<Rightarrow> string option \<Rightarrow> string \<Rightarrow> 'a wal_state_scheme \<Rightarrow>
     rcv_report \<times> 'a wal_state_scheme" where
  "XLogWalRcvClose_verify L io verify_on_receive key_path algorithm xlogfname st =
     (if \<not> verify_on_receive \<or> path_unset key_path then (Rcv_none, st)
      else
        let segpath = snprintf_cut MAXPGPATH (''pg_wal/'' @ xlogfname);
            alg = (case algorithm of None \<Rightarrow> ''ML-DSA-65'' | Some a \<Rightarrow> a) in
        (case pqc_wal_load_signing_keys io key_path (Some alg) st of
          (Inl _, st1) \<Rightarrow> (Rcv_not_verified, st1)
        | (Inr _, st1) \<Rightarrow>
          (case pqc_wal_verify_segment L io segpath st1 of
            (Inl _, st2) \<Rightarrow> (Rcv_not_verified, st2)
          | (Inr ok, st2) \<Rightarrow> (if ok then Rcv_verified else Rcv_failed, st2))))"

section \<open>Bounded queues\<close>

text \<open>A queue that takes elements up to its capacity and drops what comes then.\<close>

locale bounded_queue =
  fixes enq :: "'e \<Rightarrow> 'q \<Rightarrow> 'q" and contents :: "'q \<Rightarrow> 'e list" and capacity :: nat and invar :: "'q \<Rightarrow> bool"
  assumes invar_enq: "invar q \<Longrightarrow> invar (enq x q)"
    and contents_enq: "invar q \<Longrightarrow> contents (enq x q) =
      (if length (contents q) < capacity then contents q @ [x] else contents q)"
    and contents_bound: "invar q \<Longrightarrow> length (contents q) \<le> capacity"
begin

lemma contents_fold: "invar q \<Longrightarrow> contents (fold enq xs q) = take capacity (contents q @ xs)"
proof (induction xs arbitrary: q)
  case Nil
  then show ?case
    using contents_bound by simp
next
  case (Cons x xs)
  then have "contents (fold enq (x # xs) q) = take capacity (contents (enq x q) @ xs)"
    using invar_enq by simp
  also have "\<dots> = take capacity (contents q @ x # xs)"
    using Cons.prems contents_bound [of q] by (simp add: contents_enq take_Cons')
  finally show ?case .
qed

lemma invar_fold: "invar q \<Longrightarrow> invar (fold enq xs q)"
  by (induction xs arbitrary: q) (simp_all add: invar_enq)

end

definition queue_inv :: "pqc_sign_queue \<Rightarrow> bool" where
  "queue_inv q \<longleftrightarrow> q_count q \<le> PQC_SIGN_QUEUE_SIZE \<and> length (q_segno q) = PQC_SIGN_QUEUE_SIZE \<and>
     length (q_tli q) = PQC_SIGN_QUEUE_SIZE"

interpretation sign_queue: bounded_queue "\<lambda>(segno, tli). XLogPqcEnqueueSign segno tli" queue_contents PQC_SIGN_QUEUE_SIZE queue_inv
  by unfold_locales
    (auto simp: queue_inv_def XLogPqcEnqueueSign_def queue_contents_def nth_list_update)

section \<open>Facts\<close>

definition no_io_fault :: "wal_io \<Rightarrow> bool" where
  "no_io_fault io \<longleftrightarrow> (\<forall>p. open_ok io p \<and> stat_ok io p \<and> read_limit io p = None \<and> create_ok io p \<and> fdopen_ok io p \<and>
     write_limit io p = None \<and> close_ok io p)"

lemma no_io_fault_simps:
  assumes "no_io_fault io"
  shows "open_ok io p" "stat_ok io p" "read_limit io p = None" "create_ok io p" "fdopen_ok io p" "write_limit io p = None" "close_ok io p"
  using assms by (simp_all add: no_io_fault_def)

lemma transfer_None [simp]: "transfer None data = data"
  by (simp add: transfer_def)

lemma wal_fields_more:
  assumes "pqc_state.more s = pqc_state.more t"
  shows "wal_secret_key s = wal_secret_key t" "wal_public_key s = wal_public_key t" "wal_sig_algorithm s = wal_sig_algorithm t"
    "wal_keys_loaded s = wal_keys_loaded t" "wal_files s = wal_files t" "wal_pqc_signing s = wal_pqc_signing t"
  using assms by (cases s; cases t; simp)+

lemma pqc_count_more [simp]:
  "pqc_state.more (pqc_stat_count_sig_sign st) = pqc_state.more st"
  "pqc_state.more (pqc_stat_count_sig_verify st) = pqc_state.more st"
  by (simp_all add: pqc_stat_count_sig_sign_def pqc_stat_count_sig_verify_def)

text \<open>The steps a signature takes when key and algorithm fit.\<close>

lemma pqc_wal_sign_data_ok:
  assumes "registry_ok st" "wal_keys_loaded st" "sig_alg (wal_sig_algorithm st)"
    "OQS_SIG_new L (sig_oqs_name (wal_sig_algorithm st)) = Some k"
    "wal_secret_key st = Some sk" "length sk = sig_length_secret_key k" "OQS_SIG_sign L k (coins st) data sk = Some s"
    "s \<noteq> []" "length s \<le> n"
  shows "\<exists>st1. pqc_wal_sign_data L data n st = (Inr (Some s), st1) \<and> registry_ok st1 \<and> pqc_state.more st1 = pqc_state.more st"
  using assms pqc_sig_new_ok [OF assms(1,3,4)]
  by (auto simp: pqc_wal_sign_data_def ebind_def epure_def pqc_sig_sign_def Let_def msg_bytes_def key_bytes_def
      split: prod.split)

lemma pqc_wal_verify_data_ok:
  assumes "registry_ok st" "sig_alg (wal_sig_algorithm st)" "OQS_SIG_new L (sig_oqs_name (wal_sig_algorithm st)) = Some k"
    "length pk = sig_length_public_key k"
  shows "fst (pqc_wal_verify_data L data sig pk st) = Inr (if OQS_SIG_verify L k data sig pk then 0 else -1)"
  using assms pqc_sig_new_ok [OF assms(1-3)]
  by (auto simp: pqc_wal_verify_data_def ebind_def epure_def pqc_sig_verify_def msg_bytes_def split: prod.split)

lemma length_XLogFilePath [simp]: "length (XLogFilePath tli segno wal_segsz) = 31"
  by (simp add: XLogFilePath_def XLogFileName_def fmt_08X_def)

lemma sig_file_path_neq: "sig_file_path (XLogFilePath tli segno wal_segsz) \<noteq> XLogFilePath tli segno wal_segsz"
proof
  assume "sig_file_path (XLogFilePath tli segno wal_segsz) = XLogFilePath tli segno wal_segsz"
  then have "length (sig_file_path (XLogFilePath tli segno wal_segsz)) = 31"
    by simp
  then show False
    by (simp add: sig_file_path_def snprintf_cut_def)
qed

text \<open>A file that is there and readable, and a signature beside it.\<close>

lemma pqc_wal_verify_segment_ok:
  assumes "no_io_fault io" "wal_files st path = Some seg" "wal_files st (sig_file_path path) = Some sig" "seg \<noteq> []" "sig \<noteq> []"
    "wal_keys_loaded st" "wal_public_key st = Some pk"
    "registry_ok st" "sig_alg (wal_sig_algorithm st)" "OQS_SIG_new L (sig_oqs_name (wal_sig_algorithm st)) = Some k"
    "length pk = sig_length_public_key k"
  shows "fst (pqc_wal_verify_segment L io path st) = Inr (OQS_SIG_verify L k seg sig pk)"
  using pqc_wal_verify_data_ok [OF assms(8-11), of seg sig] assms(2-7) no_io_fault_simps [OF assms(1)]
  by (auto simp: pqc_wal_verify_segment_def pqc_wal_get_public_key_def key_bytes_def Let_def split: prod.splits sum.splits if_splits)

end
