(* ===== verification/WalTrust.thy ===== *)
theory WalTrust
  imports WalSign
begin

text \<open>
  Properties of WAL signing: which segments the queue signs, what the receiver
  concludes from a signature, and how the key files carry keys from one
  process to another.
\<close>

section \<open>The queue\<close>

text \<open>C11: Between two rounds of deferred signing a process may complete any number
  of segments; the round signs the first eight of them, in the order they
  were completed, stopping at the first error, and leaves the queue empty.
  Segments after the eighth are never signed.\<close>

theorem deferred_signing_first_eight:
  assumes "queue_inv q" "q_count q = 0"
  shows "XLogPqcProcessDeferredSigning ssl L io wal_segsz (fold (\<lambda>(segno, tli). XLogPqcEnqueueSign segno tli) segs q) st =
      (fst (sign_segments ssl L io wal_segsz (take 8 segs) st),
       (fold (\<lambda>(segno, tli). XLogPqcEnqueueSign segno tli) segs q)\<lparr>q_count := 0\<rparr>,
       snd (sign_segments ssl L io wal_segsz (take 8 segs) st))"
proof -
  let ?q = "fold (\<lambda>(segno, tli). XLogPqcEnqueueSign segno tli) segs q"
  have contents: "queue_contents ?q = take 8 segs"
    using sign_queue.contents_fold [OF assms(1), of segs] assms(2) by (simp add: queue_contents_def)
  show ?thesis
  proof (cases "q_count ?q = 0")
    case True
    then have "take 8 segs = []"
      using contents by (simp add: queue_contents_def)
    then show ?thesis
      using True by (simp add: XLogPqcProcessDeferredSigning_def del: take_eq_Nil)
  next
    case False
    then show ?thesis
      by (simp add: XLogPqcProcessDeferredSigning_def contents Let_def split: prod.split)
  qed
qed

section \<open>Signatures and verdicts\<close>

text \<open>C27: What a receiver concludes about a segment that was signed and arrived
  intact, with the matching public key: the stored signature is a valid
  signature of the segment's SHA-256 digest, while the verdict is whether it
  is a valid signature of the segment itself.\<close>

theorem wal_verdict_on_other_message:
  assumes "sig_correct L" "no_io_fault io" "registry_ok st" "wal_keys_loaded st"
    and alg: "sig_alg (wal_sig_algorithm st)" "OQS_SIG_new L (sig_oqs_name (wal_sig_algorithm st)) = Some k"
    and keys: "wal_secret_key st = Some sk" "wal_public_key st = Some pk" "OQS_SIG_keypair L k c = Some (pk, sk)"
    and seg: "wal_files st (XLogFilePath tli segno wal_segsz) = Some seg" "seg \<noteq> []"
    and hash: "evp_sha256 ssl seg = Digest hash"
    and sig: "OQS_SIG_sign L k (coins st) hash sk = Some s" "s \<noteq> []" "length s \<le> sign_buf_len st"
  shows "\<exists>st'. XLogPqcSignSegment ssl L io wal_segsz segno tli st = (Inr (), st') \<and>
    wal_files st' (sig_file_path (XLogFilePath tli segno wal_segsz)) = Some s \<and>
    OQS_SIG_verify L k hash s pk \<and>
    fst (pqc_wal_verify_segment L io (XLogFilePath tli segno wal_segsz) st') = Inr (OQS_SIG_verify L k seg s pk)"
proof -
  let ?p = "XLogFilePath tli segno wal_segsz"
  have len: "length pk = sig_length_public_key k" "length sk = sig_length_secret_key k"
    and valid: "OQS_SIG_verify L k hash s pk"
    using assms(1) alg(2) keys(3) sig(1) unfolding sig_correct_def by blast+
  obtain st1 where sign: "pqc_wal_sign_data L hash (sign_buf_len st) st = (Inr (Some s), st1)" "registry_ok st1"
      "pqc_state.more st1 = pqc_state.more st"
    using pqc_wal_sign_data_ok [OF assms(3,4) alg keys(1) len(2) sig] by blast
  define st' where "st' = st1\<lparr>wal_files := (wal_files st1)(sig_file_path ?p \<mapsto> s)\<rparr>"
  have run: "XLogPqcSignSegment ssl L io wal_segsz segno tli st = (Inr (), st')"
    using seg(1) hash sign(1) by (simp add: XLogPqcSignSegment_def Let_def no_io_fault_simps [OF assms(2)] st'_def)
  note f = wal_fields_more [OF sign(3)]
  have "fst (pqc_wal_verify_segment L io ?p st') = Inr (OQS_SIG_verify L k seg s pk)"
    using sig_file_path_neq [of tli segno wal_segsz] seg sig(2) assms(4) keys(2) alg sign(2) len(1)
    by (intro pqc_wal_verify_segment_ok [OF assms(2)]) (simp_all add: st'_def f registry_ok_def)
  then show ?thesis
    using run valid by (auto simp: st'_def)
qed

section \<open>Key files\<close>

lemma key_file_paths_neq:
  "length path < 1008 \<Longrightarrow> key_file_path path WAL_SIGNING_KEY_FILE \<noteq> key_file_path path WAL_SIGNING_PUB_FILE"
  by (simp add: key_file_path_def snprintf_cut_def WAL_SIGNING_KEY_FILE_def WAL_SIGNING_PUB_FILE_def)

lemma write_key_file_Inr:
  "write_key_file io p data st = (Inr u, st') \<Longrightarrow>
     (\<exists>w. length w = length data \<and> w = transfer (write_limit io p) data \<and> st' = st\<lparr>wal_files := (wal_files st)(p \<mapsto> w)\<rparr>)"
  by (auto simp: write_key_file_def Let_def split: if_splits)

lemma transfer_full: "length (transfer l data) = length data \<Longrightarrow> transfer l data = data"
  by (auto simp: transfer_def split: option.splits)

lemma pqc_wal_resolve_algorithm_Inr:
  assumes "registry_ok st"
  shows "pqc_wal_resolve_algorithm a st = Inr alg \<longleftrightarrow> pqc_algorithm_from_name pqc_start_state a = alg \<and> sig_alg alg"
  using pqc_algorithm_is_sig_registry [OF assms] pqc_algorithm_from_name_registry [OF assms, of a]
  by (auto simp: pqc_wal_resolve_algorithm_def Let_def)

text \<open>What a successful key generation leaves in memory and on disk.\<close>

lemma pqc_wal_generate_Inr:
  assumes "pqc_wal_generate_signing_keys L io (Some path) (Some a) st = (Inr (), st1)" "registry_ok st"
    "key_file_path path WAL_SIGNING_KEY_FILE \<noteq> key_file_path path WAL_SIGNING_PUB_FILE"
  shows "\<exists>alg k c pk sk. pqc_algorithm_from_name pqc_start_state (Some a) = alg \<and> sig_alg alg \<and>
    OQS_SIG_new L (sig_oqs_name alg) = Some k \<and> OQS_SIG_keypair L k c = Some (pk, sk) \<and> wal_sig_algorithm st1 = alg \<and>
    wal_secret_key st1 = Some sk \<and> wal_public_key st1 = Some pk \<and> wal_keys_loaded st1 \<and> registry_ok st1 \<and>
    wal_files st1 (key_file_path path WAL_SIGNING_KEY_FILE) = Some sk \<and>
    wal_files st1 (key_file_path path WAL_SIGNING_PUB_FILE) = Some pk"
proof -
  have path: "path \<noteq> []"
    using assms(1) by (auto simp: pqc_wal_generate_signing_keys_def path_unset_def)
  obtain alg where alg: "pqc_wal_resolve_algorithm (Some a) st = Inr alg"
    using assms(1) by (auto simp: pqc_wal_generate_signing_keys_def split: if_splits sum.splits)
  define st0 where "st0 = st\<lparr>wal_sig_algorithm := alg\<rparr>"
  have ok0: "registry_ok st0"
    using assms(2) by (simp add: st0_def registry_ok_def)
  obtain ctx s1 keys s2 pk sk s3 s4 where g: "pqc_sig_new L alg st0 = (Inr ctx, s1)"
      "pqc_sig_keygen L (Some ctx) s1 = (Inr (PQC_SUCCESS, keys), s2)" "the keys = (pk, sk)"
      "write_key_file io (key_file_path path WAL_SIGNING_KEY_FILE) sk s2 = (Inr (), s3)"
      "write_key_file io (key_file_path path WAL_SIGNING_PUB_FILE) pk s3 = (Inr (), s4)"
      "st1 = s4\<lparr>wal_secret_key := Some sk, wal_public_key := Some pk, wal_keys_loaded := True\<rparr>"
    using assms(1) alg path
    by (auto simp: pqc_wal_generate_signing_keys_def path_unset_def ebind_Inr_iff st0_def [symmetric]
        split: if_splits prod.splits)
  have pair: "OQS_SIG_keypair L (oqs_sig ctx) (coins s1) = Some (pk, sk)"
    using g(2,3) by (auto simp: pqc_sig_keygen_def Let_def split: option.splits) (metis option.sel)
  have w: "s3 = s2\<lparr>wal_files := (wal_files s2)(key_file_path path WAL_SIGNING_KEY_FILE \<mapsto> sk)\<rparr>"
      "s4 = s3\<lparr>wal_files := (wal_files s3)(key_file_path path WAL_SIGNING_PUB_FILE \<mapsto> pk)\<rparr>"
    using write_key_file_Inr [OF g(4)] write_key_file_Inr [OF g(5)] by (auto simp: transfer_full)
  have frame: "registry_ok s2" "pqc_state.more s2 = pqc_state.more st0"
    using pqc_sig_frame(1) [OF g(1)] pqc_sig_frame(2) [OF g(2)] ok0 by simp_all
  then have "wal_sig_algorithm st1 = alg" "registry_ok st1"
    using wal_fields_more(3) [OF frame(2)] by (simp_all add: g(6) w st0_def registry_ok_def)
  then show ?thesis
    using pqc_sig_new_Inr [OF g(1) ok0] pair alg assms(3) pqc_wal_resolve_algorithm_Inr [OF assms(2), of "Some a" alg]
    by (auto simp: g(6) w)
qed

lemma read_key_file_no_fault:
  "no_io_fault io \<Longrightarrow> files p = Some b \<Longrightarrow> 0 < length b \<Longrightarrow> length b \<le> 102400 \<Longrightarrow> read_key_file io files p = Inr b"
  by (simp add: read_key_file_def no_io_fault_simps)

text \<open>C16: Keys that one process generates are the keys every process that reads the
  key directory afterwards works with: loading succeeds with the same
  algorithm, secret key and public key, and what the first process signs the
  other one verifies with the public key it loaded.\<close>

theorem wal_keys_roundtrip:
  assumes "sig_correct L" "no_io_fault io" "registry_ok st" "registry_ok st2" "sizes_ok L st2" "length path < 1008"
    and sizes: "\<And>n k. OQS_SIG_new L n = Some k \<Longrightarrow> 0 < sig_length_secret_key k \<and> sig_length_secret_key k \<le> 102400 \<and>
      0 < sig_length_public_key k \<and> sig_length_public_key k \<le> 102400"
    and gen: "pqc_wal_generate_signing_keys L io (Some path) (Some a) st = (Inr (), st1)"
    and files: "wal_files st2 = wal_files st1"
  shows "\<exists>st3. pqc_wal_load_signing_keys io (Some path) (Some a) st2 = (Inr (), st3) \<and> wal_keys_loaded st3 \<and>
    wal_secret_key st3 = wal_secret_key st1 \<and> wal_public_key st3 = wal_public_key st1 \<and>
    wal_sig_algorithm st3 = wal_sig_algorithm st1 \<and>
    (\<exists>pubkey. pqc_wal_get_public_key st3 = Inr pubkey \<and>
      (\<forall>data n s st4. pqc_wal_sign_data L data n st1 = (Inr (Some s), st4) \<longrightarrow>
         fst (pqc_wal_verify_data L data s pubkey st3) = Inr 0))"
proof -
  obtain alg k c pk sk where g: "pqc_algorithm_from_name pqc_start_state (Some a) = alg" "sig_alg alg"
      "OQS_SIG_new L (sig_oqs_name alg) = Some k" "OQS_SIG_keypair L k c = Some (pk, sk)" "wal_sig_algorithm st1 = alg"
      "wal_secret_key st1 = Some sk" "wal_public_key st1 = Some pk" "wal_keys_loaded st1" "registry_ok st1"
      "wal_files st1 (key_file_path path WAL_SIGNING_KEY_FILE) = Some sk"
      "wal_files st1 (key_file_path path WAL_SIGNING_PUB_FILE) = Some pk"
    using pqc_wal_generate_Inr [OF gen assms(3) key_file_paths_neq [OF assms(6)]] by blast
  have len: "length pk = sig_length_public_key k" "length sk = sig_length_secret_key k"
    using assms(1) g(3,4) unfolding sig_correct_def by blast+
  define st3 where "st3 = st2\<lparr>wal_sig_algorithm := alg, wal_secret_key := Some sk, wal_public_key := Some pk, wal_keys_loaded := True\<rparr>"
  have path: "path \<noteq> []"
    using gen by (auto simp: pqc_wal_generate_signing_keys_def path_unset_def)
  have ok: "registry_ok st3" "sizes_ok L st3"
    using assms(4,5) by (simp_all add: st3_def registry_ok_def sizes_ok_def)
  define s3 where "s3 = st2\<lparr>wal_sig_algorithm := alg, wal_secret_key := Some sk, wal_public_key := Some pk\<rparr>"
  have "registry_ok s3" "sizes_ok L s3"
    using assms(4,5) by (simp_all add: s3_def registry_ok_def sizes_ok_def)
  then have "pqc_sig_secret_key_len s3 alg \<in> {0, length sk}" "pqc_sig_public_key_len s3 alg \<in> {0, length pk}"
    using sig_sizes(1,2) [OF _ _ g(2,3)] len by metis+
  moreover have "read_key_file io (wal_files st2) (key_file_path path WAL_SIGNING_KEY_FILE) = Inr sk"
      "read_key_file io (wal_files st2) (key_file_path path WAL_SIGNING_PUB_FILE) = Inr pk"
    using g(10,11) files sizes [OF g(3)] len by (intro read_key_file_no_fault [OF assms(2)]; simp)+
  moreover have "pqc_wal_resolve_algorithm (Some a) st2 = Inr alg"
    using g(1,2) pqc_wal_resolve_algorithm_Inr [OF assms(4)] by simp
  ultimately have load: "pqc_wal_load_signing_keys io (Some path) (Some a) st2 = (Inr (), st3)"
    using path by (auto simp: pqc_wal_load_signing_keys_def path_unset_def Let_def st3_def s3_def)
  have "fst (pqc_wal_verify_data L data s pk st3) = Inr 0" if "pqc_wal_sign_data L data n st1 = (Inr (Some s), st4)" for data n s st4
  proof -
    have "\<exists>c'. OQS_SIG_sign L k c' data sk = Some s"
      using that g(5,6,8) len(2) pqc_sig_new_ok [OF g(9,2,3)]
      by (auto simp: pqc_wal_sign_data_def ebind_def epure_def pqc_sig_sign_def Let_def msg_bytes_def key_bytes_def
          split: prod.splits option.splits if_splits)
    then have "OQS_SIG_verify L k data s pk"
      using assms(1) g(3,4) unfolding sig_correct_def by blast
    then show ?thesis
      using pqc_wal_verify_data_ok [OF ok(1), of L k pk data s] g(2,3) len(1) by (simp add: st3_def)
  qed
  then show ?thesis
    using load g(5-7) by (auto simp: st3_def key_bytes_def pqc_wal_get_public_key_def)
qed

text \<open>A reload that cannot read the secret key file reports an error but leaves
  the keys marked as loaded although the old ones are gone: an empty public
  key is handed out, and signing raises an error where it should decline.\<close>

theorem wal_failed_reload:
  assumes "registry_ok st" "wal_keys_loaded st" "path \<noteq> []" "pqc_algorithm_from_name pqc_start_state (Some a) = alg" "sig_alg alg"
    "wal_files st (key_file_path path WAL_SIGNING_KEY_FILE) = None"
    "OQS_SIG_new L (sig_oqs_name alg) = Some k" "0 < sig_length_secret_key k"
  shows "\<exists>st'. pqc_wal_load_signing_keys io (Some path) (Some a) st =
      (Inl (PgError ERRCODE_FILE_ACCESS ''could not open WAL signing key file''), st') \<and>
    pqc_wal_get_public_key st' = Inr [] \<and>
    fst (pqc_wal_sign_data L data n st') = Inl (PgError ERRCODE_INVALID_PARAMETER_VALUE ''invalid secret key length'')"
proof -
  define st' where "st' = st\<lparr>wal_sig_algorithm := alg, wal_secret_key := None, wal_public_key := None\<rparr>"
  have ok: "registry_ok st'"
    using assms(1) by (simp add: st'_def registry_ok_def)
  have "pqc_wal_load_signing_keys io (Some path) (Some a) st =
      (Inl (PgError ERRCODE_FILE_ACCESS ''could not open WAL signing key file''), st')"
    using assms(3-6) pqc_wal_resolve_algorithm_Inr [OF assms(1), of "Some a" alg]
    by (simp add: pqc_wal_load_signing_keys_def path_unset_def read_key_file_def Let_def st'_def)
  moreover have "fst (pqc_wal_sign_data L data n st') = Inl (PgError ERRCODE_INVALID_PARAMETER_VALUE ''invalid secret key length'')"
    using pqc_sig_new_ok [OF ok assms(5,7)] assms(2,8)
    by (simp add: pqc_wal_sign_data_def ebind_def pqc_sig_sign_def key_bytes_def st'_def split: prod.split)
  ultimately show ?thesis
    using assms(2) by (intro exI [of _ st']) (simp add: pqc_wal_get_public_key_def key_bytes_def st'_def)
qed

section \<open>Sample runs\<close>

definition sample_io :: wal_io where
  "sample_io = \<lparr>open_ok = (\<lambda>_. True), stat_ok = (\<lambda>_. True), read_limit = (\<lambda>_. None), create_ok = (\<lambda>_. True),
     fdopen_ok = (\<lambda>_. True), write_limit = (\<lambda>_. None), close_ok = (\<lambda>_. True), dir_stat = (\<lambda>_. Some True)\<rparr>"

definition sample_wal :: "(string \<Rightarrow> bytes option) \<Rightarrow> wal_state" where
  "sample_wal files = \<lparr>pqc_initialized = False, pqc_algorithms = pqc_algorithms_table, pqc_stat_counters = None, coins = 3,
     wal_pqc_signing = True, wal_secret_key = Some [1, 9], wal_public_key = Some [1, 9], wal_sig_algorithm = PQC_ALG_ML_DSA_65,
     wal_keys_loaded = True, wal_files = files\<rparr>"

lemma sample_io_ok: "no_io_fault sample_io"
  by (simp add: no_io_fault_def sample_io_def)

lemma sample_wal_facts:
  "registry_ok (sample_wal files)" "sizes_ok L (sample_wal files)" "sig_alg PQC_ALG_ML_DSA_65"
  "pqc_algorithm_from_name pqc_start_state (Some ''ML-DSA-65'') = PQC_ALG_ML_DSA_65" "sign_buf_len (sample_wal files) = 8192"
proof -
  show "sizes_ok L (sample_wal files)"
    using sizes_ok_start [of L] by (simp add: sizes_ok_def sample_wal_def pqc_start_state_def)
  show "sign_buf_len (sample_wal files) = 8192"
    by (simp add: sign_buf_len_def pqc_sig_max_signature_len_def sig_size_def pqc_get_algorithm_info_def sample_wal_def
        pqc_algorithms_table_def alg_entry_def)
  show "pqc_algorithm_from_name pqc_start_state (Some ''ML-DSA-65'') = PQC_ALG_ML_DSA_65"
    by code_simp
  show "sig_alg PQC_ALG_ML_DSA_65"
    by code_simp
qed (simp add: registry_ok_def sample_wal_def)

theorem deferred_signing_first_eight_witness:
  "\<exists>q. XLogPqcProcessDeferredSigning sample_ssl sample_oqs sample_io 16777216
      (fold (\<lambda>(segno, tli). XLogPqcEnqueueSign segno tli) [(1, 1), (2, 1), (3, 1), (4, 1), (5, 1), (6, 1), (7, 1), (8, 1), (9, 1)] empty_queue)
      (sample_wal Map.empty) =
    (fst (sign_segments sample_ssl sample_oqs sample_io 16777216 [(1, 1), (2, 1), (3, 1), (4, 1), (5, 1), (6, 1), (7, 1), (8, 1)]
       (sample_wal Map.empty)), q,
     snd (sign_segments sample_ssl sample_oqs sample_io 16777216 [(1, 1), (2, 1), (3, 1), (4, 1), (5, 1), (6, 1), (7, 1), (8, 1)]
       (sample_wal Map.empty)))"
proof -
  have "queue_inv empty_queue" "q_count empty_queue = 0"
    by (simp_all add: queue_inv_def empty_queue_def)
  moreover have "take 8 [(1, 1), (2, 1), (3, 1), (4, 1), (5, 1), (6, 1), (7, 1), (8, 1), (9, 1)] =
      [(1, 1), (2, 1), (3, 1), (4, 1), (5, 1), (6, 1), (7, 1), (8 :: 64 word, 1 :: 32 word)]"
    by simp
  ultimately show ?thesis
    using deferred_signing_first_eight [of empty_queue sample_ssl sample_oqs sample_io 16777216
      "[(1, 1), (2, 1), (3, 1), (4, 1), (5, 1), (6, 1), (7, 1), (8, 1), (9, 1)]" "sample_wal Map.empty"] by metis
qed

theorem wal_verdict_on_other_message_witness:
  "\<exists>st' :: wal_state. XLogPqcSignSegment sample_ssl sample_oqs sample_io 16777216 5 1
      (sample_wal [XLogFilePath 1 5 16777216 \<mapsto> [1, 2, 3]]) = (Inr (), st') \<and>
    fst (pqc_wal_verify_segment sample_oqs sample_io (XLogFilePath 1 5 16777216) st') = Inr False"
proof -
  let ?st = "sample_wal [XLogFilePath 1 5 16777216 \<mapsto> [1, 2, 3]]"
  have sel: "wal_sig_algorithm ?st = PQC_ALG_ML_DSA_65" "wal_keys_loaded ?st" "wal_secret_key ?st = Some [1, 9]"
      "wal_public_key ?st = Some [1, 9]" "coins ?st = 3" "wal_files ?st (XLogFilePath 1 5 16777216) = Some [1, 2, 3]"
    by (simp_all add: sample_wal_def)
  have sum: "byte_sum (replicate 32 9) = 32"
    by code_simp
  have oqs: "OQS_SIG_new sample_oqs n = Some (sample_sig n)" "OQS_SIG_keypair sample_oqs k 1 = Some ([1, 9], [1, 9])"
      "evp_sha256 sample_ssl [1, 2, 3] = Digest (replicate 32 9)"
      "OQS_SIG_sign sample_oqs k 3 (replicate 32 9) [1, 9] = Some [32, 10]" "\<not> OQS_SIG_verify sample_oqs k [1, 2, 3] [32, 10] [1, 9]" for n k
    by (simp_all add: sample_oqs_def sample_ssl_def sum) (simp_all add: byte_sum_def)
  show ?thesis
    using wal_verdict_on_other_message [OF sig_correct_sample sample_io_ok sample_wal_facts(1), of "[XLogFilePath 1 5 16777216 \<mapsto> [1, 2, 3]]"
        "sample_sig (sig_oqs_name PQC_ALG_ML_DSA_65)" "[1, 9]" "[1, 9]" 1 1 5 16777216 "[1, 2, 3]" sample_ssl "replicate 32 9" "[32, 10]"]
      oqs sample_wal_facts(3,5) by (auto simp: sel)
qed

lemma sample_generate_wal:
  "\<exists>st1. pqc_wal_generate_signing_keys sample_oqs sample_io (Some ''keys'') (Some ''ML-DSA-65'') (sample_wal Map.empty) = (Inr (), st1)"
proof -
  let ?st = "sample_wal Map.empty\<lparr>wal_sig_algorithm := PQC_ALG_ML_DSA_65\<rparr>"
  have "pqc_wal_resolve_algorithm (Some ''ML-DSA-65'') (sample_wal Map.empty) = Inr PQC_ALG_ML_DSA_65"
    using pqc_wal_resolve_algorithm_Inr [OF sample_wal_facts(1)] sample_wal_facts(3,4) by simp
  moreover have "registry_ok ?st"
    by (simp add: registry_ok_def sample_wal_def)
  then have "\<exists>ctx st1. pqc_sig_new sample_oqs PQC_ALG_ML_DSA_65 ?st = (Inr ctx, st1)"
    using pqc_sig_new_ok [OF _ sample_wal_facts(3), of ?st sample_oqs] by (simp add: sample_oqs_def)
  ultimately show ?thesis
    by (auto simp: pqc_wal_generate_signing_keys_def path_unset_def sample_io_def ebind_def pqc_sig_keygen_def sample_oqs_def Let_def
        write_key_file_def)
qed

lemma sample_signs:
  fixes st1 :: wal_state
  assumes "pqc_wal_generate_signing_keys sample_oqs sample_io (Some ''keys'') (Some ''ML-DSA-65'') (sample_wal Map.empty) = (Inr (), st1)"
  shows "\<exists>s st4. pqc_wal_sign_data sample_oqs [1, 2] 8192 st1 = (Inr (Some s), st4)"
proof -
  obtain alg k c pk sk where g: "sig_alg alg" "OQS_SIG_new sample_oqs (sig_oqs_name alg) = Some k"
      "OQS_SIG_keypair sample_oqs k c = Some (pk, sk)" "wal_sig_algorithm st1 = alg" "wal_secret_key st1 = Some sk"
      "wal_keys_loaded st1" "registry_ok st1"
    using pqc_wal_generate_Inr [OF assms sample_wal_facts(1) key_file_paths_neq] by auto
  have "length sk = sig_length_secret_key k"
    using sig_correct_sample g(2,3) unfolding sig_correct_def by blast
  then show ?thesis
    using g(4-6) pqc_sig_new_ok [OF g(7,1,2)]
    by (simp add: pqc_wal_sign_data_def ebind_def epure_def pqc_sig_sign_def Let_def key_bytes_def sample_oqs_def)
qed

theorem wal_keys_roundtrip_witness:
  "\<exists>(st1 :: wal_state) (st3 :: wal_state) pubkey s st4.
     pqc_wal_generate_signing_keys sample_oqs sample_io (Some ''keys'') (Some ''ML-DSA-65'') (sample_wal Map.empty) = (Inr (), st1) \<and>
     pqc_wal_load_signing_keys sample_io (Some ''keys'') (Some ''ML-DSA-65'') (sample_wal (wal_files st1)) = (Inr (), st3) \<and>
     wal_keys_loaded st3 \<and> wal_public_key st3 = wal_public_key st1 \<and> pqc_wal_get_public_key st3 = Inr pubkey \<and>
     pqc_wal_sign_data sample_oqs [1, 2] 8192 st1 = (Inr (Some s), st4) \<and>
     fst (pqc_wal_verify_data sample_oqs [1, 2] s pubkey st3) = Inr 0"
proof -
  obtain st1 where gen:
      "pqc_wal_generate_signing_keys sample_oqs sample_io (Some ''keys'') (Some ''ML-DSA-65'') (sample_wal Map.empty) = (Inr (), st1)"
    using sample_generate_wal by blast
  have "0 < sig_length_secret_key k \<and> sig_length_secret_key k \<le> 102400 \<and> 0 < sig_length_public_key k \<and>
      sig_length_public_key k \<le> 102400" if "OQS_SIG_new sample_oqs n = Some k" for n k
    using that by (auto simp: sample_oqs_def sample_sig_def)
  moreover have "wal_files (sample_wal (wal_files st1)) = wal_files st1" "length ''keys'' < 1008"
    by (simp_all add: sample_wal_def)
  ultimately obtain st3 :: wal_state where
      "pqc_wal_load_signing_keys sample_io (Some ''keys'') (Some ''ML-DSA-65'') (sample_wal (wal_files st1)) = (Inr (), st3)"
      "wal_keys_loaded st3" "wal_public_key st3 = wal_public_key st1"
      "\<exists>pubkey. pqc_wal_get_public_key st3 = Inr pubkey \<and>
        (\<forall>data n s st4. pqc_wal_sign_data sample_oqs data n st1 = (Inr (Some s), st4) \<longrightarrow>
           fst (pqc_wal_verify_data sample_oqs data s pubkey st3) = Inr 0)"
    using wal_keys_roundtrip [OF sig_correct_sample sample_io_ok sample_wal_facts(1) sample_wal_facts(1) sample_wal_facts(2) _ _ gen, of "wal_files st1"]
    by blast
  moreover obtain s st4 where "pqc_wal_sign_data sample_oqs [1, 2] 8192 st1 = (Inr (Some s), st4)"
    using sample_signs [OF gen] by blast
  ultimately show ?thesis
    using gen by blast
qed

theorem wal_failed_reload_witness:
  "\<exists>st' :: wal_state. pqc_wal_load_signing_keys sample_io (Some ''keys'') (Some ''ML-DSA-65'') (sample_wal Map.empty) =
      (Inl (PgError ERRCODE_FILE_ACCESS ''could not open WAL signing key file''), st') \<and>
    pqc_wal_get_public_key st' = Inr [] \<and>
    fst (pqc_wal_sign_data sample_oqs [1] 8192 st') = Inl (PgError ERRCODE_INVALID_PARAMETER_VALUE ''invalid secret key length'')"
  using wal_failed_reload [OF sample_wal_facts(1) _ _ sample_wal_facts(4,3), of Map.empty "''keys''" sample_oqs
      "sample_sig (sig_oqs_name PQC_ALG_ML_DSA_65)" sample_io "[1]" 8192]
  by (simp add: sample_wal_def sample_oqs_def sample_sig_def)

end
