(* ===== verification/Base64.thy ===== *)
theory Base64
  imports CText "HOL-Library.Signed_Division"
begin

text \<open>
  Base64 coding: common/base64.c.  The loops of pg_b64_encode and
  pg_b64_decode carry the same accumulators as the C code; a result of -1 is
  None.  The buffer length given by the caller is an argument, as it decides
  whether the coding succeeds.  The lengths are of the C type int: the length
  functions compute with 32 bits and wrap (the build uses -fwrapv), division
  truncates and the right shift is arithmetic.
\<close>

section \<open>Definitions\<close>

definition base64_chars :: string where
  "base64_chars = ''ABCDEFGHIJKLMNOPQRSTUVWXYZabcdefghijklmnopqrstuvwxyz0123456789+/''"

definition b64lookup :: "int list" where
  "b64lookup =
    [-1, -1, -1, -1, -1, -1, -1, -1, -1, -1, -1, -1, -1, -1, -1, -1,
     -1, -1, -1, -1, -1, -1, -1, -1, -1, -1, -1, -1, -1, -1, -1, -1,
     -1, -1, -1, -1, -1, -1, -1, -1, -1, -1, -1, 62, -1, -1, -1, 63,
     52, 53, 54, 55, 56, 57, 58, 59, 60, 61, -1, -1, -1, -1, -1, -1,
     -1, 0, 1, 2, 3, 4, 5, 6, 7, 8, 9, 10, 11, 12, 13, 14,
     15, 16, 17, 18, 19, 20, 21, 22, 23, 24, 25, -1, -1, -1, -1, -1,
     -1, 26, 27, 28, 29, 30, 31, 32, 33, 34, 35, 36, 37, 38, 39, 40,
     41, 42, 43, 44, 45, 46, 47, 48, 49, 50, 51, -1, -1, -1, -1, -1]"

text \<open>The character for six bits of the buffer.\<close>

definition b64_digit :: "32 word \<Rightarrow> nat \<Rightarrow> char" where
  "b64_digit buf n = base64_chars ! unat (drop_bit n buf AND 0x3f)"

primrec b64_encode_loop :: "int \<Rightarrow> bytes \<Rightarrow> nat \<Rightarrow> 32 word \<Rightarrow> string \<Rightarrow> (nat \<times> 32 word \<times> string) option" where
  "b64_encode_loop dstlen [] pos buf out = Some (pos, buf, out)"
| "b64_encode_loop dstlen (s # rest) pos buf out =
     (let buf = buf OR push_bit (8 * pos) (ucast s) in
      if pos = 0
      then (if int (length out) + 4 > dstlen then None
            else b64_encode_loop dstlen rest 2 0
              (out @ [b64_digit buf 18, b64_digit buf 12, b64_digit buf 6, b64_digit buf 0]))
      else b64_encode_loop dstlen rest (pos - 1) buf out)"

definition pg_b64_encode :: "bytes \<Rightarrow> int \<Rightarrow> string option" where
  "pg_b64_encode src dstlen =
     (case b64_encode_loop dstlen src 2 0 [] of
        None \<Rightarrow> None
      | Some (pos, buf, out) \<Rightarrow>
          if pos \<noteq> 2
          then (if int (length out) + 4 > dstlen then None
                else Some (out @ [b64_digit buf 18, b64_digit buf 12,
                  if pos = 0 then b64_digit buf 6 else CHR ''='', CHR ''='']))
          else Some out)"

text \<open>The value of a symbol; chars are signed, so those above 127 are negative.\<close>

definition b64_value :: "char \<Rightarrow> int" where
  "b64_value c = (let n = of_char c :: nat in if 0 < n \<and> n < 127 then b64lookup ! n else -1)"

text \<open>The bytes a full group of four symbols puts out, unless the buffer is full.\<close>

definition b64_emit :: "int \<Rightarrow> nat \<Rightarrow> 32 word \<Rightarrow> bytes \<Rightarrow> bytes option" where
  "b64_emit dstlen fin buf out =
     (if int (length out) + 1 > dstlen then None
      else
        let out1 = out @ [ucast (drop_bit 16 buf)] in
        if (fin = 0 \<or> fin > 1) \<and> int (length out1) + 1 > dstlen then None
        else
          let out2 = (if fin = 0 \<or> fin > 1 then out1 @ [ucast (drop_bit 8 buf)] else out1) in
          if (fin = 0 \<or> fin > 2) \<and> int (length out2) + 1 > dstlen then None
          else Some (if fin = 0 \<or> fin > 2 then out2 @ [ucast buf] else out2))"

text \<open>
  One symbol read at position pos of its group with padding state fin: the six
  bits it stands for and the new padding state, or None for an error.
\<close>

definition b64_symbol :: "char \<Rightarrow> nat \<Rightarrow> nat \<Rightarrow> (int \<times> nat) option" where
  "b64_symbol c pos fin =
     (if c = CHR '' '' \<or> c = CHR 0x09 \<or> c = CHR 0x0A \<or> c = CHR 0x0D then None
      else if c = CHR ''=''
      then (if fin = 0
            then (if pos = 2 then Some (0, 1) else if pos = 3 then Some (0, 2) else None)
            else Some (0, fin))
      else if b64_value c < 0 then None else Some (b64_value c, fin))"

primrec b64_decode_loop :: "int \<Rightarrow> string \<Rightarrow> 32 word \<Rightarrow> nat \<Rightarrow> nat \<Rightarrow> bytes \<Rightarrow> bytes option" where
  "b64_decode_loop dstlen [] buf pos fin out = (if pos \<noteq> 0 then None else Some out)"
| "b64_decode_loop dstlen (c # rest) buf pos fin out =
     (case b64_symbol c pos fin of
        None \<Rightarrow> None
      | Some (b, fin) \<Rightarrow>
          if pos + 1 = 4
          then (case b64_emit dstlen fin (push_bit 6 buf + of_int b) out of
              None \<Rightarrow> None
            | Some out \<Rightarrow> b64_decode_loop dstlen rest 0 0 fin out)
          else b64_decode_loop dstlen rest (push_bit 6 buf + of_int b) (pos + 1) fin out)"

definition pg_b64_decode :: "string \<Rightarrow> int \<Rightarrow> bytes option" where
  "pg_b64_decode src dstlen = b64_decode_loop dstlen src 0 0 0 []"

definition pg_b64_enc_len :: "int \<Rightarrow> int" where
  "pg_b64_enc_len srclen = int_of_long (int_of_long (srclen + 2) sdiv 3 * 4)"

definition pg_b64_dec_len :: "int \<Rightarrow> int" where
  "pg_b64_dec_len srclen = drop_bit 2 (int_of_long (srclen * 3))"

section \<open>Symbols\<close>

lemma b64_symbol_values: "map b64_value base64_chars = map int [0..<64]"
  by code_simp

lemma b64_symbol_plain:
  "list_all (\<lambda>c. c \<notin> {CHR ''='', CHR '' '', CHR 0x09, CHR 0x0A, CHR 0x0D}) base64_chars"
  by (simp add: base64_chars_def)

lemma base64_chars_length: "length base64_chars = 64"
  by (simp add: base64_chars_def)

lemma b64_six_bits: "drop_bit n buf AND (0x3f :: 32 word) = take_bit 6 (drop_bit n buf)"
  by (simp add: take_bit_eq_mask mask_eq_exp_minus_1)

lemma b64_digit_range: "unat (drop_bit n buf AND (0x3f :: 32 word)) < 64"
proof -
  have "unat (take_bit 6 (drop_bit n buf)) = take_bit 6 (unat (drop_bit n buf))"
    by (rule unsigned_take_bit_eq)
  then show ?thesis
    by (simp add: b64_six_bits take_bit_eq_mod)
qed

lemma b64_value_digit:
  "b64_value (b64_digit buf n) = uint (drop_bit n buf AND 0x3f)"
  "b64_digit buf n \<notin> {CHR ''='', CHR '' '', CHR 0x09, CHR 0x0A, CHR 0x0D}"
proof -
  define i where "i = unat (drop_bit n buf AND (0x3f :: 32 word))"
  have i: "i < 64"
    unfolding i_def by (rule b64_digit_range)
  have "b64_value (base64_chars ! i) = map b64_value base64_chars ! i"
    using i by (simp add: base64_chars_length)
  also have "\<dots> = int i"
    using i by (simp add: b64_symbol_values del: upt_conv_Cons)
  finally show "b64_value (b64_digit buf n) = uint (drop_bit n buf AND 0x3f)"
    by (simp add: b64_digit_def i_def)
  show "b64_digit buf n \<notin> {CHR ''='', CHR '' '', CHR 0x09, CHR 0x0A, CHR 0x0D}"
    using b64_symbol_plain i unfolding list_all_length b64_digit_def i_def [symmetric] base64_chars_length
    by blast
qed

section \<open>Reference coding\<close>

text \<open>The text of a byte string, three bytes at a time.\<close>

definition b64_group :: "bytes \<Rightarrow> 32 word" where
  "b64_group g = (push_bit 16 (ucast (g ! 0)) OR push_bit 8 (ucast (g ! 1))) OR ucast (g ! 2)"

fun b64_text :: "bytes \<Rightarrow> string" where
  "b64_text [] = []"
| "b64_text [a] = (let w = b64_group [a, 0, 0] in [b64_digit w 18, b64_digit w 12, CHR ''='', CHR ''=''])"
| "b64_text [a, b] =
     (let w = b64_group [a, b, 0] in [b64_digit w 18, b64_digit w 12, b64_digit w 6, CHR ''=''])"
| "b64_text (a # b # c # rest) =
     (let w = b64_group [a, b, c] in
      [b64_digit w 18, b64_digit w 12, b64_digit w 6, b64_digit w 0] @ b64_text rest)"

text \<open>The number of characters of that text.\<close>

definition b64_size :: "nat \<Rightarrow> nat" where
  "b64_size n = (n + 2) div 3 * 4"

lemma pg_b64_enc_len_size: "n \<le> 1610612733 \<Longrightarrow> pg_b64_enc_len (int n) = int (b64_size n)"
  by (simp add: pg_b64_enc_len_def b64_size_def int_of_long_small signed_divide_int_def sgn_if zdiv_int)

lemma b64_text_length: "length (b64_text bs) = b64_size (length bs)"
proof (induction bs rule: b64_text.induct)
  case (4 a b c rest)
  have "(length rest + 3 + 2) div 3 = Suc ((length rest + 2) div 3)"
    by presburger
  with 4 show ?case
    by (simp add: Let_def b64_size_def algebra_simps)
qed (simp_all add: Let_def b64_size_def)

lemma b64_digit_symbol: "b64_digit w n \<in> set base64_chars"
  using b64_digit_range [of n w] by (simp add: b64_digit_def base64_chars_length)

lemma b64_text_symbols: "set (b64_text bs) \<subseteq> insert (CHR ''='') (set base64_chars)"
  by (induction bs rule: b64_text.induct) (auto simp: Let_def b64_digit_symbol)

lemma b64_encode_loop_text:
  "(case b64_encode_loop dstlen src 2 0 out of
      None \<Rightarrow> None
    | Some (pos, buf, out) \<Rightarrow>
        if pos \<noteq> 2
        then (if int (length out) + 4 > dstlen then None
              else Some (out @ [b64_digit buf 18, b64_digit buf 12,
                if pos = 0 then b64_digit buf 6 else CHR ''='', CHR ''='']))
        else Some out) =
   (if int (length out + length (b64_text src)) \<le> dstlen \<or> src = [] then Some (out @ b64_text src) else None)"
proof (induction src arbitrary: out rule: b64_text.induct)
  case (4 a b c rest)
  let ?q = "let w = b64_group [a, b, c] in [b64_digit w 18, b64_digit w 12, b64_digit w 6, b64_digit w 0]"
  show ?case
    using "4.IH" [OF refl, of "out @ ?q"]
    by (auto simp: Let_def b64_group_def)
qed (auto simp: Let_def b64_group_def)

lemma pg_b64_encode_text:
  "pg_b64_encode src dstlen =
   (if src = [] \<or> int (b64_size (length src)) \<le> dstlen then Some (b64_text src) else None)"
  using b64_encode_loop_text [where out = "[]" and dstlen = dstlen and src = src]
  by (cases "src = []") (auto simp: pg_b64_encode_def b64_text_length)

section \<open>Decoding the reference text\<close>

lemma b64_join: "push_bit 6 (drop_bit (n + 6) w) + take_bit 6 (drop_bit n w) = drop_bit n (w :: 32 word)"
  using bits_ident [of 6 "drop_bit n w"] by (simp add: add.commute)

lemma b64_symbol_digit:
  "b64_symbol (b64_digit w n) pos fin = Some (uint (take_bit 6 (drop_bit n w)), fin)"
  using b64_value_digit [where buf = w and n = n] by (simp add: b64_symbol_def b64_six_bits)

lemma b64_decode_digit:
  "b64_decode_loop dstlen (b64_digit w n # rest) (drop_bit (n + 6) w) pos fin out =
   (if pos + 1 = 4
    then (case b64_emit dstlen fin (drop_bit n w) out of
        None \<Rightarrow> None
      | Some out \<Rightarrow> b64_decode_loop dstlen rest 0 0 fin out)
    else b64_decode_loop dstlen rest (drop_bit n w) (pos + 1) fin out)"
  using b64_join [of n w] by (simp add: b64_symbol_digit)

lemma byte_bit_high: "8 \<le> n \<Longrightarrow> \<not> bit (a :: byte) n"
  using bit_imp_le_length [of a n] by auto

lemma b64_group_small: "drop_bit 24 (b64_group [a, b, c]) = 0"
  by (rule bit_eqI) (auto simp: b64_group_def bit_simps byte_bit_high)

lemma b64_group_bytes:
  "ucast (drop_bit 16 (b64_group [a, b, c])) = a"
  "ucast (drop_bit 8 (b64_group [a, b, c])) = b"
  "ucast (b64_group [a, b, c]) = c"
  by (rule bit_eqI, (simp add: b64_group_def bit_simps byte_bit_high, linarith?)[1])+

lemma b64_decode_quad:
  "b64_decode_loop dstlen (b64_digit (b64_group [a, b, c]) 18 # b64_digit (b64_group [a, b, c]) 12 # rest) 0 0 fin out =
   b64_decode_loop dstlen rest (drop_bit 12 (b64_group [a, b, c])) 2 fin out"
  using b64_decode_digit [of dstlen "b64_group [a, b, c]" 18 "b64_digit (b64_group [a, b, c]) 12 # rest" 0 fin out]
    b64_decode_digit [of dstlen "b64_group [a, b, c]" 12 rest 1 fin out]
  by (simp add: b64_group_small numeral_2_eq_2 del: b64_decode_loop.simps)

lemma b64_decode_two:
  "b64_decode_loop dstlen (b64_digit (b64_group [a, b, c]) 6 # rest) (drop_bit 12 (b64_group [a, b, c])) 2 fin out =
   b64_decode_loop dstlen rest (drop_bit 6 (b64_group [a, b, c])) 3 fin out"
  using b64_decode_digit [of dstlen "b64_group [a, b, c]" 6 rest 2 fin out] by simp

lemma b64_decode_three:
  "b64_decode_loop dstlen (b64_digit (b64_group [a, b, c]) 0 # rest) (drop_bit 6 (b64_group [a, b, c])) 3 0 out =
   (if int (length out) + 3 \<le> dstlen then b64_decode_loop dstlen rest 0 0 0 (out @ [a, b, c]) else None)"
  using b64_decode_digit [of dstlen "b64_group [a, b, c]" 0 rest 3 0 out]
  by (auto simp: b64_emit_def b64_group_bytes Let_def simp del: b64_decode_loop.simps)

lemma b64_pad_buffers:
  "push_bit 12 (drop_bit 12 (b64_group [a, 0, 0])) = b64_group [a, 0, 0]"
  "push_bit 6 (drop_bit 6 (b64_group [a, b, 0])) = b64_group [a, b, 0]"
  by (rule bit_eqI, (auto simp: b64_group_def bit_simps)[1])+

lemma b64_decode_padding:
  "b64_decode_loop dstlen ''=='' (drop_bit 12 (b64_group [a, 0, 0])) 2 0 out =
   (if int (length out) + 1 \<le> dstlen then Some (out @ [a]) else None)"
  "b64_decode_loop dstlen ''='' (drop_bit 6 (b64_group [a, b, 0])) 3 0 out =
   (if int (length out) + 2 \<le> dstlen then Some (out @ [a, b]) else None)"
  by (simp_all add: b64_symbol_def b64_pad_buffers b64_emit_def b64_group_bytes Let_def)

lemma b64_decode_loop_text:
  "b64_decode_loop dstlen (b64_text bs) 0 0 0 out =
   (if int (length out + length bs) \<le> dstlen \<or> bs = [] then Some (out @ bs) else None)"
proof (induction bs arbitrary: out rule: b64_text.induct)
  case (4 a b c rest)
  then show ?case
    by (auto simp: Let_def b64_decode_quad b64_decode_two b64_decode_three simp del: b64_decode_loop.simps)
qed (simp_all add: Let_def b64_decode_quad b64_decode_two b64_decode_padding del: b64_decode_loop.simps(2))

lemma pg_b64_decode_text:
  "int (length bs) \<le> dstlen \<Longrightarrow> pg_b64_decode (b64_text bs) dstlen = Some bs"
  by (simp add: pg_b64_decode_def b64_decode_loop_text)

lemma b64_dec_len_enough:
  assumes "n \<le> 536870910"
  shows "int n \<le> pg_b64_dec_len (int (b64_size n))"
proof -
  define q where "q = (n + 2) div 3"
  have q: "q \<le> 178956970" "n \<le> q * 3"
    using assms unfolding q_def by presburger+
  then have "int_of_long (int (q * 4) * 3) = int (q * 4) * 3"
    by (intro int_of_long_small) simp_all
  moreover have "int n \<le> int (q * 4) * 3 div 4"
    using q(2) by simp
  ultimately show ?thesis
    by (simp only: pg_b64_dec_len_def b64_size_def q_def [symmetric] drop_bit_int_def) simp
qed

text \<open>
  Decoding never writes past the buffer the caller gives, whatever the input.
\<close>

lemma b64_decode_loop_bound:
  "b64_decode_loop dstlen s buf pos fin out = Some bs \<Longrightarrow> int (length out) \<le> dstlen \<Longrightarrow> int (length bs) \<le> dstlen"
  by (induction s arbitrary: buf pos fin out)
    (auto simp: b64_emit_def Let_def split: if_splits option.splits)

text \<open>C38: For up to 536870910 bytes the computations of both length functions
  stay within int.  Then what pg_b64_encode writes has the length pg_b64_enc_len
  announces, and pg_b64_decode, with a buffer of the size pg_b64_dec_len
  announces for it, gives the bytes back.  Encoding succeeds exactly when the
  announced length fits the buffer; nothing is written for no input, whatever
  the buffer.\<close>

theorem base64_roundtrip:
  assumes "length src \<le> 536870910"
  shows "(\<exists>out. pg_b64_encode src dstlen = Some out) = (src = [] \<or> pg_b64_enc_len (int (length src)) \<le> dstlen)
   \<and> (case pg_b64_encode src dstlen of
        None \<Rightarrow> True
      | Some out \<Rightarrow> int (length out) = pg_b64_enc_len (int (length src))
          \<and> pg_b64_decode out (pg_b64_dec_len (int (length out))) = Some src)"
  using assms by (simp add: pg_b64_encode_text pg_b64_enc_len_size b64_text_length pg_b64_decode_text b64_dec_len_enough)

text \<open>Five bytes, with a buffer of the announced size.\<close>

theorem base64_roundtrip_witness:
  "length [0x66, 0x6f, 0x72, 0x74, 0x72 :: byte] \<le> 536870910
   \<and> pg_b64_enc_len 5 = 8
   \<and> pg_b64_encode [0x66, 0x6f, 0x72, 0x74, 0x72] 8 = Some ''Zm9ydHI=''
   \<and> pg_b64_decode ''Zm9ydHI='' (pg_b64_dec_len 8) = Some [0x66, 0x6f, 0x72, 0x74, 0x72]"
proof -
  have "pg_b64_encode [0x66, 0x6f, 0x72, 0x74, 0x72] 8 = Some ''Zm9ydHI=''"
    by code_simp
  with base64_roundtrip [of "[0x66, 0x6f, 0x72, 0x74, 0x72]" 8] show ?thesis
    by (simp add: pg_b64_enc_len_def int_of_long_small signed_divide_int_def)
qed

end
