(* ===== verification/ScramCommon.thy ===== *)
theory ScramCommon
  imports Base64 CText External
begin

text \<open>
  The part of SCRAM (RFC 5802) that server and client share:
  common/scram-common.c over the hash wrappers common/cryptohash_openssl.c and
  common/hmac_openssl.c, pg_strong_random, and the entry of pg_saslprep.  The
  keyed digests are the openssl parameter's; a failed call is Step_failed with
  position 0 for the allocation of its context.
\<close>

section \<open>Hash wrappers\<close>

datatype pg_cryptohash_type = PG_MD5 | PG_SHA1 | PG_SHA224 | PG_SHA256 | PG_SHA384 | PG_SHA512

primrec cryptohash_md :: "pg_cryptohash_type \<Rightarrow> evp_md" where
  "cryptohash_md PG_MD5 = EVP_md5"
| "cryptohash_md PG_SHA1 = EVP_sha1"
| "cryptohash_md PG_SHA224 = EVP_sha224"
| "cryptohash_md PG_SHA256 = EVP_sha256"
| "cryptohash_md PG_SHA384 = EVP_sha384"
| "cryptohash_md PG_SHA512 = EVP_sha512"

text \<open>pg_cryptohash_create, _init, _update and _final on a whole message, with a
  destination of len bytes: a destination shorter than the digest is refused.\<close>

definition pg_cryptohash :: "openssl \<Rightarrow> pg_cryptohash_type \<Rightarrow> bytes \<Rightarrow> nat \<Rightarrow> bytes evp_steps" where
  "pg_cryptohash ssl type data len =
     (case evp_digest ssl (cryptohash_md type) data of
        Digest_no_ctx \<Rightarrow> Step_failed 0
      | Digest_init_failed \<Rightarrow> Step_failed 1
      | Digest_final_failed \<Rightarrow> Step_failed 3
      | Digest d \<Rightarrow> if len < md_size (cryptohash_md type) then Step_failed 3 else Steps_ok d)"

definition pg_hmac :: "openssl \<Rightarrow> pg_cryptohash_type \<Rightarrow> bytes \<Rightarrow> bytes \<Rightarrow> nat \<Rightarrow> bytes evp_steps" where
  "pg_hmac ssl type key data len =
     (case hmac_digest ssl (cryptohash_md type) key data of
        Step_failed n \<Rightarrow> Step_failed n
      | Steps_ok d \<Rightarrow> if len < md_size (cryptohash_md type) then Step_failed 3 else Steps_ok d)"

definition pg_strong_random :: "openssl \<Rightarrow> nat \<Rightarrow> nat \<Rightarrow> bytes option" where
  "pg_strong_random ssl c len = (if rand_status ssl c = 1 then Some (rand_buf ssl c len) else None)"

text \<open>Sequencing of hash calls: the first failure is the result.\<close>

definition sbind :: "'a evp_steps \<Rightarrow> ('a \<Rightarrow> 'b evp_steps) \<Rightarrow> 'b evp_steps" where
  "sbind r f = (case r of Step_failed n \<Rightarrow> Step_failed n | Steps_ok x \<Rightarrow> f x)"

lemma sbind_simps [simp]: "sbind (Steps_ok x) f = f x" "sbind (Step_failed n) f = Step_failed n"
  by (simp_all add: sbind_def)

lemma sbind_ok_iff: "sbind r f = Steps_ok y \<longleftrightarrow> (\<exists>x. r = Steps_ok x \<and> f x = Steps_ok y)"
  by (cases r) simp_all

section \<open>SASLprep\<close>

text \<open>An ASCII password is returned as it is; the treatment of other strings
  (Unicode mapping, normalisation and prohibited output) is the argument prep,
  None where it refuses the string.\<close>

definition pg_is_ascii :: "string \<Rightarrow> bool" where
  "pg_is_ascii s = list_all (\<lambda>c. (of_char c :: nat) < 128) s"

definition pg_saslprep :: "(string \<Rightarrow> string option) \<Rightarrow> string \<Rightarrow> string option" where
  "pg_saslprep prep s = (if pg_is_ascii s then Some s else prep s)"

text \<open>The password server and client hash: the prepared one, or the given one
  where preparation fails.\<close>

definition prepared_password :: "(string \<Rightarrow> string option) \<Rightarrow> string \<Rightarrow> string" where
  "prepared_password prep s = (case pg_saslprep prep s of Some p \<Rightarrow> p | None \<Rightarrow> s)"

section \<open>Key derivation\<close>

definition SCRAM_SHA_256_NAME :: string where
  "SCRAM_SHA_256_NAME = ''SCRAM-SHA-256''"

definition SCRAM_SHA_256_PLUS_NAME :: string where
  "SCRAM_SHA_256_PLUS_NAME = ''SCRAM-SHA-256-PLUS''"

definition SCRAM_SHA_384_NAME :: string where
  "SCRAM_SHA_384_NAME = ''SCRAM-SHA-384''"

definition SCRAM_SHA_384_PLUS_NAME :: string where
  "SCRAM_SHA_384_PLUS_NAME = ''SCRAM-SHA-384-PLUS''"

definition SCRAM_SHA_256_KEY_LEN :: nat where "SCRAM_SHA_256_KEY_LEN = 32"
definition SCRAM_SHA_384_KEY_LEN :: nat where "SCRAM_SHA_384_KEY_LEN = 48"
definition SCRAM_RAW_NONCE_LEN :: nat where "SCRAM_RAW_NONCE_LEN = 18"
definition SCRAM_DEFAULT_SALT_LEN :: nat where "SCRAM_DEFAULT_SALT_LEN = 16"
definition SCRAM_SHA_256_DEFAULT_ITERATIONS :: int where "SCRAM_SHA_256_DEFAULT_ITERATIONS = 4096"
definition SCRAM_SHA_384_DEFAULT_ITERATIONS :: int where "SCRAM_SHA_384_DEFAULT_ITERATIONS = 4096"

lemmas scram_names = SCRAM_SHA_256_NAME_def SCRAM_SHA_256_PLUS_NAME_def
  SCRAM_SHA_384_NAME_def SCRAM_SHA_384_PLUS_NAME_def
lemmas scram_sizes = SCRAM_SHA_256_KEY_LEN_def SCRAM_SHA_384_KEY_LEN_def
  SCRAM_RAW_NONCE_LEN_def SCRAM_DEFAULT_SALT_LEN_def

text \<open>The loop of scram_SaltedPassword: Ui_prev and the running exclusive or,
  for the number of iterations left.\<close>

primrec salted_loop :: "openssl \<Rightarrow> pg_cryptohash_type \<Rightarrow> nat \<Rightarrow> bytes \<Rightarrow> nat \<Rightarrow> bytes \<Rightarrow> bytes \<Rightarrow> bytes evp_steps" where
  "salted_loop ssl hash_type key_length password 0 Ui_prev result = Steps_ok result"
| "salted_loop ssl hash_type key_length password (Suc n) Ui_prev result =
     sbind (pg_hmac ssl hash_type password Ui_prev key_length)
       (\<lambda>Ui. salted_loop ssl hash_type key_length password n Ui (xor_bytes result Ui))"

definition scram_SaltedPassword :: "openssl \<Rightarrow> string \<Rightarrow> pg_cryptohash_type \<Rightarrow> nat \<Rightarrow> bytes \<Rightarrow> int \<Rightarrow> bytes evp_steps" where
  "scram_SaltedPassword ssl password hash_type key_length salt iterations =
     sbind (pg_hmac ssl hash_type (str_bytes password) (salt @ be32 1) key_length)
       (\<lambda>Ui. salted_loop ssl hash_type key_length (str_bytes password) (nat (iterations - 1)) Ui Ui)"

definition scram_H :: "openssl \<Rightarrow> bytes \<Rightarrow> pg_cryptohash_type \<Rightarrow> nat \<Rightarrow> bytes evp_steps" where
  "scram_H ssl input hash_type key_length = pg_cryptohash ssl hash_type (take key_length input) key_length"

definition scram_ClientKey :: "openssl \<Rightarrow> bytes \<Rightarrow> pg_cryptohash_type \<Rightarrow> nat \<Rightarrow> bytes evp_steps" where
  "scram_ClientKey ssl salted_password hash_type key_length =
     pg_hmac ssl hash_type (take key_length salted_password) (str_bytes ''Client Key'') key_length"

definition scram_ServerKey :: "openssl \<Rightarrow> bytes \<Rightarrow> pg_cryptohash_type \<Rightarrow> nat \<Rightarrow> bytes evp_steps" where
  "scram_ServerKey ssl salted_password hash_type key_length =
     pg_hmac ssl hash_type (take key_length salted_password) (str_bytes ''Server Key'') key_length"

text \<open>StoredKey and ServerKey of a password.\<close>

definition scram_keys :: "openssl \<Rightarrow> pg_cryptohash_type \<Rightarrow> nat \<Rightarrow> bytes \<Rightarrow> int \<Rightarrow> string \<Rightarrow> (bytes \<times> bytes) evp_steps" where
  "scram_keys ssl hash_type key_length salt iterations password =
     sbind (scram_SaltedPassword ssl password hash_type key_length salt iterations) (\<lambda>salted.
     sbind (scram_ClientKey ssl salted hash_type key_length) (\<lambda>client_key.
     sbind (scram_H ssl client_key hash_type key_length) (\<lambda>stored_key.
     sbind (scram_ServerKey ssl salted hash_type key_length) (\<lambda>server_key.
     Steps_ok (stored_key, server_key)))))"

text \<open>A failed hash call in the backend: the allocation of the context raises
  there, any other failure is reported by the caller's elog(ERROR).\<close>

definition be_hash :: "string \<Rightarrow> 'a evp_steps \<Rightarrow> 'a result" where
  "be_hash msg r =
     (case r of
        Steps_ok d \<Rightarrow> Inr d
      | Step_failed n \<Rightarrow>
          Inl (if n = 0 then PgError ERRCODE_OUT_OF_MEMORY ''out of memory''
               else PgError ERRCODE_INTERNAL_ERROR msg))"

definition be_b64_encode :: "bytes \<Rightarrow> int \<Rightarrow> string \<Rightarrow> string result" where
  "be_b64_encode src dstlen msg =
     (case pg_b64_encode src dstlen of Some s \<Rightarrow> Inr s | None \<Rightarrow> Inl (PgError ERRCODE_INTERNAL_ERROR msg))"

definition scheme_name :: "pg_cryptohash_type \<Rightarrow> string" where
  "scheme_name hash_type = (if hash_type = PG_SHA384 then ''SCRAM-SHA-384'' else ''SCRAM-SHA-256'')"

definition scram_build_secret :: "openssl \<Rightarrow> pg_cryptohash_type \<Rightarrow> nat \<Rightarrow> bytes \<Rightarrow> int \<Rightarrow> string \<Rightarrow> string result" where
  "scram_build_secret ssl hash_type key_length salt iterations password =
     rbind (be_hash ''could not calculate stored key and server key''
              (scram_keys ssl hash_type key_length salt iterations password))
       (\<lambda>(stored_key, server_key).
     rbind (be_b64_encode salt (pg_b64_enc_len (int (length salt))) ''could not encode salt'') (\<lambda>b64_salt.
     rbind (be_b64_encode (take key_length stored_key) (pg_b64_enc_len (int key_length)) ''could not encode stored key'')
       (\<lambda>b64_stored.
     rbind (be_b64_encode (take key_length server_key) (pg_b64_enc_len (int key_length)) ''could not encode server key'')
       (\<lambda>b64_server.
     Inr (scheme_name hash_type @ ''$'' @ int_text iterations @ '':'' @ b64_salt @ ''$'' @ b64_stored @ '':'' @ b64_server)))))"

section \<open>Totality\<close>

text \<open>The lengths SCRAM uses for its two digests.\<close>

definition scram_hash :: "pg_cryptohash_type \<Rightarrow> nat \<Rightarrow> bool" where
  "scram_hash hash_type key_length \<longleftrightarrow>
     hash_type = PG_SHA256 \<and> key_length = SCRAM_SHA_256_KEY_LEN
     \<or> hash_type = PG_SHA384 \<and> key_length = SCRAM_SHA_384_KEY_LEN"

lemma scram_hash_size: "scram_hash t n \<Longrightarrow> md_size (cryptohash_md t) = n"
  by (auto simp: scram_hash_def scram_sizes)

lemma pg_hmac_total:
  assumes "digests_total ssl" and "scram_hash t n"
  shows "\<exists>d. pg_hmac ssl t k m n = Steps_ok d \<and> length d = n"
proof -
  obtain d where "hmac_digest ssl (cryptohash_md t) k m = Steps_ok d" "length d = n"
    using assms(1) scram_hash_size [OF assms(2)] unfolding digests_total_def by metis
  then show ?thesis
    using scram_hash_size [OF assms(2)] by (simp add: pg_hmac_def)
qed

lemma scram_H_total:
  assumes "digests_total ssl" and "scram_hash t n"
  shows "\<exists>d. scram_H ssl m t n = Steps_ok d \<and> length d = n"
proof -
  obtain d where "evp_digest ssl (cryptohash_md t) (take n m) = Digest d" "length d = n"
    using assms(1) scram_hash_size [OF assms(2)] unfolding digests_total_def by metis
  then show ?thesis
    using scram_hash_size [OF assms(2)] by (simp add: scram_H_def pg_cryptohash_def)
qed

lemma salted_loop_total:
  assumes "digests_total ssl" and "scram_hash t n"
  shows "length r = n \<Longrightarrow> \<exists>d. salted_loop ssl t n p k u r = Steps_ok d \<and> length d = n"
proof (induction k arbitrary: u r)
  case (Suc k)
  obtain d where "pg_hmac ssl t p u n = Steps_ok d" "length d = n"
    using pg_hmac_total [OF assms] by blast
  then show ?case
    using Suc.IH [of "xor_bytes r d" d] Suc.prems by simp
qed simp

lemma scram_SaltedPassword_total:
  assumes "digests_total ssl" and "scram_hash t n"
  shows "\<exists>d. scram_SaltedPassword ssl pw t n salt i = Steps_ok d \<and> length d = n"
proof -
  obtain u where "pg_hmac ssl t (str_bytes pw) (salt @ be32 1) n = Steps_ok u" "length u = n"
    using pg_hmac_total [OF assms] by blast
  then show ?thesis
    using salted_loop_total [OF assms, of u] by (simp add: scram_SaltedPassword_def)
qed

end
