(* ===== verification/ScramSecret.thy ===== *)
theory ScramSecret
  imports ScramCommon
begin

text \<open>
  Stored password secrets: parsing and building SCRAM secrets
  (backend/libpq/auth-scram.c), the password types and checks of
  backend/libpq/crypt.c, and pg_md5_encrypt of common/md5_common.c.  The
  messages put into logdetail for the server log are left out.
\<close>

section \<open>Definitions\<close>

subsection \<open>SCRAM secrets\<close>

record scram_secret =
  sec_iterations :: int
  sec_hash_type :: pg_cryptohash_type
  sec_key_length :: nat
  sec_salt :: string
  sec_StoredKey :: bytes
  sec_ServerKey :: bytes

definition secret_tokens :: "string \<Rightarrow> (string \<times> string \<times> string \<times> string \<times> string) option" where
  "secret_tokens secret =
     (case strtok ''$'' secret of None \<Rightarrow> None | Some (scheme, r1) \<Rightarrow>
      case strtok '':'' r1 of None \<Rightarrow> None | Some (iterations, r2) \<Rightarrow>
      case strtok ''$'' r2 of None \<Rightarrow> None | Some (salt, r3) \<Rightarrow>
      case strtok '':'' r3 of None \<Rightarrow> None | Some (storedkey, r4) \<Rightarrow>
      case strtok [] r4 of None \<Rightarrow> None | Some (serverkey, _) \<Rightarrow>
        Some (scheme, iterations, salt, storedkey, serverkey))"

definition secret_scheme :: "string \<Rightarrow> (pg_cryptohash_type \<times> nat) option" where
  "secret_scheme scheme =
     (if scheme = ''SCRAM-SHA-256'' then Some (PG_SHA256, SCRAM_SHA_256_KEY_LEN)
      else if scheme = ''SCRAM-SHA-384'' then Some (PG_SHA384, SCRAM_SHA_384_KEY_LEN)
      else None)"

definition b64_decode_field :: "string \<Rightarrow> bytes option" where
  "b64_decode_field s = pg_b64_decode s (pg_b64_dec_len (int_of_long (int (length s))))"

text \<open>The result is the pair of out-parameters hash_type and key_length, which
  are written as soon as the scheme is known, and the parsed secret.\<close>

definition parse_scram_secret :: "string \<Rightarrow> (pg_cryptohash_type \<times> nat) option \<times> scram_secret option" where
  "parse_scram_secret secret =
     (case secret_tokens secret of
        None \<Rightarrow> (None, None)
      | Some (scheme, iterations_str, salt_str, storedkey_str, serverkey_str) \<Rightarrow>
          (case secret_scheme scheme of
             None \<Rightarrow> (None, None)
           | Some (hash_type, key_length) \<Rightarrow>
               (Some (hash_type, key_length),
                case strtol10 iterations_str of (v, p, range_error) \<Rightarrow>
                  if p \<noteq> [] \<or> range_error then None
                  else if b64_decode_field salt_str = None then None
                  else case b64_decode_field storedkey_str of
                    None \<Rightarrow> None
                  | Some stored_key \<Rightarrow>
                      if length stored_key \<noteq> key_length then None
                      else case b64_decode_field serverkey_str of
                        None \<Rightarrow> None
                      | Some server_key \<Rightarrow>
                          if length server_key \<noteq> key_length then None
                          else Some \<lparr>sec_iterations = int_of_long v, sec_hash_type = hash_type,
                            sec_key_length = key_length, sec_salt = salt_str,
                            sec_StoredKey = stored_key, sec_ServerKey = server_key\<rparr>)))"

definition random_salt :: "openssl \<Rightarrow> nat \<Rightarrow> bytes result" where
  "random_salt ssl c =
     (case pg_strong_random ssl c SCRAM_DEFAULT_SALT_LEN of
        None \<Rightarrow> Inl (PgError ERRCODE_INTERNAL_ERROR ''could not generate random salt'')
      | Some salt \<Rightarrow> Inr salt)"

definition pg_be_scram_build_secret ::
  "openssl \<Rightarrow> (string \<Rightarrow> string option) \<Rightarrow> nat \<Rightarrow> int \<Rightarrow> string \<Rightarrow> string result" where
  "pg_be_scram_build_secret ssl prep c scram_sha_256_iterations password =
     rbind (random_salt ssl c) (\<lambda>saltbuf.
     scram_build_secret ssl PG_SHA256 SCRAM_SHA_256_KEY_LEN saltbuf scram_sha_256_iterations
       (prepared_password prep password))"

definition pg_be_scram_build_secret_sha384 ::
  "openssl \<Rightarrow> (string \<Rightarrow> string option) \<Rightarrow> nat \<Rightarrow> string \<Rightarrow> string result" where
  "pg_be_scram_build_secret_sha384 ssl prep c password =
     rbind (random_salt ssl c) (\<lambda>saltbuf.
     scram_build_secret ssl PG_SHA384 SCRAM_SHA_384_KEY_LEN saltbuf SCRAM_SHA_384_DEFAULT_ITERATIONS
       (prepared_password prep password))"

definition scram_verify_plain_password ::
  "openssl \<Rightarrow> (string \<Rightarrow> string option) \<Rightarrow> string \<Rightarrow> string \<Rightarrow> bool result" where
  "scram_verify_plain_password ssl prep password secret =
     (case snd (parse_scram_secret secret) of
        None \<Rightarrow> Inr False
      | Some s \<Rightarrow>
          (case b64_decode_field (sec_salt s) of
             None \<Rightarrow> Inr False
           | Some salt \<Rightarrow>
               rbind (be_hash ''could not compute server key''
                 (sbind (scram_SaltedPassword ssl (prepared_password prep password) (sec_hash_type s)
                           (sec_key_length s) salt (sec_iterations s))
                    (\<lambda>salted. scram_ServerKey ssl salted (sec_hash_type s) (sec_key_length s))))
                 (\<lambda>computed_key. Inr (take (sec_key_length s) computed_key = sec_ServerKey s))))"

subsection \<open>Password types\<close>

datatype PasswordType =
    PASSWORD_TYPE_PLAINTEXT
  | PASSWORD_TYPE_MD5
  | PASSWORD_TYPE_SCRAM_SHA_256
  | PASSWORD_TYPE_SCRAM_SHA_384

datatype auth_status = STATUS_OK | STATUS_ERROR | STATUS_EOF

definition MD5_PASSWD_CHARSET :: string where
  "MD5_PASSWD_CHARSET = ''0123456789abcdef''"

definition MD5_PASSWD_LEN :: nat where "MD5_PASSWD_LEN = 35"

definition get_password_type :: "string \<Rightarrow> PasswordType" where
  "get_password_type shadow_pass =
     (if take 3 shadow_pass = ''md5'' \<and> length shadow_pass = MD5_PASSWD_LEN
         \<and> strspn (drop 3 shadow_pass) MD5_PASSWD_CHARSET = MD5_PASSWD_LEN - 3
      then PASSWORD_TYPE_MD5
      else case snd (parse_scram_secret shadow_pass) of
        Some s \<Rightarrow> if sec_hash_type s = PG_SHA384 then PASSWORD_TYPE_SCRAM_SHA_384
                  else PASSWORD_TYPE_SCRAM_SHA_256
      | None \<Rightarrow> PASSWORD_TYPE_PLAINTEXT)"

definition md5_hex :: "bytes \<Rightarrow> string" where
  "md5_hex b =
     concat (map (\<lambda>x. [MD5_PASSWD_CHARSET ! unat (drop_bit 4 x AND 0x0F), MD5_PASSWD_CHARSET ! unat (x AND 0x0F)]) b)"

definition pg_md5_encrypt :: "openssl \<Rightarrow> string \<Rightarrow> bytes \<Rightarrow> string evp_steps" where
  "pg_md5_encrypt ssl passwd salt =
     sbind (pg_cryptohash ssl PG_MD5 (str_bytes passwd @ salt) 16) (\<lambda>sum. Steps_ok (''md5'' @ md5_hex sum))"

definition encrypt_password ::
  "openssl \<Rightarrow> (string \<Rightarrow> string option) \<Rightarrow> nat \<Rightarrow> int \<Rightarrow> PasswordType \<Rightarrow> string \<Rightarrow> string \<Rightarrow> string result" where
  "encrypt_password ssl prep c scram_sha_256_iterations target_type role password =
     (if get_password_type password \<noteq> PASSWORD_TYPE_PLAINTEXT then Inr password
      else case target_type of
        PASSWORD_TYPE_MD5 \<Rightarrow> be_hash ''password encryption failed'' (pg_md5_encrypt ssl password (str_bytes role))
      | PASSWORD_TYPE_SCRAM_SHA_256 \<Rightarrow> pg_be_scram_build_secret ssl prep c scram_sha_256_iterations password
      | PASSWORD_TYPE_SCRAM_SHA_384 \<Rightarrow> pg_be_scram_build_secret_sha384 ssl prep c password
      | PASSWORD_TYPE_PLAINTEXT \<Rightarrow>
          Inl (PgError ERRCODE_INTERNAL_ERROR (''cannot encrypt password with '' @ [CHR 0x27] @ ''plaintext'' @ [CHR 0x27])))"

text \<open>The columns of pg_authid that matter here.\<close>

record authid_row =
  rolpassword :: "string option"
  rolvaliduntil :: "int option"

definition get_role_password :: "(string \<Rightarrow> authid_row option) \<Rightarrow> int \<Rightarrow> string \<Rightarrow> string option" where
  "get_role_password pg_authid now role =
     (case pg_authid role of
        None \<Rightarrow> None
      | Some row \<Rightarrow>
          (case rolpassword row of
             None \<Rightarrow> None
           | Some shadow_pass \<Rightarrow>
               (case rolvaliduntil row of
                  Some vuntil \<Rightarrow> if vuntil < now then None else Some shadow_pass
                | None \<Rightarrow> Some shadow_pass)))"

text \<open>A failed digest where the caller returns STATUS_ERROR.\<close>

definition be_hash_status :: "'a evp_steps \<Rightarrow> ('a \<Rightarrow> auth_status) \<Rightarrow> auth_status result" where
  "be_hash_status r f =
     (case r of
        Steps_ok x \<Rightarrow> Inr (f x)
      | Step_failed n \<Rightarrow> if n = 0 then Inl (PgError ERRCODE_OUT_OF_MEMORY ''out of memory'') else Inr STATUS_ERROR)"

definition md5_crypt_verify :: "openssl \<Rightarrow> string \<Rightarrow> string \<Rightarrow> bytes \<Rightarrow> auth_status result" where
  "md5_crypt_verify ssl shadow_pass client_pass md5_salt =
     (if get_password_type shadow_pass \<noteq> PASSWORD_TYPE_MD5 then Inr STATUS_ERROR
      else be_hash_status (pg_md5_encrypt ssl (drop 3 shadow_pass) md5_salt)
        (\<lambda>crypt_pwd. if client_pass = crypt_pwd then STATUS_OK else STATUS_ERROR))"

definition plain_crypt_verify ::
  "openssl \<Rightarrow> (string \<Rightarrow> string option) \<Rightarrow> string \<Rightarrow> string \<Rightarrow> string \<Rightarrow> auth_status result" where
  "plain_crypt_verify ssl prep role shadow_pass client_pass =
     (case get_password_type shadow_pass of
        PASSWORD_TYPE_SCRAM_SHA_256 \<Rightarrow>
          rbind (scram_verify_plain_password ssl prep client_pass shadow_pass)
            (\<lambda>ok. Inr (if ok then STATUS_OK else STATUS_ERROR))
      | PASSWORD_TYPE_SCRAM_SHA_384 \<Rightarrow>
          rbind (scram_verify_plain_password ssl prep client_pass shadow_pass)
            (\<lambda>ok. Inr (if ok then STATUS_OK else STATUS_ERROR))
      | PASSWORD_TYPE_MD5 \<Rightarrow>
          be_hash_status (pg_md5_encrypt ssl client_pass (str_bytes role))
            (\<lambda>crypt_client_pass. if crypt_client_pass = shadow_pass then STATUS_OK else STATUS_ERROR)
      | PASSWORD_TYPE_PLAINTEXT \<Rightarrow> Inr STATUS_ERROR)"

section \<open>Built secrets parse\<close>

lemma b64_size_bound: "n \<le> 536870910 \<Longrightarrow> b64_size n < 2 ^ 31"
  unfolding b64_size_def by simp

lemma b64_decode_field_text: "length bs \<le> 536870910 \<Longrightarrow> b64_decode_field (b64_text bs) = Some bs"
  using b64_size_bound [of "length bs"]
  by (simp add: b64_decode_field_def b64_text_length pg_b64_decode_text b64_dec_len_enough int_of_long_small)

lemma base64_chars_plain: "set base64_chars \<inter> {CHR ''$'', CHR '':'', CHR '','', CHR 0x00} = {}"
  by (simp add: base64_chars_def)

lemma b64_text_plain: "set (b64_text bs) \<inter> {CHR ''$'', CHR '':'', CHR '','', CHR 0x00} = {}"
  using b64_text_symbols [of bs] base64_chars_plain by auto

lemma b64_text_nonempty: "bs \<noteq> [] \<Longrightarrow> b64_text bs \<noteq> []"
  by (induction bs rule: b64_text.induct) (simp_all add: Let_def)

lemma pg_b64_encode_exact:
  "length bs \<le> 536870910 \<Longrightarrow> pg_b64_encode bs (pg_b64_enc_len (int (length bs))) = Some (b64_text bs)"
  by (simp add: pg_b64_encode_text pg_b64_enc_len_size)

lemma be_b64_encode_text:
  "length bs \<le> 536870910 \<Longrightarrow> be_b64_encode bs (pg_b64_enc_len (int (length bs))) msg = Inr (b64_text bs)"
  by (simp add: be_b64_encode_def pg_b64_encode_exact)

lemma scram_keys_total:
  assumes "digests_total ssl" and "scram_hash t n"
  shows "\<exists>st sv. scram_keys ssl t n salt i pw = Steps_ok (st, sv) \<and> length st = n \<and> length sv = n"
proof -
  obtain p where p: "scram_SaltedPassword ssl pw t n salt i = Steps_ok p" "length p = n"
    using scram_SaltedPassword_total [OF assms] by blast
  obtain k where k: "scram_ClientKey ssl p t n = Steps_ok k" "length k = n"
    using pg_hmac_total [OF assms] unfolding scram_ClientKey_def by blast
  obtain st where st: "scram_H ssl k t n = Steps_ok st" "length st = n"
    using scram_H_total [OF assms] by blast
  obtain sv where "scram_ServerKey ssl p t n = Steps_ok sv" "length sv = n"
    using pg_hmac_total [OF assms] unfolding scram_ServerKey_def by blast
  with p k st show ?thesis
    by (simp add: scram_keys_def)
qed

definition secret_text :: "pg_cryptohash_type \<Rightarrow> int \<Rightarrow> bytes \<Rightarrow> bytes \<Rightarrow> bytes \<Rightarrow> string" where
  "secret_text t i salt st sv =
     scheme_name t @ ''$'' @ int_text i @ '':'' @ b64_text salt @ ''$'' @ b64_text st @ '':'' @ b64_text sv"

text \<open>A salt whose coding stays within int.\<close>

definition short_salt :: "bytes \<Rightarrow> bool" where
  "short_salt salt \<longleftrightarrow> salt \<noteq> [] \<and> length salt \<le> 536870910"

lemma scram_hash_length: "scram_hash t n \<Longrightarrow> n \<le> 48 \<and> n \<le> 536870910"
  by (auto simp: scram_hash_def scram_sizes)

lemma scram_build_secret_text:
  assumes "scram_keys ssl t n salt i pw = Steps_ok (st, sv)" and "length st = n" and "length sv = n"
    and "scram_hash t n" and "short_salt salt"
  shows "scram_build_secret ssl t n salt i pw = Inr (secret_text t i salt st sv)"
proof -
  have "be_b64_encode (take n st) (pg_b64_enc_len (int n)) m = Inr (b64_text st)"
      "be_b64_encode (take n sv) (pg_b64_enc_len (int n)) m = Inr (b64_text sv)" for m
    using be_b64_encode_text [of st] be_b64_encode_text [of sv] assms(2,3) scram_hash_length [OF assms(4)] by simp_all
  then show ?thesis
    using assms(1) be_b64_encode_text [of salt] assms(5) [unfolded short_salt_def]
    by (simp add: scram_build_secret_def be_hash_def secret_text_def)
qed

lemma int_text_plain:
  assumes "0 \<le> i"
  shows "int_text i \<noteq> []" "set (int_text i) \<inter> {CHR ''$'', CHR '':'', CHR '','', CHR 0x00} = {}"
proof -
  have i: "int_text i = nat_text (nat i)"
    using assms by (simp add: int_text_def)
  show "int_text i \<noteq> []"
    unfolding i by (rule nat_text_digits(1))
  have "c \<notin> {CHR ''$'', CHR '':'', CHR '','', CHR 0x00}" if "c \<in> set (nat_text (nat i))" for c
    using that by (rule nat_text_all [rotated]) (use digit_char_facts(3) in auto)
  then show "set (int_text i) \<inter> {CHR ''$'', CHR '':'', CHR '','', CHR 0x00} = {}"
    unfolding i by blast
qed

lemma strtol10_int_text:
  assumes "0 \<le> i" and "i < 2 ^ 31"
  shows "strtol10 (int_text i) = (i, [], False)" "int_of_long i = i"
  using assms strtol10_nat_text [of "nat i"] int_of_long_small [of i] by (simp_all add: int_text_def)

lemma secret_tokens_text:
  assumes "salt \<noteq> []" and "st \<noteq> []" and "sv \<noteq> []" and "0 \<le> i"
  shows "secret_tokens (secret_text t i salt st sv) =
    Some (scheme_name t, int_text i, b64_text salt, b64_text st, b64_text sv)"
proof -
  have d: "set (b64_text bs) \<inter> set ''$'' = {}" "set (b64_text bs) \<inter> set '':'' = {}" for bs
    using b64_text_plain [of bs] by auto
  have "strtok ''$'' (secret_text t i salt st sv) =
      Some (scheme_name t, int_text i @ '':'' @ b64_text salt @ ''$'' @ b64_text st @ '':'' @ b64_text sv)"
    unfolding secret_text_def append_Cons append_Nil by (rule strtok_token) (simp_all add: scheme_name_def)
  moreover have "strtok '':'' (int_text i @ '':'' @ b64_text salt @ ''$'' @ b64_text st @ '':'' @ b64_text sv) =
      Some (int_text i, b64_text salt @ ''$'' @ b64_text st @ '':'' @ b64_text sv)"
    unfolding append_Cons append_Nil using int_text_plain [OF assms(4)] by (intro strtok_token) auto
  moreover have "strtok ''$'' (b64_text salt @ ''$'' @ b64_text st @ '':'' @ b64_text sv) =
      Some (b64_text salt, b64_text st @ '':'' @ b64_text sv)"
    unfolding append_Cons append_Nil using d [of salt] b64_text_nonempty [OF assms(1)] by (intro strtok_token) auto
  moreover have "strtok '':'' (b64_text st @ '':'' @ b64_text sv) = Some (b64_text st, b64_text sv)"
    unfolding append_Cons append_Nil using d [of st] b64_text_nonempty [OF assms(2)] by (intro strtok_token) auto
  moreover have "strtok [] (b64_text sv) = Some (b64_text sv, [])"
    using b64_text_nonempty [OF assms(3)] by (intro strtok_token) auto
  ultimately show ?thesis
    by (simp add: secret_tokens_def)
qed

lemma parse_scram_secret_text:
  assumes "scram_hash t n" and "length st = n" and "length sv = n" and "short_salt salt" and "0 \<le> i" and "i < 2 ^ 31"
  shows "parse_scram_secret (secret_text t i salt st sv) =
    (Some (t, n), Some \<lparr>sec_iterations = i, sec_hash_type = t, sec_key_length = n,
       sec_salt = b64_text salt, sec_StoredKey = st, sec_ServerKey = sv\<rparr>)"
proof -
  have "st \<noteq> []" "sv \<noteq> []"
    using assms(1-3) by (auto simp: scram_hash_def scram_sizes)
  moreover have "secret_scheme (scheme_name t) = Some (t, n)"
    using assms(1) by (auto simp: scram_hash_def secret_scheme_def scheme_name_def)
  moreover have "salt \<noteq> []" "length salt \<le> 536870910"
    using assms(4) by (simp_all add: short_salt_def)
  ultimately show ?thesis
    using secret_tokens_text [of salt, OF _ _ _ assms(5)] strtol10_int_text [OF assms(5,6)] assms(2,3)
      scram_hash_length [OF assms(1)]
    by (simp add: parse_scram_secret_def b64_decode_field_text)
qed

end
