(* ===== verification/ScramServer.thy ===== *)
theory ScramServer
  imports ScramSecret
begin

text \<open>
  The server's side of SCRAM authentication: backend/libpq/auth-scram.c, the
  SASL loop of backend/libpq/auth-sasl.c and the password methods of
  backend/libpq/auth.c.  Messages are strings of the connection's bytes; the
  hash of the server certificate and the cluster's mock authentication nonce
  are arguments.  Error details and log messages are left out.
\<close>

section \<open>State\<close>

datatype scram_state_enum = SCRAM_AUTH_INIT | SCRAM_AUTH_SALT_SENT | SCRAM_AUTH_FINISHED

datatype UserAuth =
    uaReject | uaImplicitReject | uaTrust | uaIdent | uaPassword | uaMD5 | uaSCRAM | uaGSS | uaSSPI
  | uaPAM | uaBSD | uaLDAP | uaCert | uaRADIUS | uaPeer | uaPQCCert | uaPQCSCRAM

record be_port =
  user_name :: string
  auth_method :: UserAuth
  be_ssl_in_use :: bool
  be_certificate_hash :: "bytes option"

record scram_state =
  ss_state :: scram_state_enum
  ss_channel_binding_in_use :: bool
  ss_hash_type :: pg_cryptohash_type
  ss_key_length :: nat
  ss_iterations :: int
  ss_salt :: string
  ss_StoredKey :: bytes
  ss_ServerKey :: bytes
  ss_cbind_flag :: char
  ss_client_first_message_bare :: string
  ss_client_username :: string
  ss_client_nonce :: string
  ss_client_final_message_without_proof :: string
  ss_client_final_nonce :: string
  ss_ClientProof :: bytes
  ss_server_first_message :: string
  ss_server_nonce :: string
  ss_doomed :: bool

text \<open>The zeroed state palloc0 gives; PG_MD5 is the enumerator with value 0.\<close>

definition scram_state_zero :: scram_state where
  "scram_state_zero = \<lparr>ss_state = SCRAM_AUTH_INIT, ss_channel_binding_in_use = False,
     ss_hash_type = PG_MD5, ss_key_length = 0, ss_iterations = 0, ss_salt = [],
     ss_StoredKey = [], ss_ServerKey = [], ss_cbind_flag = CHR 0x00,
     ss_client_first_message_bare = [], ss_client_username = [], ss_client_nonce = [],
     ss_client_final_message_without_proof = [], ss_client_final_nonce = [], ss_ClientProof = [],
     ss_server_first_message = [], ss_server_nonce = [], ss_doomed = False\<rparr>"

datatype sasl_result = PG_SASL_EXCHANGE_CONTINUE | PG_SASL_EXCHANGE_SUCCESS | PG_SASL_EXCHANGE_FAILURE

definition malformed :: pg_error where
  "malformed = PgError ERRCODE_PROTOCOL_VIOLATION ''malformed SCRAM message''"

section \<open>Mechanisms and initial state\<close>

definition scram_get_mechanisms :: "be_port \<Rightarrow> string list" where
  "scram_get_mechanisms port =
     (if auth_method port = uaPQCSCRAM
      then (if be_ssl_in_use port then [SCRAM_SHA_384_PLUS_NAME] else []) @ [SCRAM_SHA_384_NAME]
      else (if be_ssl_in_use port then [SCRAM_SHA_256_PLUS_NAME] else []) @ [SCRAM_SHA_256_NAME])"

text \<open>The part of scram_init that looks at the mechanism: channel binding, and
  the hash where the mechanism fixes it.\<close>

definition scram_select :: "be_port \<Rightarrow> string \<Rightarrow> scram_state result" where
  "scram_select port selected_mech =
     (if selected_mech = SCRAM_SHA_384_PLUS_NAME \<and> be_ssl_in_use port
      then Inr (scram_state_zero \<lparr>ss_channel_binding_in_use := True, ss_hash_type := PG_SHA384,
        ss_key_length := SCRAM_SHA_384_KEY_LEN\<rparr>)
      else if selected_mech = SCRAM_SHA_384_NAME
      then Inr (scram_state_zero \<lparr>ss_channel_binding_in_use := False, ss_hash_type := PG_SHA384,
        ss_key_length := SCRAM_SHA_384_KEY_LEN\<rparr>)
      else if auth_method port = uaPQCSCRAM
      then Inl (PgError ERRCODE_PROTOCOL_VIOLATION
        ''client must use SCRAM-SHA-384 when pqc-scram-sha-384 authentication is required'')
      else if selected_mech = SCRAM_SHA_256_PLUS_NAME \<and> be_ssl_in_use port
      then Inr (scram_state_zero \<lparr>ss_channel_binding_in_use := True\<rparr>)
      else if selected_mech = SCRAM_SHA_256_NAME
      then Inr (scram_state_zero \<lparr>ss_channel_binding_in_use := False\<rparr>)
      else Inl (PgError ERRCODE_PROTOCOL_VIOLATION
        ''client selected an invalid SASL authentication mechanism''))"

definition scram_mock_salt :: "openssl \<Rightarrow> bytes \<Rightarrow> string \<Rightarrow> pg_cryptohash_type \<Rightarrow> nat \<Rightarrow> bytes evp_steps" where
  "scram_mock_salt ssl mock_nonce username hash_type key_length =
     pg_cryptohash ssl hash_type (str_bytes username @ mock_nonce) key_length"

definition mock_scram_secret :: "openssl \<Rightarrow> bytes \<Rightarrow> string \<Rightarrow> scram_state \<Rightarrow> scram_state result" where
  "mock_scram_secret ssl mock_nonce username st =
     (let hash_type = (if ss_hash_type st = PG_SHA384 then PG_SHA384 else PG_SHA256);
          key_length = (if ss_hash_type st = PG_SHA384 then SCRAM_SHA_384_KEY_LEN else SCRAM_SHA_256_KEY_LEN) in
      rbind (be_hash ''could not encode salt'' (scram_mock_salt ssl mock_nonce username hash_type key_length))
        (\<lambda>raw_salt.
      rbind (be_b64_encode (take SCRAM_DEFAULT_SALT_LEN raw_salt) (pg_b64_enc_len (int SCRAM_DEFAULT_SALT_LEN))
               ''could not encode salt'')
        (\<lambda>encoded_salt.
      Inr (st \<lparr>ss_hash_type := hash_type, ss_key_length := key_length, ss_salt := encoded_salt,
        ss_iterations := (if hash_type = PG_SHA384 then SCRAM_SHA_384_DEFAULT_ITERATIONS
                          else SCRAM_SHA_256_DEFAULT_ITERATIONS),
        ss_StoredKey := replicate SCRAM_SHA_384_KEY_LEN 0,
        ss_ServerKey := replicate SCRAM_SHA_384_KEY_LEN 0\<rparr>))))"

text \<open>The secret stored for the role, written into the state; what an invalid
  secret wrote before it was refused stays.\<close>

definition load_secret :: "string \<Rightarrow> scram_state \<Rightarrow> bool \<times> scram_state" where
  "load_secret shadow_pass st =
     (if get_password_type shadow_pass \<in> {PASSWORD_TYPE_SCRAM_SHA_256, PASSWORD_TYPE_SCRAM_SHA_384}
      then (case parse_scram_secret shadow_pass of
          (_, Some s) \<Rightarrow>
            (True, st \<lparr>ss_iterations := sec_iterations s, ss_hash_type := sec_hash_type s,
               ss_key_length := sec_key_length s, ss_salt := sec_salt s,
               ss_StoredKey := sec_StoredKey s, ss_ServerKey := sec_ServerKey s\<rparr>)
        | (Some (hash_type, key_length), None) \<Rightarrow>
            (False, st \<lparr>ss_hash_type := hash_type, ss_key_length := key_length\<rparr>)
        | (None, None) \<Rightarrow> (False, st))
      else (False, st))"

definition be_scram_init ::
  "openssl \<Rightarrow> bytes \<Rightarrow> be_port \<Rightarrow> string \<Rightarrow> string option \<Rightarrow> scram_state result" where
  "be_scram_init ssl mock_nonce port selected_mech shadow_pass =
     rbind (scram_select port selected_mech) (\<lambda>st.
       case (case shadow_pass of Some s \<Rightarrow> load_secret s st | None \<Rightarrow> (False, st)) of
         (True, st) \<Rightarrow> Inr st
       | (False, st) \<Rightarrow>
           rbind (mock_scram_secret ssl mock_nonce (user_name port) st)
             (\<lambda>st. Inr (st \<lparr>ss_doomed := True\<rparr>)))"

section \<open>Reading messages\<close>

text \<open>A value runs to the next comma or the end; the text left starts after
  the comma.\<close>

definition attr_value :: "string \<Rightarrow> string \<times> string" where
  "attr_value p = (takeWhile (\<lambda>c. c \<noteq> CHR '','') p, drop 1 (dropWhile (\<lambda>c. c \<noteq> CHR '','') p))"

definition read_attr_value :: "char \<Rightarrow> string \<Rightarrow> (string \<times> string) result" where
  "read_attr_value attr p =
     (case p of
        a # e # r \<Rightarrow> if a = attr \<and> e = CHR ''='' then Inr (attr_value r) else Inl malformed
      | _ \<Rightarrow> Inl malformed)"

definition is_scram_printable :: "string \<Rightarrow> bool" where
  "is_scram_printable p =
     list_all (\<lambda>c. 0x21 \<le> (of_char c :: nat) \<and> (of_char c :: nat) \<le> 0x7E \<and> c \<noteq> CHR '','') p"

definition is_alpha :: "char \<Rightarrow> bool" where
  "is_alpha c \<longleftrightarrow> (of_char c :: nat) \<in> {65..90} \<union> {97..122}"

definition read_any_attr :: "string \<Rightarrow> (char \<times> string \<times> string) result" where
  "read_any_attr p =
     (case p of
        attr # e # r \<Rightarrow> if is_alpha attr \<and> e = CHR ''='' then Inr (attr, attr_value r) else Inl malformed
      | _ \<Rightarrow> Inl malformed)"

lemma read_any_attr_shorter: "read_any_attr p = Inr (a, v, r) \<Longrightarrow> length r < length p"
proof -
  assume "read_any_attr p = Inr (a, v, r)"
  then obtain e q where "p = a # e # q" "r = drop 1 (dropWhile (\<lambda>c. c \<noteq> CHR '','') q)"
    by (auto simp: read_any_attr_def attr_value_def split: list.splits if_splits)
  then show ?thesis
    using length_dropWhile_le [of "\<lambda>c. c \<noteq> CHR '',''" q] by simp
qed

function skip_extensions :: "string \<Rightarrow> unit result" where
  "skip_extensions p =
     (if p = [] then Inr ()
      else case read_any_attr p of Inl e \<Rightarrow> Inl e | Inr (a, v, r) \<Rightarrow> skip_extensions r)"
  by auto

termination skip_extensions
  by (relation "measure length") (auto dest: read_any_attr_shorter)

text \<open>The loop that reads attributes until p: where that attribute starts, its
  value and the text after it.\<close>

function find_proof :: "string \<Rightarrow> (string \<times> string \<times> string) result" where
  "find_proof p =
     (case read_any_attr p of
        Inl e \<Rightarrow> Inl e
      | Inr (a, v, r) \<Rightarrow> if a = CHR ''p'' then Inr (p, v, r) else find_proof r)"
  by auto

termination find_proof
  by (relation "measure length") (auto dest: read_any_attr_shorter)

declare skip_extensions.simps [simp del] find_proof.simps [simp del]

text \<open>The gs2 header: the text after its channel-binding flag and the comma.\<close>

definition read_cbind_flag :: "be_port \<Rightarrow> scram_state \<Rightarrow> string \<Rightarrow> string result" where
  "read_cbind_flag port st p =
     (case p of
        [] \<Rightarrow> Inl malformed
      | c # r \<Rightarrow>
          if c = CHR ''n'' then
            (if ss_channel_binding_in_use st then Inl malformed
             else case r of d # q \<Rightarrow> if d = CHR '','' then Inr q else Inl malformed | [] \<Rightarrow> Inl malformed)
          else if c = CHR ''y'' then
            (if ss_channel_binding_in_use st then Inl malformed
             else if be_ssl_in_use port
             then Inl (PgError ERRCODE_INVALID_AUTHORIZATION_SPECIFICATION
               ''SCRAM channel binding negotiation error'')
             else case r of d # q \<Rightarrow> if d = CHR '','' then Inr q else Inl malformed | [] \<Rightarrow> Inl malformed)
          else if c = CHR ''p'' then
            (if \<not> ss_channel_binding_in_use st then Inl malformed
             else rbind (read_attr_value (CHR ''p'') p) (\<lambda>(channel_binding_type, q).
               if channel_binding_type = ''tls-server-end-point'' then Inr q
               else Inl (PgError ERRCODE_PROTOCOL_VIOLATION ''unsupported SCRAM channel-binding type'')))
          else Inl malformed)"

definition read_client_first_message :: "be_port \<Rightarrow> scram_state \<Rightarrow> string \<Rightarrow> scram_state result" where
  "read_client_first_message port st input =
     rbind (read_cbind_flag port st input) (\<lambda>p.
       case p of
         [] \<Rightarrow> Inl malformed
       | c # bare \<Rightarrow>
           if c = CHR ''a''
           then Inl (PgError ERRCODE_FEATURE_NOT_SUPPORTED
             ''client uses authorization identity, but it is not supported'')
           else if c \<noteq> CHR '','' then Inl malformed
           else if bare \<noteq> [] \<and> hd bare = CHR ''m''
           then Inl (PgError ERRCODE_FEATURE_NOT_SUPPORTED ''client requires an unsupported SCRAM extension'')
           else
             rbind (read_attr_value (CHR ''n'') bare) (\<lambda>(username, p).
             rbind (read_attr_value (CHR ''r'') p) (\<lambda>(nonce, p).
             rbind (rguard (is_scram_printable nonce)
                      (PgError ERRCODE_PROTOCOL_VIOLATION ''non-printable characters in SCRAM nonce'')) (\<lambda>_.
             rbind (skip_extensions p) (\<lambda>_.
             Inr (st \<lparr>ss_cbind_flag := hd input, ss_client_first_message_bare := bare,
               ss_client_username := username, ss_client_nonce := nonce\<rparr>))))))"

section \<open>The exchange\<close>

definition build_server_first_message :: "openssl \<Rightarrow> nat \<Rightarrow> scram_state \<Rightarrow> (string \<times> scram_state) result" where
  "build_server_first_message ssl c st =
     (case pg_strong_random ssl c SCRAM_RAW_NONCE_LEN of
        None \<Rightarrow> Inl (PgError ERRCODE_INTERNAL_ERROR ''could not generate random nonce'')
      | Some raw_nonce \<Rightarrow>
          rbind (be_b64_encode raw_nonce (pg_b64_enc_len (int SCRAM_RAW_NONCE_LEN)) ''could not encode random nonce'')
            (\<lambda>nonce.
              let message = ''r='' @ ss_client_nonce st @ nonce @ '',s='' @ ss_salt st @ '',i='' @ int_text (ss_iterations st) in
              Inr (message, st \<lparr>ss_server_nonce := nonce, ss_server_first_message := message\<rparr>)))"

definition cbind_header :: string where
  "cbind_header = ''p=tls-server-end-point,,''"

definition check_channel_binding :: "be_port \<Rightarrow> scram_state \<Rightarrow> string \<Rightarrow> unit result" where
  "check_channel_binding port st channel_binding =
     (if ss_channel_binding_in_use st
      then (case be_certificate_hash port of
          Some (b # bs) \<Rightarrow>
            rbind (be_b64_encode (str_bytes cbind_header @ b # bs)
                     (pg_b64_enc_len (int (length cbind_header + length (b # bs)))) ''could not encode channel binding data'')
              (\<lambda>b64_message. rguard (channel_binding = b64_message)
                (PgError ERRCODE_INVALID_AUTHORIZATION_SPECIFICATION ''SCRAM channel binding check failed''))
        | _ \<Rightarrow> Inl (PgError ERRCODE_INTERNAL_ERROR ''could not get server certificate hash''))
      else rguard (channel_binding = ''biws'' \<and> ss_cbind_flag st = CHR ''n''
                   \<or> channel_binding = ''eSws'' \<and> ss_cbind_flag st = CHR ''y'')
        (PgError ERRCODE_PROTOCOL_VIOLATION ''unexpected SCRAM channel-binding attribute in client-final-message''))"

definition read_client_final_message :: "be_port \<Rightarrow> scram_state \<Rightarrow> string \<Rightarrow> scram_state result" where
  "read_client_final_message port st input =
     rbind (read_attr_value (CHR ''c'') input) (\<lambda>(channel_binding, p).
     rbind (check_channel_binding port st channel_binding) (\<lambda>_.
     rbind (read_attr_value (CHR ''r'') p) (\<lambda>(nonce, p).
     rbind (find_proof p) (\<lambda>(q, value, rest).
     case b64_decode_field value of
       None \<Rightarrow> Inl malformed
     | Some client_proof \<Rightarrow>
         if length client_proof \<noteq> ss_key_length st then Inl malformed
         else if rest \<noteq> [] then Inl malformed
         else Inr (st \<lparr>ss_client_final_nonce := nonce, ss_ClientProof := client_proof,
           ss_client_final_message_without_proof := take (length input - length q - 1) input\<rparr>)))))"

definition verify_final_nonce :: "scram_state \<Rightarrow> bool" where
  "verify_final_nonce st \<longleftrightarrow>
     length (ss_client_final_nonce st) = length (ss_client_nonce st) + length (ss_server_nonce st)
     \<and> take (length (ss_client_nonce st)) (ss_client_final_nonce st) = ss_client_nonce st
     \<and> drop (length (ss_client_nonce st)) (ss_client_final_nonce st) = ss_server_nonce st"

text \<open>The text both signatures are computed over.\<close>

definition auth_message :: "string \<Rightarrow> string \<Rightarrow> string \<Rightarrow> bytes" where
  "auth_message client_first_bare server_first client_final_without_proof =
     str_bytes (client_first_bare @ '','' @ server_first @ '','' @ client_final_without_proof)"

definition be_auth_message :: "scram_state \<Rightarrow> bytes" where
  "be_auth_message st =
     auth_message (ss_client_first_message_bare st) (ss_server_first_message st)
       (ss_client_final_message_without_proof st)"

definition verify_client_proof :: "openssl \<Rightarrow> scram_state \<Rightarrow> bool result" where
  "verify_client_proof ssl st =
     rbind (be_hash ''could not calculate client signature''
       (pg_hmac ssl (ss_hash_type st) (take (ss_key_length st) (ss_StoredKey st)) (be_auth_message st) (ss_key_length st)))
       (\<lambda>ClientSignature.
     rbind (be_hash ''could not hash stored key''
       (scram_H ssl (xor_bytes (ss_ClientProof st) ClientSignature) (ss_hash_type st) (ss_key_length st)))
       (\<lambda>client_StoredKey.
     Inr (take (ss_key_length st) client_StoredKey = take (ss_key_length st) (ss_StoredKey st))))"

definition build_server_final_message :: "openssl \<Rightarrow> scram_state \<Rightarrow> string result" where
  "build_server_final_message ssl st =
     rbind (be_hash ''could not calculate server signature''
       (pg_hmac ssl (ss_hash_type st) (take (ss_key_length st) (ss_ServerKey st)) (be_auth_message st) (ss_key_length st)))
       (\<lambda>ServerSignature.
     rbind (be_b64_encode (take (ss_key_length st) ServerSignature) (pg_b64_enc_len (int (ss_key_length st)))
              ''could not encode server signature'')
       (\<lambda>b64. Inr (''v='' @ b64)))"

definition be_scram_exchange ::
  "openssl \<Rightarrow> nat \<Rightarrow> be_port \<Rightarrow> scram_state \<Rightarrow> string option \<Rightarrow> (sasl_result \<times> string option \<times> scram_state) result" where
  "be_scram_exchange ssl c port st input =
     (case input of
        None \<Rightarrow> Inr (PG_SASL_EXCHANGE_CONTINUE, Some [], st)
      | Some msg \<Rightarrow>
          if length msg = 0 then Inl malformed
          else if length msg \<noteq> c_strlen msg then Inl malformed
          else case ss_state st of
            SCRAM_AUTH_INIT \<Rightarrow>
              rbind (read_client_first_message port st msg) (\<lambda>st.
              rbind (build_server_first_message ssl c st) (\<lambda>(out, st).
              Inr (PG_SASL_EXCHANGE_CONTINUE, Some out, st \<lparr>ss_state := SCRAM_AUTH_SALT_SENT\<rparr>)))
          | SCRAM_AUTH_SALT_SENT \<Rightarrow>
              rbind (read_client_final_message port st msg) (\<lambda>st.
              rbind (rguard (verify_final_nonce st)
                       (PgError ERRCODE_PROTOCOL_VIOLATION ''invalid SCRAM response'')) (\<lambda>_.
              rbind (verify_client_proof ssl st) (\<lambda>match.
              if \<not> match \<or> ss_doomed st then Inr (PG_SASL_EXCHANGE_FAILURE, None, st)
              else rbind (build_server_final_message ssl st) (\<lambda>out.
                Inr (PG_SASL_EXCHANGE_SUCCESS, Some out, st \<lparr>ss_state := SCRAM_AUTH_FINISHED\<rparr>)))))
          | SCRAM_AUTH_FINISHED \<Rightarrow> Inl (PgError ERRCODE_INTERNAL_ERROR ''invalid SCRAM exchange state''))"

section \<open>The SASL loop\<close>

text \<open>What the client sends: a message of type p with its payload, a message of
  another type, a message whose body cannot be read, or nothing more.\<close>

datatype client_packet = Packet_p string | Packet_other | Packet_truncated | Packet_eof

definition PG_MAX_SASL_MESSAGE_LENGTH :: nat where
  "PG_MAX_SASL_MESSAGE_LENGTH = 1024"

text \<open>The rest of SASLInitialResponse after the mechanism: a signed length and
  that many bytes; -1 stands for no response.\<close>

definition initial_response :: "string \<Rightarrow> string option result" where
  "initial_response r =
     (if length r < 4 then Inl (PgError ERRCODE_PROTOCOL_VIOLATION ''insufficient data left in message'')
      else
        let inputlen = sint (of_be32 (str_bytes (take 4 r))); body = drop 4 r in
        if inputlen = -1
        then rbind (rguard (body = []) (PgError ERRCODE_PROTOCOL_VIOLATION ''invalid message format'')) (\<lambda>_. Inr None)
        else if inputlen < 0 \<or> inputlen > int (length body)
        then Inl (PgError ERRCODE_PROTOCOL_VIOLATION ''insufficient data left in message'')
        else rbind (rguard (length body = nat inputlen)
          (PgError ERRCODE_PROTOCOL_VIOLATION ''invalid message format'')) (\<lambda>_. Inr (Some body)))"

definition initial_packet ::
  "openssl \<Rightarrow> bytes \<Rightarrow> be_port \<Rightarrow> string option \<Rightarrow> string \<Rightarrow> (scram_state \<times> string option) result" where
  "initial_packet ssl mock_nonce port shadow_pass buf =
     (if c_strlen buf \<ge> length buf
      then Inl (PgError ERRCODE_PROTOCOL_VIOLATION ''invalid string in message'')
      else rbind (be_scram_init ssl mock_nonce port (take (c_strlen buf) buf) shadow_pass) (\<lambda>opaq.
        rbind (initial_response (drop (c_strlen buf + 1) buf)) (\<lambda>input. Inr (opaq, input))))"

datatype auth_request = AUTH_REQ_SASL "string list" | AUTH_REQ_SASL_CONT string | AUTH_REQ_SASL_FIN string

text \<open>One round of the loop for a message of the client: a final status or the
  state to go on with, and the requests sent.  opaq is None on the first
  round.\<close>

definition sasl_round ::
  "openssl \<Rightarrow> nat \<Rightarrow> bytes \<Rightarrow> be_port \<Rightarrow> string option \<Rightarrow> scram_state option \<Rightarrow> client_packet
   \<Rightarrow> ((auth_status + scram_state) \<times> auth_request list) result" where
  "sasl_round ssl c mock_nonce port shadow_pass opaq packet =
     (case packet of
        Packet_eof \<Rightarrow> Inr (Inl STATUS_EOF, [])
      | Packet_other \<Rightarrow> Inl (PgError ERRCODE_PROTOCOL_VIOLATION ''expected SASL response, got message type'')
      | Packet_truncated \<Rightarrow> Inr (Inl STATUS_ERROR, [])
      | Packet_p buf \<Rightarrow>
          if length buf + 4 > PG_MAX_SASL_MESSAGE_LENGTH then Inr (Inl STATUS_ERROR, [])
          else
            rbind (case opaq of
                     None \<Rightarrow> initial_packet ssl mock_nonce port shadow_pass buf
                   | Some st \<Rightarrow> Inr (st, Some buf)) (\<lambda>(st, input).
            rbind (be_scram_exchange ssl c port st input) (\<lambda>(res, out, st).
            case res of
              PG_SASL_EXCHANGE_CONTINUE \<Rightarrow>
                Inr (Inr st, case out of Some o1 \<Rightarrow> [AUTH_REQ_SASL_CONT o1] | None \<Rightarrow> [])
            | PG_SASL_EXCHANGE_SUCCESS \<Rightarrow>
                Inr (Inl STATUS_OK, case out of Some o1 \<Rightarrow> [AUTH_REQ_SASL_FIN o1] | None \<Rightarrow> [])
            | PG_SASL_EXCHANGE_FAILURE \<Rightarrow>
                (if out \<noteq> None
                 then Inl (PgError ERRCODE_INTERNAL_ERROR ''output message found after SASL exchange failure'')
                 else Inr (Inl STATUS_ERROR, [])))))"

text \<open>The loop on the packets the client will send; a client that sends no more
  has closed the connection.\<close>

primrec sasl_loop ::
  "openssl \<Rightarrow> nat \<Rightarrow> bytes \<Rightarrow> be_port \<Rightarrow> string option \<Rightarrow> client_packet list \<Rightarrow> scram_state option \<Rightarrow> auth_request list
   \<Rightarrow> auth_status result \<times> auth_request list" where
  "sasl_loop ssl c mock_nonce port shadow_pass [] opaq sent = (Inr STATUS_EOF, sent)"
| "sasl_loop ssl c mock_nonce port shadow_pass (packet # packets) opaq sent =
     (case sasl_round ssl c mock_nonce port shadow_pass opaq packet of
        Inl e \<Rightarrow> (Inl e, sent)
      | Inr (Inl status, out) \<Rightarrow> (Inr status, sent @ out)
      | Inr (Inr st, out) \<Rightarrow> sasl_loop ssl c mock_nonce port shadow_pass packets (Some st) (sent @ out))"

definition CheckSASLAuth ::
  "openssl \<Rightarrow> nat \<Rightarrow> bytes \<Rightarrow> be_port \<Rightarrow> string option \<Rightarrow> client_packet list \<Rightarrow> auth_status result \<times> auth_request list" where
  "CheckSASLAuth ssl c mock_nonce port shadow_pass packets =
     sasl_loop ssl c mock_nonce port shadow_pass packets None [AUTH_REQ_SASL (scram_get_mechanisms port)]"

section \<open>Password methods\<close>

definition PG_MAX_AUTH_TOKEN_LENGTH :: nat where
  "PG_MAX_AUTH_TOKEN_LENGTH = 65535"

definition recv_password_packet :: "client_packet list \<Rightarrow> string option result" where
  "recv_password_packet packets =
     (case packets of
        Packet_p buf # _ \<Rightarrow>
          if length buf + 4 > PG_MAX_AUTH_TOKEN_LENGTH then Inr None
          else if c_strlen buf + 1 \<noteq> length buf
          then Inl (PgError ERRCODE_PROTOCOL_VIOLATION ''invalid password packet size'')
          else if length buf = 1
          then Inl (PgError ERRCODE_INVALID_PASSWORD ''empty password returned by client'')
          else Inr (Some (take (c_strlen buf) buf))
      | Packet_other # _ \<Rightarrow>
          Inl (PgError ERRCODE_PROTOCOL_VIOLATION ''expected password response, got message type'')
      | _ \<Rightarrow> Inr None)"

text \<open>The result is the status and the identity recorded by set_authn_id.\<close>

definition with_authn :: "be_port \<Rightarrow> auth_status result \<Rightarrow> (auth_status \<times> string option) result" where
  "with_authn port r = rbind r (\<lambda>status. Inr (status, if status = STATUS_OK then Some (user_name port) else None))"

definition CheckPasswordAuth ::
  "openssl \<Rightarrow> (string \<Rightarrow> string option) \<Rightarrow> (string \<Rightarrow> authid_row option) \<Rightarrow> int \<Rightarrow> be_port \<Rightarrow> client_packet list
   \<Rightarrow> (auth_status \<times> string option) result" where
  "CheckPasswordAuth ssl prep pg_authid now port packets =
     rbind (recv_password_packet packets) (\<lambda>passwd.
       case passwd of
         None \<Rightarrow> Inr (STATUS_EOF, None)
       | Some pw \<Rightarrow>
           with_authn port
             (case get_role_password pg_authid now (user_name port) of
                Some shadow_pass \<Rightarrow> plain_crypt_verify ssl prep (user_name port) shadow_pass pw
              | None \<Rightarrow> Inr STATUS_ERROR))"

definition CheckMD5Auth :: "openssl \<Rightarrow> nat \<Rightarrow> string option \<Rightarrow> client_packet list \<Rightarrow> auth_status result" where
  "CheckMD5Auth ssl c shadow_pass packets =
     (case pg_strong_random ssl c 4 of
        None \<Rightarrow> Inr STATUS_ERROR
      | Some md5Salt \<Rightarrow>
          rbind (recv_password_packet packets) (\<lambda>passwd.
            case passwd of
              None \<Rightarrow> Inr STATUS_EOF
            | Some pw \<Rightarrow>
                (case shadow_pass of
                   Some s \<Rightarrow> md5_crypt_verify ssl s pw md5Salt
                 | None \<Rightarrow> Inr STATUS_ERROR)))"

definition CheckPWChallengeAuth ::
  "openssl \<Rightarrow> nat \<Rightarrow> bytes \<Rightarrow> PasswordType \<Rightarrow> (string \<Rightarrow> authid_row option) \<Rightarrow> int \<Rightarrow> be_port \<Rightarrow> client_packet list
   \<Rightarrow> (auth_status \<times> string option) result" where
  "CheckPWChallengeAuth ssl c mock_nonce Password_encryption pg_authid now port packets =
     (let shadow_pass = get_role_password pg_authid now (user_name port);
          pwtype = (case shadow_pass of None \<Rightarrow> Password_encryption | Some s \<Rightarrow> get_password_type s) in
      with_authn port
        (if auth_method port = uaMD5 \<and> pwtype = PASSWORD_TYPE_MD5
         then CheckMD5Auth ssl c shadow_pass packets
         else fst (CheckSASLAuth ssl c mock_nonce port shadow_pass packets)))"

section \<open>What the loop keeps\<close>

text \<open>The fields of a stored secret are those of the state.\<close>

definition secret_loaded :: "scram_secret \<Rightarrow> scram_state \<Rightarrow> bool" where
  "secret_loaded s st \<longleftrightarrow>
     ss_iterations st = sec_iterations s \<and> ss_hash_type st = sec_hash_type s
     \<and> ss_key_length st = sec_key_length s \<and> ss_salt st = sec_salt s
     \<and> ss_StoredKey st = sec_StoredKey s \<and> ss_ServerKey st = sec_ServerKey s"

text \<open>An exchange that is not doomed runs on the role's parsed secret; once the
  salt is sent, the server's nonce is the one drawn for this exchange.\<close>

definition exchange_ok :: "openssl \<Rightarrow> nat \<Rightarrow> string option \<Rightarrow> scram_state \<Rightarrow> bool" where
  "exchange_ok ssl c shadow st \<longleftrightarrow>
     (\<not> ss_doomed st \<longrightarrow>
        (\<exists>sh s. shadow = Some sh \<and> snd (parse_scram_secret sh) = Some s \<and> secret_loaded s st))
     \<and> (ss_state st = SCRAM_AUTH_SALT_SENT \<longrightarrow> ss_server_nonce st = b64_text (rand_buf ssl c SCRAM_RAW_NONCE_LEN))"

lemma scram_select_state: "scram_select port mech = Inr st \<Longrightarrow> ss_state st = SCRAM_AUTH_INIT"
  by (auto simp: scram_select_def scram_state_zero_def split: if_splits)

lemma load_secret_state:
  "load_secret sh st = (b, st') \<Longrightarrow> ss_state st' = ss_state st \<and>
   (b \<longrightarrow> (\<exists>s. snd (parse_scram_secret sh) = Some s \<and> secret_loaded s st'))"
  by (auto simp: load_secret_def secret_loaded_def split: if_splits prod.splits option.splits)

lemma mock_scram_secret_state: "mock_scram_secret ssl mn user st = Inr st' \<Longrightarrow> ss_state st' = ss_state st"
  by (auto simp: mock_scram_secret_def Let_def rbind_Inr_iff)

lemma be_scram_init_ok:
  assumes "be_scram_init ssl mn port mech shadow = Inr st"
  shows "ss_state st = SCRAM_AUTH_INIT" "exchange_ok ssl c shadow st"
proof -
  obtain st0 where st0: "scram_select port mech = Inr st0"
    and r: "(case (case shadow of Some s \<Rightarrow> load_secret s st0 | None \<Rightarrow> (False, st0)) of
         (True, st) \<Rightarrow> Inr st
       | (False, st) \<Rightarrow> rbind (mock_scram_secret ssl mn (user_name port) st)
             (\<lambda>st. Inr (st \<lparr>ss_doomed := True\<rparr>))) = Inr st"
    using assms unfolding be_scram_init_def rbind_Inr_iff by blast
  obtain b st1 where b: "(case shadow of Some s \<Rightarrow> load_secret s st0 | None \<Rightarrow> (False, st0)) = (b, st1)"
    by (cases "case shadow of Some s \<Rightarrow> load_secret s st0 | None \<Rightarrow> (False, st0)")
  have st1: "ss_state st1 = SCRAM_AUTH_INIT"
    using b scram_select_state [OF st0] load_secret_state by (auto split: option.splits)
  show init: "ss_state st = SCRAM_AUTH_INIT"
    using r b st1 by (cases b) (auto simp: rbind_Inr_iff dest!: mock_scram_secret_state)
  show "exchange_ok ssl c shadow st"
  proof (cases b)
    case True
    then obtain sh where "shadow = Some sh" "load_secret sh st0 = (True, st)"
      using r b by (auto split: option.splits)
    then show ?thesis
      using load_secret_state [of sh st0 True st] init by (auto simp: exchange_ok_def)
  next
    case False
    then have "ss_doomed st"
      using r b by (auto simp: rbind_Inr_iff)
    then show ?thesis
      using init by (simp add: exchange_ok_def)
  qed
qed

lemma read_client_first_message_frame:
  assumes "read_client_first_message port st m = Inr st'"
  shows "\<exists>f b u n. st' = st \<lparr>ss_cbind_flag := f, ss_client_first_message_bare := b,
    ss_client_username := u, ss_client_nonce := n\<rparr>"
proof -
  obtain p where "read_cbind_flag port st m = Inr p"
    using assms unfolding read_client_first_message_def rbind_Inr_iff by blast
  with assms show ?thesis
    by (cases p) (auto simp: read_client_first_message_def rbind_Inr_iff split: if_splits)
qed

lemma build_server_first_message_frame:
  assumes "build_server_first_message ssl c st = Inr (out, st')"
  shows "st' = st \<lparr>ss_server_nonce := b64_text (rand_buf ssl c SCRAM_RAW_NONCE_LEN), ss_server_first_message := out\<rparr>"
  using assms
  by (auto simp: build_server_first_message_def rbind_Inr_iff Let_def pg_strong_random_def be_b64_encode_def
      pg_b64_encode_text split: option.splits if_splits)

lemma exchange_continue:
  assumes "be_scram_exchange ssl c port st input = Inr (PG_SASL_EXCHANGE_CONTINUE, out, st')"
  shows "(input = None \<and> st' = st)
    \<or> (ss_state st = SCRAM_AUTH_INIT \<and> ss_state st' = SCRAM_AUTH_SALT_SENT
       \<and> (exchange_ok ssl c shadow st \<longrightarrow> exchange_ok ssl c shadow st'))"
proof (cases input)
  case (Some m)
  then have "ss_state st = SCRAM_AUTH_INIT"
    using assms by (auto simp: be_scram_exchange_def rbind_Inr_iff split: if_splits scram_state_enum.splits)
  moreover obtain st1 out1 st2 where "read_client_first_message port st m = Inr st1"
      "build_server_first_message ssl c st1 = Inr (out1, st2)" "st' = st2 \<lparr>ss_state := SCRAM_AUTH_SALT_SENT\<rparr>"
    using assms Some calculation by (auto simp: be_scram_exchange_def rbind_Inr_iff split: if_splits)
  ultimately show ?thesis
    by (auto simp: exchange_ok_def secret_loaded_def
        dest!: read_client_first_message_frame build_server_first_message_frame)
qed (use assms in \<open>auto simp: be_scram_exchange_def\<close>)

lemma initial_packet_ok:
  assumes "initial_packet ssl mn port shadow buf = Inr (st, input)"
  shows "ss_state st = SCRAM_AUTH_INIT" "exchange_ok ssl c shadow st"
  using assms be_scram_init_ok [where ssl = ssl and mn = mn and port = port and shadow = shadow]
  by (auto simp: initial_packet_def rbind_Inr_iff split: if_splits)

text \<open>A round that goes on or succeeds has read a message and handed it to the
  mechanism.\<close>

lemma sasl_round_exchange:
  assumes "sasl_round ssl c mn port shadow opaq packet = Inr (r, out)" and "r \<notin> {Inl STATUS_EOF, Inl STATUS_ERROR}"
  obtains buf st1 input res out1 st where "packet = Packet_p buf"
    "(case opaq of None \<Rightarrow> initial_packet ssl mn port shadow buf | Some st \<Rightarrow> Inr (st, Some buf)) = Inr (st1, input)"
    "be_scram_exchange ssl c port st1 input = Inr (res, out1, st)"
    "r = (if res = PG_SASL_EXCHANGE_CONTINUE then Inr st else Inl STATUS_OK)" "res \<noteq> PG_SASL_EXCHANGE_FAILURE"
proof -
  obtain buf st1 input res out1 st where ex: "packet = Packet_p buf"
    "(case opaq of None \<Rightarrow> initial_packet ssl mn port shadow buf | Some st \<Rightarrow> Inr (st, Some buf)) = Inr (st1, input)"
    "be_scram_exchange ssl c port st1 input = Inr (res, out1, st)"
    using assms by (auto simp: sasl_round_def rbind_Inr_iff split: client_packet.splits if_splits)
  with assms have "(res = PG_SASL_EXCHANGE_CONTINUE \<longrightarrow> r = Inr st) \<and> (res = PG_SASL_EXCHANGE_SUCCESS \<longrightarrow> r = Inl STATUS_OK)
      \<and> res \<noteq> PG_SASL_EXCHANGE_FAILURE"
    by (cases res) (auto simp: sasl_round_def rbind_Inr_iff split: if_splits)
  with ex that show ?thesis
    by (cases res) auto
qed

text \<open>A round that goes on leaves an exchange in order; from the second round on
  it also advances the state.\<close>

lemma sasl_round_continue:
  assumes "sasl_round ssl c mn port shadow opaq packet = Inr (Inr st, out)"
  shows "(\<And>st0. opaq = Some st0 \<Longrightarrow> exchange_ok ssl c shadow st0) \<Longrightarrow> exchange_ok ssl c shadow st"
    and "opaq = Some st0 \<Longrightarrow> ss_state st0 = SCRAM_AUTH_INIT \<and> ss_state st = SCRAM_AUTH_SALT_SENT"
proof -
  obtain buf st1 input res out1 st' where 
    1: "(case opaq of None \<Rightarrow> initial_packet ssl mn port shadow buf | Some st \<Rightarrow> Inr (st, Some buf)) = Inr (st1, input)"
    and 2: "be_scram_exchange ssl c port st1 input = Inr (res, out1, st')"
    and 3: "Inr st = (if res = PG_SASL_EXCHANGE_CONTINUE then Inr st' else (Inl STATUS_OK :: auth_status + scram_state))"
    using assms by (rule sasl_round_exchange) (simp, rule that, assumption+)
  have go: "be_scram_exchange ssl c port st1 input = Inr (PG_SASL_EXCHANGE_CONTINUE, out1, st)"
    using 2 3 by (auto split: if_splits)
  show "exchange_ok ssl c shadow st" if "\<And>st0. opaq = Some st0 \<Longrightarrow> exchange_ok ssl c shadow st0"
  proof -
    have "exchange_ok ssl c shadow st1"
      using 1 that initial_packet_ok(2) by (auto split: option.splits)
    then show ?thesis
      using exchange_continue [OF go, of shadow] by auto
  qed
  show "ss_state st0 = SCRAM_AUTH_INIT \<and> ss_state st = SCRAM_AUTH_SALT_SENT" if "opaq = Some st0"
    using exchange_continue [OF go, of shadow] 1 that by auto
qed

lemma sasl_round_accepts:
  assumes "sasl_round ssl c mn port shadow opaq packet = Inr (Inl STATUS_OK, out)"
  shows "\<exists>buf st1 input out1 st. packet = Packet_p buf
    \<and> (case opaq of None \<Rightarrow> initial_packet ssl mn port shadow buf | Some st \<Rightarrow> Inr (st, Some buf)) = Inr (st1, input)
    \<and> be_scram_exchange ssl c port st1 input = Inr (PG_SASL_EXCHANGE_SUCCESS, out1, st)"
proof -
  obtain buf st1 input res out1 st where ex: "packet = Packet_p buf"
    "(case opaq of None \<Rightarrow> initial_packet ssl mn port shadow buf | Some st \<Rightarrow> Inr (st, Some buf)) = Inr (st1, input)"
    "be_scram_exchange ssl c port st1 input = Inr (res, out1, st)"
    "Inl STATUS_OK = (if res = PG_SASL_EXCHANGE_CONTINUE then Inr st else (Inl STATUS_OK :: auth_status + scram_state))"
    "res \<noteq> PG_SASL_EXCHANGE_FAILURE"
    using assms by (rule sasl_round_exchange) (simp, rule that, assumption+)
  then have "res = PG_SASL_EXCHANGE_SUCCESS"
    by (cases res) simp_all
  with ex show ?thesis
    by blast
qed

lemma exchange_success:
  assumes "be_scram_exchange ssl c port st input = Inr (PG_SASL_EXCHANGE_SUCCESS, out, st')"
  obtains msg st1 where "ss_state st = SCRAM_AUTH_SALT_SENT" "input = Some msg"
    "read_client_final_message port st msg = Inr st1" "verify_final_nonce st1"
    "verify_client_proof ssl st1 = Inr True" "\<not> ss_doomed st1"
  using assms
  by (auto simp: be_scram_exchange_def rbind_Inr_iff split: option.splits if_splits scram_state_enum.splits)

lemma read_client_final_message_frame:
  assumes "read_client_final_message port st m = Inr st'"
  shows "\<exists>n p w. st' = st \<lparr>ss_client_final_nonce := n, ss_ClientProof := p,
    ss_client_final_message_without_proof := w\<rparr>"
  using assms by (auto simp: read_client_final_message_def rbind_Inr_iff split: option.splits if_splits)

section \<open>Properties\<close>

lemma sasl_loop_last:
  assumes "ss_state st \<noteq> SCRAM_AUTH_INIT"
  shows "sasl_loop ssl c mn port shadow (p # ps) (Some st) sent = sasl_loop ssl c mn port shadow [p] (Some st) sent"
  using assms sasl_round_continue(2) by (fastforce split: sum.split)

lemma sasl_loop_two:
  "sasl_loop ssl c mn port shadow (p # q # ps) (Some st) sent = sasl_loop ssl c mn port shadow [p, q] (Some st) sent"
proof (cases "sasl_round ssl c mn port shadow (Some st) p")
  case (Inr r)
  show ?thesis
  proof (cases "fst r")
    case (Inr st')
    then have "sasl_round ssl c mn port shadow (Some st) p = Inr (Inr st', snd r)"
      using \<open>_ = Inr r\<close> by (cases r) simp
    then show ?thesis
      using sasl_round_continue(2) [OF _ refl] sasl_loop_last [of st'] by fastforce
  qed (use Inr in \<open>cases r; simp\<close>)
qed simp

text \<open>C28: The SASL loop reads at most three messages, whatever the client sends:
  its result on any longer sequence is its result on the first three.  (The
  three are an initial response without data, the client-first message and
  the client-final message.)\<close>

theorem sasl_three_messages:
  "CheckSASLAuth ssl c mock_nonce port shadow_pass (p # q # r # packets) =
   CheckSASLAuth ssl c mock_nonce port shadow_pass [p, q, r]"
  unfolding CheckSASLAuth_def
  by (simp only: sasl_loop.simps(2) [where packet = p] sasl_loop_two [where p = q and q = r and ps = packets])

lemma sasl_loop_ok:
  assumes "fst (sasl_loop ssl c mn port shadow packets opaq sent) = Inr STATUS_OK"
    and "\<And>st0. opaq = Some st0 \<Longrightarrow> exchange_ok ssl c shadow st0"
  shows "\<exists>msg st0 st. Packet_p msg \<in> set packets \<and> exchange_ok ssl c shadow st0
    \<and> ss_state st0 = SCRAM_AUTH_SALT_SENT \<and> read_client_final_message port st0 msg = Inr st
    \<and> verify_final_nonce st \<and> verify_client_proof ssl st = Inr True \<and> \<not> ss_doomed st"
  using assms
proof (induction packets arbitrary: opaq sent)
  case (Cons p ps)
  obtain r out where r: "sasl_round ssl c mn port shadow opaq p = Inr (r, out)"
    using Cons.prems(1) by (auto split: sum.splits)
  show ?case
  proof (cases r)
    case (Inr st)
    then have "exchange_ok ssl c shadow st"
      using sasl_round_continue(1) [OF r [unfolded Inr]] Cons.prems(2) by blast
    moreover have "fst (sasl_loop ssl c mn port shadow ps (Some st) (sent @ out)) = Inr STATUS_OK"
      using Cons.prems(1) r Inr by simp
    ultimately show ?thesis
      using Cons.IH [of "Some st" "sent @ out"] by auto
  next
    case (Inl status)
    then have "sasl_round ssl c mn port shadow opaq p = Inr (Inl STATUS_OK, out)"
      using r Cons.prems(1) by simp
    then obtain buf st1 input out1 st where p: "p = Packet_p buf"
      and 1: "(case opaq of None \<Rightarrow> initial_packet ssl mn port shadow buf | Some st \<Rightarrow> Inr (st, Some buf)) = Inr (st1, input)"
      and "be_scram_exchange ssl c port st1 input = Inr (PG_SASL_EXCHANGE_SUCCESS, out1, st)"
      using sasl_round_accepts by blast
    then obtain msg st2 where 2: "ss_state st1 = SCRAM_AUTH_SALT_SENT" "input = Some msg"
        "read_client_final_message port st1 msg = Inr st2" "verify_final_nonce st2"
        "verify_client_proof ssl st2 = Inr True" "\<not> ss_doomed st2"
      by (elim exchange_success) blast
    obtain st0 where "opaq = Some st0"
      using 1 2(1) initial_packet_ok(1) by (cases opaq) auto
    then show ?thesis
      using 1 2 p Cons.prems(2) by auto
  qed
qed simp

end
