(* ===== verification/ScramClient.thy ===== *)
theory ScramClient
  imports ScramServer
begin

text \<open>
  The client's side of SCRAM authentication: interfaces/libpq/fe-auth-scram.c
  and the SASL functions of interfaces/libpq/fe-auth.c.  A function that
  reports an error to the connection's message buffer and fails returns None;
  the texts are left out.  The hash of the peer's certificate is a field of
  the connection.
\<close>

section \<open>State\<close>

datatype fe_scram_state_enum = FE_SCRAM_INIT | FE_SCRAM_NONCE_SENT | FE_SCRAM_PROOF_SENT | FE_SCRAM_FINISHED

datatype SASLStatus = SASL_COMPLETE | SASL_FAILED | SASL_CONTINUE

record fe_scram_state =
  fs_state :: fe_scram_state_enum
  fs_password :: string
  fs_sasl_mechanism :: string
  fs_hash_type :: pg_cryptohash_type
  fs_key_length :: nat
  fs_SaltedPassword :: bytes
  fs_client_nonce :: string
  fs_client_first_message_bare :: string
  fs_client_final_message_without_proof :: string
  fs_server_first_message :: string
  fs_salt :: bytes
  fs_iterations :: int
  fs_nonce :: string
  fs_server_final_message :: string
  fs_ServerSignature :: bytes

text \<open>The connection: its channel_binding option, whether TLS is in use, the
  password from the connection string or the password file, the peer's
  certificate hash, the SASL state and client_finished_auth.\<close>

record fe_conn =
  channel_binding :: string
  fe_ssl_in_use :: bool
  fe_password :: "string option"
  peer_certificate_hash :: "bytes option"
  sasl_state :: "fe_scram_state option"
  client_finished_auth :: bool

definition cb_disabled :: "fe_conn \<Rightarrow> bool" where
  "cb_disabled conn \<longleftrightarrow> take 1 (channel_binding conn) = ''d''"

definition cb_required :: "fe_conn \<Rightarrow> bool" where
  "cb_required conn \<longleftrightarrow> take 1 (channel_binding conn) = ''r''"

section \<open>The mechanism\<close>

definition fe_scram_init :: "(string \<Rightarrow> string option) \<Rightarrow> string \<Rightarrow> string \<Rightarrow> fe_scram_state" where
  "fe_scram_init prep password sasl_mechanism =
     (let sha384 = (sasl_mechanism = SCRAM_SHA_384_NAME \<or> sasl_mechanism = SCRAM_SHA_384_PLUS_NAME) in
      \<lparr>fs_state = FE_SCRAM_INIT, fs_password = prepared_password prep password,
       fs_sasl_mechanism = sasl_mechanism,
       fs_hash_type = (if sha384 then PG_SHA384 else PG_SHA256),
       fs_key_length = (if sha384 then SCRAM_SHA_384_KEY_LEN else SCRAM_SHA_256_KEY_LEN),
       fs_SaltedPassword = [], fs_client_nonce = [], fs_client_first_message_bare = [],
       fs_client_final_message_without_proof = [], fs_server_first_message = [], fs_salt = [],
       fs_iterations = 0, fs_nonce = [], fs_server_final_message = [], fs_ServerSignature = []\<rparr>)"

definition scram_channel_bound :: "fe_scram_state option \<Rightarrow> bool" where
  "scram_channel_bound st =
     (case st of
        None \<Rightarrow> False
      | Some s \<Rightarrow> fs_state s = FE_SCRAM_FINISHED
          \<and> (fs_sasl_mechanism s = SCRAM_SHA_256_PLUS_NAME \<or> fs_sasl_mechanism s = SCRAM_SHA_384_PLUS_NAME))"

definition fe_read_attr_value :: "char \<Rightarrow> string \<Rightarrow> (string \<times> string) option" where
  "fe_read_attr_value attr p =
     (case p of a # e # r \<Rightarrow> if a = attr \<and> e = CHR ''='' then Some (attr_value r) else None | _ \<Rightarrow> None)"

text \<open>The gs2 channel-binding flag of the client-first message.\<close>

definition gs2_flag :: "fe_conn \<Rightarrow> fe_scram_state \<Rightarrow> string" where
  "gs2_flag conn st =
     (if fs_sasl_mechanism st = SCRAM_SHA_256_PLUS_NAME then ''p=tls-server-end-point''
      else if \<not> cb_disabled conn \<and> fe_ssl_in_use conn then ''y''
      else ''n'')"

definition build_client_first_message :: "openssl \<Rightarrow> nat \<Rightarrow> fe_conn \<Rightarrow> fe_scram_state \<Rightarrow> (string \<times> fe_scram_state) option" where
  "build_client_first_message ssl c conn st =
     (case pg_strong_random ssl c SCRAM_RAW_NONCE_LEN of
        None \<Rightarrow> None
      | Some raw_nonce \<Rightarrow>
          (case pg_b64_encode raw_nonce (pg_b64_enc_len (int SCRAM_RAW_NONCE_LEN)) of
             None \<Rightarrow> None
           | Some nonce \<Rightarrow>
               Some (gs2_flag conn st @ '',,n=,r='' @ nonce,
                 st \<lparr>fs_client_nonce := nonce, fs_client_first_message_bare := ''n=,r='' @ nonce\<rparr>)))"

definition fe_auth_message :: "fe_scram_state \<Rightarrow> bytes" where
  "fe_auth_message st =
     auth_message (fs_client_first_message_bare st) (fs_server_first_message st)
       (fs_client_final_message_without_proof st)"

text \<open>The proof, and the state with SaltedPassword stored in it.\<close>

definition calculate_client_proof :: "openssl \<Rightarrow> fe_scram_state \<Rightarrow> (bytes \<times> fe_scram_state) evp_steps" where
  "calculate_client_proof ssl st =
     sbind (scram_SaltedPassword ssl (fs_password st) (fs_hash_type st) (fs_key_length st) (fs_salt st) (fs_iterations st))
       (\<lambda>salted.
     sbind (scram_ClientKey ssl salted (fs_hash_type st) (fs_key_length st)) (\<lambda>ClientKey.
     sbind (scram_H ssl ClientKey (fs_hash_type st) (fs_key_length st)) (\<lambda>StoredKey.
     sbind (pg_hmac ssl (fs_hash_type st) (take (fs_key_length st) StoredKey) (fe_auth_message st) (fs_key_length st))
       (\<lambda>ClientSignature.
     Steps_ok (xor_bytes ClientKey ClientSignature, st \<lparr>fs_SaltedPassword := salted\<rparr>)))))"

text \<open>The channel-binding attribute of the client-final message.\<close>

definition cbind_attribute :: "fe_conn \<Rightarrow> fe_scram_state \<Rightarrow> string option" where
  "cbind_attribute conn st =
     (if fs_sasl_mechanism st = SCRAM_SHA_256_PLUS_NAME
      then (case peer_certificate_hash conn of
          None \<Rightarrow> None
        | Some cbind_data \<Rightarrow>
            (case pg_b64_encode (str_bytes cbind_header @ cbind_data)
                (pg_b64_enc_len (int (length cbind_header + length cbind_data))) of
               None \<Rightarrow> None
             | Some b64 \<Rightarrow> Some (''c='' @ b64)))
      else if \<not> cb_disabled conn \<and> fe_ssl_in_use conn then Some ''c=eSws''
      else Some ''c=biws'')"

definition build_client_final_message :: "openssl \<Rightarrow> fe_conn \<Rightarrow> fe_scram_state \<Rightarrow> (string \<times> fe_scram_state) option" where
  "build_client_final_message ssl conn st =
     (case cbind_attribute conn st of
        None \<Rightarrow> None
      | Some cbind \<Rightarrow>
          (let without_proof = cbind @ '',r='' @ fs_nonce st;
               st = st \<lparr>fs_client_final_message_without_proof := without_proof\<rparr> in
           case calculate_client_proof ssl st of
             Step_failed n \<Rightarrow> None
           | Steps_ok (client_proof, st) \<Rightarrow>
               (case pg_b64_encode (take (fs_key_length st) client_proof) (pg_b64_enc_len (int (fs_key_length st))) of
                  None \<Rightarrow> None
                | Some b64 \<Rightarrow> Some (without_proof @ '',p='' @ b64, st))))"

text \<open>Text left after the attributes only adds an error message; the function
  still returns true.\<close>

definition read_server_first_message :: "fe_scram_state \<Rightarrow> string \<Rightarrow> fe_scram_state option" where
  "read_server_first_message st input =
     (case fe_read_attr_value (CHR ''r'') input of None \<Rightarrow> None | Some (nonce, p) \<Rightarrow>
      if length nonce < length (fs_client_nonce st)
         \<or> take (length (fs_client_nonce st)) nonce \<noteq> fs_client_nonce st then None
      else case fe_read_attr_value (CHR ''s'') p of None \<Rightarrow> None | Some (encoded_salt, p) \<Rightarrow>
      case b64_decode_field encoded_salt of None \<Rightarrow> None | Some salt \<Rightarrow>
      case fe_read_attr_value (CHR ''i'') p of None \<Rightarrow> None | Some (iterations_str, p) \<Rightarrow>
      case strtol10 iterations_str of (v, endptr, range_error) \<Rightarrow>
        if endptr \<noteq> [] \<or> int_of_long v < 1 then None
        else Some (st \<lparr>fs_server_first_message := input, fs_nonce := nonce, fs_salt := salt,
          fs_iterations := int_of_long v\<rparr>))"

definition read_server_final_message :: "fe_scram_state \<Rightarrow> string \<Rightarrow> fe_scram_state option" where
  "read_server_final_message st input =
     (if take 1 input = ''e'' then None
      else case fe_read_attr_value (CHR ''v'') input of None \<Rightarrow> None | Some (encoded_signature, p) \<Rightarrow>
      case b64_decode_field encoded_signature of None \<Rightarrow> None | Some sig \<Rightarrow>
        if length sig \<noteq> fs_key_length st then None
        else Some (st \<lparr>fs_server_final_message := input, fs_ServerSignature := sig\<rparr>))"

text \<open>Whether the signature matches, unless a hash call fails.\<close>

definition verify_server_signature :: "openssl \<Rightarrow> fe_scram_state \<Rightarrow> bool evp_steps" where
  "verify_server_signature ssl st =
     sbind (scram_ServerKey ssl (fs_SaltedPassword st) (fs_hash_type st) (fs_key_length st)) (\<lambda>ServerKey.
     sbind (pg_hmac ssl (fs_hash_type st) (take (fs_key_length st) ServerKey) (fe_auth_message st) (fs_key_length st))
       (\<lambda>expected.
     Steps_ok (take (fs_key_length st) expected = take (fs_key_length st) (fs_ServerSignature st))))"

text \<open>The result is the status, the output and the state; the last component
  says that client_finished_auth is set.\<close>

definition fe_scram_exchange ::
  "openssl \<Rightarrow> nat \<Rightarrow> fe_conn \<Rightarrow> fe_scram_state \<Rightarrow> string \<Rightarrow> SASLStatus \<times> string option \<times> fe_scram_state \<times> bool" where
  "fe_scram_exchange ssl c conn st input =
     (if fs_state st \<noteq> FE_SCRAM_INIT \<and> (length input = 0 \<or> length input \<noteq> c_strlen input)
      then (SASL_FAILED, None, st, False)
      else case fs_state st of
        FE_SCRAM_INIT \<Rightarrow>
          (case build_client_first_message ssl c conn st of
             None \<Rightarrow> (SASL_FAILED, None, st, False)
           | Some (out, st) \<Rightarrow> (SASL_CONTINUE, Some out, st \<lparr>fs_state := FE_SCRAM_NONCE_SENT\<rparr>, False))
      | FE_SCRAM_NONCE_SENT \<Rightarrow>
          (case read_server_first_message st input of
             None \<Rightarrow> (SASL_FAILED, None, st, False)
           | Some st \<Rightarrow>
               (case build_client_final_message ssl conn st of
                  None \<Rightarrow> (SASL_FAILED, None, st, False)
                | Some (out, st) \<Rightarrow> (SASL_CONTINUE, Some out, st \<lparr>fs_state := FE_SCRAM_PROOF_SENT\<rparr>, False)))
      | FE_SCRAM_PROOF_SENT \<Rightarrow>
          (case read_server_final_message st input of
             None \<Rightarrow> (SASL_FAILED, None, st, False)
           | Some st \<Rightarrow>
               (case verify_server_signature ssl st of
                  Step_failed n \<Rightarrow> (SASL_FAILED, None, st, False)
                | Steps_ok match \<Rightarrow>
                    (if match then SASL_COMPLETE else SASL_FAILED, None, st \<lparr>fs_state := FE_SCRAM_FINISHED\<rparr>, True)))
      | FE_SCRAM_FINISHED \<Rightarrow> (SASL_FAILED, None, st, False))"

definition pg_fe_scram_build_secret ::
  "openssl \<Rightarrow> (string \<Rightarrow> string option) \<Rightarrow> nat \<Rightarrow> string \<Rightarrow> int \<Rightarrow> string option" where
  "pg_fe_scram_build_secret ssl prep c password iterations =
     (case pg_strong_random ssl c SCRAM_DEFAULT_SALT_LEN of
        None \<Rightarrow> None
      | Some saltbuf \<Rightarrow>
          (case scram_build_secret ssl PG_SHA256 SCRAM_SHA_256_KEY_LEN saltbuf iterations (prepared_password prep password) of
             Inl e \<Rightarrow> None
           | Inr secret \<Rightarrow> Some secret))"

section \<open>The SASL functions of libpq\<close>

text \<open>The loop over the mechanisms the server lists; None is the error exit.\<close>

primrec select_mechanism :: "fe_conn \<Rightarrow> string list \<Rightarrow> string option \<Rightarrow> string option option" where
  "select_mechanism conn [] selected = Some selected"
| "select_mechanism conn (m # ms) selected =
     (if m = SCRAM_SHA_384_PLUS_NAME
      then (if fe_ssl_in_use conn
            then select_mechanism conn ms (if cb_disabled conn then selected else Some SCRAM_SHA_384_PLUS_NAME)
            else None)
      else if m = SCRAM_SHA_256_PLUS_NAME
      then (if fe_ssl_in_use conn
            then select_mechanism conn ms
              (if cb_disabled conn \<or> selected = Some SCRAM_SHA_384_PLUS_NAME then selected
               else Some SCRAM_SHA_256_PLUS_NAME)
            else None)
      else if m = SCRAM_SHA_384_NAME \<and> selected = None
      then select_mechanism conn ms (Some SCRAM_SHA_384_NAME)
      else if m = SCRAM_SHA_256_NAME \<and> selected = None
      then select_mechanism conn ms (Some SCRAM_SHA_256_NAME)
      else select_mechanism conn ms selected)"

definition bytes_str :: "bytes \<Rightarrow> string" where
  "bytes_str bs = map (\<lambda>b. char_of (unat b)) bs"

text \<open>The payload of SASLInitialResponse.\<close>

definition initial_payload :: "string \<Rightarrow> string \<Rightarrow> string" where
  "initial_payload mechanism response =
     mechanism @ [CHR 0x00] @ bytes_str (be32 (of_nat (length response))) @ response"

definition pg_SASL_init ::
  "openssl \<Rightarrow> (string \<Rightarrow> string option) \<Rightarrow> nat \<Rightarrow> fe_conn \<Rightarrow> string list \<Rightarrow> (fe_conn \<times> string) option" where
  "pg_SASL_init ssl prep c conn mechanisms =
     (if cb_required conn \<and> \<not> fe_ssl_in_use conn then None
      else if sasl_state conn \<noteq> None then None
      else case select_mechanism conn mechanisms None of
        Some (Some selected) \<Rightarrow>
          (if cb_required conn \<and> selected \<noteq> SCRAM_SHA_256_PLUS_NAME \<and> selected \<noteq> SCRAM_SHA_384_PLUS_NAME then None
           else case fe_password conn of
             None \<Rightarrow> None
           | Some password \<Rightarrow>
               if password = [] then None
               else
                 (case fe_scram_exchange ssl c conn (fe_scram_init prep password selected) [] of
                    (SASL_CONTINUE, Some out, st, fin) \<Rightarrow>
                      Some (conn \<lparr>sasl_state := Some st\<rparr>, initial_payload selected out)
                  | _ \<Rightarrow> None))
      | _ \<Rightarrow> None)"

text \<open>The reply, if any, is the message to send back.\<close>

definition pg_SASL_continue ::
  "openssl \<Rightarrow> nat \<Rightarrow> fe_conn \<Rightarrow> string \<Rightarrow> bool \<Rightarrow> (fe_conn \<times> string option) option" where
  "pg_SASL_continue ssl c conn challenge final =
     (case sasl_state conn of
        None \<Rightarrow> None
      | Some st \<Rightarrow>
          (case fe_scram_exchange ssl c conn st challenge of (status, out, st, fin) \<Rightarrow>
             if final \<and> status = SASL_CONTINUE then None
             else if out = None \<and> status = SASL_CONTINUE then None
             else if status = SASL_FAILED then None
             else Some (conn \<lparr>sasl_state := Some st,
               client_finished_auth := client_finished_auth conn \<or> fin\<rparr>, out)))"

end
