(* ===== verification/ScramAuth.thy ===== *)
theory ScramAuth
  imports ScramClient Samples
begin

text \<open>
  Server and client together: the dialogue of CheckSASLAuth with libpq's
  pg_SASL_init and pg_SASL_continue, and the properties of SCRAM
  authentication that span both sides.
\<close>

section \<open>The dialogue\<close>

datatype session_end =
    Client_failed
  | Server_raised pg_error
  | Server_refused auth_status
  | Authenticated fe_conn
  | Still_running

text \<open>Rounds of the server's loop, each answered by the client, for at most
  the given number of rounds.\<close>

primrec session_rounds ::
  "nat \<Rightarrow> openssl \<Rightarrow> nat \<Rightarrow> bytes \<Rightarrow> be_port \<Rightarrow> string option \<Rightarrow> nat \<Rightarrow> scram_state option \<Rightarrow> fe_conn \<Rightarrow> string \<Rightarrow> session_end" where
  "session_rounds 0 ssl c mock_nonce port shadow_pass cc opaq conn message = Still_running"
| "session_rounds (Suc n) ssl c mock_nonce port shadow_pass cc opaq conn message =
     (case sasl_round ssl c mock_nonce port shadow_pass opaq (Packet_p message) of
        Inl e \<Rightarrow> Server_raised e
      | Inr (Inl status, out) \<Rightarrow>
          (if status \<noteq> STATUS_OK then Server_refused status
           else case out of
             [AUTH_REQ_SASL_FIN m] \<Rightarrow>
               (case pg_SASL_continue ssl cc conn m True of None \<Rightarrow> Client_failed | Some (conn, _) \<Rightarrow> Authenticated conn)
           | _ \<Rightarrow> Client_failed)
      | Inr (Inr st, out) \<Rightarrow>
          (case out of
             [AUTH_REQ_SASL_CONT m] \<Rightarrow>
               (case pg_SASL_continue ssl cc conn m False of
                  Some (conn, Some reply) \<Rightarrow> session_rounds n ssl c mock_nonce port shadow_pass cc (Some st) conn reply
                | _ \<Rightarrow> Client_failed)
           | _ \<Rightarrow> Client_failed))"

definition scram_session ::
  "openssl \<Rightarrow> (string \<Rightarrow> string option) \<Rightarrow> nat \<Rightarrow> nat \<Rightarrow> bytes \<Rightarrow> be_port \<Rightarrow> string option \<Rightarrow> fe_conn \<Rightarrow> session_end" where
  "scram_session ssl prep c cc mock_nonce port shadow_pass conn =
     (case pg_SASL_init ssl prep cc conn (scram_get_mechanisms port) of
        None \<Rightarrow> Client_failed
      | Some (conn, message) \<Rightarrow> session_rounds 3 ssl c mock_nonce port shadow_pass cc None conn message)"

section \<open>Reading what the other side wrote\<close>

lemma attr_value_comma:
  "CHR '','' \<notin> set v \<Longrightarrow> attr_value (v @ CHR '','' # r) = (v, r)"
  "CHR '','' \<notin> set v \<Longrightarrow> attr_value v = (v, [])"
  by (induction v) (auto simp: attr_value_def)

lemma str_bytes_bytes_str: "str_bytes (bytes_str bs) = bs"
proof -
  have "of_char (char_of (unat b)) = b" for b :: byte
  proof -
    have "(of_char (char_of (unat b)) :: byte) = of_nat (of_char (char_of (unat b)))"
      by (rule of_nat_of_char [symmetric])
    also have "\<dots> = of_nat (unat b mod 256)"
      by (simp only: of_char_of)
    also have "\<dots> = b"
    proof -
      have "unat b < 2 ^ LENGTH(8)"
        by (rule unsigned_less)
      then show ?thesis
        by simp
    qed
    finally show ?thesis .
  qed
  then show ?thesis
    by (simp add: str_bytes_def bytes_str_def comp_def)
qed

lemma initial_response_payload:
  assumes "length m < 2 ^ 31"
  shows "initial_response (bytes_str (be32 (of_nat (length m))) @ m) = Inr (Some m)"
proof -
  have l: "length (bytes_str (be32 w)) = 4" for w
    by (simp add: bytes_str_def)
  have "of_be32 (str_bytes (bytes_str (be32 (of_nat (length m))))) = of_nat (length m)"
    using of_be32_be32 [of "of_nat (length m)" "[]"] by (simp add: str_bytes_bytes_str)
  moreover have "sint (of_nat (length m) :: 32 word) = int (length m)"
    using assms int_of_long_small [of "int (length m)"] by (simp add: int_of_long_def)
  ultimately show ?thesis
    using l by (simp add: initial_response_def Let_def)
qed

lemma c_strlen_plain: "CHR 0x00 \<notin> set m \<Longrightarrow> c_strlen m = length m"
proof -
  assume "CHR 0x00 \<notin> set m"
  then have "takeWhile (\<lambda>c. c \<noteq> CHR 0x00) m = m"
    by (subst takeWhile_eq_all_conv) auto
  then show ?thesis
    unfolding c_strlen_def by (rule arg_cong)
qed

lemma c_strlen_zero: "CHR 0x00 \<notin> set m \<Longrightarrow> c_strlen (m @ CHR 0x00 # r) = length m"
  by (induction m) (auto simp: c_strlen_def)

lemma b64_text_no: "CHR '','' \<notin> set (b64_text bs)" "CHR 0x00 \<notin> set (b64_text bs)"
  using b64_text_plain [of bs] by auto

lemma int_text_no: "0 \<le> i \<Longrightarrow> CHR '','' \<notin> set (int_text i)" "0 \<le> i \<Longrightarrow> CHR 0x00 \<notin> set (int_text i)"
  using int_text_plain(2) [of i] by auto

lemma list_all_subset: "list_all P ys \<Longrightarrow> set xs \<subseteq> set ys \<Longrightarrow> list_all P xs"
  by (auto simp: list_all_iff)

lemma base64_chars_printable: "is_scram_printable (CHR ''='' # base64_chars)"
  by (simp add: base64_chars_def is_scram_printable_def)

lemma b64_text_printable: "is_scram_printable (b64_text bs)"
  using base64_chars_printable unfolding is_scram_printable_def
  by (rule list_all_subset) (use b64_text_symbols in simp)

section \<open>The rounds of an honest exchange\<close>

text \<open>The nonces and messages of an exchange with the given coins.\<close>

abbreviation nonce_text :: "openssl \<Rightarrow> nat \<Rightarrow> string" where
  "nonce_text ssl c \<equiv> b64_text (rand_buf ssl c SCRAM_RAW_NONCE_LEN)"

definition first_bare :: "string \<Rightarrow> string" where
  "first_bare cn = ''n=,r='' @ cn"

definition server_first :: "string \<Rightarrow> string \<Rightarrow> bytes \<Rightarrow> int \<Rightarrow> string" where
  "server_first cn sn salt i = ''r='' @ cn @ sn @ '',s='' @ b64_text salt @ '',i='' @ int_text i"

definition final_without_proof :: "string \<Rightarrow> string \<Rightarrow> string \<Rightarrow> string" where
  "final_without_proof cbind cn sn = ''c='' @ cbind @ '',r='' @ cn @ sn"

lemma server_reads_first:
  assumes "read_cbind_flag port st (f @ '',,'' @ first_bare cn) = Inr ('','' @ first_bare cn)"
    and "is_scram_printable cn" and "CHR '','' \<notin> set cn"
  shows "read_client_first_message port st (f @ '',,'' @ first_bare cn) =
    Inr (st \<lparr>ss_cbind_flag := hd (f @ '',''), ss_client_first_message_bare := first_bare cn,
      ss_client_username := [], ss_client_nonce := cn\<rparr>)"
proof -
  have "read_attr_value (CHR ''n'') (first_bare cn) = Inr ([], ''r='' @ cn)"
    by (simp add: read_attr_value_def first_bare_def attr_value_def)
  moreover have "read_attr_value (CHR ''r'') (''r='' @ cn) = Inr (cn, [])"
    using attr_value_comma(2) [OF assms(3)] by (simp add: read_attr_value_def)
  moreover have "first_bare cn \<noteq> []" "hd (first_bare cn) \<noteq> CHR ''m''"
    by (simp_all add: first_bare_def)
  moreover have "hd (f @ '',,'' @ first_bare cn) = hd (f @ '','')"
    by (cases f) simp_all
  ultimately show ?thesis
    using assms(1,2) by (simp add: read_client_first_message_def skip_extensions.simps [of "[]"])
qed

lemma server_first_built:
  assumes "rand_status ssl c = 1" and "ss_salt st = b64_text salt"
  shows "build_server_first_message ssl c st =
    Inr (server_first (ss_client_nonce st) (nonce_text ssl c) salt (ss_iterations st),
      st \<lparr>ss_server_nonce := nonce_text ssl c,
        ss_server_first_message := server_first (ss_client_nonce st) (nonce_text ssl c) salt (ss_iterations st)\<rparr>)"
  using assms be_b64_encode_text [of "rand_buf ssl c SCRAM_RAW_NONCE_LEN"] SCRAM_RAW_NONCE_LEN_def
  by (simp add: build_server_first_message_def pg_strong_random_def server_first_def Let_def)

lemma client_reads_first:
  assumes "fs_client_nonce st = cn" and "CHR '','' \<notin> set cn" and "CHR '','' \<notin> set sn" and "1 \<le> i" and "i < 2 ^ 31"
    and "short_salt salt"
  shows "read_server_first_message st (server_first cn sn salt i) =
    Some (st \<lparr>fs_server_first_message := server_first cn sn salt i, fs_nonce := cn @ sn, fs_salt := salt,
      fs_iterations := i\<rparr>)"
proof -
  have "fe_read_attr_value (CHR ''r'') (server_first cn sn salt i) = Some (cn @ sn, ''s='' @ b64_text salt @ '',i='' @ int_text i)"
    using attr_value_comma(1) [of "cn @ sn"] assms(2,3) by (simp add: fe_read_attr_value_def server_first_def)
  moreover have "fe_read_attr_value (CHR ''s'') (''s='' @ b64_text salt @ '',i='' @ int_text i) = Some (b64_text salt, ''i='' @ int_text i)"
    using attr_value_comma(1) [OF b64_text_no(1)] by (simp add: fe_read_attr_value_def)
  moreover have "fe_read_attr_value (CHR ''i'') (''i='' @ int_text i) = Some (int_text i, [])"
    using attr_value_comma(2) [OF int_text_no(1)] assms(4) by (simp add: fe_read_attr_value_def)
  moreover have "strtol10 (int_text i) = (i, [], False)" "int_of_long i = i"
    using assms(4,5) by (auto intro: strtol10_int_text)
  ultimately show ?thesis
    using assms(1,4,6) by (simp add: read_server_first_message_def b64_decode_field_text short_salt_def)
qed

lemma client_final_built:
  assumes "cbind_attribute conn st = Some (''c='' @ cb)" and "fs_nonce st = cn @ sn"
    and "st' = st \<lparr>fs_client_final_message_without_proof := final_without_proof cb cn sn\<rparr>"
    and "scram_SaltedPassword ssl (fs_password st) (fs_hash_type st) n (fs_salt st) (fs_iterations st) = Steps_ok salted"
    and "scram_ClientKey ssl salted (fs_hash_type st) n = Steps_ok ck"
    and "scram_H ssl ck (fs_hash_type st) n = Steps_ok sk"
    and "pg_hmac ssl (fs_hash_type st) sk (fe_auth_message st') n = Steps_ok sig"
    and "fs_key_length st = n" and "length ck = n" and "length sk = n" and "length sig = n"
    and "n \<le> 536870910"
  shows "build_client_final_message ssl conn st =
    Some (final_without_proof cb cn sn @ '',p='' @ b64_text (xor_bytes ck sig), st' \<lparr>fs_SaltedPassword := salted\<rparr>)"
proof -
  have fields: "fs_password st' = fs_password st" "fs_hash_type st' = fs_hash_type st" "fs_key_length st' = n"
      "fs_salt st' = fs_salt st" "fs_iterations st' = fs_iterations st"
    using assms(3,8) by simp_all
  have "calculate_client_proof ssl st' = Steps_ok (xor_bytes ck sig, st' \<lparr>fs_SaltedPassword := salted\<rparr>)"
    unfolding calculate_client_proof_def fields using assms(4-7,10) by simp
  moreover have "st \<lparr>fs_client_final_message_without_proof := (''c='' @ cb) @ '',r='' @ fs_nonce st\<rparr> = st'"
    using assms(2,3) by (simp add: final_without_proof_def)
  moreover have "pg_b64_encode (xor_bytes ck sig) (pg_b64_enc_len (int n)) = Some (b64_text (xor_bytes ck sig))"
    using assms(9,11,12) by (simp add: pg_b64_encode_text pg_b64_enc_len_size)
  ultimately show ?thesis
    using assms(1,2,9,11) fields(3)
    by (simp add: build_client_final_message_def final_without_proof_def)
qed

lemma server_reads_final:
  assumes "check_channel_binding port st cb = Inr ()" and "length prf = ss_key_length st"
    and "CHR '','' \<notin> set cb" and "CHR '','' \<notin> set cn" and "CHR '','' \<notin> set sn"
    and "ss_key_length st \<le> 536870910"
  shows "read_client_final_message port st (final_without_proof cb cn sn @ '',p='' @ b64_text prf) =
    Inr (st \<lparr>ss_client_final_nonce := cn @ sn, ss_ClientProof := prf,
      ss_client_final_message_without_proof := final_without_proof cb cn sn\<rparr>)"
proof -
  let ?w = "final_without_proof cb cn sn" and ?p = "''p='' @ b64_text prf"
  have "read_attr_value (CHR ''c'') (?w @ '',p='' @ b64_text prf) = Inr (cb, (''r='' @ cn @ sn) @ '','' @ ?p)"
    using attr_value_comma(1) [OF assms(3)] by (simp add: read_attr_value_def final_without_proof_def)
  moreover have "read_attr_value (CHR ''r'') ((''r='' @ cn @ sn) @ '','' @ ?p) = Inr (cn @ sn, ?p)"
    using attr_value_comma(1) [of "cn @ sn"] assms(4,5) by (simp add: read_attr_value_def)
  moreover have "find_proof ?p = Inr (?p, b64_text prf, [])"
    using attr_value_comma(2) [OF b64_text_no(1)]
    by (subst find_proof.simps) (simp add: read_any_attr_def is_alpha_def)
  moreover have "take (length (?w @ '',p='' @ b64_text prf) - length ?p - 1) (?w @ '',p='' @ b64_text prf) = ?w"
    by simp
  ultimately show ?thesis
    unfolding read_client_final_message_def using assms(1,2)
      b64_decode_field_text [OF assms(6) [folded assms(2)]]
    by (simp only: rbind_simps prod.case option.case) simp
qed

lemma server_accepts_proof:
  assumes "pg_hmac ssl (ss_hash_type st) (ss_StoredKey st) (be_auth_message st) (ss_key_length st) = Steps_ok sig"
    and "scram_H ssl ck (ss_hash_type st) (ss_key_length st) = Steps_ok (ss_StoredKey st)"
    and "ss_ClientProof st = xor_bytes ck sig"
    and "length ck = ss_key_length st" and "length sig = ss_key_length st" and "length (ss_StoredKey st) = ss_key_length st"
  shows "verify_client_proof ssl st = Inr True"
proof -
  have "xor_bytes (xor_bytes ck sig) sig = ck"
    using assms(4,5) by (simp add: xor_simps)
  then show ?thesis
    using assms by (simp add: verify_client_proof_def be_hash_def)
qed

lemma server_final_built:
  assumes "pg_hmac ssl (ss_hash_type st) (ss_ServerKey st) (be_auth_message st) (ss_key_length st) = Steps_ok sig"
    and "length sig = ss_key_length st" and "length (ss_ServerKey st) = ss_key_length st"
    and "ss_key_length st \<le> 536870910"
  shows "build_server_final_message ssl st = Inr (''v='' @ b64_text sig)"
  using assms be_b64_encode_text [of sig] by (simp add: build_server_final_message_def be_hash_def)

lemma client_reads_final:
  assumes "length sig = fs_key_length st" and "fs_key_length st \<le> 536870910"
  shows "read_server_final_message st (''v='' @ b64_text sig) =
    Some (st \<lparr>fs_server_final_message := ''v='' @ b64_text sig, fs_ServerSignature := sig\<rparr>)"
  using assms attr_value_comma(2) [OF b64_text_no(1)]
  by (simp add: read_server_final_message_def fe_read_attr_value_def b64_decode_field_text)

text \<open>Both sides agree on channel binding: no binding and a client that does not
  claim to support it, or SCRAM-SHA-256-PLUS and the same certificate hash.\<close>

definition binding_agrees :: "be_port \<Rightarrow> fe_conn \<Rightarrow> string \<Rightarrow> bool \<Rightarrow> string \<Rightarrow> bool" where
  "binding_agrees port conn mech cbu cb \<longleftrightarrow>
     \<not> cbu \<and> mech \<noteq> SCRAM_SHA_256_PLUS_NAME \<and> (cb_disabled conn \<or> \<not> fe_ssl_in_use conn) \<and> cb = ''biws''
     \<or> cbu \<and> mech = SCRAM_SHA_256_PLUS_NAME \<and>
       (\<exists>h. be_certificate_hash port = Some h \<and> peer_certificate_hash conn = Some h \<and> h \<noteq> [] \<and> length h \<le> 64
          \<and> cb = b64_text (str_bytes cbind_header @ h))"

lemma binding_agrees_flag:
  assumes "binding_agrees port conn mech cbu cb" and "fs_sasl_mechanism fs = mech" and "ss_channel_binding_in_use st = cbu"
  shows "read_cbind_flag port st (gs2_flag conn fs @ '',,'' @ r) = Inr ('','' @ r)"
  using assms attr_value_comma(1) [of "''tls-server-end-point''"]
  by (auto simp: binding_agrees_def gs2_flag_def read_cbind_flag_def read_attr_value_def)

lemma cbind_header_length: "length cbind_header = 24"
  by (simp add: cbind_header_def)

lemma cbind_encoded:
  assumes "length h \<le> 64"
  shows "pg_b64_encode (str_bytes cbind_header @ h) (pg_b64_enc_len (int (length cbind_header + length h))) =
    Some (b64_text (str_bytes cbind_header @ h))"
  using pg_b64_encode_exact [of "str_bytes cbind_header @ h"] assms by (simp add: cbind_header_length)

lemma binding_agrees_attribute:
  assumes "binding_agrees port conn mech cbu cb" and "fs_sasl_mechanism fs = mech"
  shows "cbind_attribute conn fs = Some (''c='' @ cb)"
proof (cases cbu)
  case True
  then obtain h where h: "peer_certificate_hash conn = Some h" "h \<noteq> []" "length h \<le> 64"
      "mech = SCRAM_SHA_256_PLUS_NAME" "cb = b64_text (str_bytes cbind_header @ h)"
    using assms(1) unfolding binding_agrees_def by auto
  show ?thesis
    unfolding cbind_attribute_def using h assms(2) cbind_encoded [OF h(3)] by simp
qed (use assms in \<open>auto simp: binding_agrees_def cbind_attribute_def\<close>)

lemma binding_agrees_checked:
  assumes "binding_agrees port conn mech cbu cb" and "ss_channel_binding_in_use st = cbu"
    and "ss_cbind_flag st = hd (gs2_flag conn fs @ '','')" and "fs_sasl_mechanism fs = mech"
  shows "check_channel_binding port st cb = Inr ()"
proof (cases cbu)
  case True
  then obtain b bs where "be_certificate_hash port = Some (b # bs)" "length (b # bs) \<le> 64" "cb = b64_text (str_bytes cbind_header @ b # bs)"
    using assms(1) by (auto simp: binding_agrees_def neq_Nil_conv)
  then show ?thesis
    using True assms(2) be_b64_encode_text [of "str_bytes cbind_header @ b # bs"]
    by (simp add: check_channel_binding_def cbind_header_length)
qed (use assms in \<open>auto simp: binding_agrees_def check_channel_binding_def gs2_flag_def\<close>)

lemma binding_agrees_plain:
  assumes "binding_agrees port conn mech cbu cb"
  shows "CHR '','' \<notin> set cb" "CHR 0x00 \<notin> set cb" "length cb \<le> 120"
proof -
  show "CHR '','' \<notin> set cb" "CHR 0x00 \<notin> set cb"
    using assms b64_text_no by (auto simp: binding_agrees_def)
  have "b64_size (24 + k) \<le> 120" if "k \<le> 64" for k
  proof -
    have "(24 + k + 2) div 3 \<le> (90 :: nat) div 3"
      using that by (intro div_le_mono) simp
    then show ?thesis
      by (simp add: b64_size_def)
  qed
  then show "length cb \<le> 120"
    using assms by (auto simp: binding_agrees_def b64_text_length cbind_header_length)
qed

lemma nonce_text_plain:
  "CHR '','' \<notin> set (nonce_text ssl c)" "CHR 0x00 \<notin> set (nonce_text ssl c)" "length (nonce_text ssl c) = 24"
  using b64_text_no by (auto simp: b64_text_length SCRAM_RAW_NONCE_LEN_def b64_size_def)

text \<open>The secret a role has, as the state holds it.\<close>

definition built_secret :: "pg_cryptohash_type \<Rightarrow> nat \<Rightarrow> int \<Rightarrow> bytes \<Rightarrow> bytes \<Rightarrow> bytes \<Rightarrow> scram_secret" where
  "built_secret t n i salt sk vk = \<lparr>sec_iterations = i, sec_hash_type = t, sec_key_length = n,
     sec_salt = b64_text salt, sec_StoredKey = sk, sec_ServerKey = vk\<rparr>"

lemma honest_round_one:
  assumes "binding_agrees port conn mech cbu cb" and "fs_sasl_mechanism fs = mech"
    and "be_scram_init ssl mn port mech shadow = Inr st" and "ss_channel_binding_in_use st = cbu"
    and "ss_state st = SCRAM_AUTH_INIT" and "ss_salt st = b64_text salt" and "ss_iterations st = i"
    and "CHR 0x00 \<notin> set mech" and "length mech \<le> 18" and "rand_status ssl c = 1" and "cn = nonce_text ssl cc"
  shows "sasl_round ssl c mn port shadow None
      (Packet_p (initial_payload mech (gs2_flag conn fs @ '',,'' @ first_bare cn))) =
    Inr (Inr (st \<lparr>ss_cbind_flag := hd (gs2_flag conn fs @ '',''), ss_client_first_message_bare := first_bare cn,
        ss_client_username := [], ss_client_nonce := cn, ss_server_nonce := nonce_text ssl c,
        ss_server_first_message := server_first cn (nonce_text ssl c) salt i, ss_state := SCRAM_AUTH_SALT_SENT\<rparr>),
      [AUTH_REQ_SASL_CONT (server_first cn (nonce_text ssl c) salt i)])"
proof -
  let ?m = "gs2_flag conn fs @ '',,'' @ first_bare cn" and ?p = "initial_payload mech (gs2_flag conn fs @ '',,'' @ first_bare cn)"
  have m: "CHR 0x00 \<notin> set ?m" "?m \<noteq> []" "length ?m \<le> 60"
    using nonce_text_plain [of ssl cc] assms(11) by (auto simp: gs2_flag_def first_bare_def)
  have strlen: "c_strlen ?p = length mech"
    using c_strlen_zero [OF assms(8)] by (simp add: initial_payload_def)
  have p: "length ?p \<le> 83"
    using m(3) assms(9) by (simp add: initial_payload_def bytes_str_def)
  have "initial_response (bytes_str (be32 (of_nat (length ?m))) @ ?m) = Inr (Some ?m)"
    by (rule initial_response_payload) (use m(3) in simp)
  then have "initial_packet ssl mn port shadow ?p = Inr (st, Some ?m)"
    using assms(3) unfolding initial_packet_def strlen by (simp add: initial_payload_def)
  moreover have "is_scram_printable cn" "CHR '','' \<notin> set cn"
    unfolding assms(11) by (rule b64_text_printable, rule nonce_text_plain(1))
  then have "read_client_first_message port st ?m = Inr (st \<lparr>ss_cbind_flag := hd (gs2_flag conn fs @ '',''),
      ss_client_first_message_bare := first_bare cn, ss_client_username := [], ss_client_nonce := cn\<rparr>)"
    using binding_agrees_flag [OF assms(1,2,4)] by (intro server_reads_first)
  ultimately show ?thesis
    using p m c_strlen_plain [OF m(1)] assms(5,6,7,10)
    by (simp add: sasl_round_def PG_MAX_SASL_MESSAGE_LENGTH_def be_scram_exchange_def server_first_built)
qed

lemma server_first_plain:
  assumes "cn = nonce_text ssl cc" and "sn = nonce_text ssl c" and "1 \<le> i"
  shows "CHR 0x00 \<notin> set (server_first cn sn salt i)" "server_first cn sn salt i \<noteq> []"
  using assms b64_text_no(2) int_text_no(2) [of i] by (auto simp: server_first_def)

lemma honest_answer:
  assumes conn: "sasl_state conn = Some fs" and fs: "fs_state fs = FE_SCRAM_NONCE_SENT" "fs_hash_type fs = t"
      "fs_key_length fs = n" "fs_client_nonce fs = cn" "fs_client_first_message_bare fs = first_bare cn"
      "fs_sasl_mechanism fs = mech"
    and cb: "binding_agrees port conn mech cbu cb"
    and nonces: "cn = nonce_text ssl cc" "sn = nonce_text ssl c" and i: "1 \<le> i" "i < 2 ^ 31"
    and keys: "scram_SaltedPassword ssl (fs_password fs) t n salt i = Steps_ok salted"
      "scram_ClientKey ssl salted t n = Steps_ok ck" "scram_H ssl ck t n = Steps_ok sk"
      "length ck = n" "length sk = n" "length sig = n" "n \<le> 48" "short_salt salt"
    and sig: "pg_hmac ssl t sk (auth_message (first_bare cn) (server_first cn sn salt i) (final_without_proof cb cn sn)) n =
      Steps_ok sig"
  shows "\<exists>fs2. pg_SASL_continue ssl cc conn (server_first cn sn salt i) False =
      Some (conn \<lparr>sasl_state := Some fs2\<rparr>,
        Some (final_without_proof cb cn sn @ '',p='' @ b64_text (xor_bytes ck sig)))
    \<and> fs_state fs2 = FE_SCRAM_PROOF_SENT \<and> fs_SaltedPassword fs2 = salted \<and> fs_hash_type fs2 = t \<and> fs_key_length fs2 = n
    \<and> fe_auth_message fs2 =
      auth_message (first_bare cn) (server_first cn sn salt i) (final_without_proof cb cn sn)"
proof -
  let ?m = "server_first cn sn salt i" and ?w = "final_without_proof cb cn sn"
  define fs1 where "fs1 = fs \<lparr>fs_server_first_message := ?m, fs_nonce := cn @ sn, fs_salt := salt, fs_iterations := i\<rparr>"
  define fs2 where "fs2 = fs1 \<lparr>fs_client_final_message_without_proof := ?w\<rparr>"
  have read: "read_server_first_message fs ?m = Some fs1"
    unfolding fs1_def using fs(4) i nonces nonce_text_plain(1) keys(8) by (intro client_reads_first) auto
  have msg: "fe_auth_message fs2 = auth_message (first_bare cn) ?m ?w"
    using fs(5) by (simp add: fe_auth_message_def fs1_def fs2_def)
  have "build_client_final_message ssl conn fs1 =
      Some (?w @ '',p='' @ b64_text (xor_bytes ck sig), fs2 \<lparr>fs_SaltedPassword := salted\<rparr>)"
    using keys sig fs binding_agrees_attribute [OF cb, of fs1]
    by (intro client_final_built [where st' = fs2 and n = n and salted = salted and sk = sk])
      (simp_all add: fs2_def [symmetric] msg, simp_all add: fs1_def fs2_def)
  then have "fe_scram_exchange ssl cc conn fs ?m = (SASL_CONTINUE, Some (?w @ '',p='' @ b64_text (xor_bytes ck sig)),
      fs2 \<lparr>fs_SaltedPassword := salted, fs_state := FE_SCRAM_PROOF_SENT\<rparr>, False)"
    using read fs(1) server_first_plain [OF nonces i(1)] c_strlen_plain [of ?m] by (simp add: fe_scram_exchange_def)
  then show ?thesis
    using conn fs msg
    by (intro exI [of _ "fs2 \<lparr>fs_SaltedPassword := salted, fs_state := FE_SCRAM_PROOF_SENT\<rparr>"])
      (simp add: pg_SASL_continue_def fs1_def fs2_def fe_auth_message_def)
qed

lemma honest_round_two:
  assumes st: "ss_state st = SCRAM_AUTH_SALT_SENT" "secret_loaded (built_secret t n i salt sk vk) st" "\<not> ss_doomed st"
      "ss_client_nonce st = cn" "ss_server_nonce st = sn" "ss_client_first_message_bare st = first_bare cn"
      "ss_server_first_message st = server_first cn sn salt i"
    and check: "\<And>st'. ss_channel_binding_in_use st' = ss_channel_binding_in_use st \<Longrightarrow> ss_cbind_flag st' = ss_cbind_flag st
      \<Longrightarrow> check_channel_binding port st' cb = Inr ()"
    and cb: "CHR '','' \<notin> set cb" "CHR 0x00 \<notin> set cb" "length cb \<le> 120"
    and nonces: "cn = nonce_text ssl cc" "sn = nonce_text ssl c"
    and keys: "scram_H ssl ck t n = Steps_ok sk" "length ck = n" "length sk = n" "length vk = n" "n \<le> 48"
    and sig: "pg_hmac ssl t sk (auth_message (first_bare cn) (server_first cn sn salt i) (final_without_proof cb cn sn)) n =
      Steps_ok sig" "length sig = n"
    and vsig: "pg_hmac ssl t vk (auth_message (first_bare cn) (server_first cn sn salt i) (final_without_proof cb cn sn)) n =
      Steps_ok vsig" "length vsig = n"
  shows "sasl_round ssl c mn port shadow (Some st)
      (Packet_p (final_without_proof cb cn sn @ '',p='' @ b64_text (xor_bytes ck sig))) =
    Inr (Inl STATUS_OK, [AUTH_REQ_SASL_FIN (''v='' @ b64_text vsig)])"
proof -
  let ?w = "final_without_proof cb cn sn"
  let ?m = "?w @ '',p='' @ b64_text (xor_bytes ck sig)"
  define st' where "st' = st \<lparr>ss_client_final_nonce := cn @ sn, ss_ClientProof := xor_bytes ck sig,
    ss_client_final_message_without_proof := ?w\<rparr>"
  have fields: "ss_hash_type st' = t" "ss_key_length st' = n" "ss_StoredKey st' = sk" "ss_ServerKey st' = vk"
      "ss_ClientProof st' = xor_bytes ck sig"
      "be_auth_message st' = auth_message (first_bare cn) (server_first cn sn salt i) ?w"
    using st by (simp_all add: st'_def secret_loaded_def built_secret_def be_auth_message_def)
  have "read_client_final_message port st ?m = Inr st'"
    unfolding st'_def using st(2) keys sig(2) cb nonces nonce_text_plain(1) check
    by (intro server_reads_final) (simp_all add: secret_loaded_def built_secret_def)
  moreover have "verify_final_nonce st'"
    using st by (simp add: verify_final_nonce_def st'_def)
  moreover have "verify_client_proof ssl st' = Inr True"
    by (rule server_accepts_proof [where ck = ck and sig = sig]) (simp_all add: fields keys sig)
  moreover have "build_server_final_message ssl st' = Inr (''v='' @ b64_text vsig)"
    by (rule server_final_built) (use keys(5) in \<open>simp_all add: fields keys(1-4) vsig\<close>)
  moreover have "\<not> ss_doomed st'"
    using st(3) by (simp add: st'_def)
  moreover have "CHR 0x00 \<notin> set ?m" "?m \<noteq> []"
    using cb(2) nonces b64_text_no(2) by (auto simp: final_without_proof_def)
  moreover have "length ?m + 4 \<le> 1024"
  proof -
    have "b64_size n \<le> b64_size 48"
      using keys(5) by (simp add: b64_size_def div_le_mono)
    then show ?thesis
      using cb(3) keys(2) sig(2) nonces nonce_text_plain(3)
      by (simp add: final_without_proof_def b64_text_length b64_size_def)
  qed
  ultimately show ?thesis
    using st(1) c_strlen_plain [of ?m]
    by (simp add: sasl_round_def PG_MAX_SASL_MESSAGE_LENGTH_def be_scram_exchange_def)
qed

lemma honest_finish:
  assumes conn: "sasl_state conn = Some fs" and fs: "fs_state fs = FE_SCRAM_PROOF_SENT" "fs_hash_type fs = t"
      "fs_key_length fs = n" "fs_SaltedPassword fs = salted"
    and keys: "scram_ServerKey ssl salted t n = Steps_ok vk" "length vk = n"
    and vsig: "pg_hmac ssl t vk (fe_auth_message fs) n = Steps_ok vsig" "length vsig = n" "n \<le> 48"
  shows "\<exists>conn'. pg_SASL_continue ssl cc conn (''v='' @ b64_text vsig) True = Some (conn', None)
    \<and> client_finished_auth conn'"
proof -
  define fs1 where "fs1 = fs \<lparr>fs_server_final_message := ''v='' @ b64_text vsig, fs_ServerSignature := vsig\<rparr>"
  have "fe_auth_message fs1 = fe_auth_message fs"
    by (simp add: fe_auth_message_def fs1_def)
  then have "verify_server_signature ssl fs1 = Steps_ok True"
    using fs keys vsig by (simp add: verify_server_signature_def fs1_def)
  moreover have "read_server_final_message fs (''v='' @ b64_text vsig) = Some fs1"
    unfolding fs1_def using vsig(2,3) fs(3) by (intro client_reads_final) simp_all
  moreover have "CHR 0x00 \<notin> set (''v='' @ b64_text vsig)"
    using b64_text_no(2) by simp
  ultimately show ?thesis
    using conn fs(1) c_strlen_plain [of "''v='' @ b64_text vsig"]
    by (simp add: pg_SASL_continue_def fe_scram_exchange_def)
qed

text \<open>The keys of a password, as both sides derive them.\<close>

lemma scram_keys_exist:
  assumes "digests_total ssl" and "scram_hash t n"
  obtains salted ck sk vk where "scram_SaltedPassword ssl pw t n salt i = Steps_ok salted"
    "scram_ClientKey ssl salted t n = Steps_ok ck" "scram_H ssl ck t n = Steps_ok sk"
    "scram_ServerKey ssl salted t n = Steps_ok vk" "length ck = n" "length sk = n" "length vk = n"
    "scram_keys ssl t n salt i pw = Steps_ok (sk, vk)"
proof -
  obtain salted where 1: "scram_SaltedPassword ssl pw t n salt i = Steps_ok salted"
    using scram_SaltedPassword_total [OF assms] by blast
  obtain ck where 2: "scram_ClientKey ssl salted t n = Steps_ok ck" "length ck = n"
    using pg_hmac_total [OF assms] unfolding scram_ClientKey_def by blast
  obtain sk where 3: "scram_H ssl ck t n = Steps_ok sk" "length sk = n"
    using scram_H_total [OF assms] by blast
  obtain vk where 4: "scram_ServerKey ssl salted t n = Steps_ok vk" "length vk = n"
    using pg_hmac_total [OF assms] unfolding scram_ServerKey_def by blast
  have "scram_keys ssl t n salt i pw = Steps_ok (sk, vk)"
    using 1 2 3 4 by (simp add: scram_keys_def)
  with that 1 2 3 4 show ?thesis
    by blast
qed

lemma secret_password_type:
  assumes "scram_hash t n" and "length sk = n" and "length vk = n" and "short_salt salt" and "0 \<le> i" and "i < 2 ^ 31"
  shows "get_password_type (secret_text t i salt sk vk) =
    (if t = PG_SHA384 then PASSWORD_TYPE_SCRAM_SHA_384 else PASSWORD_TYPE_SCRAM_SHA_256)"
proof -
  have "take 3 (secret_text t i salt sk vk) \<noteq> ''md5''"
    by (simp add: secret_text_def scheme_name_def)
  then show ?thesis
    using parse_scram_secret_text [OF assms] by (simp add: get_password_type_def)
qed

lemma be_scram_init_secret:
  assumes "scram_select port mech = Inr st0" and "scram_hash t n" and "length sk = n" and "length vk = n"
    and "short_salt salt" and "0 \<le> i" and "i < 2 ^ 31"
  shows "\<exists>st. be_scram_init ssl mn port mech (Some (secret_text t i salt sk vk)) = Inr st
    \<and> secret_loaded (built_secret t n i salt sk vk) st
    \<and> ss_channel_binding_in_use st = ss_channel_binding_in_use st0 \<and> ss_doomed st = ss_doomed st0
    \<and> ss_state st = SCRAM_AUTH_INIT"
  using assms(1) scram_select_state [OF assms(1)] parse_scram_secret_text [OF assms(2-7)] secret_password_type [OF assms(2-7)]
  by (simp add: be_scram_init_def load_secret_def secret_loaded_def built_secret_def)

text \<open>The dialogue after the mechanism is chosen.\<close>

lemma honest_rounds:
  assumes ssl: "digests_total ssl" "rand_status ssl c = 1" and hash: "scram_hash t n"
    and init: "be_scram_init ssl mn port mech shadow = Inr st" "ss_channel_binding_in_use st = cbu"
      "ss_state st = SCRAM_AUTH_INIT" "\<not> ss_doomed st" "secret_loaded (built_secret t n i salt sk vk) st"
    and keys: "scram_SaltedPassword ssl (fs_password fs) t n salt i = Steps_ok salted"
      "scram_ClientKey ssl salted t n = Steps_ok ck" "scram_H ssl ck t n = Steps_ok sk"
      "scram_ServerKey ssl salted t n = Steps_ok vk" "length ck = n" "length sk = n" "length vk = n"
    and conn: "sasl_state conn = Some fs" "fs_state fs = FE_SCRAM_NONCE_SENT" "fs_hash_type fs = t"
      "fs_key_length fs = n" "fs_client_nonce fs = nonce_text ssl cc"
      "fs_client_first_message_bare fs = first_bare (nonce_text ssl cc)" "fs_sasl_mechanism fs = mech"
    and cb: "binding_agrees port conn mech cbu cb" and mech: "CHR 0x00 \<notin> set mech" "length mech \<le> 18"
    and i: "1 \<le> i" "i < 2 ^ 31" and salt: "short_salt salt"
  shows "\<exists>conn'. session_rounds 3 ssl c mn port shadow cc None conn
      (initial_payload mech (gs2_flag conn fs @ '',,'' @ first_bare (nonce_text ssl cc))) = Authenticated conn'
    \<and> client_finished_auth conn'"
proof -
  define cn sn where "cn = nonce_text ssl cc" and "sn = nonce_text ssl c"
  define A where "A = auth_message (first_bare cn) (server_first cn sn salt i) (final_without_proof cb cn sn)"
  define st1 where "st1 = st \<lparr>ss_cbind_flag := hd (gs2_flag conn fs @ '',''), ss_client_first_message_bare := first_bare cn,
        ss_client_username := [], ss_client_nonce := cn, ss_server_nonce := sn,
        ss_server_first_message := server_first cn sn salt i, ss_state := SCRAM_AUTH_SALT_SENT\<rparr>"
  have n: "n \<le> 48"
    using scram_hash_length [OF hash] by simp
  obtain sig where sig: "pg_hmac ssl t sk A n = Steps_ok sig" "length sig = n"
    using pg_hmac_total [OF ssl(1) hash] by blast
  obtain vsig where vsig: "pg_hmac ssl t vk A n = Steps_ok vsig" "length vsig = n"
    using pg_hmac_total [OF ssl(1) hash] by blast
  have one: "sasl_round ssl c mn port shadow None (Packet_p (initial_payload mech (gs2_flag conn fs @ '',,'' @ first_bare cn))) =
      Inr (Inr st1, [AUTH_REQ_SASL_CONT (server_first cn sn salt i)])"
    unfolding st1_def sn_def
    by (rule honest_round_one [OF cb conn(7) init(1,2,3) _ _ mech ssl(2) cn_def])
      (use init(5) in \<open>simp_all add: secret_loaded_def built_secret_def\<close>)
  obtain fs2 where answer: "pg_SASL_continue ssl cc conn (server_first cn sn salt i) False =
        Some (conn \<lparr>sasl_state := Some fs2\<rparr>, Some (final_without_proof cb cn sn @ '',p='' @ b64_text (xor_bytes ck sig)))"
      and fs2: "fs_state fs2 = FE_SCRAM_PROOF_SENT" "fs_SaltedPassword fs2 = salted" "fs_hash_type fs2 = t"
        "fs_key_length fs2 = n" "fe_auth_message fs2 = A"
    using honest_answer [OF conn(1,2,3,4) _ _ conn(7) cb cn_def sn_def i keys(1,2,3,5,6) sig(2) n salt] conn(5,6) sig(1)
    unfolding A_def cn_def by blast
  have "check_channel_binding port st' cb = Inr ()"
    if "ss_channel_binding_in_use st' = ss_channel_binding_in_use st1" "ss_cbind_flag st' = ss_cbind_flag st1" for st'
    by (rule binding_agrees_checked [OF cb _ _ conn(7)]) (use that init(2) in \<open>simp_all add: st1_def\<close>)
  then have two: "sasl_round ssl c mn port shadow (Some st1)
      (Packet_p (final_without_proof cb cn sn @ '',p='' @ b64_text (xor_bytes ck sig))) =
      Inr (Inl STATUS_OK, [AUTH_REQ_SASL_FIN (''v='' @ b64_text vsig)])"
    using init(4,5) binding_agrees_plain [OF cb] keys sig vsig n
    by (intro honest_round_two [where t = t and n = n and sk = sk and vk = vk and i = i and salt = salt and ck = ck
          and cc = cc and ssl = ssl])
      (simp_all add: st1_def secret_loaded_def built_secret_def cn_def sn_def A_def)
  have "\<exists>conn'. pg_SASL_continue ssl cc (conn \<lparr>sasl_state := Some fs2\<rparr>) (''v='' @ b64_text vsig) True = Some (conn', None)
      \<and> client_finished_auth conn'"
    using fs2 keys vsig n by (intro honest_finish [where fs = fs2 and t = t and n = n and salted = salted and vk = vk]) simp_all
  then show ?thesis
    using one answer two by (auto simp: numeral_3_eq_3 cn_def)
qed

section \<open>Properties\<close>

text \<open>Connections on which an exchange can succeed: both ends see the same use of
  TLS; without TLS the client does not require channel binding; with TLS it
  has disabled channel binding, or the method is not pqc-scram-sha-384 and
  both ends have the same certificate hash.\<close>

definition scram_compatible :: "be_port \<Rightarrow> fe_conn \<Rightarrow> bool" where
  "scram_compatible port conn \<longleftrightarrow>
     fe_ssl_in_use conn = be_ssl_in_use port
     \<and> (\<not> be_ssl_in_use port \<and> \<not> cb_required conn
        \<or> be_ssl_in_use port \<and> cb_disabled conn
        \<or> be_ssl_in_use port \<and> auth_method port \<noteq> uaPQCSCRAM
          \<and> (\<exists>h. be_certificate_hash port = Some h \<and> peer_certificate_hash conn = Some h \<and> h \<noteq> [] \<and> length h \<le> 64))"

text \<open>The hash, key length, password type and iteration count a method works with.\<close>

definition method_hash :: "be_port \<Rightarrow> pg_cryptohash_type \<times> nat" where
  "method_hash port =
     (if auth_method port = uaPQCSCRAM then (PG_SHA384, SCRAM_SHA_384_KEY_LEN) else (PG_SHA256, SCRAM_SHA_256_KEY_LEN))"

definition method_password_type :: "be_port \<Rightarrow> PasswordType" where
  "method_password_type port =
     (if auth_method port = uaPQCSCRAM then PASSWORD_TYPE_SCRAM_SHA_384 else PASSWORD_TYPE_SCRAM_SHA_256)"

lemma cb_required_not_disabled: "cb_required conn \<Longrightarrow> \<not> cb_disabled conn"
  by (simp add: cb_required_def cb_disabled_def)

lemma compatible_mechanism:
  assumes "scram_compatible port conn"
  shows "\<exists>mech st0 cb. select_mechanism conn (scram_get_mechanisms port) None = Some (Some mech)
    \<and> \<not> (cb_required conn \<and> mech \<noteq> SCRAM_SHA_256_PLUS_NAME \<and> mech \<noteq> SCRAM_SHA_384_PLUS_NAME)
    \<and> scram_select port mech = Inr st0 \<and> \<not> ss_doomed st0
    \<and> binding_agrees port conn mech (ss_channel_binding_in_use st0) cb
    \<and> (fs_hash_type (fe_scram_init prep pw mech), fs_key_length (fe_scram_init prep pw mech)) = method_hash port
    \<and> CHR 0x00 \<notin> set mech \<and> length mech \<le> 18"
proof -
  note defs = scram_select_def scram_get_mechanisms_def scram_names fe_scram_init_def method_hash_def
    scram_state_zero_def binding_agrees_def Let_def
  consider (plain) "\<not> be_ssl_in_use port" "\<not> fe_ssl_in_use conn" "\<not> cb_required conn"
    | (disabled) "be_ssl_in_use port" "fe_ssl_in_use conn" "cb_disabled conn" "\<not> cb_required conn"
    | (bound) h where "be_ssl_in_use port" "fe_ssl_in_use conn" "\<not> cb_disabled conn" "auth_method port \<noteq> uaPQCSCRAM"
        "be_certificate_hash port = Some h" "peer_certificate_hash conn = Some h" "h \<noteq> []" "length h \<le> 64"
    using assms cb_required_not_disabled [of conn] by (auto simp: scram_compatible_def)
  then show ?thesis
  proof cases
    case plain
    then show ?thesis
      by (cases "auth_method port = uaPQCSCRAM") (simp_all add: defs)
  next
    case disabled
    then show ?thesis
      by (cases "auth_method port = uaPQCSCRAM") (simp_all add: defs)
  next
    case bound
    then show ?thesis
      by (simp add: defs)
  qed
qed

lemma method_hash_scram: "method_hash port = (t, n) \<Longrightarrow> scram_hash t n"
  by (auto simp: method_hash_def scram_hash_def split: if_splits)

lemma short_salt_rand: "short_salt (rand_buf ssl cs SCRAM_DEFAULT_SALT_LEN)"
  using length_rand_buf [of ssl cs SCRAM_DEFAULT_SALT_LEN]
  by (auto simp: short_salt_def SCRAM_DEFAULT_SALT_LEN_def simp del: length_rand_buf)

lemma encrypt_password_secret:
  assumes "digests_total ssl" and "rand_status ssl cs = 1" and "get_password_type pw = PASSWORD_TYPE_PLAINTEXT"
    and "method_hash port = (t, n)" and "scram_keys ssl t n (rand_buf ssl cs SCRAM_DEFAULT_SALT_LEN) i (prepared_password prep pw) =
      Steps_ok (sk, vk)" and "length sk = n" and "length vk = n"
    and "i = (if auth_method port = uaPQCSCRAM then SCRAM_SHA_384_DEFAULT_ITERATIONS else iterations)"
  shows "encrypt_password ssl prep cs iterations (method_password_type port) role pw =
    Inr (secret_text t i (rand_buf ssl cs SCRAM_DEFAULT_SALT_LEN) sk vk)"
  using assms scram_build_secret_text [OF assms(5-7) method_hash_scram [OF assms(4)] short_salt_rand]
  by (auto simp: encrypt_password_def method_password_type_def method_hash_def pg_be_scram_build_secret_def
      pg_be_scram_build_secret_sha384_def random_salt_def pg_strong_random_def split: if_splits)

lemma client_starts:
  assumes "rand_status ssl cc = 1" and "fe_password conn = Some pw" and "pw \<noteq> []" and "sasl_state conn = None"
    and "fe_ssl_in_use conn \<or> \<not> cb_required conn" and "select_mechanism conn mechs None = Some (Some mech)"
    and "\<not> (cb_required conn \<and> mech \<noteq> SCRAM_SHA_256_PLUS_NAME \<and> mech \<noteq> SCRAM_SHA_384_PLUS_NAME)"
    and "fs = fe_scram_init prep pw mech \<lparr>fs_client_nonce := nonce_text ssl cc,
      fs_client_first_message_bare := first_bare (nonce_text ssl cc), fs_state := FE_SCRAM_NONCE_SENT\<rparr>"
  shows "pg_SASL_init ssl prep cc conn mechs =
    Some (conn \<lparr>sasl_state := Some fs\<rparr>, initial_payload mech (gs2_flag conn fs @ '',,'' @ first_bare (nonce_text ssl cc)))"
proof -
  let ?fs0 = "fe_scram_init prep pw mech"
  have "build_client_first_message ssl cc conn ?fs0 = Some (gs2_flag conn ?fs0 @ '',,'' @ first_bare (nonce_text ssl cc),
      ?fs0 \<lparr>fs_client_nonce := nonce_text ssl cc, fs_client_first_message_bare := first_bare (nonce_text ssl cc)\<rparr>)"
    using assms(1) pg_b64_enc_len_size [of SCRAM_RAW_NONCE_LEN] SCRAM_RAW_NONCE_LEN_def
    by (simp add: build_client_first_message_def pg_strong_random_def pg_b64_encode_text first_bare_def)
  moreover have "fs_state ?fs0 = FE_SCRAM_INIT" "gs2_flag conn fs = gs2_flag conn ?fs0"
    using assms(8) by (simp_all add: fe_scram_init_def Let_def gs2_flag_def)
  ultimately have "fe_scram_exchange ssl cc conn ?fs0 [] =
      (SASL_CONTINUE, Some (gs2_flag conn fs @ '',,'' @ first_bare (nonce_text ssl cc)), fs, False)"
    using assms(8) by (simp add: fe_scram_exchange_def)
  then show ?thesis
    using assms(2-7) by (auto simp: pg_SASL_init_def)
qed

lemma honest_session:
  assumes ssl: "digests_total ssl" "rand_status ssl cs = 1" "rand_status ssl c = 1" "rand_status ssl cc = 1"
    and pw: "get_password_type pw = PASSWORD_TYPE_PLAINTEXT" "pw \<noteq> []" and it: "1 \<le> iterations" "iterations < 2 ^ 31"
    and conn: "scram_compatible port conn" "fe_password conn = Some pw" "sasl_state conn = None"
  shows "\<exists>secret conn'.
    encrypt_password ssl prep cs iterations (method_password_type port) role pw = Inr secret
    \<and> scram_session ssl prep c cc mock_nonce port (Some secret) conn = Authenticated conn'
    \<and> client_finished_auth conn'"
proof -
  obtain t n where tn: "method_hash port = (t, n)"
    by (cases "method_hash port")
  then have hash: "scram_hash t n"
    by (rule method_hash_scram)
  define i where "i = (if auth_method port = uaPQCSCRAM then SCRAM_SHA_384_DEFAULT_ITERATIONS else iterations)"
  define salt where "salt = rand_buf ssl cs SCRAM_DEFAULT_SALT_LEN"
  have i: "1 \<le> i" "i < 2 ^ 31" and salt: "short_salt salt"
    using it short_salt_rand by (auto simp: i_def salt_def SCRAM_SHA_384_DEFAULT_ITERATIONS_def)
  obtain mech st0 cb where mech: "select_mechanism conn (scram_get_mechanisms port) None = Some (Some mech)"
      "\<not> (cb_required conn \<and> mech \<noteq> SCRAM_SHA_256_PLUS_NAME \<and> mech \<noteq> SCRAM_SHA_384_PLUS_NAME)"
      "scram_select port mech = Inr st0" "\<not> ss_doomed st0" "CHR 0x00 \<notin> set mech" "length mech \<le> 18"
    and cb: "binding_agrees port conn mech (ss_channel_binding_in_use st0) cb"
    and fs: "fs_hash_type (fe_scram_init prep pw mech) = t" "fs_key_length (fe_scram_init prep pw mech) = n"
    using compatible_mechanism [OF conn(1), of prep pw] tn by auto
  obtain salted ck sk vk where keys: "scram_SaltedPassword ssl (prepared_password prep pw) t n salt i = Steps_ok salted"
    "scram_ClientKey ssl salted t n = Steps_ok ck" "scram_H ssl ck t n = Steps_ok sk"
    "scram_ServerKey ssl salted t n = Steps_ok vk" "length ck = n" "length sk = n" "length vk = n"
    and "scram_keys ssl t n salt i (prepared_password prep pw) = Steps_ok (sk, vk)"
    by (rule scram_keys_exist [OF ssl(1) hash])
  then have secret: "encrypt_password ssl prep cs iterations (method_password_type port) role pw = Inr (secret_text t i salt sk vk)"
    using encrypt_password_secret [OF ssl(1,2) pw(1) tn _ keys(6,7) i_def] unfolding salt_def by blast
  obtain st where st: "be_scram_init ssl mock_nonce port mech (Some (secret_text t i salt sk vk)) = Inr st"
      "secret_loaded (built_secret t n i salt sk vk) st" "ss_channel_binding_in_use st = ss_channel_binding_in_use st0"
      "\<not> ss_doomed st" "ss_state st = SCRAM_AUTH_INIT"
    using be_scram_init_secret [OF mech(3) hash keys(6,7) salt, of i ssl mock_nonce] i mech(4) by auto
  define fs1 where "fs1 = fe_scram_init prep pw mech \<lparr>fs_client_nonce := nonce_text ssl cc,
    fs_client_first_message_bare := first_bare (nonce_text ssl cc), fs_state := FE_SCRAM_NONCE_SENT\<rparr>"
  have start: "pg_SASL_init ssl prep cc conn (scram_get_mechanisms port) =
      Some (conn \<lparr>sasl_state := Some fs1\<rparr>, initial_payload mech (gs2_flag conn fs1 @ '',,'' @ first_bare (nonce_text ssl cc)))"
    using client_starts [OF ssl(4) conn(2) pw(2) conn(3) _ mech(1,2) fs1_def] conn(1) cb_required_not_disabled
    by (auto simp: scram_compatible_def)
  have agrees: "binding_agrees port (conn \<lparr>sasl_state := Some fs1\<rparr>) mech (ss_channel_binding_in_use st0) cb"
      "gs2_flag (conn \<lparr>sasl_state := Some fs1\<rparr>) fs1 = gs2_flag conn fs1"
    using cb by (simp_all add: binding_agrees_def cb_disabled_def gs2_flag_def)
  have "fs_password fs1 = prepared_password prep pw" "fs_sasl_mechanism fs1 = mech"
    by (simp_all add: fs1_def fe_scram_init_def Let_def)
  then have "\<exists>conn'. session_rounds 3 ssl c mock_nonce port (Some (secret_text t i salt sk vk)) cc None
      (conn \<lparr>sasl_state := Some fs1\<rparr>) (initial_payload mech (gs2_flag conn fs1 @ '',,'' @ first_bare (nonce_text ssl cc))) =
      Authenticated conn' \<and> client_finished_auth conn'"
    using honest_rounds [OF ssl(1,3) hash st(1,3,5,4,2) _ keys(2-7) _ _ _ _ _ _ _ agrees(1) mech(5,6) i salt, of fs1 cc]
      keys(1) fs agrees(2) by (simp add: fs1_def)
  with secret start show ?thesis
    by (auto simp: scram_session_def)
qed

text \<open>C3: SCRAM authentication works end to end.  A role's password is stored
  with encrypt_password (SCRAM-SHA-384 under pqc-scram-sha-384, SCRAM-SHA-256
  under the other methods); a libpq client with the same password then
  authenticates to CheckSASLAuth and accepts the server's signature, without
  TLS, with TLS and channel binding disabled, or with SCRAM-SHA-256-PLUS and
  matching certificate hashes.  It holds for every iteration count the server
  can be set to and for every treatment of non-ASCII passwords by SASLprep.\<close>

theorem scram_session_succeeds:
  assumes "digests_total ssl" and "rand_status ssl cs = 1" and "rand_status ssl c = 1" and "rand_status ssl cc = 1"
    and "get_password_type pw = PASSWORD_TYPE_PLAINTEXT" and "pw \<noteq> []"
    and "1 \<le> iterations" and "iterations < 2 ^ 31"
    and "scram_compatible port conn" and "fe_password conn = Some pw" and "sasl_state conn = None"
  shows "\<exists>secret conn'.
    encrypt_password ssl prep cs iterations (method_password_type port) role pw = Inr secret
    \<and> scram_session ssl prep c cc mock_nonce port (Some secret) conn = Authenticated conn'
    \<and> client_finished_auth conn'"
  using assms by (rule honest_session)

text \<open>A port and a connection for the witnesses.\<close>

definition sample_port :: "UserAuth \<Rightarrow> bool \<Rightarrow> be_port" where
  "sample_port m tls = \<lparr>user_name = ''joe'', auth_method = m, be_ssl_in_use = tls, be_certificate_hash = Some [1, 2, 3]\<rparr>"

definition sample_conn :: "bool \<Rightarrow> string \<Rightarrow> fe_conn" where
  "sample_conn tls cb = \<lparr>channel_binding = cb, fe_ssl_in_use = tls, fe_password = Some ''secret'',
     peer_certificate_hash = Some [1, 2, 3], sasl_state = None, client_finished_auth = False\<rparr>"

lemma sample_password: "get_password_type ''secret'' = PASSWORD_TYPE_PLAINTEXT"
  by (simp add: get_password_type_def parse_scram_secret_def secret_tokens_def strtok_def)

lemma sample_rand: "rand_status sample_ssl c = 1"
  by (simp add: sample_ssl_def)

lemma sample_compatible:
  "scram_compatible (sample_port uaPQCSCRAM False) (sample_conn False ''prefer'')"
  "scram_compatible (sample_port uaPQCSCRAM True) (sample_conn True ''disable'')"
  "scram_compatible (sample_port uaSCRAM True) (sample_conn True ''require'')"
  by (simp_all add: scram_compatible_def sample_port_def sample_conn_def cb_required_def cb_disabled_def)

theorem scram_session_succeeds_witness:
  "(\<exists>secret conn'. encrypt_password sample_ssl Some 1 4096 (method_password_type (sample_port uaPQCSCRAM False)) ''joe'' ''secret'' = Inr secret
    \<and> scram_session sample_ssl Some 2 3 [] (sample_port uaPQCSCRAM False) (Some secret) (sample_conn False ''prefer'') = Authenticated conn'
    \<and> client_finished_auth conn')
   \<and> (\<exists>secret conn'. encrypt_password sample_ssl Some 1 5 (method_password_type (sample_port uaSCRAM True)) ''joe'' ''secret'' = Inr secret
    \<and> scram_session sample_ssl Some 2 3 [] (sample_port uaSCRAM True) (Some secret) (sample_conn True ''require'') = Authenticated conn'
    \<and> client_finished_auth conn')"
  by (intro conjI; rule scram_session_succeeds [OF digests_total_sample sample_rand sample_rand sample_rand sample_password])
    (simp_all add: sample_compatible, simp_all add: sample_conn_def)

lemma verified_nonce: "verify_final_nonce st \<Longrightarrow> ss_client_final_nonce st = ss_client_nonce st @ ss_server_nonce st"
  unfolding verify_final_nonce_def by (metis append_take_drop_id)

lemma verified_proof:
  "verify_client_proof ssl st = Inr True \<Longrightarrow> \<exists>sig key.
     pg_hmac ssl (ss_hash_type st) (take (ss_key_length st) (ss_StoredKey st)) (be_auth_message st) (ss_key_length st) = Steps_ok sig
     \<and> scram_H ssl (xor_bytes (ss_ClientProof st) sig) (ss_hash_type st) (ss_key_length st) = Steps_ok key
     \<and> take (ss_key_length st) key = take (ss_key_length st) (ss_StoredKey st)"
  by (auto simp: verify_client_proof_def be_hash_def rbind_Inr_iff split: evp_steps.splits)

text \<open>C5: Nobody is let in without proving knowledge of the stored secret's key.
  Whatever packets a client sends, if CheckSASLAuth accepts then the role has
  a secret that parses, and one packet is a client-final message whose nonce
  is the client's nonce followed by the server's nonce of this exchange.  Its
  proof, combined with the HMAC of the exchange's messages under the secret's
  StoredKey, gives a key whose hash is that StoredKey.\<close>

theorem scram_accepts_only_proof:
  assumes "fst (CheckSASLAuth ssl c mock_nonce port shadow_pass packets) = Inr STATUS_OK"
  shows "\<exists>secret s msg st0 st. shadow_pass = Some secret \<and> snd (parse_scram_secret secret) = Some s
    \<and> Packet_p msg \<in> set packets \<and> read_client_final_message port st0 msg = Inr st
    \<and> secret_loaded s st \<and> ss_server_nonce st = b64_text (rand_buf ssl c SCRAM_RAW_NONCE_LEN)
    \<and> verify_final_nonce st \<and> verify_client_proof ssl st = Inr True
    \<and> ss_client_final_nonce st = ss_client_nonce st @ ss_server_nonce st
    \<and> (\<exists>sig key. pg_hmac ssl (sec_hash_type s) (take (sec_key_length s) (sec_StoredKey s)) (be_auth_message st)
          (sec_key_length s) = Steps_ok sig
        \<and> scram_H ssl (xor_bytes (ss_ClientProof st) sig) (sec_hash_type s) (sec_key_length s) = Steps_ok key
        \<and> take (sec_key_length s) key = take (sec_key_length s) (sec_StoredKey s))"
proof -
  obtain msg st0 st where msg: "Packet_p msg \<in> set packets" "exchange_ok ssl c shadow_pass st0"
      "ss_state st0 = SCRAM_AUTH_SALT_SENT" "read_client_final_message port st0 msg = Inr st"
      "verify_final_nonce st" "verify_client_proof ssl st = Inr True" "\<not> ss_doomed st"
    using sasl_loop_ok [OF assms [unfolded CheckSASLAuth_def]] by auto
  moreover note verified_nonce [OF msg(5)] verified_proof [OF msg(6)]
  moreover obtain nn p w where st: "st = st0 \<lparr>ss_client_final_nonce := nn, ss_ClientProof := p,
      ss_client_final_message_without_proof := w\<rparr>"
    using read_client_final_message_frame [OF msg(4)] by blast
  ultimately show ?thesis
    by (fastforce simp: exchange_ok_def secret_loaded_def)
qed

text \<open>The packets of a session that authenticates, given to CheckSASLAuth.\<close>

lemma session_rounds_loop:
  assumes "session_rounds k ssl c mn port shadow cc opaq conn m = Authenticated conn'"
  shows "\<exists>packets. \<forall>sent. fst (sasl_loop ssl c mn port shadow packets opaq sent) = Inr STATUS_OK"
  using assms
proof (induction k arbitrary: opaq conn m)
  case (Suc k)
  then obtain r out where r: "sasl_round ssl c mn port shadow opaq (Packet_p m) = Inr (r, out)"
    by (auto split: sum.splits)
  show ?case
  proof (cases r)
    case (Inl status)
    then have "status = STATUS_OK"
      using r Suc.prems by (auto split: if_splits)
    then show ?thesis
      using r Inl by (intro exI [of _ "[Packet_p m]"]) simp
  next
    case (Inr st)
    then obtain conn1 reply where "session_rounds k ssl c mn port shadow cc (Some st) conn1 reply = Authenticated conn'"
      using r Suc.prems by (auto split: list.splits auth_request.splits option.splits)
    then obtain packets where "\<forall>sent. fst (sasl_loop ssl c mn port shadow packets (Some st) sent) = Inr STATUS_OK"
      using Suc.IH by blast
    then show ?thesis
      using r Inr by (intro exI [of _ "Packet_p m # packets"]) simp
  qed
qed simp

theorem scram_accepts_only_proof_witness:
  "\<exists>secret packets s msg st0 st.
     fst (CheckSASLAuth sample_ssl 2 [] (sample_port uaPQCSCRAM False) (Some secret) packets) = Inr STATUS_OK
     \<and> snd (parse_scram_secret secret) = Some s \<and> Packet_p msg \<in> set packets
     \<and> read_client_final_message (sample_port uaPQCSCRAM False) st0 msg = Inr st \<and> secret_loaded s st
     \<and> verify_client_proof sample_ssl st = Inr True"
proof -
  obtain secret conn' where
    "scram_session sample_ssl Some 2 3 [] (sample_port uaPQCSCRAM False) (Some secret) (sample_conn False ''prefer'') = Authenticated conn'"
    using honest_session [OF digests_total_sample sample_rand sample_rand sample_rand sample_password, of 4096
        "sample_port uaPQCSCRAM False" "sample_conn False ''prefer''" Some 1 "''joe''" 2 3 "[]"] sample_compatible(1)
    by (auto simp: sample_conn_def)
  then obtain packets where ok:
    "fst (CheckSASLAuth sample_ssl 2 [] (sample_port uaPQCSCRAM False) (Some secret) packets) = Inr STATUS_OK"
    unfolding scram_session_def CheckSASLAuth_def by (auto split: option.splits dest!: session_rounds_loop)
  then show ?thesis
    using scram_accepts_only_proof [OF ok] by blast
qed

lemma be_scram_init_total:
  assumes "digests_total ssl" and "scram_select port mech = Inr st0"
  shows "\<exists>st. be_scram_init ssl mn port mech shadow = Inr st \<and> ss_state st = ss_state st0
    \<and> ss_channel_binding_in_use st = ss_channel_binding_in_use st0"
proof -
  have mock: "\<exists>st'. mock_scram_secret ssl mn u st = Inr st' \<and> ss_state st' = ss_state st
      \<and> ss_channel_binding_in_use st' = ss_channel_binding_in_use st" for u st
  proof -
    define t n where "t = (if ss_hash_type st = PG_SHA384 then PG_SHA384 else PG_SHA256)"
      and "n = (if ss_hash_type st = PG_SHA384 then SCRAM_SHA_384_KEY_LEN else SCRAM_SHA_256_KEY_LEN)"
    have n: "md_size (cryptohash_md t) = n" "16 \<le> n"
      by (auto simp: t_def n_def scram_sizes)
    obtain d where d: "evp_digest ssl (cryptohash_md t) (str_bytes u @ mn) = Digest d" "length d = n"
      using assms(1) n(1) unfolding digests_total_def by metis
    have "be_b64_encode (take SCRAM_DEFAULT_SALT_LEN d) (pg_b64_enc_len (int SCRAM_DEFAULT_SALT_LEN)) m =
        Inr (b64_text (take SCRAM_DEFAULT_SALT_LEN d))" for m
      using be_b64_encode_text [of "take SCRAM_DEFAULT_SALT_LEN d"] d(2) n(2) by (simp add: SCRAM_DEFAULT_SALT_LEN_def)
    then show ?thesis
      using d n unfolding mock_scram_secret_def Let_def t_def [symmetric] n_def [symmetric]
      by (simp add: scram_mock_salt_def pg_cryptohash_def be_hash_def)
  qed
  obtain b st1 where b: "(case shadow of Some s \<Rightarrow> load_secret s st0 | None \<Rightarrow> (False, st0)) = (b, st1)"
    by (cases "case shadow of Some s \<Rightarrow> load_secret s st0 | None \<Rightarrow> (False, st0)")
  then have "ss_state st1 = ss_state st0 \<and> ss_channel_binding_in_use st1 = ss_channel_binding_in_use st0"
    by (auto simp: load_secret_def split: option.splits if_splits prod.splits)
  then show ?thesis
    using assms(2) b mock [of "user_name port" st1] by (cases b) (auto simp: be_scram_init_def)
qed

text \<open>C14: Over TLS, pqc-scram-sha-384 authentication with libpq never works unless
  channel binding is disabled.  The client selects SCRAM-SHA-384-PLUS but
  announces no channel binding in its first message, as it compares the
  mechanism with SCRAM-SHA-256-PLUS only; the server then refuses the message
  as malformed, whatever secret the role has.\<close>

theorem scram_sha_384_plus_refused:
  assumes "digests_total ssl" and "rand_status ssl cc = 1"
    and "auth_method port = uaPQCSCRAM" and "be_ssl_in_use port" and "fe_ssl_in_use conn" and "\<not> cb_disabled conn"
    and "fe_password conn = Some pw" and "pw \<noteq> []" and "sasl_state conn = None"
  shows "scram_session ssl prep c cc mock_nonce port shadow_pass conn = Server_raised malformed"
proof -
  let ?mech = SCRAM_SHA_384_PLUS_NAME
  define fs where "fs = fe_scram_init prep pw ?mech \<lparr>fs_client_nonce := nonce_text ssl cc,
    fs_client_first_message_bare := first_bare (nonce_text ssl cc), fs_state := FE_SCRAM_NONCE_SENT\<rparr>"
  define m where "m = gs2_flag conn fs @ '',,'' @ first_bare (nonce_text ssl cc)"
  have sel: "select_mechanism conn (scram_get_mechanisms port) None = Some (Some ?mech)"
    using assms(3-6) by (simp add: scram_get_mechanisms_def scram_names)
  have start: "pg_SASL_init ssl prep cc conn (scram_get_mechanisms port) =
      Some (conn \<lparr>sasl_state := Some fs\<rparr>, initial_payload ?mech m)"
    unfolding m_def by (rule client_starts [OF assms(2,7,8,9) _ sel _ fs_def]) (use assms(5) in simp_all)
  have flag: "m = CHR ''y'' # '',,'' @ first_bare (nonce_text ssl cc)"
    using assms(5,6) by (simp add: m_def gs2_flag_def fs_def fe_scram_init_def Let_def scram_names)
  have "\<exists>st0. scram_select port ?mech = Inr st0 \<and> ss_channel_binding_in_use st0 \<and> ss_state st0 = SCRAM_AUTH_INIT"
    using assms(4) by (simp add: scram_select_def scram_state_zero_def)
  then obtain st where st: "be_scram_init ssl mock_nonce port ?mech shadow_pass = Inr st" "ss_state st = SCRAM_AUTH_INIT"
      "ss_channel_binding_in_use st"
    using be_scram_init_total [OF assms(1)] by metis
  have len: "length m \<le> 60" "CHR 0x00 \<notin> set m"
    using nonce_text_plain(2,3) [of ssl cc] by (simp_all add: flag first_bare_def)
  have "initial_response (bytes_str (be32 (of_nat (length m))) @ m) = Inr (Some m)"
    by (rule initial_response_payload) (use len in simp)
  moreover have strlen: "c_strlen (initial_payload ?mech m) = length ?mech"
    using c_strlen_zero [of ?mech] by (simp add: initial_payload_def scram_names)
  ultimately have "initial_packet ssl mock_nonce port shadow_pass (initial_payload ?mech m) = Inr (st, Some m)"
    using st(1) unfolding initial_packet_def strlen by (simp add: initial_payload_def)
  moreover have "read_client_first_message port st m = Inl malformed"
    using st(3) by (simp add: flag read_client_first_message_def read_cbind_flag_def)
  moreover have "m \<noteq> []" "length (initial_payload ?mech m) + 4 \<le> 1024"
    using len(1) by (simp_all add: flag initial_payload_def bytes_str_def scram_names)
  ultimately have "sasl_round ssl c mock_nonce port shadow_pass None (Packet_p (initial_payload ?mech m)) = Inl malformed"
    using st(2) c_strlen_plain [OF len(2)]
    by (simp add: sasl_round_def be_scram_exchange_def PG_MAX_SASL_MESSAGE_LENGTH_def)
  with start show ?thesis
    by (simp add: scram_session_def numeral_3_eq_3)
qed

theorem scram_sha_384_plus_refused_witness:
  "scram_session sample_ssl Some 2 3 [] (sample_port uaPQCSCRAM True) None (sample_conn True ''prefer'') = Server_raised malformed"
  by (rule scram_sha_384_plus_refused [OF digests_total_sample sample_rand, where pw = "''secret''"])
    (simp_all add: sample_port_def sample_conn_def cb_disabled_def)

section \<open>Plain passwords\<close>

lemma md5_hex_type:
  assumes "length d = 16"
  shows "get_password_type (''md5'' @ md5_hex d) = PASSWORD_TYPE_MD5"
proof -
  have digit: "MD5_PASSWD_CHARSET ! unat (x AND 0x0F) \<in> set MD5_PASSWD_CHARSET" for x :: byte
  proof -
    have "x AND 0x0F = take_bit 4 x"
      by (simp add: take_bit_eq_mask mask_eq_exp_minus_1)
    moreover have "unat (take_bit 4 x) = take_bit 4 (unat x)"
      by (rule unsigned_take_bit_eq)
    ultimately have "unat (x AND 0x0F) < length MD5_PASSWD_CHARSET"
      by (simp add: take_bit_eq_mod MD5_PASSWD_CHARSET_def)
    then show ?thesis
      by (rule nth_mem)
  qed
  have "set (md5_hex d) \<subseteq> set MD5_PASSWD_CHARSET"
    using digit by (auto simp: md5_hex_def)
  then have "takeWhile (\<lambda>c. c \<in> set MD5_PASSWD_CHARSET) (md5_hex d) = md5_hex d"
    by (subst takeWhile_eq_all_conv) blast
  then have "strspn (md5_hex d) MD5_PASSWD_CHARSET = length (md5_hex d)"
    unfolding strspn_def by (rule arg_cong)
  moreover have "length (md5_hex d) = 32"
    using assms by (simp add: md5_hex_def length_concat comp_def sum_list_triv)
  ultimately show ?thesis
    by (simp add: get_password_type_def MD5_PASSWD_LEN_def)
qed

lemma pg_md5_encrypt_total:
  assumes "digests_total ssl"
  shows "\<exists>d. pg_md5_encrypt ssl pw salt = Steps_ok (''md5'' @ md5_hex d) \<and> length d = 16"
proof -
  obtain d where "evp_digest ssl EVP_md5 (str_bytes pw @ salt) = Digest d" "length d = 16"
    using assms unfolding digests_total_def by (metis md_size.simps(1))
  then show ?thesis
    by (intro exI [of _ d]) (simp add: pg_md5_encrypt_def pg_cryptohash_def)
qed

lemma scram_secret_verifies:
  assumes "digests_total ssl" and "scram_hash t n" and "1 \<le> i" and "i < 2 ^ 31" and "short_salt salt"
  shows "\<exists>secret. scram_build_secret ssl t n salt i (prepared_password prep pw) = Inr secret
    \<and> plain_crypt_verify ssl prep role secret pw = Inr STATUS_OK"
proof -
  obtain salted ck sk vk where keys: "scram_SaltedPassword ssl (prepared_password prep pw) t n salt i = Steps_ok salted"
    "scram_ServerKey ssl salted t n = Steps_ok vk" "length sk = n" "length vk = n"
    "scram_keys ssl t n salt i (prepared_password prep pw) = Steps_ok (sk, vk)"
    by (rule scram_keys_exist [OF assms(1,2)])
  have i: "0 \<le> i"
    using assms(3) by simp
  have "scram_verify_plain_password ssl prep pw (secret_text t i salt sk vk) = Inr True"
    using parse_scram_secret_text [OF assms(2) keys(3,4) assms(5) i assms(4)] keys
      assms(5) [unfolded short_salt_def]
    by (simp add: scram_verify_plain_password_def b64_decode_field_text be_hash_def)
  then have "plain_crypt_verify ssl prep role (secret_text t i salt sk vk) pw = Inr STATUS_OK"
    using secret_password_type [OF assms(2) keys(3,4) assms(5) i assms(4)]
    by (cases "t = PG_SHA384") (simp_all add: plain_crypt_verify_def)
  then show ?thesis
    using scram_build_secret_text [OF keys(5,3,4) assms(2,5)] by blast
qed

text \<open>C26: A password stored with encrypt_password, in any of the three formats
  (MD5, SCRAM-SHA-256, SCRAM-SHA-384), is accepted by the plain password
  check of the same role.\<close>

theorem stored_password_verifies:
  assumes "digests_total ssl" and "rand_status ssl cs = 1" and "get_password_type pw = PASSWORD_TYPE_PLAINTEXT"
    and "1 \<le> iterations" and "iterations < 2 ^ 31" and "target \<noteq> PASSWORD_TYPE_PLAINTEXT"
  shows "\<exists>secret. encrypt_password ssl prep cs iterations target role pw = Inr secret
    \<and> plain_crypt_verify ssl prep role secret pw = Inr STATUS_OK"
proof -
  have salt: "random_salt ssl cs = Inr (rand_buf ssl cs SCRAM_DEFAULT_SALT_LEN)" "short_salt (rand_buf ssl cs SCRAM_DEFAULT_SALT_LEN)"
    using assms(2) short_salt_rand by (simp_all add: random_salt_def pg_strong_random_def)
  show ?thesis
  proof (cases target)
    case PASSWORD_TYPE_MD5
    obtain d where "pg_md5_encrypt ssl pw (str_bytes role) = Steps_ok (''md5'' @ md5_hex d)" "length d = 16"
      using pg_md5_encrypt_total [OF assms(1)] by blast
    then show ?thesis
      using assms(3) PASSWORD_TYPE_MD5 md5_hex_type [of d]
      by (simp add: encrypt_password_def plain_crypt_verify_def be_hash_def be_hash_status_def)
  next
    case PASSWORD_TYPE_SCRAM_SHA_256
    then show ?thesis
      using scram_secret_verifies [OF assms(1) _ assms(4,5) salt(2), of PG_SHA256 SCRAM_SHA_256_KEY_LEN prep pw role] assms(3) salt(1)
      by (simp add: encrypt_password_def pg_be_scram_build_secret_def scram_hash_def)
  next
    case PASSWORD_TYPE_SCRAM_SHA_384
    then show ?thesis
      using scram_secret_verifies [OF assms(1) _ _ _ salt(2), of PG_SHA384 SCRAM_SHA_384_KEY_LEN
          SCRAM_SHA_384_DEFAULT_ITERATIONS prep pw role] assms(3) salt(1)
      by (simp add: encrypt_password_def pg_be_scram_build_secret_sha384_def scram_hash_def SCRAM_SHA_384_DEFAULT_ITERATIONS_def)
  qed (use assms(6) in simp)
qed

theorem stored_password_verifies_witness:
  "\<exists>secret. encrypt_password sample_ssl Some 1 4096 PASSWORD_TYPE_SCRAM_SHA_384 ''joe'' ''secret'' = Inr secret
    \<and> plain_crypt_verify sample_ssl Some ''joe'' secret ''secret'' = Inr STATUS_OK"
  by (rule stored_password_verifies [OF digests_total_sample sample_rand sample_password]) simp_all

end
