(* ===== verification/ArchiveHead.thy ===== *)
theory ArchiveHead
  imports CText
begin

text \<open>
  The header of a pg_dump archive with its PQC fields:
  bin/pg_dump/pg_backup_archiver.c.  The archive file is its bytes; a reader
  takes the bytes left and returns a value and the rest, or None where the
  program stops with pg_fatal (the end of the file is fatal).  The creation
  time is the broken-down time that is stored; warnings are left out.
\<close>

section \<open>Readers\<close>

type_synonym 'a reader = "bytes \<Rightarrow> ('a \<times> bytes) option"

definition rd_ok :: "'a \<Rightarrow> 'a reader" where
  "rd_ok x s = Some (x, s)"

definition rd_fatal :: "'a reader" where
  "rd_fatal s = None"

definition rd_bind :: "'a reader \<Rightarrow> ('a \<Rightarrow> 'b reader) \<Rightarrow> 'b reader" where
  "rd_bind f g s = (case f s of None \<Rightarrow> None | Some (x, r) \<Rightarrow> g x r)"

definition ReadByte :: "nat reader" where
  "ReadByte s = (case s of [] \<Rightarrow> None | b # r \<Rightarrow> Some (unat b, r))"

definition ReadBuf :: "nat \<Rightarrow> bytes reader" where
  "ReadBuf n s = (if length s < n then None else Some (take n s, drop n s))"

section \<open>Versions, integers and strings\<close>

definition MAKE_ARCHIVE_VERSION :: "int \<Rightarrow> int \<Rightarrow> int \<Rightarrow> int" where
  "MAKE_ARCHIVE_VERSION major minor revision = (major * 256 + minor) * 256 + revision"

definition K_VERS :: "int \<Rightarrow> int" where
  "K_VERS minor = MAKE_ARCHIVE_VERSION 1 minor 0"

definition K_VERS_SELF :: int where
  "K_VERS_SELF = MAKE_ARCHIVE_VERSION 1 17 0"

definition K_VERS_MAX :: int where
  "K_VERS_MAX = MAKE_ARCHIVE_VERSION 1 17 255"

definition byte_of :: "int \<Rightarrow> bytes" where
  "byte_of i = [word_of_int i]"

primrec int_bytes :: "nat \<Rightarrow> int \<Rightarrow> bytes" where
  "int_bytes 0 i = []"
| "int_bytes (Suc n) i = byte_of (i AND 0xFF) @ int_bytes n (drop_bit 8 i)"

definition WriteInt :: "nat \<Rightarrow> int \<Rightarrow> bytes" where
  "WriteInt intSize i = (if i < 0 then byte_of 1 @ int_bytes intSize (- i) else byte_of 0 @ int_bytes intSize i)"

text \<open>An int has 32 bits and wraps around.\<close>

primrec read_int_bytes :: "nat \<Rightarrow> int \<Rightarrow> nat \<Rightarrow> int reader" where
  "read_int_bytes 0 res bitShift = rd_ok res"
| "read_int_bytes (Suc n) res bitShift =
     rd_bind ReadByte (\<lambda>bv.
       read_int_bytes n (if bv \<noteq> 0 then int_of_long (res + push_bit bitShift (int bv)) else res) (bitShift + 8))"

definition ReadInt :: "int \<Rightarrow> nat \<Rightarrow> int reader" where
  "ReadInt version intSize =
     rd_bind (if version > K_VERS 0 then ReadByte else rd_ok 0) (\<lambda>sign.
     rd_bind (read_int_bytes intSize 0 0) (\<lambda>res. rd_ok (if sign \<noteq> 0 then int_of_long (- res) else res)))"

definition WriteStr :: "nat \<Rightarrow> string option \<Rightarrow> bytes" where
  "WriteStr intSize c =
     (case c of
        Some s \<Rightarrow> WriteInt intSize (int (length s)) @ str_bytes s
      | None \<Rightarrow> WriteInt intSize (-1))"

definition chars_of :: "bytes \<Rightarrow> string" where
  "chars_of bs = map (\<lambda>b. char_of (unat b)) bs"

definition ReadStr :: "int \<Rightarrow> nat \<Rightarrow> string option reader" where
  "ReadStr version intSize =
     rd_bind (ReadInt version intSize) (\<lambda>l.
       if l < 0 then rd_ok None else rd_bind (ReadBuf (nat l)) (\<lambda>b. rd_ok (Some (chars_of b))))"

section \<open>The header\<close>

record archive_head =
  ah_version :: int
  ah_intSize :: nat
  ah_offSize :: nat
  ah_format :: nat
  ah_compression :: nat
  ah_compression_level :: int
  ah_createDate :: "int list"
  ah_dbname :: "string option"
  ah_remoteVersion :: "string option"
  ah_dumpVersion :: "string option"
  ah_pqc_encrypted :: nat
  ah_pqc_kem_algorithm :: "string option"
  ah_pqc_kem_ct_len :: nat
  ah_pqc_kem_ciphertext :: "bytes option"
  ah_pqc_aes_nonce :: bytes
  ah_pqc_signed :: nat
  ah_pqc_sig_algorithm :: "string option"

definition write_pqc_fields :: "archive_head \<Rightarrow> bytes" where
  "write_pqc_fields AH =
     byte_of (int (ah_pqc_encrypted AH))
     @ (if ah_pqc_encrypted AH \<noteq> 0
        then WriteStr (ah_intSize AH) (ah_pqc_kem_algorithm AH)
          @ WriteInt (ah_intSize AH) (int_of_long (int (ah_pqc_kem_ct_len AH)))
          @ (if ah_pqc_kem_ct_len AH > 0
             then (case ah_pqc_kem_ciphertext AH of Some ct \<Rightarrow> take (ah_pqc_kem_ct_len AH) ct | None \<Rightarrow> [])
             else [])
          @ take 12 (ah_pqc_aes_nonce AH)
        else [])
     @ byte_of (int (ah_pqc_signed AH))
     @ (if ah_pqc_signed AH \<noteq> 0 then WriteStr (ah_intSize AH) (ah_pqc_sig_algorithm AH) else [])"

text \<open>The first argument of WriteHead and ReadHead says whether the program was
  built with USE_PQC.\<close>

definition WriteHead :: "bool \<Rightarrow> archive_head \<Rightarrow> bytes" where
  "WriteHead use_pqc AH =
     str_bytes ''PGDMP''
     @ byte_of (ah_version AH div 65536 mod 256) @ byte_of (ah_version AH div 256 mod 256) @ byte_of (ah_version AH mod 256)
     @ byte_of (int (ah_intSize AH)) @ byte_of (int (ah_offSize AH)) @ byte_of (int (ah_format AH))
     @ byte_of (int (ah_compression AH))
     @ concat (map (WriteInt (ah_intSize AH)) (ah_createDate AH))
     @ WriteStr (ah_intSize AH) (ah_dbname AH)
     @ WriteStr (ah_intSize AH) (ah_remoteVersion AH)
     @ WriteStr (ah_intSize AH) (ah_dumpVersion AH)
     @ (if use_pqc then write_pqc_fields AH else [])"

text \<open>A handle as _allocAH leaves it for a given format: version and sizes of
  this build, everything else zero.\<close>

definition alloc_head :: "nat \<Rightarrow> archive_head" where
  "alloc_head fmt = \<lparr>ah_version = K_VERS_SELF, ah_intSize = 4, ah_offSize = 8, ah_format = fmt, ah_compression = 0,
     ah_compression_level = 0, ah_createDate = [], ah_dbname = None, ah_remoteVersion = None, ah_dumpVersion = None,
     ah_pqc_encrypted = 0, ah_pqc_kem_algorithm = None, ah_pqc_kem_ct_len = 0, ah_pqc_kem_ciphertext = None,
     ah_pqc_aes_nonce = replicate 12 0, ah_pqc_signed = 0, ah_pqc_sig_algorithm = None\<rparr>"

text \<open>The bytes of the version are read into signed chars.\<close>

definition schar :: "nat \<Rightarrow> int" where
  "schar b = (if b < 128 then int b else int b - 256)"

definition read_version :: "int reader" where
  "read_version =
     rd_bind ReadByte (\<lambda>vmaj.
     rd_bind ReadByte (\<lambda>vmin.
     rd_bind (if schar vmaj > 1 \<or> (schar vmaj = 1 \<and> schar vmin > 0) then ReadByte else rd_ok 0) (\<lambda>vrev.
     let version = MAKE_ARCHIVE_VERSION (schar vmaj) (schar vmin) (schar vrev) in
     if version < K_VERS 0 \<or> version > K_VERS_MAX then rd_fatal else rd_ok version)))"

text \<open>The compression algorithm and level; PG_COMPRESSION_GZIP is 1.\<close>

definition read_compression :: "archive_head \<Rightarrow> archive_head reader" where
  "read_compression AH =
     (if ah_version AH \<ge> K_VERS 15
      then rd_bind ReadByte (\<lambda>a. rd_ok (AH \<lparr>ah_compression := a\<rparr>))
      else if ah_version AH \<ge> K_VERS 2
      then rd_bind (if ah_version AH < K_VERS 4 then rd_bind ReadByte (\<lambda>b. rd_ok (int b))
                    else ReadInt (ah_version AH) (ah_intSize AH)) (\<lambda>level.
        rd_ok (AH \<lparr>ah_compression_level := level, ah_compression := (if level \<noteq> 0 then 1 else ah_compression AH)\<rparr>))
      else rd_ok (AH \<lparr>ah_compression := 1\<rparr>))"

primrec read_ints :: "int \<Rightarrow> nat \<Rightarrow> nat \<Rightarrow> int list reader" where
  "read_ints version intSize 0 = rd_ok []"
| "read_ints version intSize (Suc n) =
     rd_bind (ReadInt version intSize) (\<lambda>i. rd_bind (read_ints version intSize n) (\<lambda>is. rd_ok (i # is)))"

definition read_names :: "archive_head \<Rightarrow> archive_head reader" where
  "read_names AH =
     (let v = ah_version AH; n = ah_intSize AH in
      rd_bind (if v \<ge> K_VERS 4
               then rd_bind (read_ints v n 7) (\<lambda>t. rd_bind (ReadStr v n) (\<lambda>d.
                 rd_ok (AH \<lparr>ah_createDate := t, ah_dbname := d\<rparr>)))
               else rd_ok AH) (\<lambda>AH.
      if v \<ge> K_VERS 10
      then rd_bind (ReadStr v n) (\<lambda>r. rd_bind (ReadStr v n) (\<lambda>d.
        rd_ok (AH \<lparr>ah_remoteVersion := r, ah_dumpVersion := d\<rparr>)))
      else rd_ok AH))"

text \<open>A negative length is converted to a size no allocation can satisfy.\<close>

definition read_pqc_fields :: "archive_head \<Rightarrow> archive_head reader" where
  "read_pqc_fields AH =
     (let v = ah_version AH; n = ah_intSize AH in
      rd_bind ReadByte (\<lambda>enc.
      rd_bind (if enc \<noteq> 0
               then rd_bind (ReadStr v n) (\<lambda>alg.
                 rd_bind (ReadInt v n) (\<lambda>len.
                 rd_bind (if len < 0 then rd_fatal
                          else if len > 0 then rd_bind (ReadBuf (nat len)) (\<lambda>ct. rd_ok (Some ct))
                          else rd_ok (ah_pqc_kem_ciphertext AH)) (\<lambda>ct.
                 rd_bind (ReadBuf 12) (\<lambda>nonce.
                 rd_ok (AH \<lparr>ah_pqc_encrypted := enc, ah_pqc_kem_algorithm := alg, ah_pqc_kem_ct_len := nat len,
                   ah_pqc_kem_ciphertext := ct, ah_pqc_aes_nonce := nonce\<rparr>)))))
               else rd_ok (AH \<lparr>ah_pqc_encrypted := enc\<rparr>)) (\<lambda>AH.
      rd_bind ReadByte (\<lambda>sgn.
      if sgn \<noteq> 0
      then rd_bind (ReadStr v n) (\<lambda>alg. rd_ok (AH \<lparr>ah_pqc_signed := sgn, ah_pqc_sig_algorithm := alg\<rparr>))
      else rd_ok (AH \<lparr>ah_pqc_signed := sgn\<rparr>)))))"

definition ReadHead :: "bool \<Rightarrow> bool \<Rightarrow> archive_head \<Rightarrow> archive_head reader" where
  "ReadHead use_pqc readHeader AH =
     rd_bind (if readHeader then rd_ok (str_bytes ''PGDMP'') else ReadBuf 5) (\<lambda>magic.
     if magic \<noteq> str_bytes ''PGDMP'' then rd_fatal
     else
       rd_bind read_version (\<lambda>version.
       rd_bind ReadByte (\<lambda>intSize.
       if intSize > 32 then rd_fatal
       else
         rd_bind (if version \<ge> K_VERS 7 then ReadByte else rd_ok intSize) (\<lambda>offSize.
         rd_bind ReadByte (\<lambda>fmt.
         if ah_format AH \<noteq> fmt then rd_fatal
         else
           rd_bind (read_compression (AH \<lparr>ah_version := version, ah_intSize := intSize, ah_offSize := offSize\<rparr>)) (\<lambda>AH.
           rd_bind (read_names AH) (\<lambda>AH.
           if use_pqc \<and> version \<ge> K_VERS 17 then read_pqc_fields AH else rd_ok AH)))))))"

section \<open>Reading what was written\<close>

named_theorems reader_simps \<open>readers applied to written data\<close>

lemma rd_bind_simps [reader_simps]:
  "rd_bind (rd_ok x) g = g x"
  "rd_bind (\<lambda>s. None) g s = None"
  "rd_ok x s = Some (x, s)"
  "rd_fatal s = None"
  by (auto simp: rd_bind_def rd_ok_def rd_fatal_def)

lemma rd_bind_assoc [reader_simps]: "rd_bind (rd_bind f g) h = rd_bind f (\<lambda>x. rd_bind (g x) h)"
  by (rule ext) (simp add: rd_bind_def split: option.split)

lemma rd_bind_Some: "f s = Some (x, r) \<Longrightarrow> rd_bind f g s = g x r"
  by (simp add: rd_bind_def)

lemma ReadByte_byte_of: "0 \<le> i \<Longrightarrow> i < 256 \<Longrightarrow> ReadByte (byte_of i @ r) = Some (nat i, r)"
  by (simp add: ReadByte_def byte_of_def unsigned_of_int take_bit_int_eq_self)

lemma rd_bind_ReadByte [reader_simps]:
  "0 \<le> i \<Longrightarrow> i < 256 \<Longrightarrow> rd_bind ReadByte g (byte_of i @ r) = g (nat i) r"
  by (rule rd_bind_Some) (rule ReadByte_byte_of)

lemma rd_bind_ReadBuf [reader_simps]: "length b = n \<Longrightarrow> rd_bind (ReadBuf n) g (b @ r) = g b r"
  by (simp add: rd_bind_def ReadBuf_def)

lemma read_int_bytes_written:
  assumes "0 \<le> i" and "i < 2 ^ (8 * n)" and "0 \<le> res" and "res + i * 2 ^ sh < 2 ^ 31"
  shows "read_int_bytes n res sh (int_bytes n i @ r) = Some (res + i * 2 ^ sh, r)"
  using assms
proof (induction n arbitrary: i res sh)
  case 0
  then show ?case
    by (simp add: reader_simps)
next
  case (Suc n)
  define b q where "b = i mod 256" and "q = i div 256"
  have i: "i = b + 256 * q" "0 \<le> b" "b < 256" "0 \<le> q"
    using Suc.prems(1) by (simp_all add: b_def q_def)
  have "256 * q < 256 * 2 ^ (8 * n)"
    using Suc.prems(2) i(1,2) by (simp add: power_add)
  then have q: "q < 2 ^ (8 * n)"
    by simp
  have byte: "i AND 0xFF = b" "drop_bit 8 i = q"
    using take_bit_eq_mask [of 8 i] by (simp_all add: b_def q_def take_bit_eq_mod mask_eq_exp_minus_1 drop_bit_eq_div)
  define res' where "res' = res + b * 2 ^ sh"
  have sum: "res' + q * 2 ^ (sh + 8) = res + i * 2 ^ sh"
    unfolding res'_def i(1) by (simp add: power_add algebra_simps)
  have "0 \<le> q * 2 ^ (sh + 8)"
    using i(4) by simp
  then have res': "0 \<le> res'" "res' < 2 ^ 31"
    using Suc.prems(3,4) i(2) sum by (simp_all add: res'_def)
  have "(if nat b \<noteq> 0 then int_of_long (res + push_bit sh (int (nat b))) else res) = res'"
    using res' i(2) int_of_long_small [of res'] by (simp add: res'_def push_bit_eq_mult)
  moreover have "read_int_bytes n res' (sh + 8) (int_bytes n q @ r) = Some (res' + q * 2 ^ (sh + 8), r)"
    using i(4) q res'(1) Suc.prems(4) sum by (intro Suc.IH) simp_all
  ultimately show ?case
    using sum i(2,3) by (cases "b = 0") (simp_all add: byte reader_simps)
qed

text \<open>The header fields are written with four-byte integers.\<close>

lemma ReadInt_WriteInt:
  assumes "\<bar>i\<bar> < 2 ^ 31" and "K_VERS 0 < v"
  shows "ReadInt v 4 (WriteInt 4 i @ r) = Some (i, r)"
proof (cases "i < 0")
  case True
  then have "read_int_bytes 4 0 0 (int_bytes 4 (- i) @ r) = Some (- i, r)"
    using read_int_bytes_written [of "- i" 4 0 0 r] assms(1) by simp
  then show ?thesis
    using True assms(2) int_of_long_small [of i] assms(1)
    by (simp add: ReadInt_def WriteInt_def reader_simps rd_bind_Some)
next
  case False
  then have "read_int_bytes 4 0 0 (int_bytes 4 i @ r) = Some (i, r)"
    using read_int_bytes_written [of i 4 0 0 r] assms(1) by simp
  then show ?thesis
    using False assms(2) by (simp add: ReadInt_def WriteInt_def reader_simps rd_bind_Some)
qed

lemma chars_of_str_bytes: "chars_of (str_bytes s) = s"
proof -
  have "char_of (unat (of_char c :: byte)) = c" for c
  proof -
    have "unat (of_char c :: byte) = unat (of_nat (of_char c) :: byte)"
      by (simp only: of_nat_of_char)
    also have "\<dots> = of_char c"
      using nat_of_char_less_256 [of c] by (simp add: unsigned_of_nat take_bit_nat_eq_self del: nat_of_char_less_256)
    finally show ?thesis
      by simp
  qed
  then show ?thesis
    by (simp add: chars_of_def str_bytes_def comp_def)
qed

lemma rd_bind_ReadInt [reader_simps]:
  "\<bar>i\<bar> < 2 ^ 31 \<Longrightarrow> K_VERS 0 < v \<Longrightarrow> rd_bind (ReadInt v 4) g (WriteInt 4 i @ r) = g i r"
  by (rule rd_bind_Some) (rule ReadInt_WriteInt)

definition str_fits :: "string option \<Rightarrow> bool" where
  "str_fits s = (case s of None \<Rightarrow> True | Some t \<Rightarrow> int (length t) < 2 ^ 31)"

lemma rd_bind_ReadStr [reader_simps]:
  assumes "str_fits s" and "K_VERS 0 < v"
  shows "rd_bind (ReadStr v 4) g (WriteStr 4 s @ r) = g s r"
proof (cases s)
  case None
  then show ?thesis
    using assms(2) rd_bind_ReadInt [of "-1" v] by (simp add: ReadStr_def WriteStr_def reader_simps)
next
  case (Some t)
  then show ?thesis
    using assms rd_bind_ReadInt [of "int (length t)" v]
    by (simp add: ReadStr_def WriteStr_def str_fits_def reader_simps chars_of_str_bytes)
qed

lemma rd_bind_read_ints [reader_simps]:
  "\<forall>i \<in> set is. \<bar>i\<bar> < 2 ^ 31 \<Longrightarrow> K_VERS 0 < v \<Longrightarrow>
   rd_bind (read_ints v 4 (length is)) g (concat (map (WriteInt 4) is) @ r) = g is r"
  by (induction "is" arbitrary: g) (simp_all add: reader_simps)

text \<open>Headers this build writes: its version and integer size, values that fit
  their width, the KEM ciphertext and nonce present exactly when the archive
  is marked encrypted.\<close>

definition head_ok :: "archive_head \<Rightarrow> bool" where
  "head_ok h \<longleftrightarrow>
     ah_version h = K_VERS_SELF \<and> ah_intSize h = 4 \<and> ah_offSize h < 256 \<and> ah_format h < 256 \<and> ah_compression h < 256
     \<and> ah_compression_level h = 0 \<and> length (ah_createDate h) = 7 \<and> (\<forall>i \<in> set (ah_createDate h). \<bar>i\<bar> < 2 ^ 31)
     \<and> str_fits (ah_dbname h) \<and> str_fits (ah_remoteVersion h) \<and> str_fits (ah_dumpVersion h)
     \<and> ah_pqc_encrypted h < 256 \<and> ah_pqc_signed h < 256 \<and> length (ah_pqc_aes_nonce h) = 12
     \<and> str_fits (ah_pqc_kem_algorithm h) \<and> str_fits (ah_pqc_sig_algorithm h)
     \<and> (if ah_pqc_encrypted h = 0
        then ah_pqc_kem_algorithm h = None \<and> ah_pqc_kem_ct_len h = 0 \<and> ah_pqc_kem_ciphertext h = None
          \<and> ah_pqc_aes_nonce h = replicate 12 0
        else 0 < ah_pqc_kem_ct_len h \<and> int (ah_pqc_kem_ct_len h) < 2 ^ 31
          \<and> (\<exists>ct. ah_pqc_kem_ciphertext h = Some ct \<and> length ct = ah_pqc_kem_ct_len h))
     \<and> (ah_pqc_signed h = 0 \<longrightarrow> ah_pqc_sig_algorithm h = None)"

lemma versions: "K_VERS 0 < K_VERS_SELF" "K_VERS 4 \<le> K_VERS_SELF" "K_VERS 7 \<le> K_VERS_SELF" "K_VERS 10 \<le> K_VERS_SELF"
  "K_VERS 15 \<le> K_VERS_SELF" "K_VERS 17 \<le> K_VERS_SELF"
  by (simp_all add: K_VERS_def K_VERS_SELF_def MAKE_ARCHIVE_VERSION_def)

lemma rd_bind_read_version [reader_simps]:
  "rd_bind read_version g (byte_of 1 @ byte_of 17 @ byte_of 0 @ r) = g K_VERS_SELF r"
  by (simp add: read_version_def reader_simps schar_def K_VERS_def K_VERS_SELF_def K_VERS_MAX_def MAKE_ARCHIVE_VERSION_def)

lemma read_pqc_fields_written:
  assumes "head_ok h" and "ah_version g = K_VERS_SELF" and "ah_intSize g = 4"
    and "ah_pqc_kem_algorithm g = None" and "ah_pqc_kem_ct_len g = 0" and "ah_pqc_kem_ciphertext g = None"
    and "ah_pqc_aes_nonce g = replicate 12 0" and "ah_pqc_sig_algorithm g = None"
  shows "read_pqc_fields g (write_pqc_fields h @ r) =
    Some (g \<lparr>ah_pqc_encrypted := ah_pqc_encrypted h, ah_pqc_kem_algorithm := ah_pqc_kem_algorithm h,
      ah_pqc_kem_ct_len := ah_pqc_kem_ct_len h, ah_pqc_kem_ciphertext := ah_pqc_kem_ciphertext h,
      ah_pqc_aes_nonce := ah_pqc_aes_nonce h, ah_pqc_signed := ah_pqc_signed h,
      ah_pqc_sig_algorithm := ah_pqc_sig_algorithm h\<rparr>, r)"
proof -
  note defs = read_pqc_fields_def write_pqc_fields_def Let_def reader_simps versions
  show ?thesis
  proof (cases "ah_pqc_encrypted h = 0")
    case True
    then show ?thesis
      using assms by (cases "ah_pqc_signed h = 0"; cases g) (simp_all add: defs head_ok_def)
  next
    case False
    then obtain ct where ct: "ah_pqc_kem_ciphertext h = Some ct" "length ct = ah_pqc_kem_ct_len h"
        "0 < ah_pqc_kem_ct_len h" "int (ah_pqc_kem_ct_len h) < 2 ^ 31"
      using assms(1) by (auto simp: head_ok_def)
    then have "int_of_long (int (ah_pqc_kem_ct_len h)) = int (ah_pqc_kem_ct_len h)"
      by (intro int_of_long_small) simp_all
    then show ?thesis
      using False ct assms
      by (cases "ah_pqc_signed h = 0"; cases g) (simp_all add: defs head_ok_def)
  qed
qed

text \<open>Everything before the PQC fields is read back by both builds.\<close>

lemma ReadHead_common:
  assumes "head_ok h"
  shows "ReadHead use_pqc False (alloc_head (ah_format h)) (WriteHead False h @ r) =
    (let g = (alloc_head (ah_format h)) \<lparr>ah_offSize := ah_offSize h, ah_compression := ah_compression h,
       ah_createDate := ah_createDate h, ah_dbname := ah_dbname h, ah_remoteVersion := ah_remoteVersion h,
       ah_dumpVersion := ah_dumpVersion h\<rparr>
     in if use_pqc then read_pqc_fields g r else Some (g, r))"
proof -
  have v: "K_VERS_SELF div 65536 mod 256 = 1" "K_VERS_SELF div 256 mod 256 = 17" "K_VERS_SELF mod 256 = 0"
    by (simp_all add: K_VERS_SELF_def MAKE_ARCHIVE_VERSION_def)
  have magic: "length (str_bytes ''PGDMP'') = 5"
    by (simp add: str_bytes_def)
  have dates: "rd_bind (read_ints K_VERS_SELF 4 7) k (concat (map (WriteInt 4) (ah_createDate h)) @ q) = k (ah_createDate h) q" for k q
    using assms rd_bind_read_ints [of "ah_createDate h" K_VERS_SELF] by (simp add: head_ok_def versions)
  show ?thesis
    using assms
    by (simp add: ReadHead_def WriteHead_def read_compression_def read_names_def alloc_head_def head_ok_def v magic dates
      reader_simps versions Let_def)
qed

text \<open>C35: an archive header written by a build with PQC support, the algorithm
  names, KEM ciphertext, nonce and signing fields included, is read back
  unchanged, and the reader stops at the byte after it.\<close>

theorem archive_head_roundtrip:
  assumes "head_ok h"
  shows "ReadHead True False (alloc_head (ah_format h)) (WriteHead True h @ r) = Some (h, r)"
proof -
  have "WriteHead True h @ r = WriteHead False h @ write_pqc_fields h @ r"
    by (simp add: WriteHead_def)
  then have "ReadHead True False (alloc_head (ah_format h)) (WriteHead True h @ r) =
    Some ((alloc_head (ah_format h)) \<lparr>ah_offSize := ah_offSize h, ah_compression := ah_compression h,
       ah_createDate := ah_createDate h, ah_dbname := ah_dbname h, ah_remoteVersion := ah_remoteVersion h,
       ah_dumpVersion := ah_dumpVersion h, ah_pqc_encrypted := ah_pqc_encrypted h,
       ah_pqc_kem_algorithm := ah_pqc_kem_algorithm h, ah_pqc_kem_ct_len := ah_pqc_kem_ct_len h,
       ah_pqc_kem_ciphertext := ah_pqc_kem_ciphertext h, ah_pqc_aes_nonce := ah_pqc_aes_nonce h,
       ah_pqc_signed := ah_pqc_signed h, ah_pqc_sig_algorithm := ah_pqc_sig_algorithm h\<rparr>, r)"
    by (simp only: ReadHead_common [OF assms] Let_def if_True)
      (simp add: read_pqc_fields_written [OF assms] alloc_head_def)
  then show ?thesis
    using assms by (cases h) (simp add: alloc_head_def head_ok_def)
qed

definition sample_head :: archive_head where
  "sample_head = (alloc_head 1) \<lparr>ah_createDate := [1, 2, 3, 4, 5, 126, -1], ah_dbname := Some ''db'',
     ah_dumpVersion := Some ''17.4'', ah_pqc_encrypted := 1, ah_pqc_kem_algorithm := Some ''ML-KEM-768'',
     ah_pqc_kem_ct_len := 3, ah_pqc_kem_ciphertext := Some [7, 8, 9], ah_pqc_aes_nonce := [1, 2, 3, 4, 5, 6, 7, 8, 9, 10, 11, 12],
     ah_pqc_signed := 1, ah_pqc_sig_algorithm := Some ''ML-DSA-65''\<rparr>"

lemma sample_head_ok: "head_ok sample_head" "ah_format sample_head = 1"
  by (simp_all add: head_ok_def sample_head_def alloc_head_def str_fits_def)

theorem archive_head_roundtrip_witness:
  "head_ok sample_head \<and> ReadHead True False (alloc_head 1) (WriteHead True sample_head @ [5]) = Some (sample_head, [5])"
  using sample_head_ok archive_head_roundtrip [OF sample_head_ok(1), of "[5]"] by simp

section \<open>Archives of a build without PQC support\<close>

text \<open>Readers never give bytes back.\<close>

definition consumes :: "'a reader \<Rightarrow> bool" where
  "consumes f \<longleftrightarrow> (\<forall>s x r. f s = Some (x, r) \<longrightarrow> length r \<le> length s)"

lemma consumes_basic [intro]: "consumes (rd_ok x)" "consumes rd_fatal" "consumes ReadByte" "consumes (ReadBuf n)"
  by (auto simp: consumes_def rd_ok_def rd_fatal_def ReadByte_def ReadBuf_def split: list.splits if_splits)

lemma consumes_bind [intro]: "consumes f \<Longrightarrow> (\<And>x. consumes (g x)) \<Longrightarrow> consumes (rd_bind f g)"
  unfolding consumes_def rd_bind_def by (fastforce split: option.splits intro: order_trans)

lemma consumes_if [intro]: "consumes f \<Longrightarrow> consumes g \<Longrightarrow> consumes (if b then f else g)"
  by simp

lemma consumes_read_int_bytes [intro]: "consumes (read_int_bytes n res sh)"
  by (induction n arbitrary: res sh) auto

lemma consumes_ReadStr [intro]: "consumes (ReadInt v n)" "consumes (ReadStr v n)"
  by (auto simp: ReadInt_def ReadStr_def)

lemma ReadByte_first: "consumes (rd_bind ReadByte g) \<Longrightarrow> (\<And>x. consumes (g x)) \<Longrightarrow> rd_bind ReadByte g s \<noteq> Some (x, s)"
  by (fastforce simp: rd_bind_def ReadByte_def consumes_def split: list.splits)

text \<open>The version number is the same in a build without PQC support, which writes
  no PQC fields: a PQC build takes the first bytes that follow the header for
  them, so it never continues where the header ended.\<close>

theorem archive_head_other_build:
  assumes "head_ok h"
  shows "ReadHead True False (alloc_head (ah_format h)) (WriteHead False h @ r) \<noteq> Some (g, r)"
  unfolding ReadHead_common [OF assms] read_pqc_fields_def Let_def if_True
  by (rule ReadByte_first) (auto intro!: consumes_bind consumes_if)

theorem archive_head_other_build_witness:
  "ReadHead True False (alloc_head 1) (WriteHead False sample_head @ [0, 3, 0, 0, 0]) \<noteq> Some (sample_head, [0, 3, 0, 0, 0])"
  using archive_head_other_build [OF sample_head_ok(1)] by (simp add: sample_head_ok(2))

end
