(* ===== verification/BackupStream.thy ===== *)
theory BackupStream
  imports FeCommon Samples
begin

text \<open>
  Encryption and signing of dump data: bin/pg_dump/compress_pqc.c.  A running
  SHA-256 context is the data fed into it so far.  pg_fatal ends the program;
  the constructors of backup_fatal stand for its messages (Key_not_loaded for
  those about the public, the secret, the signing and the verification key).
  The functions on data return -1 (None) when EVP_DigestUpdate fails.  State and buffer
  pointers are not null, memory suffices, and the free functions, which only
  wipe and release memory, are left out.
\<close>

section \<open>Keys and nonces\<close>

datatype backup_fatal =
    Out_of_memory
  | No_kem_context string
  | Key_file_not_opened string
  | Key_file_size_unknown string
  | Key_file_empty string
  | Key_file_wrong_size string nat nat string
  | Key_not_loaded string
  | Encapsulation_failed
  | Decapsulation_failed
  | Key_not_derived
  | No_random_iv
  | No_base_iv
  | Hash_not_initialized
  | No_sig_context string

definition derive_aes_key :: "openssl \<Rightarrow> bytes \<Rightarrow> backup_fatal + bytes" where
  "derive_aes_key ssl shared_secret =
     (case evp_sha256 ssl shared_secret of
        Digest d \<Rightarrow> Inr d
      | Digest_no_ctx \<Rightarrow> Inl Out_of_memory
      | _ \<Rightarrow> Inl Key_not_derived)"

definition make_chunk_iv :: "bytes \<Rightarrow> 64 word \<Rightarrow> bytes" where
  "make_chunk_iv base_iv counter =
     fold (\<lambda>i iv. iv[11 - i := iv ! (11 - i) XOR ucast (drop_bit (8 * i) counter)]) [0..<8] base_iv"

text \<open>Creating and initialising the hash context; what is fed to it later does
  not matter here.\<close>

definition hash_init :: "openssl \<Rightarrow> backup_fatal + bytes" where
  "hash_init ssl =
     (case evp_sha256 ssl [] of
        Digest_no_ctx \<Rightarrow> Inl Out_of_memory
      | Digest_init_failed \<Rightarrow> Inl Hash_not_initialized
      | _ \<Rightarrow> Inr [])"

section \<open>Encryption\<close>

record PqcEncryptorState =
  es_kem_ctx :: FeKemContext
  es_aes_key :: bytes
  es_aes_iv :: bytes
  es_chunk_counter :: "64 word"
  es_hash_ctx :: bytes

text \<open>The check of the key file before it is loaded.\<close>

definition check_key_file :: "fs \<Rightarrow> FeKemContext \<Rightarrow> string \<Rightarrow> string \<Rightarrow> backup_fatal option" where
  "check_key_file files ctx pubkey_path algorithm =
     (case files pubkey_path of
        None \<Rightarrow> Some (Key_file_not_opened pubkey_path)
      | Some Unseekable \<Rightarrow> Some (Key_file_size_unknown pubkey_path)
      | Some (Seekable data) \<Rightarrow>
          if length data = 0 then Some (Key_file_empty pubkey_path)
          else if fk_public_key_len ctx > 0 \<and> length data \<noteq> fk_public_key_len ctx
          then Some (Key_file_wrong_size pubkey_path (length data) (fk_public_key_len ctx) algorithm)
          else None)"

definition pqc_encrypt_init ::
  "liboqs \<Rightarrow> openssl \<Rightarrow> fs \<Rightarrow> string \<Rightarrow> string \<Rightarrow> nat \<Rightarrow> backup_fatal + PqcEncryptorState \<times> nat" where
  "pqc_encrypt_init L ssl files pubkey_path algorithm c =
     (case pqc_kem_ctx_new L algorithm of
        None \<Rightarrow> Inl (No_kem_context algorithm)
      | Some ctx \<Rightarrow>
        (case check_key_file files ctx pubkey_path algorithm of
           Some e \<Rightarrow> Inl e
         | None \<Rightarrow>
           (case pqc_kem_load_public_key files ctx (Some pubkey_path) of (rc, ctx) \<Rightarrow>
            if rc \<noteq> 0 then Inl (Key_not_loaded pubkey_path)
            else
              (case pqc_kem_encapsulate L ctx c of (rc, ctx, c) \<Rightarrow>
               if rc \<noteq> 0 then Inl Encapsulation_failed
               else
                 (case derive_aes_key ssl (the (fk_shared_secret ctx)) of
                    Inl e \<Rightarrow> Inl e
                  | Inr key \<Rightarrow>
                    if rand_status ssl c \<noteq> 1 then Inl No_random_iv
                    else
                      (case hash_init ssl of
                         Inl e \<Rightarrow> Inl e
                       | Inr h \<Rightarrow> Inr (\<lparr>es_kem_ctx = ctx, es_aes_key = key, es_aes_iv = rand_buf ssl c 12,
                           es_chunk_counter = 0, es_hash_ctx = h\<rparr>, c + 1)))))))"

definition pqc_encrypt_data :: "openssl \<Rightarrow> PqcEncryptorState \<Rightarrow> bytes \<Rightarrow> bytes option \<times> PqcEncryptorState" where
  "pqc_encrypt_data ssl state input =
     (if input = [] then (None, state)
      else if \<not> digest_feed ssl EVP_sha256 (es_hash_ctx state) input then (None, state)
      else
        let chunk_iv = make_chunk_iv (es_aes_iv state) (es_chunk_counter state);
            state = state \<lparr>es_hash_ctx := es_hash_ctx state @ input, es_chunk_counter := es_chunk_counter state + 1\<rparr>
        in (case pqc_aes256gcm_encrypt ssl (es_aes_key state) chunk_iv input of
              None \<Rightarrow> (None, state)
            | Some (ct, tag) \<Rightarrow> (Some (be32 (of_nat (length ct)) @ ct @ tag), state)))"

definition pqc_encrypt_finish :: "PqcEncryptorState \<Rightarrow> bytes \<times> bytes" where
  "pqc_encrypt_finish state = (the (fk_ciphertext (es_kem_ctx state)), es_aes_iv state)"

section \<open>Decryption\<close>

record PqcDecryptorState =
  ds_kem_ctx :: FeKemContext
  ds_aes_key :: bytes
  ds_aes_iv :: bytes
  ds_chunk_counter :: "64 word"
  ds_hash_ctx :: bytes

definition pqc_decrypt_init ::
  "liboqs \<Rightarrow> openssl \<Rightarrow> fs \<Rightarrow> string \<Rightarrow> string \<Rightarrow> bytes \<Rightarrow> bytes option \<Rightarrow> backup_fatal + PqcDecryptorState" where
  "pqc_decrypt_init L ssl files seckey_path algorithm ciphertext base_iv =
     (case base_iv of
        None \<Rightarrow> Inl No_base_iv
      | Some iv \<Rightarrow>
        (case pqc_kem_ctx_new L algorithm of
           None \<Rightarrow> Inl (No_kem_context algorithm)
         | Some ctx \<Rightarrow>
           (case pqc_kem_load_secret_key files ctx (Some seckey_path) of (rc, ctx) \<Rightarrow>
            if rc \<noteq> 0 then Inl (Key_not_loaded seckey_path)
            else
              (case pqc_kem_decapsulate L ctx ciphertext of (rc, ctx) \<Rightarrow>
               if rc \<noteq> 0 then Inl Decapsulation_failed
               else
                 (case derive_aes_key ssl (the (fk_shared_secret ctx)) of
                    Inl e \<Rightarrow> Inl e
                  | Inr key \<Rightarrow>
                    (case hash_init ssl of
                       Inl e \<Rightarrow> Inl e
                     | Inr h \<Rightarrow> Inr \<lparr>ds_kem_ctx = ctx, ds_aes_key = key, ds_aes_iv = iv, ds_chunk_counter = 0,
                         ds_hash_ctx = h\<rparr>))))))"

definition pqc_decrypt_data :: "openssl \<Rightarrow> PqcDecryptorState \<Rightarrow> bytes \<Rightarrow> bytes option \<times> PqcDecryptorState" where
  "pqc_decrypt_data ssl state input =
     (if length input < 4 + 16 then (None, state)
      else
        let ct_len = unat (of_be32 input) in
        if length input \<noteq> 4 + ct_len + 16 then (None, state)
        else
          let ct_data = take ct_len (drop 4 input);
              tag = drop (4 + ct_len) input;
              chunk_iv = make_chunk_iv (ds_aes_iv state) (ds_chunk_counter state);
              state = state \<lparr>ds_chunk_counter := ds_chunk_counter state + 1\<rparr>
          in (case pqc_aes256gcm_decrypt ssl (ds_aes_key state) chunk_iv ct_data tag of
                None \<Rightarrow> (None, state)
              | Some pt \<Rightarrow>
                  if \<not> digest_feed ssl EVP_sha256 (ds_hash_ctx state) pt then (None, state)
                  else (Some pt, state \<lparr>ds_hash_ctx := ds_hash_ctx state @ pt\<rparr>)))"

definition pqc_decrypt_finish :: "PqcDecryptorState \<Rightarrow> int" where
  "pqc_decrypt_finish state = 0"

section \<open>Signing and verification\<close>

record PqcSignState =
  ss_sig_ctx :: FeSigContext
  ss_hash_ctx :: bytes

definition pqc_sign_init :: "liboqs \<Rightarrow> openssl \<Rightarrow> fs \<Rightarrow> string \<Rightarrow> string \<Rightarrow> backup_fatal + PqcSignState" where
  "pqc_sign_init L ssl files seckey_path algorithm =
     (case pqc_sig_ctx_new L algorithm of
        None \<Rightarrow> Inl (No_sig_context algorithm)
      | Some ctx \<Rightarrow>
        (case pqc_sig_load_keys files ctx None (Some seckey_path) of (rc, ctx) \<Rightarrow>
         if rc \<noteq> 0 then Inl (Key_not_loaded seckey_path)
         else (case hash_init ssl of Inl e \<Rightarrow> Inl e | Inr h \<Rightarrow> Inr \<lparr>ss_sig_ctx = ctx, ss_hash_ctx = h\<rparr>)))"

definition pqc_sign_update :: "openssl \<Rightarrow> PqcSignState \<Rightarrow> bytes \<Rightarrow> int \<times> PqcSignState" where
  "pqc_sign_update ssl state data =
     (if \<not> digest_feed ssl EVP_sha256 (ss_hash_ctx state) data then (-1, state)
      else (0, state \<lparr>ss_hash_ctx := ss_hash_ctx state @ data\<rparr>))"

definition pqc_sign_finish :: "liboqs \<Rightarrow> openssl \<Rightarrow> PqcSignState \<Rightarrow> nat \<Rightarrow> bytes option \<times> nat" where
  "pqc_sign_finish L ssl state c =
     (case evp_sha256 ssl (ss_hash_ctx state) of
        Digest hash \<Rightarrow>
          (case pqc_common_sign L (ss_sig_ctx state) (Some hash) c of (rc, sig, c) \<Rightarrow>
           if rc \<noteq> 0 then (None, c) else (sig, c))
      | _ \<Rightarrow> (None, c))"

record PqcVerifyState =
  vs_sig_ctx :: FeSigContext
  vs_hash_ctx :: bytes

definition pqc_verify_init :: "liboqs \<Rightarrow> openssl \<Rightarrow> fs \<Rightarrow> string \<Rightarrow> string \<Rightarrow> backup_fatal + PqcVerifyState" where
  "pqc_verify_init L ssl files pubkey_path algorithm =
     (case pqc_sig_ctx_new L algorithm of
        None \<Rightarrow> Inl (No_sig_context algorithm)
      | Some ctx \<Rightarrow>
        (case pqc_sig_load_keys files ctx (Some pubkey_path) None of (rc, ctx) \<Rightarrow>
         if rc \<noteq> 0 then Inl (Key_not_loaded pubkey_path)
         else (case hash_init ssl of Inl e \<Rightarrow> Inl e | Inr h \<Rightarrow> Inr \<lparr>vs_sig_ctx = ctx, vs_hash_ctx = h\<rparr>)))"

definition pqc_verify_update :: "openssl \<Rightarrow> PqcVerifyState \<Rightarrow> bytes \<Rightarrow> int \<times> PqcVerifyState" where
  "pqc_verify_update ssl state data =
     (if \<not> digest_feed ssl EVP_sha256 (vs_hash_ctx state) data then (-1, state)
      else (0, state \<lparr>vs_hash_ctx := vs_hash_ctx state @ data\<rparr>))"

definition pqc_verify_finish :: "liboqs \<Rightarrow> openssl \<Rightarrow> PqcVerifyState \<Rightarrow> bytes option \<Rightarrow> int" where
  "pqc_verify_finish L ssl state sig =
     (case sig of
        None \<Rightarrow> -1
      | Some s \<Rightarrow>
        (case evp_sha256 ssl (vs_hash_ctx state) of
           Digest hash \<Rightarrow> if pqc_common_verify L (vs_sig_ctx state) (Some hash) (Some s) \<noteq> 0 then -1 else 0
         | _ \<Rightarrow> -1))"

section \<open>Chunk nonces\<close>

lemma chunk_iv_prefix:
  fixes c :: "64 word" and iv :: bytes
  assumes "length iv = 12" and "n \<le> 8"
  defines "step \<equiv> \<lambda>i iv. iv[11 - i := iv ! (11 - i) XOR ucast (drop_bit (8 * i) c)]"
  shows "length (fold step [0..<n] iv) = 12 \<and>
    (\<forall>i < 12. fold step [0..<n] iv ! i = iv ! i XOR (if 12 \<le> i + n then ucast (drop_bit (8 * (11 - i)) c) else 0))"
  using assms(2)
proof (induction n)
  case (Suc n)
  then show ?case
    by (auto simp: step_def nth_list_update)
qed (simp add: assms(1))

lemma nth_make_chunk_iv:
  assumes "length iv = 12" and "i < 8"
  shows "make_chunk_iv iv c ! (11 - i) = iv ! (11 - i) XOR le64 c ! i"
  using chunk_iv_prefix [OF assms(1), where n = 8 and c = c] assms(2) by (simp add: make_chunk_iv_def le64_def)

lemma make_chunk_iv_inject:
  assumes "length iv = 12"
  shows "make_chunk_iv iv c = make_chunk_iv iv d \<longleftrightarrow> c = d"
proof
  assume eq: "make_chunk_iv iv c = make_chunk_iv iv d"
  have "le64 c ! i = le64 d ! i" if "i < 8" for i
  proof -
    have "iv ! (11 - i) XOR (iv ! (11 - i) XOR le64 c ! i) = iv ! (11 - i) XOR (iv ! (11 - i) XOR le64 d ! i)"
      using eq nth_make_chunk_iv [OF assms that] by metis
    then show ?thesis
      by (simp add: xor.assoc [symmetric])
  qed
  then have "le64 c = le64 d"
    by (intro nth_equalityI) simp_all
  then show "c = d"
    by (simp add: le64_inject)
qed simp

text \<open>A stream is a sequence of calls, stopped by the first failure.\<close>

primrec run_chunks :: "('s \<Rightarrow> bytes \<Rightarrow> bytes option \<times> 's) \<Rightarrow> 's \<Rightarrow> bytes list \<Rightarrow> (bytes list \<times> 's) option" where
  "run_chunks f s [] = Some ([], s)"
| "run_chunks f s (x # xs) =
     (case f s x of
        (None, _) \<Rightarrow> None
      | (Some y, s) \<Rightarrow> map_option (\<lambda>(ys, s). (y # ys, s)) (run_chunks f s xs))"

lemma run_chunks_Cons_Some:
  "run_chunks f s (x # xs) = Some (zs, t) \<longleftrightarrow>
   (\<exists>y s1 ys. f s x = (Some y, s1) \<and> run_chunks f s1 xs = Some (ys, t) \<and> zs = y # ys)"
  by (auto split: prod.splits option.splits)

text \<open>What one call of pqc_encrypt_data returns and leaves behind.\<close>

lemma pqc_encrypt_data_Some:
  "pqc_encrypt_data ssl st x = (Some y, st1) \<longleftrightarrow>
   (\<exists>ct tag. x \<noteq> [] \<and> digest_feed ssl EVP_sha256 (es_hash_ctx st) x \<and>
      pqc_aes256gcm_encrypt ssl (es_aes_key st) (make_chunk_iv (es_aes_iv st) (es_chunk_counter st)) x = Some (ct, tag) \<and>
      y = be32 (of_nat (length ct)) @ ct @ tag \<and>
      st1 = st \<lparr>es_hash_ctx := es_hash_ctx st @ x, es_chunk_counter := es_chunk_counter st + 1\<rparr>)"
  by (auto simp: pqc_encrypt_data_def Let_def split: option.splits)

lemma encrypted_chunks:
  assumes "run_chunks (pqc_encrypt_data ssl) st chunks = Some (outs, st')" and "i < length chunks"
  shows "\<exists>ct tag. pqc_aes256gcm_encrypt ssl (es_aes_key st)
      (make_chunk_iv (es_aes_iv st) (es_chunk_counter st + of_nat i)) (chunks ! i) = Some (ct, tag) \<and>
    outs ! i = be32 (of_nat (length ct)) @ ct @ tag"
  using assms
proof (induction chunks arbitrary: st outs i)
  case (Cons x xs)
  from Cons.prems(1) obtain y st1 ys where c: "pqc_encrypt_data ssl st x = (Some y, st1)"
      "run_chunks (pqc_encrypt_data ssl) st1 xs = Some (ys, st')" "outs = y # ys"
    by (auto simp only: run_chunks_Cons_Some)
  show ?case
  proof (cases i)
    case 0
    then show ?thesis
      using c(1,3) by (auto simp: pqc_encrypt_data_Some)
  next
    case (Suc j)
    have "es_aes_key st1 = es_aes_key st \<and> es_aes_iv st1 = es_aes_iv st \<and>
        es_chunk_counter st1 + of_nat j = es_chunk_counter st + of_nat i"
      using c(1) Suc by (auto simp: pqc_encrypt_data_Some)
    then show ?thesis
      using Cons.IH [OF c(2), of j] Cons.prems(2) Suc c(3) by (simp add: add.assoc)
  qed
qed simp

lemma pqc_encrypt_init_state:
  assumes "pqc_encrypt_init L ssl files path alg c = Inr (st, c')"
  shows "length (es_aes_iv st) = 12 \<and> es_chunk_counter st = 0 \<and> es_hash_ctx st = []"
  using assms
  by (auto simp: pqc_encrypt_init_def hash_init_def split: option.splits sum.splits prod.splits if_splits digest_out.splits)

text \<open>C23: every chunk of a dump of at most 2 to the 64 chunks is sealed under the
  stream's key with a nonce of its own: no nonce is used for two chunks.\<close>

theorem backup_nonces_distinct:
  assumes "pqc_encrypt_init L ssl files path alg c = Inr (st, c')"
    and "run_chunks (pqc_encrypt_data ssl) st chunks = Some (outs, st')"
    and "length chunks \<le> 2 ^ 64" and "i < length chunks" and "j < length chunks" and "i \<noteq> j"
  shows "\<exists>iv jv ct tag ct' tag'. iv \<noteq> jv \<and>
    pqc_aes256gcm_encrypt ssl (es_aes_key st) iv (chunks ! i) = Some (ct, tag) \<and>
    outs ! i = be32 (of_nat (length ct)) @ ct @ tag \<and>
    pqc_aes256gcm_encrypt ssl (es_aes_key st) jv (chunks ! j) = Some (ct', tag') \<and>
    outs ! j = be32 (of_nat (length ct')) @ ct' @ tag'"
proof -
  have "(of_nat i :: 64 word) \<noteq> of_nat j"
    using assms(3-6) by (simp add: of_nat_inverse word_of_nat_eq_iff take_bit_nat_eq_self)
  then have "make_chunk_iv (es_aes_iv st) (of_nat i) \<noteq> make_chunk_iv (es_aes_iv st) (of_nat j)"
    using pqc_encrypt_init_state [OF assms(1)] by (simp add: make_chunk_iv_inject)
  then show ?thesis
    using encrypted_chunks [OF assms(2,4)] encrypted_chunks [OF assms(2,5)] pqc_encrypt_init_state [OF assms(1)]
    by fastforce
qed

section \<open>Restoring what was dumped\<close>

text \<open>The two ends of a stream in step.\<close>

definition in_step :: "PqcEncryptorState \<Rightarrow> PqcDecryptorState \<Rightarrow> bool" where
  "in_step st dst \<longleftrightarrow> ds_aes_key dst = es_aes_key st \<and> ds_aes_iv dst = es_aes_iv st \<and>
     ds_chunk_counter dst = es_chunk_counter st \<and> ds_hash_ctx dst = es_hash_ctx st"

lemma decrypt_encrypt_chunk:
  assumes "gcm_correct ssl" and "in_step st dst" and "length x < 2 ^ 31"
    and "pqc_encrypt_data ssl st x = (Some y, st1)"
  shows "\<exists>dst1. pqc_decrypt_data ssl dst y = (Some x, dst1) \<and> in_step st1 dst1"
proof -
  from assms(4) obtain ct tag where
    e: "pqc_aes256gcm_encrypt ssl (es_aes_key st) (make_chunk_iv (es_aes_iv st) (es_chunk_counter st)) x = Some (ct, tag)"
    and y: "y = be32 (of_nat (length ct)) @ ct @ tag"
    and st1: "st1 = st \<lparr>es_hash_ctx := es_hash_ctx st @ x, es_chunk_counter := es_chunk_counter st + 1\<rparr>"
    and feed: "digest_feed ssl EVP_sha256 (es_hash_ctx st) x"
    unfolding pqc_encrypt_data_Some by blast
  note d = pqc_aes256gcm_decrypt_encrypt [OF assms(1,3) e]
  have len: "unat (of_be32 y) = length ct"
    using d assms(3) by (simp add: y of_be32_be32 unsigned_of_nat take_bit_nat_eq_self)
  have lens: "length (be32 w) = 4" "length tag = 16" for w
    using d by simp_all
  show ?thesis
    using assms(2) d lens feed
    unfolding pqc_decrypt_data_def len Let_def in_step_def st1 by (simp add: y)
qed

lemma decrypt_encrypt_chunks:
  assumes "gcm_correct ssl" and "in_step st dst" and "\<forall>x \<in> set chunks. length x < 2 ^ 31"
    and "run_chunks (pqc_encrypt_data ssl) st chunks = Some (outs, st')"
  shows "\<exists>dst'. run_chunks (pqc_decrypt_data ssl) dst outs = Some (chunks, dst') \<and> in_step st' dst'"
  using assms(2-4)
proof (induction chunks arbitrary: st dst outs)
  case (Cons x xs)
  from Cons.prems(3) obtain y st1 ys where c: "pqc_encrypt_data ssl st x = (Some y, st1)"
      "run_chunks (pqc_encrypt_data ssl) st1 xs = Some (ys, st')" "outs = y # ys"
    by (auto simp only: run_chunks_Cons_Some)
  then obtain dst1 where d: "pqc_decrypt_data ssl dst y = (Some x, dst1)" "in_step st1 dst1"
    using decrypt_encrypt_chunk [OF assms(1) Cons.prems(1) _ c(1)] Cons.prems(2) by auto
  then show ?case
    using Cons.IH [OF d(2) _ c(2)] Cons.prems(2) c(3) by (auto simp: d(1))
qed auto

lemma encrypted_state:
  assumes "run_chunks (pqc_encrypt_data ssl) st chunks = Some (outs, st')"
  shows "es_kem_ctx st' = es_kem_ctx st \<and> es_aes_iv st' = es_aes_iv st \<and> es_hash_ctx st' = es_hash_ctx st @ concat chunks"
  using assms
proof (induction chunks arbitrary: st outs)
  case (Cons x xs)
  then obtain y st1 ys where "pqc_encrypt_data ssl st x = (Some y, st1)" "run_chunks (pqc_encrypt_data ssl) st1 xs = Some (ys, st')"
    by (auto simp only: run_chunks_Cons_Some)
  then show ?case
    using Cons.IH by (fastforce simp: pqc_encrypt_data_Some)
qed simp

text \<open>The holder of the secret key derives the key of the stream.\<close>

lemma pqc_decrypt_init_in_step:
  assumes "kem_correct L" and "OQS_KEM_new L alg = Some kem" and "OQS_KEM_keypair L kem c0 = Some (pk, sk)"
    and "files pub = Some (Seekable pk)" and "files' sec = Some (Seekable sk)"
    and "pqc_encrypt_init L ssl files pub alg c = Inr (st, c')"
  shows "\<exists>dst. pqc_decrypt_init L ssl files' sec alg (the (fk_ciphertext (es_kem_ctx st))) (Some (es_aes_iv st)) = Inr dst \<and>
    in_step st dst"
proof -
  obtain ct ss where enc: "OQS_KEM_encaps L kem c pk = Some (ct, ss)"
    using assms(2,4,6)
    by (auto simp: pqc_encrypt_init_def pqc_kem_ctx_new_def check_key_file_def pqc_kem_load_public_key_def
      read_file_contents_def pqc_kem_encapsulate_def split: option.splits if_splits)
  have "length sk = kem_length_secret_key kem" "length ct = kem_length_ciphertext kem" "OQS_KEM_decaps L kem ct sk = Some ss"
    using assms(1-3) enc unfolding kem_correct_def by blast+
  then show ?thesis
    using assms(2,4-6) enc
    by (auto simp: pqc_encrypt_init_def pqc_kem_ctx_new_def check_key_file_def pqc_kem_load_public_key_def
      read_file_contents_def pqc_kem_encapsulate_def pqc_decrypt_init_def pqc_kem_load_secret_key_def
      pqc_kem_decapsulate_def in_step_def split: option.splits if_splits sum.splits)
qed

text \<open>C12: the holder of the secret key, given the KEM ciphertext and base nonce the
  encryptor hands out for the archive header, decrypts every chunk of a dump
  in order to what was dumped, and both ends have hashed the same data.  Every
  chunk has fewer than 2 to the 31 bytes, as its length is passed on as an int.\<close>

theorem backup_stream_roundtrip:
  assumes "kem_correct L" and "gcm_correct ssl"
    and "OQS_KEM_new L alg = Some kem" and "OQS_KEM_keypair L kem c0 = Some (pk, sk)"
    and "files pub = Some (Seekable pk)" and "files' sec = Some (Seekable sk)"
    and "pqc_encrypt_init L ssl files pub alg c = Inr (st, c')"
    and "\<forall>x \<in> set chunks. length x < 2 ^ 31"
    and "run_chunks (pqc_encrypt_data ssl) st chunks = Some (outs, st')"
    and "pqc_encrypt_finish st' = (ct, iv)"
  shows "\<exists>dst dst'. pqc_decrypt_init L ssl files' sec alg ct (Some iv) = Inr dst \<and>
    run_chunks (pqc_decrypt_data ssl) dst outs = Some (chunks, dst') \<and>
    ds_hash_ctx dst' = concat chunks \<and> es_hash_ctx st' = concat chunks \<and> pqc_decrypt_finish dst' = 0"
proof -
  note e = encrypted_state [OF assms(9)]
  obtain dst where d: "pqc_decrypt_init L ssl files' sec alg ct (Some iv) = Inr dst" "in_step st dst"
    using pqc_decrypt_init_in_step [where files = files and files' = files', OF assms(1,3-7)] assms(10) e by (auto simp: pqc_encrypt_finish_def)
  obtain dst' where "run_chunks (pqc_decrypt_data ssl) dst outs = Some (chunks, dst')" "in_step st' dst'"
    using decrypt_encrypt_chunks [OF assms(2) d(2) assms(8,9)] by blast
  then show ?thesis
    using d(1) e pqc_encrypt_init_state [OF assms(7)] by (simp add: in_step_def pqc_decrypt_finish_def)
qed

section \<open>Signatures\<close>

text \<open>Data fed in pieces; a failed update stops the program.\<close>

primrec run_updates :: "('s \<Rightarrow> bytes \<Rightarrow> int \<times> 's) \<Rightarrow> 's \<Rightarrow> bytes list \<Rightarrow> 's option" where
  "run_updates f s [] = Some s"
| "run_updates f s (x # xs) = (case f s x of (rc, s) \<Rightarrow> if rc = 0 then run_updates f s xs else None)"

lemma sign_updates:
  "run_updates (pqc_sign_update ssl) s xs = Some s' \<Longrightarrow> s' = s \<lparr>ss_hash_ctx := ss_hash_ctx s @ concat xs\<rparr>"
  by (induction xs arbitrary: s) (fastforce simp: pqc_sign_update_def split: if_splits)+

lemma verify_updates:
  "(\<And>h x. digest_feed ssl EVP_sha256 h x) \<Longrightarrow>
   run_updates (pqc_verify_update ssl) v xs = Some (v \<lparr>vs_hash_ctx := vs_hash_ctx v @ concat xs\<rparr>)"
  by (induction xs arbitrary: v) (simp_all add: pqc_verify_update_def)

text \<open>A signature over dumped data verifies over the same data with the public
  half of the signing key, however the data is cut into pieces on either
  side.\<close>

theorem backup_signature_verifies:
  assumes "sig_correct L" and "OQS_SIG_new L alg = Some k" and "OQS_SIG_keypair L k c0 = Some (pk, sk)"
    and "files sec = Some (Seekable sk)" and "files' pub = Some (Seekable pk)"
    and "pqc_sign_init L ssl files sec alg = Inr s"
    and "run_updates (pqc_sign_update ssl) s xs = Some s'"
    and "pqc_sign_finish L ssl s' c = (Some sg, c')"
    and "concat ys = concat xs" and "\<And>h x. digest_feed ssl EVP_sha256 h x"
  shows "\<exists>v v'. pqc_verify_init L ssl files' pub alg = Inr v \<and>
    run_updates (pqc_verify_update ssl) v ys = Some v' \<and> pqc_verify_finish L ssl v' (Some sg) = 0"
proof -
  have k: "length pk = sig_length_public_key k" "\<And>c m s. OQS_SIG_sign L k c m sk = Some s \<Longrightarrow> OQS_SIG_verify L k m s pk"
    using assms(1-3) unfolding sig_correct_def by blast+
  have s: "fs_algorithm (ss_sig_ctx s) = alg" "fs_secret_key (ss_sig_ctx s) = Some sk" "ss_hash_ctx s = []" "hash_init ssl = Inr []"
    using assms(2,4,6)
    by (auto simp: pqc_sign_init_def pqc_sig_ctx_new_def pqc_sig_load_keys_def sig_load_public_def sig_load_secret_def
      read_file_contents_def hash_init_def split: if_splits sum.splits digest_out.splits)
  obtain hash where h: "evp_sha256 ssl (concat xs) = Digest hash" "OQS_SIG_sign L k c hash sk = Some sg"
    using assms(2,8) s sign_updates [OF assms(7)]
    by (auto simp: pqc_sign_finish_def pqc_common_sign_def split: digest_out.splits option.splits if_splits)
  then show ?thesis
    using assms(2,5,9) k s(4)
    by (auto simp: verify_updates [OF assms(10)] pqc_verify_finish_def pqc_common_verify_def pqc_verify_init_def
      pqc_sig_ctx_new_def pqc_sig_load_keys_def sig_load_public_def sig_load_secret_def read_file_contents_def)
qed

section \<open>Concrete streams\<close>

definition sample_files :: fs where
  "sample_files path = (if path = ''pub'' \<or> path = ''sec'' then Some (Seekable [3, 7]) else None)"

definition sample_sig_files :: fs where
  "sample_sig_files path = (if path = ''pub'' \<or> path = ''sec'' then Some (Seekable [3, 9]) else None)"

definition sample_enc :: PqcEncryptorState where
  "sample_enc = fst (projr (pqc_encrypt_init sample_oqs sample_ssl sample_files ''pub'' ''ML-KEM-768'' 4))"

definition sample_dump :: "bytes list \<times> PqcEncryptorState" where
  "sample_dump = the (run_chunks (pqc_encrypt_data sample_ssl) sample_enc [[1, 2], [3]])"

lemma sample_init:
  "pqc_encrypt_init sample_oqs sample_ssl sample_files ''pub'' ''ML-KEM-768'' 4 = Inr (sample_enc, 6)"
  by (simp add: sample_enc_def pqc_encrypt_init_def pqc_kem_ctx_new_def sample_oqs_def sample_kem_def check_key_file_def
    sample_files_def pqc_kem_load_public_key_def read_file_contents_def pqc_kem_encapsulate_def derive_aes_key_def
    sample_ssl_def hash_init_def)

lemma sample_chunks:
  "run_chunks (pqc_encrypt_data sample_ssl) sample_enc [[1, 2], [3]] = Some (fst sample_dump, snd sample_dump)"
  by (simp add: sample_dump_def pqc_encrypt_data_def Let_def pqc_aes256gcm_encrypt_def sample_ssl_def int_of_long_small)

theorem backup_nonces_distinct_witness:
  "\<exists>iv jv ct tag ct' tag'. iv \<noteq> jv \<and>
    pqc_aes256gcm_encrypt sample_ssl (es_aes_key sample_enc) iv [1, 2] = Some (ct, tag) \<and>
    fst sample_dump ! 0 = be32 (of_nat (length ct)) @ ct @ tag \<and>
    pqc_aes256gcm_encrypt sample_ssl (es_aes_key sample_enc) jv [3] = Some (ct', tag') \<and>
    fst sample_dump ! 1 = be32 (of_nat (length ct')) @ ct' @ tag'"
  using backup_nonces_distinct [OF sample_init sample_chunks, of 0 1] by simp

theorem backup_stream_roundtrip_witness:
  "\<exists>dst dst'. pqc_decrypt_init sample_oqs sample_ssl sample_files ''sec'' ''ML-KEM-768''
      (fst (pqc_encrypt_finish (snd sample_dump))) (Some (snd (pqc_encrypt_finish (snd sample_dump)))) = Inr dst \<and>
    run_chunks (pqc_decrypt_data sample_ssl) dst (fst sample_dump) = Some ([[1, 2], [3]], dst') \<and>
    ds_hash_ctx dst' = [1, 2, 3] \<and> es_hash_ctx (snd sample_dump) = [1, 2, 3] \<and> pqc_decrypt_finish dst' = 0"
  using backup_stream_roundtrip [where files = sample_files and files' = sample_files and pub = "''pub''" and sec = "''sec''"
    and kem = "sample_kem ''ML-KEM-768''" and ?c0.0 = 3 and pk = "[3, 7]" and sk = "[3, 7]",
    OF kem_correct_sample gcm_correct_sample _ _ _ _ sample_init _ sample_chunks surjective_pairing]
  by (simp add: sample_oqs_def sample_files_def)

theorem backup_signature_verifies_witness:
  "\<exists>s s' v v'. pqc_sign_init sample_oqs sample_ssl sample_sig_files ''sec'' ''ML-DSA-65'' = Inr s \<and>
    run_updates (pqc_sign_update sample_ssl) s [[1, 2], [3]] = Some s' \<and>
    pqc_verify_init sample_oqs sample_ssl sample_sig_files ''pub'' ''ML-DSA-65'' = Inr v \<and>
    run_updates (pqc_verify_update sample_ssl) v [[1], [2, 3]] = Some v' \<and>
    pqc_verify_finish sample_oqs sample_ssl v' (fst (pqc_sign_finish sample_oqs sample_ssl s' 5)) = 0"
proof -
  let ?s = "projr (pqc_sign_init sample_oqs sample_ssl sample_sig_files ''sec'' ''ML-DSA-65'')"
  let ?s' = "the (run_updates (pqc_sign_update sample_ssl) ?s [[1, 2], [3]])"
  note defs = pqc_sign_init_def pqc_sig_ctx_new_def pqc_sig_load_keys_def sig_load_public_def sig_load_secret_def
    read_file_contents_def hash_init_def sample_ssl_def sample_oqs_def sample_sig_def sample_sig_files_def
  have init: "pqc_sign_init sample_oqs sample_ssl sample_sig_files ''sec'' ''ML-DSA-65'' = Inr ?s"
    by (simp add: defs)
  have upd: "run_updates (pqc_sign_update sample_ssl) ?s [[1, 2], [3]] = Some ?s'"
    by (simp add: defs pqc_sign_update_def)
  obtain sg c' where sig: "pqc_sign_finish sample_oqs sample_ssl ?s' 5 = (Some sg, c')"
    by (simp add: defs pqc_sign_finish_def pqc_common_sign_def pqc_sign_update_def)
  have feed: "digest_feed sample_ssl EVP_sha256 h x" for h x
    by (simp add: sample_ssl_def)
  show ?thesis
    using backup_signature_verifies [where files = sample_sig_files and files' = sample_sig_files and pub = "''pub''"
      and k = "sample_sig ''ML-DSA-65''" and ?c0.0 = 3 and pk = "[3, 9]" and sk = "[3, 9]",
      OF sig_correct_sample _ _ _ _ init upd sig _ feed, of "[[1], [2, 3]]"] init upd sig
    by (fastforce simp: sample_oqs_def sample_sig_files_def)
qed

end
