(* ===== verification/UpgradeKeys.thy ===== *)
theory UpgradeKeys
  imports TdeTool
begin

text \<open>
  How pg_upgrade carries the key files of an encrypted cluster over to the new
  one: the detection in bin/pg_upgrade/check.c and migrate_tde_keys of
  bin/pg_upgrade/pg_upgrade.c.  A cluster is its key directory, None when the
  directory does not exist.  What the operating system does to one copy is a
  record: which calls succeed, how many bytes can be read and are accepted by
  fwrite, and, when flushing fails, how many have reached the disk.  The
  treatment of the same files by pg_basebackup is at the end of the
  definitions.
\<close>

section \<open>Definitions\<close>

datatype upgrade_fatal =
    Could_not_create_dir | Key_file_empty | Key_file_too_large | Could_not_open | Could_not_create | Could_not_fdopen
  | Could_not_write | Could_not_read | Not_found_after_copy

datatype upgrade_warning = Source_not_found | Not_synced

record copy_io =
  src_open_ok :: bool
  dst_open_ok :: bool
  fdopen_ok :: bool
  readable :: nat
  fwrite_room :: nat
  sync_ok :: bool
  on_disk :: nat

text \<open>The loop over blocks of 8192 bytes: what has been written and whether every
  fwrite was complete.\<close>

function copy_blocks :: "nat \<Rightarrow> bytes \<Rightarrow> bytes \<Rightarrow> bool \<times> bytes" where
  "copy_blocks room src dst =
     (if src = [] then (True, dst)
      else if room < length (take 8192 src) then (False, dst @ take room src)
      else copy_blocks (room - length (take 8192 src)) (drop 8192 src) (dst @ take 8192 src))"
  by pat_completeness auto
termination
  by (relation "measure (\<lambda>(room, src, dst). length src)") auto

declare copy_blocks.simps [simp del]

definition copy_key_file ::
  "copy_io \<Rightarrow> bytes option \<Rightarrow> bytes option \<Rightarrow> upgrade_fatal option \<times> upgrade_warning list \<times> bytes option" where
  "copy_key_file io old new =
     (case old of
        None \<Rightarrow> (None, [Source_not_found], new)
      | Some content \<Rightarrow>
          if length content = 0 then (Some Key_file_empty, [], new)
          else if length content > 1048576 then (Some Key_file_too_large, [], new)
          else if \<not> src_open_ok io then (Some Could_not_open, [], new)
          else if \<not> dst_open_ok io then (Some Could_not_create, [], new)
          else if \<not> fdopen_ok io then (Some Could_not_fdopen, [], Some [])
          else (case copy_blocks (fwrite_room io) (take (readable io) content) [] of
                  (False, written) \<Rightarrow> (Some Could_not_write, [], Some (take (on_disk io) written))
                | (True, written) \<Rightarrow>
                    if readable io < length content then (Some Could_not_read, [], Some (take (on_disk io) written))
                    else if \<not> sync_ok io then (None, [Not_synced], Some (take (on_disk io) written))
                    else (None, [], Some written)))"

definition tde_cluster_detected :: "data_dir option \<Rightarrow> bool" where
  "tde_cluster_detected old_dir = (old_dir \<noteq> None)"

text \<open>The failure that stopped the program if any, its warnings, the new key directory.\<close>

definition migrate_tde_keys ::
  "bool \<Rightarrow> copy_io \<Rightarrow> copy_io \<Rightarrow> data_dir \<Rightarrow> data_dir option \<Rightarrow> upgrade_fatal option \<times> upgrade_warning list \<times> data_dir option" where
  "migrate_tde_keys mkdir_done key_io pub_io old new_dir =
     (if new_dir = None \<and> \<not> mkdir_done then (Some Could_not_create_dir, [], new_dir)
      else
        let dir = (case new_dir of None \<Rightarrow> \<lparr>dd_master_key = None, dd_master_pub = None\<rparr> | Some d \<Rightarrow> d) in
        (case copy_key_file key_io (dd_master_key old) (dd_master_key dir) of
           (Some e, w, k) \<Rightarrow> (Some e, w, Some (dir\<lparr>dd_master_key := k\<rparr>))
         | (None, w, k) \<Rightarrow>
             (case copy_key_file pub_io (dd_master_pub old) (dd_master_pub dir) of
                (Some e, w', p) \<Rightarrow> (Some e, w @ w', Some (dir\<lparr>dd_master_key := k, dd_master_pub := p\<rparr>))
              | (None, w', p) \<Rightarrow>
                  ((if k = None then Some Not_found_after_copy else None), w @ w',
                   Some (dir\<lparr>dd_master_key := k, dd_master_pub := p\<rparr>)))))"

text \<open>The part of main that concerns the keys.\<close>

definition upgrade_keys ::
  "bool \<Rightarrow> copy_io \<Rightarrow> copy_io \<Rightarrow> data_dir option \<Rightarrow> data_dir option \<Rightarrow> upgrade_fatal option \<times> upgrade_warning list \<times> data_dir option" where
  "upgrade_keys mkdir_done key_io pub_io old_dir new_dir =
     (if tde_cluster_detected old_dir then migrate_tde_keys mkdir_done key_io pub_io (the old_dir) new_dir
      else (None, [], new_dir))"

text \<open>pg_basebackup, once the backup is complete: the arguments tell whether the two
  files can be unlinked, the format and whether there is a base directory.\<close>

definition parse_tde_key_handling :: "string \<Rightarrow> string option" where
  "parse_tde_key_handling optarg = (if optarg \<in> {''include'', ''exclude'', ''verify-only''} then Some optarg else None)"

datatype backup_notice = Keys_removed | Keys_included | Master_key_missing

definition BaseBackup_tde ::
  "bool \<Rightarrow> bool \<Rightarrow> char \<Rightarrow> bool \<Rightarrow> string option \<Rightarrow> data_dir option \<Rightarrow> backup_notice list \<times> data_dir option" where
  "BaseBackup_tde unlink_key unlink_pub format basedir tde_key_handling dir =
     (if format = CHR ''p'' \<and> basedir
      then (case dir of
              None \<Rightarrow> ([], None)
            | Some d \<Rightarrow>
                if dd_master_key d \<noteq> None
                then (if tde_key_handling = Some ''exclude''
                      then ([Keys_removed],
                            Some (d\<lparr>dd_master_key := (if unlink_key then None else dd_master_key d),
                                    dd_master_pub := (if unlink_pub then None else dd_master_pub d)\<rparr>))
                      else ([Keys_included], dir))
                else ([Master_key_missing], dir))
      else ([], dir))"

section \<open>The copy\<close>

lemma copy_blocks_True:
  "copy_blocks room src dst = (True, written) \<Longrightarrow> written = dst @ src"
  by (induction room src dst rule: copy_blocks.induct)
    (subst (asm) (2) copy_blocks.simps, auto split: if_splits)

lemma copy_blocks_room: "length src \<le> room \<Longrightarrow> copy_blocks room src dst = (True, dst @ src)"
  by (induction room src dst rule: copy_blocks.induct) (subst copy_blocks.simps, auto)

text \<open>A copy without failure and without warning is exact.\<close>

lemma copy_key_file_exact:
  "copy_key_file io old new = (None, [], new') \<Longrightarrow> new' = old \<and> old \<noteq> None"
  by (auto simp: copy_key_file_def dest: copy_blocks_True split: option.splits if_splits prod.splits bool.splits)

lemma migrate_exact:
  assumes "migrate_tde_keys mkdir_done key_io pub_io old new_dir = (None, [], Some dd')"
  shows "dd_master_key dd' = dd_master_key old" "dd_master_pub dd' = dd_master_pub old" "dd_master_key old \<noteq> None"
  using assms
  by (auto simp: migrate_tde_keys_def Let_def split: if_splits prod.splits option.splits dest!: copy_key_file_exact)

section \<open>After the upgrade\<close>

text \<open>A copy during which no call fails.\<close>

definition copy_works :: "copy_io \<Rightarrow> bool" where
  "copy_works io \<longleftrightarrow> src_open_ok io \<and> dst_open_ok io \<and> fdopen_ok io \<and> 1048576 \<le> readable io \<and>
     1048576 \<le> fwrite_room io \<and> sync_ok io"

lemma copy_key_file_works:
  assumes "copy_works io" "content \<noteq> []" "length content \<le> 1048576"
  shows "copy_key_file io (Some content) new = (None, [], Some content)"
  using assms copy_blocks_room [of content "fwrite_room io" "[]"] by (auto simp: copy_key_file_def copy_works_def)

text \<open>The files pg_tde_master_key leaves are not empty and small enough to be copied.\<close>

lemma tool_files:
  assumes "kem_correct L" "gcm_correct ssl" and "OQS_KEM_new L ''ML-KEM-768'' = Some k"
    and "0 < kem_length_public_key k" "kem_length_public_key k \<le> 8192" "kem_length_ciphertext k \<le> 8192"
    and run: "generate_and_write_master_key ssl L io dd c = (0, dd', Some hex, c')"
  shows "\<exists>key pub. dd_master_key dd' = Some key \<and> key \<noteq> [] \<and> length key \<le> 1048576 \<and>
    dd_master_pub dd' = Some pub \<and> pub \<noteq> [] \<and> length pub \<le> 1048576"
  using run assms(3)
proof (rule generate_and_write_master_key_0)
  fix pk sk ct ss mk tag
  assume r: "OQS_KEM_keypair L k c = Some (pk, sk)" "OQS_KEM_encaps L k (c + 1) pk = Some (ct, ss)"
    "evp_gcm_seal ssl ss (rand_buf ssl (c + 3) 12) (rand_buf ssl (c + 2) 32) = Steps_ok (mk, tag)"
    "dd_master_key dd' = Some (header_bytes \<lparr>hdr_magic = TDE_MASTER_KEY_MAGIC, hdr_version = 1, hdr_kem_alg = 1,
       hdr_pubkey_len = of_nat (kem_length_public_key k), hdr_ciphertext_len = of_nat (kem_length_ciphertext k),
       hdr_reserved = 0\<rparr> @ pk @ ct @ rand_buf ssl (c + 3) 12 @ mk @ tag)"
  have len: "length pk = kem_length_public_key k" "length ct = kem_length_ciphertext k" "length mk = 32" "length tag = 16"
    using assms(1-3) r(1-3) unfolding kem_correct_def gcm_correct_def by (metis length_rand_buf)+
  have "dd_master_pub dd' = Some pk"
    using run r(1-3) assms(3)
    by (auto simp: generate_and_write_master_key_def pqc_kem_ctx_new_def pqc_kem_generate_keypair_def
        pqc_kem_encapsulate_def write_secure_file_def Let_def numeral_2_eq_2 numeral_3_eq_3 split: if_splits)
  then show ?thesis
    using r(4) len assms(4-6) by (auto simp: header_code.enc_length)
qed

text \<open>C18: The master key survives pg_upgrade.  Initialise the key of the old
  cluster with pg_tde_master_key and upgrade.  When no system call of the two
  copies fails, pg_upgrade neither stops nor warns; and whenever it neither
  stops nor warns, a server started on the new cluster with the same secret
  key unwraps the master key of the old one.\<close>

theorem upgraded_server_unwraps:
  assumes "kem_correct L" "gcm_correct ssl"
    and "OQS_KEM_new L ''ML-KEM-768'' = Some k"
    and "0 < kem_length_public_key k" "kem_length_public_key k \<le> 8192"
    and "0 < kem_length_ciphertext k" "kem_length_ciphertext k \<le> 8192"
    and run: "cmd_init ssl L io force dd c = (0, dd', Some hex, c')"
  shows "(copy_works key_io \<and> copy_works pub_io \<and> (new_dir \<noteq> None \<or> mkdir_done) \<longrightarrow>
      (\<exists>dd''. upgrade_keys mkdir_done key_io pub_io (Some dd') new_dir = (None, [], Some dd'')))
    \<and> (\<forall>dd'' st env. upgrade_keys mkdir_done key_io pub_io (Some dd') new_dir = (None, [], Some dd'') \<and>
        registry_ok st \<and> \<not> MasterKeyLoaded st \<and> master_key_file st = dd_master_key dd'' \<and>
        tde_key_provider_fetch env = Inr hex \<longrightarrow>
      (\<exists>st'. tde_unwrap_master_key ssl L env st = (Inr (), st') \<and> MasterKeyLoaded st' \<and>
        MasterKey st' = rand_buf ssl (c + 2) 32))"
proof -
  have gen: "generate_and_write_master_key ssl L io dd c = (0, dd', Some hex, c')"
    using run by (simp add: cmd_init_def split: if_splits)
  obtain key pub where files: "dd_master_key dd' = Some key" "key \<noteq> []" "length key \<le> 1048576"
      "dd_master_pub dd' = Some pub" "pub \<noteq> []" "length pub \<le> 1048576"
    using tool_files [OF assms(1-5,7) gen] by blast
  have "\<exists>dd''. upgrade_keys mkdir_done key_io pub_io (Some dd') new_dir = (None, [], Some dd'')"
    if "copy_works key_io" "copy_works pub_io" "new_dir \<noteq> None \<or> mkdir_done"
    using that files by (auto simp: upgrade_keys_def tde_cluster_detected_def migrate_tde_keys_def copy_key_file_works Let_def)
  moreover have "dd_master_key dd'' = dd_master_key dd'"
    if "upgrade_keys mkdir_done key_io pub_io (Some dd') new_dir = (None, [], Some dd'')" for dd''
    using that by (simp add: upgrade_keys_def tde_cluster_detected_def migrate_exact)
  ultimately show ?thesis
    using tool_file_unwraps [OF assms(1-7) gen] by metis
qed

text \<open>A copy whose buffered writes all succeed and whose flushing fails.\<close>

definition lost_on_flush :: "bytes \<Rightarrow> copy_io \<Rightarrow> bool" where
  "lost_on_flush content io \<longleftrightarrow> src_open_ok io \<and> dst_open_ok io \<and> fdopen_ok io \<and> length content \<le> readable io \<and>
     length content \<le> fwrite_room io \<and> \<not> sync_ok io"

lemma copy_key_file_unsynced:
  assumes "lost_on_flush content io" "content \<noteq> []" "length content \<le> 1048576"
  shows "copy_key_file io (Some content) new = (None, [Not_synced], Some (take (on_disk io) content))"
  using assms by (auto simp: copy_key_file_def lost_on_flush_def copy_blocks_room)

text \<open>C31: A key that did not reach the disk.  When the blocks of master.key are
  accepted by fwrite and flushing them fails, pg_upgrade only warns and goes
  on; the check at its end asks whether the file exists and passes.  The new
  cluster is left with whatever part of the file was written, and with less
  than the header on disk its server cannot load a key.\<close>

theorem upgrade_unsynced_key:
  assumes "dd_master_key old = Some content" "dd_master_pub old = Some pub"
    and "lost_on_flush content io" "content \<noteq> []" "length content \<le> 1048576"
    and "lost_on_flush pub io" "pub \<noteq> []" "length pub \<le> 1048576"
    and "on_disk io < 24"
  shows "\<exists>dd'. upgrade_keys True io io (Some old) new_dir = (None, [Not_synced, Not_synced], Some dd') \<and>
    dd_master_key dd' = Some (take (on_disk io) content) \<and>
    (\<forall>ssl L env (st :: tde_state). \<not> MasterKeyLoaded st \<longrightarrow> master_key_file st = dd_master_key dd' \<longrightarrow>
      (\<exists>e. tde_unwrap_master_key ssl L env st = (Inl e, st)))"
  using assms copy_key_file_unsynced [of content io] copy_key_file_unsynced [of pub io]
  by (auto simp: upgrade_keys_def tde_cluster_detected_def migrate_tde_keys_def Let_def tde_unwrap_master_key_def
      read_master_key_file_def)


section \<open>Keys in base backups\<close>

text \<open>Keys leave a backup only in the plain format with the option exclude; a
  backup in another format keeps them whatever the option says.\<close>

lemma BaseBackup_keeps_keys:
  assumes "BaseBackup_tde unlink_key unlink_pub format basedir handling (Some d) = (notices, Some d')" "dd_master_key d \<noteq> None"
  shows "dd_master_key d' = None \<longleftrightarrow> format = CHR ''p'' \<and> basedir \<and> handling = Some ''exclude'' \<and> unlink_key"
  using assms by (auto simp: BaseBackup_tde_def split: if_splits)

section \<open>Examples\<close>

definition sample_copy_io :: copy_io where
  "sample_copy_io = \<lparr>src_open_ok = True, dst_open_ok = True, fdopen_ok = True, readable = 1048576, fwrite_room = 1048576,
     sync_ok = True, on_disk = 0\<rparr>"

theorem upgraded_server_unwraps_witness:
  "\<exists>dd'' st'. cmd_init sample_ssl sample_oqs sample_tool_io False \<lparr>dd_master_key = None, dd_master_pub = None\<rparr> 0 =
      (0, fst (snd sample_run), Some ''0007'', 4) \<and>
    upgrade_keys True sample_copy_io sample_copy_io (Some (fst (snd sample_run))) None = (None, [], Some dd'') \<and>
    tde_unwrap_master_key sample_ssl sample_oqs sample_provider (sample_server\<lparr>master_key_file := dd_master_key dd''\<rparr>) =
      (Inr (), st') \<and>
    MasterKeyLoaded st' \<and> MasterKey st' = rand_buf sample_ssl 2 32"
proof -
  let ?dd = "fst (snd sample_run)"
  have run: "cmd_init sample_ssl sample_oqs sample_tool_io False \<lparr>dd_master_key = None, dd_master_pub = None\<rparr> 0 =
      (0, ?dd, Some ''0007'', 4)"
    using sample_run_eq by (simp add: cmd_init_def sample_run_def)
  have "copy_works sample_copy_io"
    by (simp add: copy_works_def sample_copy_io_def)
  moreover have "OQS_KEM_new sample_oqs ''ML-KEM-768'' = Some (sample_kem ''ML-KEM-768'')"
    by (simp add: sample_oqs_def)
  moreover have "registry_ok (sample_server\<lparr>master_key_file := f\<rparr>)" "\<not> MasterKeyLoaded (sample_server\<lparr>master_key_file := f\<rparr>)" for f
    by (simp_all add: registry_ok_def sample_server_def)
  moreover have "tde_key_provider_fetch sample_provider = Inr ''0007''"
    by (simp add: sample_provider_def tde_key_provider_fetch_def tde_key_provider_fetch_env_def)
  moreover have "0 < kem_length_public_key (sample_kem ''ML-KEM-768'')" "kem_length_public_key (sample_kem ''ML-KEM-768'') \<le> 8192"
      "0 < kem_length_ciphertext (sample_kem ''ML-KEM-768'')" "kem_length_ciphertext (sample_kem ''ML-KEM-768'') \<le> 8192"
    by (simp_all add: sample_kem_def)
  ultimately show ?thesis
    using upgraded_server_unwraps [OF kem_correct_sample gcm_correct_sample _ _ _ _ _ run, of "sample_kem ''ML-KEM-768''"
        sample_copy_io sample_copy_io None True] run
    by (fastforce simp: numeral_2_eq_2)
qed

theorem upgrade_unsynced_key_witness:
  "\<exists>dd'. upgrade_keys True (sample_copy_io\<lparr>sync_ok := False\<rparr>) (sample_copy_io\<lparr>sync_ok := False\<rparr>)
      (Some \<lparr>dd_master_key = Some [1, 2, 3], dd_master_pub = Some [4]\<rparr>) None = (None, [Not_synced, Not_synced], Some dd') \<and>
    dd_master_key dd' = Some []"
  using upgrade_unsynced_key [of "\<lparr>dd_master_key = Some [1, 2, 3], dd_master_pub = Some [4]\<rparr>" "[1, 2, 3]" "[4]"
      "sample_copy_io\<lparr>sync_ok := False\<rparr>" None]
  by (auto simp: lost_on_flush_def sample_copy_io_def)


end
