(* ===== verification/CertAuth.thy ===== *)
theory CertAuth
  imports ScramServer
begin

text \<open>
  Certificate authentication: CheckPQCCertAuth of backend/libpq/auth-pqc.c,
  CheckCertAuth and the certificate branches of ClientAuthentication in
  backend/libpq/auth.c, and the options of pg_hba.conf lines they depend on
  (backend/libpq/hba.c).  What OpenSSL tells about a certificate is a record;
  OBJ_nid2sn and the search of pg_ident.conf are arguments.
\<close>

section \<open>Definitions\<close>

subsection \<open>Lines of pg_hba.conf\<close>

datatype ConnType = ctLocal | ctHost | ctHostSSL | ctHostNoSSL | ctHostGSS | ctHostNoGSS

datatype ClientCertMode = clientCertOff | clientCertCA | clientCertFull

datatype ClientCertName = clientCertCN | clientCertDN

record HbaLine =
  conntype :: ConnType
  hba_method :: UserAuth
  usermap :: "string option"
  clientcert :: ClientCertMode
  clientcertname :: ClientCertName

text \<open>One option of a line, None where it is refused.  The options other than map,
  clientcert and clientname do not touch the fields of the model; the argument
  other_opt tells which of them are accepted.\<close>

definition parse_hba_auth_opt :: "(string \<Rightarrow> string \<Rightarrow> HbaLine \<Rightarrow> bool) \<Rightarrow> string \<Rightarrow> string \<Rightarrow> HbaLine \<Rightarrow> HbaLine option" where
  "parse_hba_auth_opt other_opt name val hbaline =
     (if name = ''map''
      then (if hba_method hbaline \<notin> {uaIdent, uaPeer, uaGSS, uaSSPI, uaCert} then None
            else Some (hbaline \<lparr>usermap := Some val\<rparr>))
      else if name = ''clientcert''
      then (if conntype hbaline \<noteq> ctHostSSL then None
            else if val = ''verify-full'' then Some (hbaline \<lparr>clientcert := clientCertFull\<rparr>)
            else if val = ''verify-ca''
            then (if hba_method hbaline = uaCert then None else Some (hbaline \<lparr>clientcert := clientCertCA\<rparr>))
            else None)
      else if name = ''clientname''
      then (if conntype hbaline \<noteq> ctHostSSL then None
            else if val = ''CN'' then Some (hbaline \<lparr>clientcertname := clientCertCN\<rparr>)
            else if val = ''DN'' then Some (hbaline \<lparr>clientcertname := clientCertDN\<rparr>)
            else None)
      else if other_opt name val hbaline then Some hbaline else None)"

fun parse_hba_opts :: "(string \<Rightarrow> string \<Rightarrow> HbaLine \<Rightarrow> bool) \<Rightarrow> (string \<times> string) list \<Rightarrow> HbaLine \<Rightarrow> HbaLine option" where
  "parse_hba_opts other_opt [] hbaline = Some hbaline"
| "parse_hba_opts other_opt ((name, val) # opts) hbaline =
     (case parse_hba_auth_opt other_opt name val hbaline of
        None \<Rightarrow> None
      | Some hbaline \<Rightarrow> parse_hba_opts other_opt opts hbaline)"

text \<open>The end of parse_hba_line, for the methods pqc-cert and cert.\<close>

definition parse_cert_line ::
  "(string \<Rightarrow> string \<Rightarrow> HbaLine \<Rightarrow> bool) \<Rightarrow> ConnType \<Rightarrow> UserAuth \<Rightarrow> (string \<times> string) list \<Rightarrow> HbaLine option" where
  "parse_cert_line other_opt ct method opts =
     (if ct \<noteq> ctHostSSL \<and> method = uaCert then None
      else
        (case parse_hba_opts other_opt opts
           \<lparr>conntype = ct, hba_method = method, usermap = None, clientcert = clientCertOff, clientcertname = clientCertCN\<rparr> of
           None \<Rightarrow> None
         | Some l \<Rightarrow> Some (if hba_method l = uaCert then l \<lparr>clientcert := clientCertFull\<rparr> else l)))"

subsection \<open>Signature algorithms\<close>

definition pqc_sig_algorithm_names :: "string list" where
  "pqc_sig_algorithm_names = [''ML-DSA-44'', ''ML-DSA-65'', ''ML-DSA-87'',
     ''SLH-DSA-SHA2-128s'', ''SLH-DSA-SHA2-128f'', ''SLH-DSA-SHA2-192s'', ''SLH-DSA-SHA2-192f'',
     ''SLH-DSA-SHA2-256s'', ''SLH-DSA-SHA2-256f'', ''SLH-DSA-SHAKE-128s'', ''SLH-DSA-SHAKE-128f'',
     ''SLH-DSA-SHAKE-192s'', ''SLH-DSA-SHAKE-192f'', ''SLH-DSA-SHAKE-256s'', ''SLH-DSA-SHAKE-256f'',
     ''mldsa44'', ''mldsa65'', ''mldsa87'', ''dilithium2'', ''dilithium3'', ''dilithium5'']"

definition is_pqc_signature_algorithm :: "string \<Rightarrow> bool" where
  "is_pqc_signature_algorithm alg_name = list_ex (\<lambda>n. pg_strcasecmp alg_name n = 0) pqc_sig_algorithm_names"

text \<open>A certificate: X509_get_signature_nid, where 0 is NID_undef, and for the
  object of the signature algorithm its number and the text OBJ_obj2txt
  gives.\<close>

record x509 =
  x_sig_nid :: int
  x_sig_obj :: "(int \<times> string option) option"

definition sig_alg_name :: "(int \<Rightarrow> string option) \<Rightarrow> x509 \<Rightarrow> string option" where
  "sig_alg_name OBJ_nid2sn cert =
     (let name = (if x_sig_nid cert \<noteq> 0 then OBJ_nid2sn (x_sig_nid cert) else None) in
      if name = None \<or> name = Some ''UNDEF''
      then (case x_sig_obj cert of
              None \<Rightarrow> name
            | Some (nid, txt) \<Rightarrow>
                if nid \<noteq> 0 then OBJ_nid2sn nid
                else (case txt of Some t \<Rightarrow> Some t | None \<Rightarrow> name))
      else name)"

subsection \<open>Authentication\<close>

record cert_port =
  cp_user_name :: string
  cp_hba :: HbaLine
  cp_ssl_in_use :: bool
  cp_peer :: "x509 option"
  cp_peer_cn :: "string option"
  cp_peer_dn :: "string option"
  cp_peer_cert_valid :: bool

definition check_usermap :: "(string \<Rightarrow> string \<Rightarrow> string \<Rightarrow> bool) \<Rightarrow> string option \<Rightarrow> string \<Rightarrow> string \<Rightarrow> auth_status" where
  "check_usermap ident_match usermap_name pg_user system_user =
     (if usermap_name = None \<or> usermap_name = Some []
      then (if pg_user = system_user then STATUS_OK else STATUS_ERROR)
      else if ident_match (the usermap_name) pg_user system_user then STATUS_OK else STATUS_ERROR)"

definition peer_username :: "cert_port \<Rightarrow> string option" where
  "peer_username port = (case clientcertname (cp_hba port) of clientCertDN \<Rightarrow> cp_peer_dn port | clientCertCN \<Rightarrow> cp_peer_cn port)"

text \<open>The status and the identity recorded by set_authn_id.\<close>

definition CheckPQCCertAuth ::
  "(int \<Rightarrow> string option) \<Rightarrow> (string \<Rightarrow> string \<Rightarrow> string \<Rightarrow> bool) \<Rightarrow> cert_port \<Rightarrow> auth_status \<times> string option" where
  "CheckPQCCertAuth OBJ_nid2sn ident_match port =
     (if \<not> cp_peer_cert_valid port then (STATUS_ERROR, None)
      else
        (case cp_peer port of
           None \<Rightarrow> (STATUS_ERROR, None)
         | Some peer_cert \<Rightarrow>
           (case sig_alg_name OBJ_nid2sn peer_cert of
              None \<Rightarrow> (STATUS_ERROR, None)
            | Some alg \<Rightarrow>
                if \<not> is_pqc_signature_algorithm alg then (STATUS_ERROR, None)
                else
                  (case peer_username port of
                     None \<Rightarrow> (STATUS_ERROR, None)
                   | Some name \<Rightarrow>
                       if length name \<le> 0 then (STATUS_ERROR, None)
                       else
                         (case cp_peer_dn port of
                            None \<Rightarrow> (STATUS_ERROR, None)
                          | Some dn \<Rightarrow>
                              (check_usermap ident_match (usermap (cp_hba port)) (cp_user_name port) name, Some dn))))))"

definition CheckCertAuth ::
  "(string \<Rightarrow> string \<Rightarrow> string \<Rightarrow> bool) \<Rightarrow> cert_port \<Rightarrow> string option \<Rightarrow> auth_status \<times> string option" where
  "CheckCertAuth ident_match port authn_id =
     (case peer_username port of
        None \<Rightarrow> (STATUS_ERROR, authn_id)
      | Some name \<Rightarrow>
          if length name \<le> 0 then (STATUS_ERROR, authn_id)
          else if hba_method (cp_hba port) = uaCert
          then (case cp_peer_dn port of
                  None \<Rightarrow> (STATUS_ERROR, authn_id)
                | Some dn \<Rightarrow> (check_usermap ident_match (usermap (cp_hba port)) (cp_user_name port) name, Some dn))
          else (check_usermap ident_match (usermap (cp_hba port)) (cp_user_name port) name, authn_id))"

text \<open>ClientAuthentication; the argument other stands for the methods that are
  not about certificates.\<close>

definition ClientAuthentication ::
  "(int \<Rightarrow> string option) \<Rightarrow> (string \<Rightarrow> string \<Rightarrow> string \<Rightarrow> bool) \<Rightarrow> (cert_port \<Rightarrow> (auth_status \<times> string option) result) \<Rightarrow> bool
     \<Rightarrow> cert_port \<Rightarrow> (auth_status \<times> string option) result" where
  "ClientAuthentication OBJ_nid2sn ident_match other verify_loaded port =
     (let hba = cp_hba port in
      rbind (rguard (clientcert hba = clientCertOff \<or> verify_loaded)
        (PgError ERRCODE_CONFIG_FILE_ERROR ''client certificates can only be checked if a root certificate store is available'')) (\<lambda>_.
      rbind (rguard (clientcert hba = clientCertOff \<or> cp_peer_cert_valid port)
        (PgError ERRCODE_INVALID_AUTHORIZATION_SPECIFICATION ''connection requires a valid client certificate'')) (\<lambda>_.
      rbind (if hba_method hba = uaPQCCert
             then Inr (if \<not> cp_ssl_in_use port then (STATUS_ERROR, None) else CheckPQCCertAuth OBJ_nid2sn ident_match port)
             else if hba_method hba = uaCert \<or> hba_method hba = uaTrust then Inr (STATUS_OK, None)
             else other port) (\<lambda>(status, authn_id).
      if (status = STATUS_OK \<and> clientcert hba = clientCertFull) \<or> hba_method hba = uaCert
      then Inr (CheckCertAuth ident_match port authn_id)
      else Inr (status, authn_id)))))"

section \<open>What the pqc-cert method accepts\<close>

lemma parse_hba_opts_pqc:
  assumes "parse_hba_opts other_opt opts l = Some h" and "hba_method l = uaPQCCert"
  shows "hba_method h = uaPQCCert \<and> usermap h = usermap l"
  using assms
proof (induction opts arbitrary: l)
  case (Cons o1 opts)
  obtain name val where o1: "o1 = (name, val)"
    by (cases o1)
  with Cons.prems(1) obtain l1 where l1: "parse_hba_auth_opt other_opt name val l = Some l1" "parse_hba_opts other_opt opts l1 = Some h"
    by (auto split: option.splits)
  then have "hba_method l1 = uaPQCCert \<and> usermap l1 = usermap l"
    using Cons.prems(2) by (auto simp: parse_hba_auth_opt_def split: if_splits)
  then show ?case
    using Cons.IH [OF l1(2)] by simp
qed simp

lemma parse_cert_line_pqc:
  assumes "parse_cert_line other_opt ct uaPQCCert opts = Some h"
  shows "hba_method h = uaPQCCert" and "usermap h = None"
  using assms parse_hba_opts_pqc by (fastforce simp: parse_cert_line_def split: option.splits if_splits)+

text \<open>C8: under a pqc-cert line, whatever its options, a client gets in exactly
  when the connection uses TLS, a root certificate store is loaded if the line
  asks for one, and a verified certificate signed with a listed algorithm
  carries the requested user name in its common name, or its distinguished
  name if the line says so; the identity on record is then the distinguished
  name.  No client gets in without an identity.\<close>

theorem pqc_cert_accepts_iff:
  assumes "parse_cert_line other_opt ct uaPQCCert opts = Some (cp_hba port)"
  shows "ClientAuthentication OBJ_nid2sn ident_match other verify_loaded port = Inr (STATUS_OK, authn_id) \<longleftrightarrow>
    cp_ssl_in_use port \<and> cp_peer_cert_valid port \<and> (clientcert (cp_hba port) = clientCertOff \<or> verify_loaded) \<and>
    (\<exists>cert alg. cp_peer port = Some cert \<and> sig_alg_name OBJ_nid2sn cert = Some alg \<and>
       (\<exists>n \<in> set pqc_sig_algorithm_names. pg_strcasecmp alg n = 0)) \<and>
    cp_user_name port \<noteq> [] \<and> peer_username port = Some (cp_user_name port) \<and>
    cp_peer_dn port \<noteq> None \<and> authn_id = cp_peer_dn port"
proof -
  note h = parse_cert_line_pqc [OF assms]
  have names: "is_pqc_signature_algorithm alg \<longleftrightarrow> (\<exists>n \<in> set pqc_sig_algorithm_names. pg_strcasecmp alg n = 0)" for alg
    by (simp add: is_pqc_signature_algorithm_def list_ex_iff)
  have pqc: "CheckPQCCertAuth OBJ_nid2sn ident_match port = (STATUS_OK, a) \<longleftrightarrow>
      cp_peer_cert_valid port \<and> (\<exists>cert alg. cp_peer port = Some cert \<and> sig_alg_name OBJ_nid2sn cert = Some alg \<and>
        is_pqc_signature_algorithm alg) \<and> cp_user_name port \<noteq> [] \<and> a = cp_peer_dn port \<and> a \<noteq> None \<and>
      peer_username port = Some (cp_user_name port)" for a
    by (auto simp: CheckPQCCertAuth_def check_usermap_def h split: option.splits if_splits)
  have cert: "CheckCertAuth ident_match port a = (STATUS_OK, b) \<longleftrightarrow>
      peer_username port = Some (cp_user_name port) \<and> cp_user_name port \<noteq> [] \<and> b = a" for a b
    by (auto simp: CheckCertAuth_def check_usermap_def h split: option.splits if_splits)
  have "ClientAuthentication OBJ_nid2sn ident_match other verify_loaded port = Inr (STATUS_OK, authn_id) \<longleftrightarrow>
      cp_ssl_in_use port \<and> (clientcert (cp_hba port) = clientCertOff \<or> verify_loaded) \<and>
      CheckPQCCertAuth OBJ_nid2sn ident_match port = (STATUS_OK, authn_id)"
  proof -
    obtain st a where c: "CheckPQCCertAuth OBJ_nid2sn ident_match port = (st, a)"
      by fastforce
    have "st = STATUS_OK \<Longrightarrow> cp_peer_cert_valid port \<and> peer_username port = Some (cp_user_name port) \<and> cp_user_name port \<noteq> []"
      using pqc [of a] c by simp
    then show ?thesis
      by (auto simp: ClientAuthentication_def Let_def rbind_Inr_iff h cert c split: if_splits)
  qed
  then show ?thesis
    unfolding pqc names by auto
qed


definition sample_cert_port :: cert_port where
  "sample_cert_port = \<lparr>cp_user_name = ''CN=alice'',
     cp_hba = \<lparr>conntype = ctHostSSL, hba_method = uaPQCCert, usermap = None, clientcert = clientCertFull, clientcertname = clientCertDN\<rparr>,
     cp_ssl_in_use = True, cp_peer = Some \<lparr>x_sig_nid = 0, x_sig_obj = Some (0, Some ''ml-dsa-65'')\<rparr>,
     cp_peer_cn = Some ''alice'', cp_peer_dn = Some ''CN=alice'', cp_peer_cert_valid = True\<rparr>"

theorem pqc_cert_accepts_iff_witness:
  "ClientAuthentication (\<lambda>_. None) (\<lambda>_ _ _. False) (\<lambda>_. Inr (STATUS_ERROR, None)) True sample_cert_port =
    Inr (STATUS_OK, Some ''CN=alice'')
   \<and> (\<nexists>authn_id. ClientAuthentication (\<lambda>_. None) (\<lambda>_ _ _. False) (\<lambda>_. Inr (STATUS_ERROR, None)) True
      (sample_cert_port \<lparr>cp_ssl_in_use := False\<rparr>) = Inr (STATUS_OK, authn_id))"
proof -
  have line: "parse_cert_line (\<lambda>_ _ _. False) ctHostSSL uaPQCCert [(''clientname'', ''DN''), (''clientcert'', ''verify-full'')] =
      Some (cp_hba sample_cert_port)"
    by (simp add: parse_cert_line_def parse_hba_auth_opt_def sample_cert_port_def)
  then have line': "parse_cert_line (\<lambda>_ _ _. False) ctHostSSL uaPQCCert [(''clientname'', ''DN''), (''clientcert'', ''verify-full'')] =
      Some (cp_hba (sample_cert_port \<lparr>cp_ssl_in_use := False\<rparr>))"
    by simp
  have alg: "\<exists>n \<in> set pqc_sig_algorithm_names. pg_strcasecmp ''ml-dsa-65'' n = 0"
    by code_simp
  show ?thesis
    unfolding pqc_cert_accepts_iff [OF line] pqc_cert_accepts_iff [OF line']
    using alg by (simp add: sample_cert_port_def peer_username_def sig_alg_name_def del: pg_strcasecmp.simps)
qed

end
