(* ===== verification/Preflight.thy ===== *)
theory Preflight
  imports Complex_Main WalKeys PqcKem
begin

text \<open>
  The checks at server start (backend/crypto/pqc/pqc_preflight.c) and the
  statistics view (backend/crypto/pqc/pqc_stats.c).  A warning is a constructor; LOG
  messages and the test for the OpenSSL provider, which only logs, are left
  out.
\<close>

section \<open>Start-up checks\<close>

datatype preflight_warning =
    Master_key_not_found
  | Master_key_truncated
  | Key_path_not_set
  | Signing_key_not_found
  | Signing_key_empty
  | Public_key_not_found
  | Signing_keys_not_loaded

definition check_master_key :: "bool \<Rightarrow> nat option \<Rightarrow> preflight_warning list" where
  "check_master_key tde_enabled mk_size =
     (if tde_enabled
      then (case mk_size of
              None \<Rightarrow> [Master_key_not_found]
            | Some n \<Rightarrow> if n < 4 * 6 then [Master_key_truncated] else [])
      else [])"

definition check_wal_keys ::
  "wal_io \<Rightarrow> string option \<Rightarrow> string option \<Rightarrow> 'a wal_state_scheme \<Rightarrow> preflight_warning list \<times> 'a wal_state_scheme" where
  "check_wal_keys io wal_pqc_key_path wal_pqc_signing_algorithm_string st =
     (if path_unset wal_pqc_key_path then ([Key_path_not_set], st)
      else
        let keypath = key_file_path (the wal_pqc_key_path) WAL_SIGNING_KEY_FILE;
            pubpath = key_file_path (the wal_pqc_key_path) WAL_SIGNING_PUB_FILE;
            w = (case wal_files st keypath of
                   None \<Rightarrow> [Signing_key_not_found]
                 | Some contents \<Rightarrow> if length contents = 0 then [Signing_key_empty] else [])
        in (case wal_files st pubpath of
              None \<Rightarrow> (w @ [Public_key_not_found], st)
            | Some _ \<Rightarrow>
                (case pqc_wal_load_signing_keys io wal_pqc_key_path wal_pqc_signing_algorithm_string st of
                   (Inr _, st1) \<Rightarrow> (w, st1)
                 | (Inl _, st1) \<Rightarrow> (w @ [Signing_keys_not_loaded], st1))))"

definition pqc_preflight_check ::
  "liboqs \<Rightarrow> wal_io \<Rightarrow> bool \<Rightarrow> nat option \<Rightarrow> string option \<Rightarrow> string option \<Rightarrow> 'a wal_state_scheme
     \<Rightarrow> preflight_warning list \<times> 'a wal_state_scheme" where
  "pqc_preflight_check L io tde_enabled mk_size key_path algorithm st =
     (case (if wal_pqc_signing st then check_wal_keys io key_path algorithm st else ([], st)) of
        (w, st1) \<Rightarrow> (check_master_key tde_enabled mk_size @ w, snd (pqc_init L st1)))"

definition check_wal_pqc_key_path :: "bool \<Rightarrow> string option \<Rightarrow> bool" where
  "check_wal_pqc_key_path signing newval = (\<not> (signing \<and> (newval = None \<or> newval = Some [])))"

section \<open>The statistics view\<close>

text \<open>Attaching the counters; found tells that another process created them
  already, with the given contents.\<close>

definition zero_counters :: PqcStatCounters where
  "zero_counters = \<lparr>kem_encaps_count = 0, kem_decaps_count = 0, sig_sign_count = 0, sig_verify_count = 0,
     tde_encryptions = 0, tde_decryptions = 0, key_cache_hits = 0, key_cache_misses = 0, wal_segments_signed = 0,
     encrypt_time_us = 0, sign_time_us = 0\<rparr>"

definition pqc_stat_shmem_startup :: "PqcStatCounters option \<Rightarrow> 'a pqc_state_scheme \<Rightarrow> 'a pqc_state_scheme" where
  "pqc_stat_shmem_startup found st =
     st \<lparr>pqc_stat_counters := Some (case found of Some counters \<Rightarrow> counters | None \<Rightarrow> zero_counters)\<rparr>"

text \<open>The row of pg_stat_pqc: nine counts as 64-bit integers, and times in
  milliseconds, here exact.\<close>

record pqc_stat_row =
  counts :: "int list"
  avg_encrypt_time_ms :: rat
  avg_sign_time_ms :: rat
  total_encrypt_time_ms :: rat
  total_sign_time_ms :: rat

definition avg_ms :: "64 word \<Rightarrow> 64 word \<Rightarrow> rat" where
  "avg_ms time_us ops = (if ops > 0 then of_nat (unat time_us) / of_nat (unat ops) / 1000 else 0)"

definition pg_stat_get_pqc :: "'a pqc_state_scheme \<Rightarrow> pqc_stat_row" where
  "pg_stat_get_pqc st =
     (let c = (case pqc_stat_counters st of Some c \<Rightarrow> c | None \<Rightarrow> zero_counters) in
      \<lparr>counts = map sint [kem_encaps_count c, kem_decaps_count c, sig_sign_count c, sig_verify_count c, tde_encryptions c,
         tde_decryptions c, key_cache_hits c, key_cache_misses c, wal_segments_signed c],
       avg_encrypt_time_ms = avg_ms (encrypt_time_us c) (tde_encryptions c + kem_encaps_count c),
       avg_sign_time_ms = avg_ms (sign_time_us c) (sig_sign_count c + wal_segments_signed c),
       total_encrypt_time_ms = of_nat (unat (encrypt_time_us c)) / 1000,
       total_sign_time_ms = of_nat (unat (sign_time_us c)) / 1000\<rparr>)"

definition pg_stat_reset_pqc :: "bool \<Rightarrow> 'a pqc_state_scheme \<Rightarrow> unit result \<times> 'a pqc_state_scheme" where
  "pg_stat_reset_pqc superuser st =
     (if \<not> superuser
      then (Inl (PgError ERRCODE_INSUFFICIENT_PRIVILEGE ''must be superuser to reset PQC statistics''), st)
      else (Inr (), st \<lparr>pqc_stat_counters := map_option (\<lambda>_. zero_counters) (pqc_stat_counters st)\<rparr>))"

section \<open>Keys of the wrong size\<close>

lemma table_unsized:
  assumes "\<not> alg < 0" and "\<not> 18 \<le> alg"
  shows "secret_key_len (pqc_algorithms_table ! nat alg) = 0 \<and> public_key_len (pqc_algorithms_table ! nat alg) = 0"
proof -
  have "\<forall>info \<in> set pqc_algorithms_table. secret_key_len info = 0 \<and> public_key_len info = 0"
    by (simp add: pqc_algorithms_table_def alg_entry_def)
  then show ?thesis
    using assms pqc_algorithms_table_facts(1) by simp
qed

lemma uninitialised_sizes:
  assumes "pqc_algorithms st = pqc_algorithms_table"
  shows "pqc_sig_secret_key_len st alg = 0" and "pqc_sig_public_key_len st alg = 0"
  using assms table_unsized
  by (auto simp: pqc_sig_secret_key_len_def pqc_sig_public_key_len_def sig_size_def pqc_get_algorithm_info_def split: option.split)

text \<open>Loading in a process whose registry is not initialised checks no size.\<close>

lemma load_uninitialised:
  assumes "pqc_algorithms st = pqc_algorithms_table" and "pqc_wal_resolve_algorithm algorithm st = Inr alg" and "p \<noteq> []"
    and "read_key_file io (wal_files st) (key_file_path p WAL_SIGNING_KEY_FILE) = Inr sk"
    and "read_key_file io (wal_files st) (key_file_path p WAL_SIGNING_PUB_FILE) = Inr pk"
  shows "pqc_wal_load_signing_keys io (Some p) algorithm st =
    (Inr (), st \<lparr>wal_sig_algorithm := alg, wal_secret_key := Some sk, wal_public_key := Some pk, wal_keys_loaded := True\<rparr>)"
  using assms by (simp add: pqc_wal_load_signing_keys_def path_unset_def Let_def uninitialised_sizes)

lemma resolved_entry:
  assumes "pqc_algorithms st = pqc_algorithms_table" and "pqc_wal_resolve_algorithm algorithm st = Inr alg"
  shows "pqc_get_algorithm_info st alg = Some (pqc_algorithms_table ! nat alg)"
    and "alg_type (pqc_algorithms_table ! nat alg) = PQC_TYPE_SIG" and "nat alg < length pqc_algorithms_table" and "0 \<le> alg"
  using assms pqc_algorithms_table_facts(1)
  by (auto simp: pqc_wal_resolve_algorithm_def Let_def pqc_algorithm_is_sig_def pqc_get_algorithm_info_def
    split: if_splits option.splits)

text \<open>WAL signing keys are loaded at server start before the sizes of the
  algorithms are known, so a secret key file of the wrong size passes every
  check without a warning; the server then takes the keys for loaded, and
  every attempt to sign raises an error.\<close>

theorem preflight_wrong_size:
  assumes "pqc_algorithms st = pqc_algorithms_table" and "\<not> pqc_initialized st" and "wal_pqc_signing st" and "p \<noteq> []"
    and "pqc_wal_resolve_algorithm algorithm st = Inr alg"
    and "OQS_SIG_new L (oqs_name (pqc_algorithms_table ! nat alg)) = Some k"
    and "\<forall>f \<in> {WAL_SIGNING_KEY_FILE, WAL_SIGNING_PUB_FILE}. open_ok io (key_file_path p f) \<and> stat_ok io (key_file_path p f) \<and>
      read_limit io (key_file_path p f) = None"
    and "wal_files st (key_file_path p WAL_SIGNING_KEY_FILE) = Some sk" and "sk \<noteq> []" and "length sk \<le> 102400"
    and "wal_files st (key_file_path p WAL_SIGNING_PUB_FILE) = Some pk" and "pk \<noteq> []" and "length pk \<le> 102400"
    and "length sk \<noteq> sig_length_secret_key k"
  shows "\<exists>st'. pqc_preflight_check L io False mk (Some p) algorithm st = ([], st') \<and> wal_keys_loaded st' \<and> wal_pqc_signing st' \<and>
    fst (pqc_wal_sign_data L msg n st') = Inl (PgError ERRCODE_INVALID_PARAMETER_VALUE ''invalid secret key length'')"
proof -
  let ?st1 = "st \<lparr>wal_sig_algorithm := alg, wal_secret_key := Some sk, wal_public_key := Some pk, wal_keys_loaded := True\<rparr>"
  have "read_key_file io (wal_files st) (key_file_path p WAL_SIGNING_KEY_FILE) = Inr sk"
    "read_key_file io (wal_files st) (key_file_path p WAL_SIGNING_PUB_FILE) = Inr pk"
    using assms(7-13) by (simp_all add: read_key_file_ok)
  then have load: "pqc_wal_load_signing_keys io (Some p) algorithm st = (Inr (), ?st1)"
    using assms(1,4,5) by (simp add: load_uninitialised)
  note e = resolved_entry [OF assms(1,5)]
  let ?st2 = "snd (pqc_init L ?st1)"
  have pre: "pqc_preflight_check L io False mk (Some p) algorithm st = ([], ?st2)"
    using assms(3,4,8,9,11)
    by (simp add: pqc_preflight_check_def check_wal_keys_def check_master_key_def path_unset_def Let_def load)
  have info: "alg_type (pqc_algorithms ?st2 ! nat alg) = PQC_TYPE_SIG" "length (pqc_algorithms ?st2) = 18"
    "oqs_name (pqc_algorithms ?st2 ! nat alg) = oqs_name (pqc_algorithms_table ! nat alg)"
    using assms(1,2) e pqc_algorithms_table_facts(1)
    by (simp_all add: pqc_init_def pqc_populate_sig_info_def split: option.split)
  have new: "pqc_sig_new L alg ?st2 = (Inr \<lparr>oqs_sig = k, sig_ctx_alg = alg\<rparr>, ?st2)"
    using assms(6) info e(3,4) pqc_algorithms_table_facts(1)
    by (simp add: pqc_sig_new_def pqc_get_algorithm_info_def pqc_is_available_def)
  have fields: "wal_keys_loaded ?st2" "wal_pqc_signing ?st2" "wal_sig_algorithm ?st2 = alg" "wal_secret_key ?st2 = Some sk"
    using assms(3) by (simp_all add: pqc_init_def)
  then have "fst (pqc_wal_sign_data L msg n ?st2) = Inl (PgError ERRCODE_INVALID_PARAMETER_VALUE ''invalid secret key length'')"
    using assms(14) by (simp add: pqc_wal_sign_data_def ebind_def new pqc_sig_sign_def key_bytes_def)
  then show ?thesis
    using pre fields(1,2) by blast
qed


definition sample_key_io :: wal_io where
  "sample_key_io = \<lparr>open_ok = (\<lambda>_. True), stat_ok = (\<lambda>_. True), read_limit = (\<lambda>_. None), create_ok = (\<lambda>_. True),
     fdopen_ok = (\<lambda>_. True), write_limit = (\<lambda>_. None), close_ok = (\<lambda>_. True), dir_stat = (\<lambda>_. Some True)\<rparr>"

definition sample_wal_start :: wal_state where
  "sample_wal_start = pqc_state.extend pqc_start_state (wal_state.fields True None None 0 False (\<lambda>path. Some [1]))"

theorem preflight_wrong_size_witness:
  "\<exists>st'. pqc_preflight_check sample_oqs sample_key_io False None (Some ''keys'') (Some ''ML-DSA-65'') sample_wal_start = ([], st') \<and>
    wal_keys_loaded st' \<and> wal_pqc_signing st' \<and>
    fst (pqc_wal_sign_data sample_oqs [] 100 st') = Inl (PgError ERRCODE_INVALID_PARAMETER_VALUE ''invalid secret key length'')"
proof -
  have start: "pqc_algorithms sample_wal_start = pqc_algorithms_table" "\<not> pqc_initialized sample_wal_start"
    "wal_pqc_signing sample_wal_start" "\<And>path. wal_files sample_wal_start path = Some [1]"
    by (simp_all add: sample_wal_start_def pqc_start_state_def pqc_state.defs wal_state.defs)
  have "pqc_name_scan pqc_algorithms_table ''ML-DSA-65'' = 4"
    by code_simp
  moreover have "alg_type (pqc_algorithms_table ! 4) = PQC_TYPE_SIG"
    by code_simp
  ultimately have alg: "pqc_wal_resolve_algorithm (Some ''ML-DSA-65'') sample_wal_start = Inr 4"
    using start(1)
    by (simp add: pqc_wal_resolve_algorithm_def Let_def pqc_algorithm_from_name_def pqc_algorithm_is_sig_def pqc_get_algorithm_info_def)
  have "OQS_SIG_new sample_oqs (oqs_name (pqc_algorithms_table ! nat 4)) =
      Some (sample_sig (oqs_name (pqc_algorithms_table ! nat 4)))"
    by (simp add: sample_oqs_def)
  from preflight_wrong_size [OF start(1-3) _ alg this, of "''keys''" sample_key_io "[1]" "[1]"]
  show ?thesis
    by (simp add: start sample_key_io_def sample_sig_def)
qed

section \<open>Statistics that are never attached\<close>

text \<open>The calls a process makes to the registry, the wrappers and the statistics
  functions.  No code calls pqc_stat_init, so pqc_stat_shmem_startup is not
  among them.\<close>

inductive stat_step :: "liboqs \<Rightarrow> pqc_state \<Rightarrow> pqc_state \<Rightarrow> bool" for L where
  init: "stat_step L st (snd (pqc_init L st))"
| cleanup: "stat_step L st (pqc_cleanup st)"
| kem_new: "stat_step L st (snd (pqc_kem_new L alg st))"
| kem_keygen: "stat_step L st (snd (pqc_kem_keygen L kctx st))"
| encaps: "stat_step L st (snd (pqc_kem_encaps L kctx pk st))"
| decaps: "stat_step L st (snd (pqc_kem_decaps L kctx ct sk st))"
| sig_new: "stat_step L st (snd (pqc_sig_new L alg st))"
| sig_keygen: "stat_step L st (snd (pqc_sig_keygen L sctx st))"
| sign: "stat_step L st (snd (pqc_sig_sign L sctx m n key st))"
| verify: "stat_step L st (snd (pqc_sig_verify L sctx m n s key st))"
| count: "f \<in> {pqc_stat_count_tde_encrypt, pqc_stat_count_tde_decrypt, pqc_stat_count_key_cache_hit,
    pqc_stat_count_key_cache_miss, pqc_stat_count_wal_segment_signed} \<Longrightarrow> stat_step L st (f st)"
| reset: "stat_step L st (snd (pg_stat_reset_pqc superuser st))"

lemma init_counters: "pqc_init L st = (s, st') \<Longrightarrow> pqc_stat_counters st' = pqc_stat_counters st"
  using pqc_init_fields(4) [of L st] by simp

lemma stat_step_unattached: "stat_step L st st' \<Longrightarrow> pqc_stat_counters st = None \<Longrightarrow> pqc_stat_counters st' = None"
  by (induction rule: stat_step.induct)
    (auto simp: pqc_cleanup_def pqc_kem_new_def pqc_kem_keygen_def pqc_kem_encaps_def pqc_kem_decaps_def pqc_sig_new_def
      pqc_sig_keygen_def pqc_sig_sign_def pqc_sig_verify_def pg_stat_reset_pqc_def Let_def
      pqc_stat_count_kem_encaps_def pqc_stat_count_kem_decaps_def pqc_stat_count_sig_sign_def pqc_stat_count_sig_verify_def
      pqc_stat_count_tde_encrypt_def pqc_stat_count_tde_decrypt_def pqc_stat_count_key_cache_hit_def
      pqc_stat_count_key_cache_miss_def pqc_stat_count_wal_segment_signed_def
      dest: init_counters split: option.split prod.split)

text \<open>Whatever a process does, pg_stat_pqc shows zeros: the shared counters are
  never attached.\<close>

theorem pg_stat_pqc_zero:
  assumes "(stat_step L)\<^sup>*\<^sup>* pqc_start_state st"
  shows "pg_stat_get_pqc st = \<lparr>counts = replicate 9 0, avg_encrypt_time_ms = 0, avg_sign_time_ms = 0,
    total_encrypt_time_ms = 0, total_sign_time_ms = 0\<rparr>"
proof -
  have "pqc_stat_counters st = None"
    using assms by (induction rule: rtranclp_induct) (auto simp: pqc_start_state_def intro: stat_step_unattached)
  then show ?thesis
    by (simp add: pg_stat_get_pqc_def zero_counters_def avg_ms_def numeral_eq_Suc)
qed

theorem pg_stat_pqc_zero_witness:
  "counts (pg_stat_get_pqc (snd (pqc_kem_encaps sample_oqs (Some \<lparr>oqs_kem = sample_kem ''ML-KEM-768'', kem_ctx_alg = 1\<rparr>)
     (Some [1, 2]) pqc_start_state))) = replicate 9 0"
  using pg_stat_pqc_zero [of sample_oqs "snd (pqc_kem_encaps sample_oqs
    (Some \<lparr>oqs_kem = sample_kem ''ML-KEM-768'', kem_ctx_alg = 1\<rparr>) (Some [1, 2]) pqc_start_state)"]
  by (simp add: stat_step.encaps r_into_rtranclp)

end
