(* ===== verification/Migration.thy ===== *)
theory Migration
  imports ScramSecret Samples "HOL-Library.List_Lexorder" "HOL-Library.Sublist"
begin

text \<open>
  Migration of stored passwords: pqc_migrate_credentials of
  contrib/pgcrypto_pqc/pgcrypto_pqc.c.  pg_authid is the list of its rows; the
  caller may read it, and the statements run through SPI succeed.  The SELECT
  runs read-only, with the snapshot the calling statement took at its start
  (backend/executor/spi.c), so it lists the rows as they were before the UPDATE.
\<close>

section \<open>Definitions\<close>

record role_row = authid_row +
  rolname :: string
  rolcanlogin :: bool

definition sql_credential_type :: "string option \<Rightarrow> string" where
  "sql_credential_type password =
     (case password of
        None \<Rightarrow> ''none''
      | Some p \<Rightarrow>
          if prefix ''SCRAM-SHA-256$'' p then ''SCRAM-SHA-256''
          else if prefix ''md5'' p then ''md5''
          else ''unknown'')"

text \<open>The UPDATE statement.\<close>

definition force_reset :: "int \<Rightarrow> role_row list \<Rightarrow> role_row list" where
  "force_reset now rows =
     map (\<lambda>r. case rolpassword r of
            Some p \<Rightarrow> if prefix ''SCRAM-SHA-256$'' p then r \<lparr>rolpassword := None, rolvaliduntil := Some now\<rparr> else r
          | None \<Rightarrow> r) rows"

text \<open>The SELECT statement; names compare by their bytes.\<close>

definition select_credentials :: "role_row list \<Rightarrow> (string \<times> string) list" where
  "select_credentials rows =
     map (\<lambda>r. (rolname r, sql_credential_type (rolpassword r)))
       (sort_key (\<lambda>r. map (of_char :: char \<Rightarrow> nat) (rolname r)) (filter rolcanlogin rows))"

definition migration_action :: "string \<Rightarrow> string" where
  "migration_action current_type =
     (if pg_strcasecmp current_type ''SCRAM-SHA-256'' = 0 then ''migrate to PQC-SCRAM''
      else if pg_strcasecmp current_type ''md5'' = 0 then ''upgrade to PQC-SCRAM (currently md5)''
      else if pg_strcasecmp current_type ''none'' = 0 then ''no password set''
      else ''review manually'')"

definition pqc_migrate_credentials ::
  "string \<Rightarrow> bool \<Rightarrow> int \<Rightarrow> role_row list \<Rightarrow> (string \<times> string \<times> string) list result \<times> role_row list" where
  "pqc_migrate_credentials mode superuser now rows =
     (if pg_strcasecmp mode ''report'' \<noteq> 0 \<and> pg_strcasecmp mode ''force-reset'' \<noteq> 0
      then (Inl (PgError ERRCODE_INVALID_PARAMETER_VALUE ''invalid mode:''), rows)
      else if pg_strcasecmp mode ''force-reset'' = 0 \<and> \<not> superuser
      then (Inl (PgError ERRCODE_INSUFFICIENT_PRIVILEGE ''must be superuser to force-reset credentials''), rows)
      else
        let updated = (if pg_strcasecmp mode ''force-reset'' = 0 then force_reset now rows else rows)
        in (Inr (map (\<lambda>(n, t). (n, t, migration_action t)) (select_credentials rows)), updated))"

section \<open>What becomes of stored passwords\<close>

text \<open>The text a stored password begins with.\<close>

lemma build_secret_prefix:
  "scram_build_secret ssl t n salt i pw = Inr s \<Longrightarrow> prefix (scheme_name t @ ''$'') s"
  by (auto simp: scram_build_secret_def rbind_Inr_iff split: prod.splits)

lemma stored_prefix:
  assumes "encrypt_password ssl prep c iters target role pw = Inr s" and "get_password_type pw = PASSWORD_TYPE_PLAINTEXT"
  shows "target = PASSWORD_TYPE_MD5 \<Longrightarrow> prefix ''md5'' s"
    and "target = PASSWORD_TYPE_SCRAM_SHA_256 \<Longrightarrow> prefix ''SCRAM-SHA-256$'' s"
    and "target = PASSWORD_TYPE_SCRAM_SHA_384 \<Longrightarrow> prefix ''SCRAM-SHA-384$'' s"
    and "target \<noteq> PASSWORD_TYPE_PLAINTEXT"
proof -
  show "target = PASSWORD_TYPE_MD5 \<Longrightarrow> prefix ''md5'' s"
    using assms by (auto simp: encrypt_password_def be_hash_def pg_md5_encrypt_def sbind_def split: evp_steps.splits)
  show "target = PASSWORD_TYPE_SCRAM_SHA_256 \<Longrightarrow> prefix ''SCRAM-SHA-256$'' s"
    using assms build_secret_prefix [where t = PG_SHA256 and s = s]
    by (auto simp: encrypt_password_def pg_be_scram_build_secret_def rbind_Inr_iff scheme_name_def)
  show "target = PASSWORD_TYPE_SCRAM_SHA_384 \<Longrightarrow> prefix ''SCRAM-SHA-384$'' s"
    using assms build_secret_prefix [where t = PG_SHA384 and s = s]
    by (auto simp: encrypt_password_def pg_be_scram_build_secret_sha384_def rbind_Inr_iff scheme_name_def)
  show "target \<noteq> PASSWORD_TYPE_PLAINTEXT"
    using assms by (auto simp: encrypt_password_def)
qed

lemma stored_credential_type:
  assumes "encrypt_password ssl prep c iters target role pw = Inr s" and "get_password_type pw = PASSWORD_TYPE_PLAINTEXT"
  shows "sql_credential_type (Some s) =
    (case target of PASSWORD_TYPE_SCRAM_SHA_256 \<Rightarrow> ''SCRAM-SHA-256'' | PASSWORD_TYPE_MD5 \<Rightarrow> ''md5'' | _ \<Rightarrow> ''unknown'')"
  using stored_prefix [OF assms] by (cases target) (auto simp: sql_credential_type_def prefix_def)

lemma mode_lookups:
  "pg_strcasecmp ''report'' ''report'' = 0" "pg_strcasecmp ''report'' ''force-reset'' \<noteq> 0" "pg_strcasecmp ''force-reset'' ''force-reset'' = 0"
  "migration_action ''unknown'' = ''review manually''" "migration_action ''md5'' = ''upgrade to PQC-SCRAM (currently md5)''"
  "migration_action ''SCRAM-SHA-256'' = ''migrate to PQC-SCRAM''"
  by code_simp+

text \<open>C36: the report recognises passwords stored as MD5 and SCRAM-SHA-256 and asks
  to migrate them, but calls a SCRAM-SHA-384 secret, the goal of the
  migration, unknown and asks for a manual review.\<close>

theorem migration_report:
  assumes "encrypt_password ssl prep c iters target role pw = Inr s" and "get_password_type pw = PASSWORD_TYPE_PLAINTEXT"
    and "r \<in> set rows" and "rolcanlogin r" and "rolpassword r = Some s"
    and "pqc_migrate_credentials ''report'' superuser now rows = (Inr rep, rows')"
  shows "rows' = rows \<and>
    (rolname r,
     (case target of
        PASSWORD_TYPE_SCRAM_SHA_256 \<Rightarrow> (''SCRAM-SHA-256'', ''migrate to PQC-SCRAM'')
      | PASSWORD_TYPE_MD5 \<Rightarrow> (''md5'', ''upgrade to PQC-SCRAM (currently md5)'')
      | _ \<Rightarrow> (''unknown'', ''review manually''))) \<in> set rep"
proof -
  have "(rolname r, sql_credential_type (Some s)) \<in> set (select_credentials rows)"
    using assms(3-5) by (auto simp: select_credentials_def intro!: rev_image_eqI [of r])
  moreover have "rows' = rows" "rep = map (\<lambda>(n, t). (n, t, migration_action t)) (select_credentials rows)"
    using assms(6) by (auto simp: pqc_migrate_credentials_def mode_lookups Let_def simp del: pg_strcasecmp.simps)
  ultimately have "rows' = rows \<and> (rolname r, sql_credential_type (Some s), migration_action (sql_credential_type (Some s))) \<in> set rep"
    by force
  then show ?thesis
    unfolding stored_credential_type [OF assms(1,2)] by (cases target) (simp_all add: mode_lookups)
qed


text \<open>A forced reset takes the password from exactly the roles with a SCRAM-SHA-256
  secret, which can no longer log in with it; the list it returns still shows
  them with that secret, to be migrated.\<close>

lemma force_reset_effect:
  assumes "encrypt_password ssl prep c iters target role pw = Inr s" and "get_password_type pw = PASSWORD_TYPE_PLAINTEXT"
    and "i < length rows" and "rolpassword (rows ! i) = Some s"
    and "pqc_migrate_credentials ''force-reset'' True now rows = (Inr rep, rows')"
  shows "rolname (rows' ! i) = rolname (rows ! i) \<and>
    rolpassword (rows' ! i) = (if target = PASSWORD_TYPE_SCRAM_SHA_256 then None else Some s) \<and>
    rep = map (\<lambda>(n, t). (n, t, migration_action t)) (select_credentials rows)"
proof -
  have "rows' = force_reset now rows" "rep = map (\<lambda>(n, t). (n, t, migration_action t)) (select_credentials rows)"
    using assms(5) by (simp_all add: pqc_migrate_credentials_def mode_lookups Let_def del: pg_strcasecmp.simps)
  moreover have "prefix ''SCRAM-SHA-256$'' s \<longleftrightarrow> target = PASSWORD_TYPE_SCRAM_SHA_256"
    using stored_prefix [OF assms(1,2)] by (cases target) (auto simp: prefix_def)
  ultimately show ?thesis
    using assms(3,4) by (simp add: force_reset_def)
qed

definition sample_role :: role_row where
  "sample_role = \<lparr>rolpassword = Some (projr (encrypt_password sample_ssl Some 0 4096 PASSWORD_TYPE_SCRAM_SHA_384 ''ann'' ''pw'')),
     rolvaliduntil = None, rolname = ''ann'', rolcanlogin = True\<rparr>"

theorem migration_report_witness:
  "(''ann'', ''unknown'', ''review manually'') \<in>
    set (projr (fst (pqc_migrate_credentials ''report'' False 0 [sample_role])))"
proof -
  have plain: "get_password_type ''pw'' = PASSWORD_TYPE_PLAINTEXT"
    by (simp add: get_password_type_def parse_scram_secret_def secret_tokens_def strtok_def)
  have hash: "scram_hash PG_SHA384 SCRAM_SHA_384_KEY_LEN"
    by (simp add: scram_hash_def)
  then obtain st sv where "scram_keys sample_ssl PG_SHA384 SCRAM_SHA_384_KEY_LEN (rand_buf sample_ssl 0 SCRAM_DEFAULT_SALT_LEN)
      SCRAM_SHA_384_DEFAULT_ITERATIONS (prepared_password Some ''pw'') = Steps_ok (st, sv)"
      "length st = SCRAM_SHA_384_KEY_LEN" "length sv = SCRAM_SHA_384_KEY_LEN"
    using scram_keys_total [OF digests_total_sample] by blast
  moreover have "short_salt (rand_buf sample_ssl 0 SCRAM_DEFAULT_SALT_LEN)"
    by (simp add: short_salt_def SCRAM_DEFAULT_SALT_LEN_def rand_buf_def)
  ultimately have secret: "\<exists>s. scram_build_secret sample_ssl PG_SHA384 SCRAM_SHA_384_KEY_LEN
      (rand_buf sample_ssl 0 SCRAM_DEFAULT_SALT_LEN) SCRAM_SHA_384_DEFAULT_ITERATIONS (prepared_password Some ''pw'') = Inr s"
    using scram_build_secret_text [OF _ _ _ hash] by blast
  have "rand_status sample_ssl 0 = 1"
    by (simp add: sample_ssl_def)
  then have enc: "encrypt_password sample_ssl Some 0 4096 PASSWORD_TYPE_SCRAM_SHA_384 ''ann'' ''pw'' = Inr (the (rolpassword sample_role))"
    using secret plain
    by (auto simp: sample_role_def encrypt_password_def pg_be_scram_build_secret_sha384_def random_salt_def pg_strong_random_def)
  obtain rep rows' where rep: "pqc_migrate_credentials ''report'' False 0 [sample_role] = (Inr rep, rows')"
    by (simp add: pqc_migrate_credentials_def mode_lookups Let_def del: pg_strcasecmp.simps)
  show ?thesis
    using migration_report [OF enc plain _ _ _ rep, of sample_role] rep by (simp add: sample_role_def)
qed

end
