(* ===== verification/KeyAdmin.thy ===== *)
theory KeyAdmin
  imports TdeServer PqcSql CText "HOL-Library.Signed_Division"
begin

text \<open>
  SQL functions about keys in contrib/pgcrypto_pqc/pgcrypto_pqc.c: rotation of
  the TDE master key and the report on key ages.  Timestamps are microseconds;
  the number of tablespaces and the creation times of the audit keys are
  arguments.
\<close>

section \<open>Definitions\<close>

definition pqc_rotate_tde_master_key ::
  "openssl \<Rightarrow> liboqs \<Rightarrow> os_io \<Rightarrow> bool \<Rightarrow> int \<Rightarrow> int \<Rightarrow> 'a tde_state_scheme \<Rightarrow> (string \<times> int \<times> int) result \<times> 'a tde_state_scheme" where
  "pqc_rotate_tde_master_key ssl L os superuser n_tablespaces now st =
     (if \<not> superuser
      then (Inl (PgError ERRCODE_INSUFFICIENT_PRIVILEGE ''must be superuser to rotate TDE master key''), st)
      else
        let st1 = (if \<not> pqc_is_available st then snd (pqc_init L st) else st) in
        ebind (tde_rotate_master_key ssl L os) (\<lambda>_.
          epure (Inr (''success'', int_of_long n_tablespaces, now))) st1)"

definition USECS_PER_DAY :: int where
  "USECS_PER_DAY = 86400000000"

record rotation_row =
  rr_key_type :: string
  rr_key_id :: string
  rr_algorithm :: string
  rr_created :: int
  rr_age_days :: int
  rr_recommended :: bool

definition active_key :: "string \<Rightarrow> audit_key_row list \<Rightarrow> audit_key_row option" where
  "active_key purpose keys = latest key_id (filter (\<lambda>r. key_purpose r = purpose \<and> is_active r) keys)"

definition audit_key_status :: "(nat \<Rightarrow> int option) \<Rightarrow> int \<Rightarrow> string \<Rightarrow> string \<Rightarrow> audit_key_row option \<Rightarrow> rotation_row" where
  "audit_key_status created_at now key_type alg key =
     (let created = (case key of None \<Rightarrow> now | Some r \<Rightarrow> (case created_at (key_id r) of Some t \<Rightarrow> t | None \<Rightarrow> now));
          age_days = int_of_long ((now - created) sdiv USECS_PER_DAY)
      in \<lparr>rr_key_type = key_type, rr_key_id = ''pqc_audit_keys'', rr_algorithm = alg, rr_created = created,
          rr_age_days = age_days, rr_recommended = (age_days > 90)\<rparr>)"

definition pqc_key_rotation_status ::
  "(nat \<Rightarrow> int option) \<Rightarrow> int \<Rightarrow> string option \<Rightarrow> string option \<Rightarrow> audit_key_row list \<Rightarrow> rotation_row list" where
  "pqc_key_rotation_status created_at now wal_algorithm wal_key_path keys =
     [\<lparr>rr_key_type = ''wal_signing'',
        rr_key_id = (case wal_key_path of Some p \<Rightarrow> p | None \<Rightarrow> ''(not configured)''),
        rr_algorithm = (case wal_algorithm of Some a \<Rightarrow> a | None \<Rightarrow> ''ML-DSA-65''),
        rr_created = now, rr_age_days = 0, rr_recommended = False\<rparr>,
      audit_key_status created_at now ''audit_classical'' ''Ed25519'' (active_key ''classical'' keys),
      (case active_key ''pqc'' keys of
         Some r \<Rightarrow> audit_key_status created_at now ''audit_pqc'' (key_algorithm r) (Some r)
       | None \<Rightarrow> audit_key_status created_at now ''audit_pqc'' ''ML-DSA-65'' None)]"

section \<open>Reports\<close>

text \<open>A rotation that reports success has emptied the key cache: the number of
  re-wrapped keys it reports is the number of tablespaces, of which none has a
  key afterwards.\<close>

lemma rotation_reports_tablespaces:
  assumes "pqc_rotate_tde_master_key ssl L os superuser n now st = (Inr (status, rewrapped, t), st')"
  shows "superuser \<and> rewrapped = int_of_long n \<and> tde_keycache_lookup st' spcOid = Inr None"
proof -
  let ?st1 = "if \<not> pqc_is_available st then snd (pqc_init L st) else st"
  have "superuser \<and> rewrapped = int_of_long n \<and> tde_rotate_master_key ssl L os ?st1 = (Inr (), st')"
    using assms by (auto simp: pqc_rotate_tde_master_key_def ebind_Inr_iff Let_def split: if_splits)
  moreover from this obtain c where "TdeKeyCacheShmem st' = Some (cache_invalidate c)"
    using tde_rotate_master_key_Inr(1) by blast
  ultimately show ?thesis
    by (simp add: tde_keycache_lookup_def cache_lookup_def cache_invalidate_def)
qed

text \<open>The WAL signing key is never recommended for rotation; an audit key is, from
  its 91st day on.\<close>

lemma rotation_recommended:
  assumes "created_at (key_id r) = Some t" and "active_key ''pqc'' keys = Some r" and "t \<le> now" and "now - t < 2 ^ 31 * USECS_PER_DAY"
  shows "map rr_recommended (pqc_key_rotation_status created_at now a p keys) ! 0 = False"
    and "map rr_recommended (pqc_key_rotation_status created_at now a p keys) ! 2 = (91 * USECS_PER_DAY \<le> now - t)"
proof -
  show "map rr_recommended (pqc_key_rotation_status created_at now a p keys) ! 0 = False"
    by (simp add: pqc_key_rotation_status_def)
  have "(now - t) sdiv USECS_PER_DAY = (now - t) div USECS_PER_DAY"
    using assms(3) by (simp add: signed_divide_int_def USECS_PER_DAY_def sgn_if)
  moreover have "0 \<le> (now - t) div USECS_PER_DAY" "(now - t) div USECS_PER_DAY < 2 ^ 31"
    using assms(3,4) by (simp_all add: USECS_PER_DAY_def)
  ultimately have "int_of_long ((now - t) sdiv USECS_PER_DAY) = (now - t) div USECS_PER_DAY"
    by (simp add: int_of_long_small)
  then show "map rr_recommended (pqc_key_rotation_status created_at now a p keys) ! 2 = (91 * USECS_PER_DAY \<le> now - t)"
    using assms(1,2) by (simp add: pqc_key_rotation_status_def audit_key_status_def Let_def numeral_2_eq_2)
      (simp add: USECS_PER_DAY_def, linarith)
qed

end
