(* ===== verification/CryptoPolicy.thy ===== *)
theory CryptoPolicy
  imports ScramSecret
begin

text \<open>
  The crypto_policy setting and the settings it cascades to
  (backend/libpq/crypto-policy.c), the parts of backend/utils/misc/guc.c that
  decide which of several sources of a setting wins, and the PQC part of
  be_tls_init (backend/libpq/be-secure-openssl.c).  A configuration file is
  the list of its entries after parsing.  The stack of values saved by open
  transactions is not modelled.
\<close>

section \<open>Definitions\<close>

subsection \<open>Settings and their sources\<close>

datatype GucContext = PGC_INTERNAL | PGC_POSTMASTER | PGC_SIGHUP | PGC_SU_BACKEND | PGC_BACKEND | PGC_SUSET | PGC_USERSET

datatype GucSource =
    PGC_S_DEFAULT | PGC_S_DYNAMIC_DEFAULT | PGC_S_ENV_VAR | PGC_S_FILE | PGC_S_ARGV | PGC_S_GLOBAL | PGC_S_DATABASE
  | PGC_S_USER | PGC_S_DATABASE_USER | PGC_S_CLIENT | PGC_S_OVERRIDE | PGC_S_INTERACTIVE | PGC_S_TEST | PGC_S_SESSION

primrec source_rank :: "GucSource \<Rightarrow> nat" where
  "source_rank PGC_S_DEFAULT = 0"
| "source_rank PGC_S_DYNAMIC_DEFAULT = 1"
| "source_rank PGC_S_ENV_VAR = 2"
| "source_rank PGC_S_FILE = 3"
| "source_rank PGC_S_ARGV = 4"
| "source_rank PGC_S_GLOBAL = 5"
| "source_rank PGC_S_DATABASE = 6"
| "source_rank PGC_S_USER = 7"
| "source_rank PGC_S_DATABASE_USER = 8"
| "source_rank PGC_S_CLIENT = 9"
| "source_rank PGC_S_OVERRIDE = 10"
| "source_rank PGC_S_INTERACTIVE = 11"
| "source_rank PGC_S_TEST = 12"
| "source_rank PGC_S_SESSION = 13"

lemma source_rank_inject: "source_rank a = source_rank b \<longleftrightarrow> a = b"
  by (cases a; cases b) simp_all

instantiation GucSource :: linorder
begin

definition less_eq_GucSource :: "GucSource \<Rightarrow> GucSource \<Rightarrow> bool" where
  "a \<le> b \<longleftrightarrow> source_rank a \<le> source_rank b"

definition less_GucSource :: "GucSource \<Rightarrow> GucSource \<Rightarrow> bool" where
  "a < b \<longleftrightarrow> source_rank a < source_rank b"

instance
  by standard (auto simp: less_eq_GucSource_def less_GucSource_def source_rank_inject [symmetric])

end

text \<open>A variable of context PGC_SIGHUP or PGC_USERSET.\<close>

record 'v config_var =
  gv_context :: GucContext
  gv_boot :: 'v
  gv_value :: 'v
  gv_source :: GucSource
  gv_reset :: 'v
  gv_reset_source :: GucSource

text \<open>The value to set and the source it counts for, None where parsing or the
  check hook refuses it.\<close>

definition new_value ::
  "(string \<Rightarrow> 'v option) \<Rightarrow> ('v \<Rightarrow> GucSource \<Rightarrow> bool) \<Rightarrow> GucSource \<Rightarrow> string option \<Rightarrow> 'v config_var \<Rightarrow> ('v \<times> GucSource) option" where
  "new_value parse check source value cv =
     (case value of
        Some s \<Rightarrow> (case parse s of None \<Rightarrow> None | Some v \<Rightarrow> if check v source then Some (v, source) else None)
      | None \<Rightarrow>
          if source = PGC_S_DEFAULT then (if check (gv_boot cv) source then Some (gv_boot cv, source) else None)
          else Some (gv_reset cv, gv_reset_source cv))"

definition context_refused :: "GucContext \<Rightarrow> 'v config_var \<Rightarrow> bool" where
  "context_refused ctx cv = (gv_context cv = PGC_SIGHUP \<and> ctx \<noteq> PGC_SIGHUP \<and> ctx \<noteq> PGC_POSTMASTER)"

text \<open>Whether the reset value is set too.\<close>

definition make_default :: "GucSource \<Rightarrow> string option \<Rightarrow> bool" where
  "make_default source value = (source \<le> PGC_S_OVERRIDE \<and> (value \<noteq> None \<or> source = PGC_S_DEFAULT))"

text \<open>Result 1 if the variable changed, -1 if the setting was ignored or only
  became the reset value, 0 on an error; the last component is the argument of
  the assign hook if it is called.\<close>

definition set_config_with_handle ::
  "(string \<Rightarrow> 'v option) \<Rightarrow> ('v \<Rightarrow> GucSource \<Rightarrow> bool) \<Rightarrow> GucContext \<Rightarrow> GucSource \<Rightarrow> string option \<Rightarrow> 'v config_var
     \<Rightarrow> int \<times> 'v config_var \<times> 'v option" where
  "set_config_with_handle parse check ctx source value cv =
     (if context_refused ctx cv then (0, cv, None)
      else
        let makeDefault = make_default source value;
            changeVal = (\<not> gv_source cv > source)
        in if \<not> changeVal \<and> \<not> makeDefault then (-1, cv, None)
           else
             (case new_value parse check source value cv of
                None \<Rightarrow> (0, cv, None)
              | Some (newval, source) \<Rightarrow>
                  let cv1 = (if changeVal then cv \<lparr>gv_value := newval, gv_source := source\<rparr> else cv);
                      cv2 = (if makeDefault \<and> gv_reset_source cv1 \<le> source
                             then cv1 \<lparr>gv_reset := newval, gv_reset_source := source\<rparr> else cv1)
                  in (if changeVal then 1 else -1, cv2, if changeVal then Some newval else None)))"

fun config_enum_lookup_by_name :: "(string \<times> 'v) list \<Rightarrow> string \<Rightarrow> 'v option" where
  "config_enum_lookup_by_name [] value = None"
| "config_enum_lookup_by_name ((name, v) # options) value =
     (if pg_strcasecmp value name = 0 then Some v else config_enum_lookup_by_name options value)"

subsection \<open>The variables\<close>

datatype PqcTlsMode = PQC_TLS_OFF | PQC_TLS_HYBRID | PQC_TLS_PQC_ONLY

datatype CryptoPolicy =
    CRYPTO_POLICY_CUSTOM | CRYPTO_POLICY_LEGACY | CRYPTO_POLICY_TRANSITIONAL
  | CRYPTO_POLICY_FIPS_PQC_LEVEL3 | CRYPTO_POLICY_FIPS_PQC_LEVEL5

definition password_encryption_options :: "(string \<times> PasswordType) list" where
  "password_encryption_options = [(''md5'', PASSWORD_TYPE_MD5), (''scram-sha-256'', PASSWORD_TYPE_SCRAM_SHA_256),
     (''scram-sha-384'', PASSWORD_TYPE_SCRAM_SHA_384)]"

definition ssl_pqc_mode_options :: "(string \<times> PqcTlsMode) list" where
  "ssl_pqc_mode_options = [(''off'', PQC_TLS_OFF), (''hybrid'', PQC_TLS_HYBRID), (''pqc-only'', PQC_TLS_PQC_ONLY)]"

definition crypto_policy_options :: "(string \<times> CryptoPolicy) list" where
  "crypto_policy_options = [(''custom'', CRYPTO_POLICY_CUSTOM), (''legacy'', CRYPTO_POLICY_LEGACY),
     (''transitional'', CRYPTO_POLICY_TRANSITIONAL), (''fips-pqc-level3'', CRYPTO_POLICY_FIPS_PQC_LEVEL3),
     (''fips-pqc-level5'', CRYPTO_POLICY_FIPS_PQC_LEVEL5)]"

definition check_crypto_policy :: "CryptoPolicy \<Rightarrow> GucSource \<Rightarrow> bool" where
  "check_crypto_policy newval source = True"

definition check_ssl_pqc_groups :: "string \<Rightarrow> GucSource \<Rightarrow> bool" where
  "check_ssl_pqc_groups newval source = (\<not> (newval = [] \<and> source > PGC_S_DEFAULT))"

record guc_state =
  g_policy :: "CryptoPolicy config_var"
  g_password :: "PasswordType config_var"
  g_mode :: "PqcTlsMode config_var"
  g_groups :: "string config_var"
  g_sigalgs :: "string config_var"

definition boot_var :: "GucContext \<Rightarrow> 'v \<Rightarrow> 'v config_var" where
  "boot_var ctx v = \<lparr>gv_context = ctx, gv_boot = v, gv_value = v, gv_source = PGC_S_DEFAULT, gv_reset = v,
     gv_reset_source = PGC_S_DEFAULT\<rparr>"

definition boot_gucs :: guc_state where
  "boot_gucs = \<lparr>g_policy = boot_var PGC_SIGHUP CRYPTO_POLICY_CUSTOM, g_password = boot_var PGC_USERSET PASSWORD_TYPE_SCRAM_SHA_256,
     g_mode = boot_var PGC_SIGHUP PQC_TLS_HYBRID, g_groups = boot_var PGC_SIGHUP ''X25519MLKEM768:X25519:prime256v1'',
     g_sigalgs = boot_var PGC_SIGHUP ''''\<rparr>"

datatype guc_name = Password_encryption | Ssl_pqc_mode | Ssl_pqc_groups | Ssl_pqc_sigalgs | Crypto_policy

text \<open>Setting one of the variables without an assign hook.\<close>

definition set_plain :: "GucContext \<Rightarrow> GucSource \<Rightarrow> guc_name \<Rightarrow> string option \<Rightarrow> guc_state \<Rightarrow> int \<times> guc_state" where
  "set_plain ctx source name value st =
     (case name of
        Password_encryption \<Rightarrow>
          (case set_config_with_handle (config_enum_lookup_by_name password_encryption_options) (\<lambda>v s. True)
             ctx source value (g_password st) of (rc, cv, _) \<Rightarrow> (rc, st \<lparr>g_password := cv\<rparr>))
      | Ssl_pqc_mode \<Rightarrow>
          (case set_config_with_handle (config_enum_lookup_by_name ssl_pqc_mode_options) (\<lambda>v s. True)
             ctx source value (g_mode st) of (rc, cv, _) \<Rightarrow> (rc, st \<lparr>g_mode := cv\<rparr>))
      | Ssl_pqc_groups \<Rightarrow>
          (case set_config_with_handle Some check_ssl_pqc_groups ctx source value (g_groups st) of
             (rc, cv, _) \<Rightarrow> (rc, st \<lparr>g_groups := cv\<rparr>))
      | Ssl_pqc_sigalgs \<Rightarrow>
          (case set_config_with_handle Some (\<lambda>v s. True) ctx source value (g_sigalgs st) of
             (rc, cv, _) \<Rightarrow> (rc, st \<lparr>g_sigalgs := cv\<rparr>))
      | Crypto_policy \<Rightarrow> (0, st))"

text \<open>SetConfigOption as the policy calls it.\<close>

definition override :: "guc_name \<Rightarrow> string \<Rightarrow> guc_state \<Rightarrow> guc_state" where
  "override name value st = snd (set_plain PGC_SIGHUP PGC_S_OVERRIDE name (Some value) st)"

definition assign_crypto_policy :: "CryptoPolicy \<Rightarrow> guc_state \<Rightarrow> guc_state" where
  "assign_crypto_policy newval st =
     (case newval of
        CRYPTO_POLICY_CUSTOM \<Rightarrow> st
      | CRYPTO_POLICY_LEGACY \<Rightarrow> override Ssl_pqc_mode ''off'' (override Password_encryption ''md5'' st)
      | CRYPTO_POLICY_TRANSITIONAL \<Rightarrow>
          override Ssl_pqc_sigalgs '''' (override Ssl_pqc_groups ''X25519MLKEM768:X25519:prime256v1''
            (override Ssl_pqc_mode ''hybrid'' (override Password_encryption ''scram-sha-256'' st)))
      | CRYPTO_POLICY_FIPS_PQC_LEVEL3 \<Rightarrow>
          override Ssl_pqc_sigalgs ''MLDSA65'' (override Ssl_pqc_groups ''MLKEM768''
            (override Ssl_pqc_mode ''hybrid'' (override Password_encryption ''scram-sha-384'' st)))
      | CRYPTO_POLICY_FIPS_PQC_LEVEL5 \<Rightarrow>
          override Ssl_pqc_sigalgs ''MLDSA87'' (override Ssl_pqc_groups ''MLKEM1024''
            (override Ssl_pqc_mode ''pqc-only'' (override Password_encryption ''scram-sha-384'' st))))"

definition set_config_option :: "GucContext \<Rightarrow> GucSource \<Rightarrow> guc_name \<Rightarrow> string option \<Rightarrow> guc_state \<Rightarrow> int \<times> guc_state" where
  "set_config_option ctx source name value st =
     (if name = Crypto_policy
      then (case set_config_with_handle (config_enum_lookup_by_name crypto_policy_options) check_crypto_policy
              ctx source value (g_policy st) of
            (rc, cv, hook) \<Rightarrow>
              (rc, (case hook of None \<Rightarrow> st | Some p \<Rightarrow> assign_crypto_policy p st) \<lparr>g_policy := cv\<rparr>))
      else set_plain ctx source name value st)"

subsection \<open>Reading the configuration file\<close>

text \<open>Of several entries for one variable the last counts.\<close>

fun live_items :: "(guc_name \<times> string) list \<Rightarrow> (guc_name \<times> string) list" where
  "live_items [] = []"
| "live_items ((n, v) # items) = (if n \<in> set (map fst items) then live_items items else (n, v) # live_items items)"

text \<open>A variable whose reset value came from the file and that is in the file no
  more goes back to its default.\<close>

definition demote :: "'v config_var \<Rightarrow> 'v config_var" where
  "demote cv = cv \<lparr>gv_reset_source := PGC_S_DEFAULT,
     gv_source := (if gv_source cv = PGC_S_FILE then PGC_S_DEFAULT else gv_source cv)\<rparr>"

definition demote_in :: "guc_name \<Rightarrow> guc_state \<Rightarrow> guc_state" where
  "demote_in name st =
     (case name of
        Password_encryption \<Rightarrow> st \<lparr>g_password := demote (g_password st)\<rparr>
      | Ssl_pqc_mode \<Rightarrow> st \<lparr>g_mode := demote (g_mode st)\<rparr>
      | Ssl_pqc_groups \<Rightarrow> st \<lparr>g_groups := demote (g_groups st)\<rparr>
      | Ssl_pqc_sigalgs \<Rightarrow> st \<lparr>g_sigalgs := demote (g_sigalgs st)\<rparr>
      | Crypto_policy \<Rightarrow> st \<lparr>g_policy := demote (g_policy st)\<rparr>)"

definition reset_source_of :: "guc_name \<Rightarrow> guc_state \<Rightarrow> GucSource" where
  "reset_source_of name st =
     (case name of
        Password_encryption \<Rightarrow> gv_reset_source (g_password st)
      | Ssl_pqc_mode \<Rightarrow> gv_reset_source (g_mode st)
      | Ssl_pqc_groups \<Rightarrow> gv_reset_source (g_groups st)
      | Ssl_pqc_sigalgs \<Rightarrow> gv_reset_source (g_sigalgs st)
      | Crypto_policy \<Rightarrow> gv_reset_source (g_policy st))"

definition remove_missing :: "GucContext \<Rightarrow> guc_name set \<Rightarrow> guc_name \<Rightarrow> guc_state \<Rightarrow> guc_state" where
  "remove_missing ctx in_file name st =
     (if reset_source_of name st \<noteq> PGC_S_FILE \<or> name \<in> in_file then st
      else snd (set_config_option ctx PGC_S_DEFAULT name None (demote_in name st)))"

definition guc_names :: "guc_name list" where
  "guc_names = [Password_encryption, Ssl_pqc_mode, Ssl_pqc_groups, Ssl_pqc_sigalgs, Crypto_policy]"

definition apply_item :: "GucContext \<Rightarrow> guc_name \<times> string \<Rightarrow> guc_state \<Rightarrow> guc_state" where
  "apply_item ctx item st = snd (set_config_option ctx PGC_S_FILE (fst item) (Some (snd item)) st)"

definition ProcessConfigFile :: "GucContext \<Rightarrow> (guc_name \<times> string) list \<Rightarrow> guc_state \<Rightarrow> guc_state" where
  "ProcessConfigFile ctx items st =
     fold (apply_item ctx) (live_items items) (fold (remove_missing ctx (set (map fst items))) guc_names st)"

subsection \<open>TLS set-up\<close>

record ssl_ctx =
  ctx_groups :: "string option"
  ctx_sigalgs :: "string option"

datatype tls_init = Tls_fatal | Tls_error | Tls_ok ssl_ctx

text \<open>The two arguments tell which lists the TLS library accepts; None in the
  context stands for what was configured before.\<close>

definition be_tls_init_pqc :: "(string \<Rightarrow> bool) \<Rightarrow> (string \<Rightarrow> bool) \<Rightarrow> bool \<Rightarrow> guc_state \<Rightarrow> tls_init" where
  "be_tls_init_pqc groups_ok sigalgs_ok isServerStart st =
     (let mode = gv_value (g_mode st); groups = gv_value (g_groups st); sigalgs = gv_value (g_sigalgs st);
          use_groups = (mode \<noteq> PQC_TLS_OFF \<and> groups \<noteq> []);
          use_sigalgs = (mode \<noteq> PQC_TLS_OFF \<and> sigalgs \<noteq> [])
      in if use_groups \<and> \<not> groups_ok groups then (if isServerStart then Tls_fatal else Tls_error)
         else if use_sigalgs \<and> \<not> sigalgs_ok sigalgs \<and> isServerStart then Tls_fatal
         else Tls_ok \<lparr>ctx_groups = (if use_groups then Some groups else None),
                ctx_sigalgs = (if use_sigalgs \<and> sigalgs_ok sigalgs then Some sigalgs else None)\<rparr>)"

text \<open>The groups a libpq client offers, from the connection options sslpqcmode and
  sslpqcgroups; None stands for the library's default.\<close>

definition initialize_SSL_groups :: "(string \<Rightarrow> bool) \<Rightarrow> string option \<Rightarrow> string option \<Rightarrow> string option" where
  "initialize_SSL_groups groups_ok sslpqcmode sslpqcgroups =
     (if sslpqcmode \<noteq> Some ''off''
      then let groups = (case sslpqcgroups of
                  None \<Rightarrow> ''X25519MLKEM768:X25519:prime256v1''
                | Some g \<Rightarrow> if g = [] then ''X25519MLKEM768:X25519:prime256v1'' else g)
           in if groups_ok groups then Some groups
              else if groups_ok ''X25519:prime256v1:secp384r1'' then Some ''X25519:prime256v1:secp384r1''
              else None
      else None)"

section \<open>Which source wins\<close>

text \<open>A variable whose value comes from a policy.\<close>

definition pinned :: "'v \<Rightarrow> 'v config_var \<Rightarrow> bool" where
  "pinned v cv \<longleftrightarrow> gv_value cv = v \<and> gv_source cv = PGC_S_OVERRIDE \<and> gv_reset_source cv = PGC_S_OVERRIDE"

text \<open>A variable no session has set.\<close>

definition unset :: "'v config_var \<Rightarrow> bool" where
  "unset cv \<longleftrightarrow> gv_source cv \<le> PGC_S_OVERRIDE \<and> gv_reset_source cv \<le> PGC_S_OVERRIDE"

lemmas set_defs = set_config_with_handle_def context_refused_def make_default_def new_value_def Let_def

lemma source_less: "PGC_S_FILE < PGC_S_OVERRIDE" "PGC_S_DEFAULT < PGC_S_OVERRIDE" "\<not> PGC_S_OVERRIDE < PGC_S_FILE"
  "\<not> PGC_S_OVERRIDE \<le> PGC_S_FILE" "PGC_S_OVERRIDE < PGC_S_SESSION" "PGC_S_FILE < PGC_S_SESSION" "PGC_S_DEFAULT < PGC_S_SESSION"
  "PGC_S_FILE \<le> PGC_S_OVERRIDE" "PGC_S_DEFAULT \<le> s" "\<not> PGC_S_SESSION < s" "\<not> s < PGC_S_DEFAULT" "\<not> PGC_S_OVERRIDE \<le> PGC_S_DEFAULT"
  by (cases s; simp add: less_GucSource_def less_eq_GucSource_def)+

lemma set_override_pins:
  assumes "unset cv" and "parse s = Some v" and "check v PGC_S_OVERRIDE"
  shows "pinned v (fst (snd (set_config_with_handle parse check PGC_SIGHUP PGC_S_OVERRIDE (Some s) cv)))"
  using assms by (auto simp: set_defs pinned_def unset_def)

lemma set_file_pinned:
  "pinned v cv \<Longrightarrow> pinned v (fst (snd (set_config_with_handle parse check ctx PGC_S_FILE value cv)))"
  by (auto simp: set_defs pinned_def source_less split: option.split)

lemma set_unset:
  "unset cv \<Longrightarrow> source \<le> PGC_S_OVERRIDE \<Longrightarrow> unset (fst (snd (set_config_with_handle parse check ctx source value cv)))"
  by (auto simp: set_defs unset_def split: option.split)

text \<open>A variable a session has set.\<close>

definition held :: "'v \<Rightarrow> 'v config_var \<Rightarrow> bool" where
  "held v cv \<longleftrightarrow> gv_value cv = v \<and> gv_source cv = PGC_S_SESSION"

lemma set_held:
  "held v cv \<Longrightarrow> source < PGC_S_SESSION \<Longrightarrow> held v (fst (snd (set_config_with_handle parse check ctx source value cv)))"
  by (auto simp: set_defs held_def split: option.split)

lemma demote_keeps: "unset cv \<Longrightarrow> unset (demote cv)" "held v cv \<Longrightarrow> held v (demote cv)"
  by (auto simp: demote_def unset_def held_def source_less)

section \<open>Settings under a policy\<close>

definition all_unset :: "guc_state \<Rightarrow> bool" where
  "all_unset st \<longleftrightarrow> unset (g_password st) \<and> unset (g_mode st) \<and> unset (g_groups st) \<and> unset (g_sigalgs st)"

text \<open>Specification: the settings the code gives each policy (the configuration
  sample and the administration guide describe legacy and the two FIPS levels
  differently).  Every use below goes through assign_profile, which shows that
  assign_crypto_policy establishes them.\<close>

definition profile :: "CryptoPolicy \<Rightarrow> guc_state \<Rightarrow> bool" where
  "profile p st \<longleftrightarrow>
     (case p of
        CRYPTO_POLICY_CUSTOM \<Rightarrow> True
      | CRYPTO_POLICY_LEGACY \<Rightarrow> pinned PASSWORD_TYPE_MD5 (g_password st) \<and> pinned PQC_TLS_OFF (g_mode st)
      | CRYPTO_POLICY_TRANSITIONAL \<Rightarrow>
          pinned PASSWORD_TYPE_SCRAM_SHA_256 (g_password st) \<and> pinned PQC_TLS_HYBRID (g_mode st)
          \<and> pinned ''X25519MLKEM768:X25519:prime256v1'' (g_groups st) \<and> pinned '''' (g_sigalgs st)
      | CRYPTO_POLICY_FIPS_PQC_LEVEL3 \<Rightarrow>
          pinned PASSWORD_TYPE_SCRAM_SHA_384 (g_password st) \<and> pinned PQC_TLS_HYBRID (g_mode st)
          \<and> pinned ''MLKEM768'' (g_groups st) \<and> pinned ''MLDSA65'' (g_sigalgs st)
      | CRYPTO_POLICY_FIPS_PQC_LEVEL5 \<Rightarrow>
          pinned PASSWORD_TYPE_SCRAM_SHA_384 (g_password st) \<and> pinned PQC_TLS_PQC_ONLY (g_mode st)
          \<and> pinned ''MLKEM1024'' (g_groups st) \<and> pinned ''MLDSA87'' (g_sigalgs st))"

text \<open>Setting a variable touches that variable only.\<close>

lemma set_plain_state:
  "snd (set_plain ctx source name value st) =
   (case name of
      Password_encryption \<Rightarrow> st \<lparr>g_password := fst (snd (set_config_with_handle
        (config_enum_lookup_by_name password_encryption_options) (\<lambda>v s. True) ctx source value (g_password st)))\<rparr>
    | Ssl_pqc_mode \<Rightarrow> st \<lparr>g_mode := fst (snd (set_config_with_handle
        (config_enum_lookup_by_name ssl_pqc_mode_options) (\<lambda>v s. True) ctx source value (g_mode st)))\<rparr>
    | Ssl_pqc_groups \<Rightarrow> st \<lparr>g_groups := fst (snd (set_config_with_handle Some check_ssl_pqc_groups ctx source value (g_groups st)))\<rparr>
    | Ssl_pqc_sigalgs \<Rightarrow> st \<lparr>g_sigalgs := fst (snd (set_config_with_handle Some (\<lambda>v s. True) ctx source value (g_sigalgs st)))\<rparr>
    | Crypto_policy \<Rightarrow> st)"
  by (cases name) (simp_all add: set_plain_def split: prod.split)

lemma set_plain_all_unset: "all_unset st \<Longrightarrow> source \<le> PGC_S_OVERRIDE \<Longrightarrow> all_unset (snd (set_plain ctx source name value st))"
  by (cases name) (simp_all add: set_plain_state all_unset_def set_unset)

lemma set_plain_profile: "profile p st \<Longrightarrow> profile p (snd (set_plain ctx PGC_S_FILE name value st))"
  by (cases p; cases name) (simp_all add: set_plain_state profile_def set_file_pinned)

lemma set_plain_held: "held v (g_password st) \<Longrightarrow> source < PGC_S_SESSION \<Longrightarrow> held v (g_password (snd (set_plain ctx source name value st)))"
  by (cases name) (simp_all add: set_plain_state set_held)

lemma set_plain_policy: "g_policy (snd (set_plain ctx source name value st)) = g_policy st"
  by (cases name) (simp_all add: set_plain_state)

lemma option_lookups:
  "config_enum_lookup_by_name password_encryption_options ''md5'' = Some PASSWORD_TYPE_MD5"
  "config_enum_lookup_by_name password_encryption_options ''scram-sha-256'' = Some PASSWORD_TYPE_SCRAM_SHA_256"
  "config_enum_lookup_by_name password_encryption_options ''scram-sha-384'' = Some PASSWORD_TYPE_SCRAM_SHA_384"
  "config_enum_lookup_by_name ssl_pqc_mode_options ''off'' = Some PQC_TLS_OFF"
  "config_enum_lookup_by_name ssl_pqc_mode_options ''hybrid'' = Some PQC_TLS_HYBRID"
  "config_enum_lookup_by_name ssl_pqc_mode_options ''pqc-only'' = Some PQC_TLS_PQC_ONLY"
  by code_simp+

lemma override_pins:
  assumes "all_unset st"
  shows "config_enum_lookup_by_name password_encryption_options s = Some w \<Longrightarrow> pinned w (g_password (override Password_encryption s st))"
    and "config_enum_lookup_by_name ssl_pqc_mode_options s = Some t \<Longrightarrow> pinned t (g_mode (override Ssl_pqc_mode s st))"
    and "s \<noteq> [] \<Longrightarrow> pinned s (g_groups (override Ssl_pqc_groups s st))"
    and "pinned s (g_sigalgs (override Ssl_pqc_sigalgs s st))"
  using assms by (simp_all add: override_def set_plain_state all_unset_def set_override_pins check_ssl_pqc_groups_def)

lemma override_frame:
  "name \<noteq> Password_encryption \<Longrightarrow> g_password (override name s st) = g_password st"
  "name \<noteq> Ssl_pqc_mode \<Longrightarrow> g_mode (override name s st) = g_mode st"
  "name \<noteq> Ssl_pqc_groups \<Longrightarrow> g_groups (override name s st) = g_groups st"
  "name \<noteq> Ssl_pqc_sigalgs \<Longrightarrow> g_sigalgs (override name s st) = g_sigalgs st"
  "g_policy (override name s st) = g_policy st"
  by (cases name; simp add: override_def set_plain_state)+

lemma override_all_unset: "all_unset st \<Longrightarrow> all_unset (override name s st)"
  by (simp add: override_def set_plain_all_unset)

lemma override_held: "held v (g_password st) \<Longrightarrow> held v (g_password (override name s st))"
  by (simp add: override_def set_plain_held source_less)

lemma assign_profile: "all_unset st \<Longrightarrow> profile p (assign_crypto_policy p st)"
  by (cases p) (simp_all add: profile_def assign_crypto_policy_def override_pins override_frame override_all_unset option_lookups)

lemma assign_keeps:
  "all_unset st \<Longrightarrow> all_unset (assign_crypto_policy p st)"
  "held v (g_password st) \<Longrightarrow> held v (g_password (assign_crypto_policy p st))"
  "g_policy (assign_crypto_policy p st) = g_policy st"
  by (cases p; simp add: assign_crypto_policy_def override_all_unset override_held override_frame)+


section \<open>Configuration files\<close>

lemma live_items_names: "set (map fst (live_items items)) = set (map fst items)"
  by (induction items rule: live_items.induct) auto

lemma live_items_distinct: "distinct (map fst (live_items items))"
  using live_items_names by (induction items rule: live_items.induct) auto

lemma live_items_last: "map_of (rev items) n = Some v \<Longrightarrow> (n, v) \<in> set (live_items items)"
proof (induction items rule: live_items.induct)
  case (2 m w items)
  show ?case
  proof (cases "n \<in> set (map fst items)")
    case True
    then have "map_of (rev items) n \<noteq> None"
      by (simp add: map_of_eq_None_iff)
    then have "map_of (rev items) n = Some v"
      using "2.prems" by (auto simp: map_add_def)
    then show ?thesis
      using "2.IH" by (cases "m \<in> set (map fst items)") simp_all
  next
    case False
    then have "map_of (rev items) n = None"
      by (simp add: map_of_eq_None_iff)
    then have "(m, w) = (n, v)"
      using "2.prems" by (auto simp: map_add_def split: if_splits)
    then show ?thesis
      using False by simp
  qed
qed simp

lemma apply_item_plain:
  assumes "fst item \<noteq> Crypto_policy"
  shows "all_unset st \<Longrightarrow> all_unset (apply_item ctx item st)"
    and "profile p st \<Longrightarrow> profile p (apply_item ctx item st)"
    and "g_policy (apply_item ctx item st) = g_policy st"
  using assms
  by (simp_all add: apply_item_def set_config_option_def set_plain_all_unset set_plain_profile set_plain_policy source_less)

lemma apply_items_plain:
  assumes "Crypto_policy \<notin> set (map fst items)"
  shows "all_unset st \<Longrightarrow> all_unset (fold (apply_item ctx) items st)"
    and "profile p st \<Longrightarrow> profile p (fold (apply_item ctx) items st)"
    and "g_policy (fold (apply_item ctx) items st) = g_policy st"
  using assms by (induction items arbitrary: st) (auto simp: apply_item_plain)

text \<open>Changing the policy record alone changes no setting.\<close>

lemma policy_update_frame:
  "all_unset (st \<lparr>g_policy := cv\<rparr>) = all_unset st" "profile p (st \<lparr>g_policy := cv\<rparr>) = profile p st"
  by (auto simp: all_unset_def profile_def split: CryptoPolicy.split)

lemma set_config_option_all_unset:
  "all_unset st \<Longrightarrow> source \<le> PGC_S_OVERRIDE \<Longrightarrow> all_unset (snd (set_config_option ctx source name value st))"
  by (auto simp: set_config_option_def set_plain_all_unset policy_update_frame assign_keeps split: prod.split option.split)

lemma set_config_option_held:
  "held v (g_password st) \<Longrightarrow> source < PGC_S_SESSION \<Longrightarrow> held v (g_password (snd (set_config_option ctx source name value st)))"
  by (auto simp: set_config_option_def set_plain_held assign_keeps split: prod.split option.split)

lemma remove_missing_all_unset: "all_unset st \<Longrightarrow> all_unset (remove_missing ctx F name st)"
proof -
  assume "all_unset st"
  then have "all_unset (demote_in name st)"
    by (cases name) (auto simp: demote_in_def all_unset_def demote_keeps)
  then show ?thesis
    using \<open>all_unset st\<close> by (simp add: remove_missing_def set_config_option_all_unset source_less)
qed

lemma removals_all_unset: "all_unset st \<Longrightarrow> all_unset (fold (remove_missing ctx F) names st)"
  by (induction names arbitrary: st) (simp_all add: remove_missing_all_unset)

text \<open>The policy variable keeps a low source unless something else than the file
  sets it.\<close>

lemma demote_source: "gv_source cv \<le> PGC_S_FILE \<Longrightarrow> gv_source (demote cv) \<le> PGC_S_FILE"
  by (simp add: demote_def source_less)

lemma set_source:
  "gv_source cv \<le> PGC_S_FILE \<Longrightarrow> source \<le> PGC_S_FILE \<Longrightarrow> value \<noteq> None \<or> source = PGC_S_DEFAULT \<Longrightarrow>
   gv_source (fst (snd (set_config_with_handle parse check ctx source value cv))) \<le> PGC_S_FILE"
  by (auto simp: set_defs split: option.split)

lemma remove_missing_source:
  "gv_source (g_policy st) \<le> PGC_S_FILE \<Longrightarrow> gv_source (g_policy (remove_missing ctx F name st)) \<le> PGC_S_FILE"
proof (cases name)
  case Crypto_policy
  assume "gv_source (g_policy st) \<le> PGC_S_FILE"
  then have "gv_source (fst (snd (set_config_with_handle (config_enum_lookup_by_name crypto_policy_options)
      check_crypto_policy ctx PGC_S_DEFAULT None (demote (g_policy st))))) \<le> PGC_S_FILE"
    by (intro set_source demote_source) (simp_all add: source_less)
  then show ?thesis
    using Crypto_policy \<open>gv_source (g_policy st) \<le> PGC_S_FILE\<close>
    by (auto simp: remove_missing_def set_config_option_def demote_in_def split: prod.split)
qed (auto simp: remove_missing_def set_config_option_def set_plain_policy demote_in_def)

lemma removals_source:
  "gv_source (g_policy st) \<le> PGC_S_FILE \<Longrightarrow> gv_source (g_policy (fold (remove_missing ctx F) names st)) \<le> PGC_S_FILE"
  by (induction names arbitrary: st) (simp_all add: remove_missing_source)

lemma apply_policy_item:
  assumes "all_unset st" and "gv_source (g_policy st) \<le> PGC_S_FILE" and "ctx \<in> {PGC_SIGHUP, PGC_POSTMASTER}"
    and "config_enum_lookup_by_name crypto_policy_options v = Some p"
  shows "profile p (apply_item ctx (Crypto_policy, v) st)"
proof -
  have "snd (snd (set_config_with_handle (config_enum_lookup_by_name crypto_policy_options) check_crypto_policy
      ctx PGC_S_FILE (Some v) (g_policy st))) = Some p"
    using assms(2-4) by (auto simp: set_defs check_crypto_policy_def)
  then show ?thesis
    using assign_profile [OF assms(1)]
    by (auto simp: apply_item_def set_config_option_def policy_update_frame split: prod.split)
qed

lemma policy_applied:
  assumes "all_unset st" and "gv_source (g_policy st) \<le> PGC_S_FILE" and "ctx \<in> {PGC_SIGHUP, PGC_POSTMASTER}"
    and "map_of (rev items) Crypto_policy = Some v"
    and "config_enum_lookup_by_name crypto_policy_options v = Some p"
  shows "profile p (ProcessConfigFile ctx items st)"
proof -
  define st0 where "st0 = fold (remove_missing ctx (set (map fst items))) guc_names st"
  have st0: "all_unset st0" "gv_source (g_policy st0) \<le> PGC_S_FILE"
    using assms(1,2) by (simp_all add: st0_def removals_all_unset removals_source)
  obtain pre post where split: "live_items items = pre @ (Crypto_policy, v) # post"
    using split_list [OF live_items_last [OF assms(4)]] by blast
  then have n: "Crypto_policy \<notin> set (map fst pre)" "Crypto_policy \<notin> set (map fst post)"
    using live_items_distinct [of items] by auto
  have "profile p (apply_item ctx (Crypto_policy, v) (fold (apply_item ctx) pre st0))"
    using st0 n(1) assms(3,5) by (intro apply_policy_item) (simp_all add: apply_items_plain)
  then have "profile p (fold (apply_item ctx) (live_items items) st0)"
    using n(2) by (simp add: split apply_items_plain)
  then show ?thesis
    unfolding ProcessConfigFile_def st0_def .
qed

text \<open>C10: in a server whose four settings have not been set by anything stronger
  than the configuration file, and whose policy has not either, whatever else
  the file sets, before or after the policy, once it is read the password type
  and the TLS settings are those of the policy it names last.\<close>

theorem policy_wins:
  assumes "all_unset st" and "gv_source (g_policy st) \<le> PGC_S_FILE" and "ctx \<in> {PGC_SIGHUP, PGC_POSTMASTER}"
    and "map_of (rev items) Crypto_policy = Some v"
    and "config_enum_lookup_by_name crypto_policy_options v = Some p"
  shows "profile p (ProcessConfigFile ctx items st)"
  using assms by (rule policy_applied)

text \<open>Files that name no policy other than custom.\<close>

definition custom_only :: "(guc_name \<times> string) list \<Rightarrow> bool" where
  "custom_only items \<longleftrightarrow>
     (\<forall>v \<in> set (map snd (filter (\<lambda>i. fst i = Crypto_policy) items)).
        config_enum_lookup_by_name crypto_policy_options v \<in> {None, Some CRYPTO_POLICY_CUSTOM})"

lemma live_items_subset: "set (live_items items) \<subseteq> set items"
  by (induction items rule: live_items.induct) auto

lemma profile_reset_source:
  "profile p st \<Longrightarrow> p \<noteq> CRYPTO_POLICY_CUSTOM \<Longrightarrow> reset_source_of name st = PGC_S_FILE \<Longrightarrow>
   profile p (demote_in name st)"
  by (cases p; cases name) (auto simp: profile_def reset_source_of_def demote_in_def pinned_def)

lemma set_custom_profile:
  assumes "profile p st" and "gv_boot (g_policy st) = CRYPTO_POLICY_CUSTOM"
    and "value = None \<and> source = PGC_S_DEFAULT
      \<or> (\<exists>v. value = Some v \<and> config_enum_lookup_by_name crypto_policy_options v \<in> {None, Some CRYPTO_POLICY_CUSTOM})"
  shows "profile p (snd (set_config_option ctx source Crypto_policy value st))"
  using assms
  by (auto simp: set_config_option_def set_defs policy_update_frame check_crypto_policy_def assign_crypto_policy_def
    split: prod.split option.split)

lemma set_boot: "gv_boot (fst (snd (set_config_with_handle parse check ctx source value cv))) = gv_boot cv"
  by (auto simp: set_defs split: option.split)

lemma set_option_boot: "gv_boot (g_policy (snd (set_config_option ctx source name value st))) = gv_boot (g_policy st)"
  using set_boot [of "config_enum_lookup_by_name crypto_policy_options" check_crypto_policy ctx source "value" "g_policy st"]
  by (auto simp: set_config_option_def set_plain_policy split: prod.split)

lemma set_plain_default_profile:
  assumes "profile p st" and "reset_source_of name st \<noteq> PGC_S_OVERRIDE" and "name \<noteq> Crypto_policy"
  shows "profile p (snd (set_plain ctx source name value st))"
  using assms by (cases p; cases name) (auto simp: set_plain_state profile_def reset_source_of_def pinned_def)

lemma demote_in_facts:
  "gv_boot (g_policy (demote_in name st)) = gv_boot (g_policy st)" "reset_source_of name (demote_in name st) = PGC_S_DEFAULT"
  by (cases name; simp add: demote_in_def demote_def reset_source_of_def)+

lemma remove_missing_profile:
  assumes "profile p st" and "p \<noteq> CRYPTO_POLICY_CUSTOM" and "gv_boot (g_policy st) = CRYPTO_POLICY_CUSTOM"
  shows "profile p (remove_missing ctx F name st)" and "gv_boot (g_policy (remove_missing ctx F name st)) = CRYPTO_POLICY_CUSTOM"
proof -
  show "gv_boot (g_policy (remove_missing ctx F name st)) = CRYPTO_POLICY_CUSTOM"
    using assms(3) by (simp add: remove_missing_def set_option_boot demote_in_facts)
  have "profile p (snd (set_config_option ctx PGC_S_DEFAULT name None (demote_in name st)))"
    if "reset_source_of name st = PGC_S_FILE"
  proof -
    have d: "profile p (demote_in name st)"
      using profile_reset_source assms(1,2) that by blast
    show ?thesis
    proof (cases "name = Crypto_policy")
      case True
      then show ?thesis
        using set_custom_profile [OF d] assms(3) by (simp add: demote_in_facts)
    next
      case False
      then show ?thesis
        using set_plain_default_profile [OF d] by (simp add: set_config_option_def demote_in_facts)
    qed
  qed
  then show "profile p (remove_missing ctx F name st)"
    using assms(1) by (simp add: remove_missing_def)
qed

lemma process_custom_file:
  assumes "profile p st" and "p \<noteq> CRYPTO_POLICY_CUSTOM" and "gv_boot (g_policy st) = CRYPTO_POLICY_CUSTOM" and "custom_only items"
  shows "profile p (ProcessConfigFile ctx items st) \<and> gv_boot (g_policy (ProcessConfigFile ctx items st)) = CRYPTO_POLICY_CUSTOM"
proof -
  have removals: "profile p (fold (remove_missing ctx F) names st) \<and>
      gv_boot (g_policy (fold (remove_missing ctx F) names st)) = CRYPTO_POLICY_CUSTOM" for F names
    using assms(1-3) by (induction names arbitrary: st) (simp_all add: remove_missing_profile)
  have item: "profile p (apply_item ctx i s) \<and> gv_boot (g_policy (apply_item ctx i s)) = CRYPTO_POLICY_CUSTOM"
    if "i \<in> set items" "profile p s" "gv_boot (g_policy s) = CRYPTO_POLICY_CUSTOM" for i s
  proof (cases "fst i = Crypto_policy")
    case True
    then have "config_enum_lookup_by_name crypto_policy_options (snd i) \<in> {None, Some CRYPTO_POLICY_CUSTOM}"
      using that(1) assms(4) unfolding custom_only_def by (cases i) auto
    then show ?thesis
      using set_custom_profile [OF that(2,3), of "Some (snd i)"] that(3) True by (simp add: apply_item_def set_option_boot)
  next
    case False
    then show ?thesis
      using that by (simp add: apply_item_plain)
  qed
  have "profile p (fold (apply_item ctx) is s) \<and> gv_boot (g_policy (fold (apply_item ctx) is s)) = CRYPTO_POLICY_CUSTOM"
    if "set is \<subseteq> set items" "profile p s" "gv_boot (g_policy s) = CRYPTO_POLICY_CUSTOM" for "is" s
    using that by (induction "is" arbitrary: s) (simp_all add: item)
  then show ?thesis
    using removals live_items_subset unfolding ProcessConfigFile_def by blast
qed

text \<open>C29: once a policy has been applied, configuration files that go back to the
  custom policy, or name none, never change the settings of the policy again,
  whatever values they give them.\<close>

theorem policy_sticks:
  assumes "profile p st" and "p \<noteq> CRYPTO_POLICY_CUSTOM" and "gv_boot (g_policy st) = CRYPTO_POLICY_CUSTOM"
    and "\<forall>items \<in> set files. custom_only items"
  shows "profile p (fold (ProcessConfigFile PGC_SIGHUP) files st)"
  using assms by (induction files arbitrary: st) (simp_all add: process_custom_file)

lemma process_held:
  assumes "held v (g_password st)"
  shows "held v (g_password (ProcessConfigFile ctx items st))"
proof -
  have item: "held v (g_password (fold (apply_item ctx) is s))" if "held v (g_password s)" for "is" s
    using that by (induction "is" arbitrary: s) (simp_all add: apply_item_def set_config_option_held source_less)
  have demoted: "held v (g_password (demote_in name s))" if "held v (g_password s)" for name s
    using that by (cases name) (simp_all add: demote_in_def demote_keeps)
  have "held v (g_password (fold (remove_missing ctx F) names s))" if "held v (g_password s)" for F names s
    using that by (induction names arbitrary: s) (simp_all add: remove_missing_def set_config_option_held demoted source_less)
  then show ?thesis
    using item assms unfolding ProcessConfigFile_def by blast
qed

text \<open>No policy keeps a session from storing passwords as MD5: the session
  sets password_encryption, and the value stays whatever configuration files,
  policies included, are read afterwards.\<close>

theorem session_overrides_policy:
  assumes "gv_context (g_password st) = PGC_USERSET"
  shows "gv_value (g_password (fold (ProcessConfigFile ctx) files
    (snd (set_config_option PGC_USERSET PGC_S_SESSION Password_encryption (Some ''md5'') st)))) = PASSWORD_TYPE_MD5"
proof -
  have "held PASSWORD_TYPE_MD5 (g_password (snd (set_config_option PGC_USERSET PGC_S_SESSION Password_encryption (Some ''md5'') st)))"
    using assms by (auto simp: set_config_option_def set_plain_state set_defs option_lookups held_def source_less)
  moreover have "held v (g_password (fold (ProcessConfigFile ctx) files s))" if "held v (g_password s)" for v s
    using that by (induction files arbitrary: s) (simp_all add: process_held)
  ultimately show ?thesis
    unfolding held_def by blast
qed


section \<open>A server under the strictest policy\<close>

lemma boot_gucs_facts: "all_unset boot_gucs" "gv_source (g_policy boot_gucs) = PGC_S_DEFAULT"
  "gv_boot (g_policy boot_gucs) = CRYPTO_POLICY_CUSTOM" "gv_context (g_password boot_gucs) = PGC_USERSET"
  by (simp_all add: boot_gucs_def boot_var_def all_unset_def unset_def source_less)

lemma policy_lookups:
  "config_enum_lookup_by_name crypto_policy_options ''fips-pqc-level5'' = Some CRYPTO_POLICY_FIPS_PQC_LEVEL5"
  "config_enum_lookup_by_name crypto_policy_options ''custom'' = Some CRYPTO_POLICY_CUSTOM"
  "config_enum_lookup_by_name crypto_policy_options ''fips-pqc-level3'' = Some CRYPTO_POLICY_FIPS_PQC_LEVEL3"
  by code_simp+

text \<open>Under fips-pqc-level5 a TLS context offers ML-KEM-1024 alone.\<close>

lemma level5_tls:
  "profile CRYPTO_POLICY_FIPS_PQC_LEVEL5 st \<Longrightarrow> be_tls_init_pqc groups_ok sigalgs_ok isServerStart st = Tls_ok c \<Longrightarrow>
   ctx_groups c = Some ''MLKEM1024'' \<and> (isServerStart \<longrightarrow> ctx_sigalgs c = Some ''MLDSA87'')"
  by (auto simp: profile_def pinned_def be_tls_init_pqc_def Let_def split: if_splits)

text \<open>The names in a list of groups.\<close>

fun group_names :: "string \<Rightarrow> string list" where
  "group_names [] = [[]]"
| "group_names (c # s) =
     (case group_names s of [] \<Rightarrow> [[c]] | g # gs \<Rightarrow> if c = CHR '':'' then [] # g # gs else (c # g) # gs)"

text \<open>Whatever its mode, a client whose list is refused offers classical groups.\<close>

lemma client_falls_back:
  "mode \<noteq> ''off'' \<Longrightarrow> \<not> groups_ok groups \<Longrightarrow> groups \<noteq> [] \<Longrightarrow> groups_ok ''X25519:prime256v1:secp384r1'' \<Longrightarrow>
   initialize_SSL_groups groups_ok (Some mode) (Some groups) = Some ''X25519:prime256v1:secp384r1''"
  by (simp add: initialize_SSL_groups_def)

lemma fips_groups:
  "length (group_names ''MLKEM768'') = 1" "length (group_names ''MLKEM1024'') = 1"
  "set (group_names ''MLKEM768'') \<inter> set (group_names ''X25519MLKEM768:X25519:prime256v1'') = {}"
  "set (group_names ''MLKEM1024'') \<inter> set (group_names ''X25519MLKEM768:X25519:prime256v1'') = {}"
  by code_simp+

lemma default_client:
  "client_ok ''X25519MLKEM768:X25519:prime256v1'' \<Longrightarrow>
   initialize_SSL_groups client_ok (Some ''hybrid'') None = Some ''X25519MLKEM768:X25519:prime256v1''"
  by (simp add: initialize_SSL_groups_def)

lemma fips_server:
  "p \<in> {CRYPTO_POLICY_FIPS_PQC_LEVEL3, CRYPTO_POLICY_FIPS_PQC_LEVEL5} \<Longrightarrow> profile p st \<Longrightarrow>
   be_tls_init_pqc groups_ok sigalgs_ok isServerStart st = Tls_ok c \<Longrightarrow>
   ctx_groups c = Some (if p = CRYPTO_POLICY_FIPS_PQC_LEVEL3 then ''MLKEM768'' else ''MLKEM1024'')"
  by (auto simp: profile_def pinned_def be_tls_init_pqc_def Let_def split: if_splits)

text \<open>C32: Clients under the FIPS policies.  A server whose configuration file names
  fips-pqc-level3 or fips-pqc-level5 as its last policy, whatever else it sets,
  and whose TLS set-up succeeds offers one group only, MLKEM768 or MLKEM1024.
  A libpq client with the default connection options, whose list the TLS
  library accepts, has no group in common with it.\<close>

theorem default_client_excluded:
  assumes "p \<in> {CRYPTO_POLICY_FIPS_PQC_LEVEL3, CRYPTO_POLICY_FIPS_PQC_LEVEL5}"
    and "all_unset st" and "gv_source (g_policy st) \<le> PGC_S_FILE" and "ctx \<in> {PGC_SIGHUP, PGC_POSTMASTER}"
    and "map_of (rev items) Crypto_policy = Some v"
    and "config_enum_lookup_by_name crypto_policy_options v = Some p"
    and "be_tls_init_pqc groups_ok sigalgs_ok isServerStart (ProcessConfigFile ctx items st) = Tls_ok c"
    and "client_ok ''X25519MLKEM768:X25519:prime256v1''"
  shows "\<exists>client. ctx_groups c = Some (if p = CRYPTO_POLICY_FIPS_PQC_LEVEL3 then ''MLKEM768'' else ''MLKEM1024'') \<and>
    initialize_SSL_groups client_ok (Some ''hybrid'') None = Some client \<and>
    length (group_names (the (ctx_groups c))) = 1 \<and> set (group_names (the (ctx_groups c))) \<inter> set (group_names client) = {}"
proof -
  have groups: "ctx_groups c = Some (if p = CRYPTO_POLICY_FIPS_PQC_LEVEL3 then ''MLKEM768'' else ''MLKEM1024'')"
    by (rule fips_server [OF assms(1) policy_applied [OF assms(2-6)] assms(7)])
  note client = default_client [where client_ok = client_ok, OF assms(8)]
  show ?thesis
  proof (cases "p = CRYPTO_POLICY_FIPS_PQC_LEVEL3")
    case True
    show ?thesis
      unfolding groups if_P [OF True] option.sel
      by (intro exI conjI) (rule refl, rule client, rule fips_groups(1), rule fips_groups(3))
  next
    case False
    show ?thesis
      unfolding groups if_not_P [OF False] option.sel
      by (intro exI conjI) (rule refl, rule client, rule fips_groups(2), rule fips_groups(4))
  qed
qed

text \<open>Both levels, in files that also ask for classical groups.\<close>

theorem default_client_excluded_witness:
  "(\<exists>c client. be_tls_init_pqc (\<lambda>g. True) (\<lambda>g. True) True (ProcessConfigFile PGC_POSTMASTER
        [(Ssl_pqc_groups, ''X25519''), (Crypto_policy, ''fips-pqc-level3'')] boot_gucs) = Tls_ok c
      \<and> ctx_groups c = Some ''MLKEM768'' \<and> initialize_SSL_groups (\<lambda>g. True) (Some ''hybrid'') None = Some client
      \<and> set (group_names (the (ctx_groups c))) \<inter> set (group_names client) = {})
   \<and> (\<exists>c client. be_tls_init_pqc (\<lambda>g. True) (\<lambda>g. True) True (ProcessConfigFile PGC_POSTMASTER
        [(Ssl_pqc_groups, ''X25519''), (Crypto_policy, ''fips-pqc-level5'')] boot_gucs) = Tls_ok c
      \<and> ctx_groups c = Some ''MLKEM1024'' \<and> initialize_SSL_groups (\<lambda>g. True) (Some ''hybrid'') None = Some client
      \<and> set (group_names (the (ctx_groups c))) \<inter> set (group_names client) = {})"
proof -
  define f where "f v = ProcessConfigFile PGC_POSTMASTER [(Ssl_pqc_groups, ''X25519''), (Crypto_policy, v)] boot_gucs" for v
  have conf: "all_unset boot_gucs" "gv_source (g_policy boot_gucs) \<le> PGC_S_FILE" "PGC_POSTMASTER \<in> {PGC_SIGHUP, PGC_POSTMASTER}"
      "map_of (rev [(Ssl_pqc_groups, ''X25519''), (Crypto_policy, v)]) Crypto_policy = Some v" for v
    by (simp_all add: boot_gucs_facts source_less)
  have tls: "\<exists>c. be_tls_init_pqc (\<lambda>g. True) (\<lambda>g. True) True (f v) = Tls_ok c"
    if "config_enum_lookup_by_name crypto_policy_options v = Some p"
      "p \<in> {CRYPTO_POLICY_FIPS_PQC_LEVEL3, CRYPTO_POLICY_FIPS_PQC_LEVEL5}" for v p
    using policy_applied [OF conf that(1)] that(2) unfolding f_def
    by (auto simp: be_tls_init_pqc_def profile_def pinned_def)
  have p: "CRYPTO_POLICY_FIPS_PQC_LEVEL3 \<in> {CRYPTO_POLICY_FIPS_PQC_LEVEL3, CRYPTO_POLICY_FIPS_PQC_LEVEL5}"
      "CRYPTO_POLICY_FIPS_PQC_LEVEL5 \<in> {CRYPTO_POLICY_FIPS_PQC_LEVEL3, CRYPTO_POLICY_FIPS_PQC_LEVEL5}"
    by simp_all
  obtain c3 where c3: "be_tls_init_pqc (\<lambda>g. True) (\<lambda>g. True) True (f ''fips-pqc-level3'') = Tls_ok c3"
    using tls [OF policy_lookups(3) p(1)] by (elim exE)
  obtain c5 where c5: "be_tls_init_pqc (\<lambda>g. True) (\<lambda>g. True) True (f ''fips-pqc-level5'') = Tls_ok c5"
    using tls [OF policy_lookups(1) p(2)] by (elim exE)
  from default_client_excluded [where client_ok = "\<lambda>g. True", OF p(1) conf policy_lookups(3) c3 [unfolded f_def] TrueI]
  obtain d3 where 3: "ctx_groups c3 = Some ''MLKEM768''" "initialize_SSL_groups (\<lambda>g. True) (Some ''hybrid'') None = Some d3"
      "set (group_names (the (ctx_groups c3))) \<inter> set (group_names d3) = {}"
    unfolding if_P [OF refl] by (elim exE conjE)
  from default_client_excluded [where client_ok = "\<lambda>g. True", OF p(2) conf policy_lookups(1) c5 [unfolded f_def] TrueI]
  obtain d5 where 5: "ctx_groups c5 = Some ''MLKEM1024''" "initialize_SSL_groups (\<lambda>g. True) (Some ''hybrid'') None = Some d5"
      "set (group_names (the (ctx_groups c5))) \<inter> set (group_names d5) = {}"
    unfolding if_not_P [OF CryptoPolicy.distinct(20)] by (elim exE conjE)
  show ?thesis
    by (intro conjI exI) (rule c3 [unfolded f_def], rule 3, rule 3, rule 3, rule c5 [unfolded f_def], rule 5, rule 5, rule 5)
qed

theorem policy_wins_witness:
  "profile CRYPTO_POLICY_FIPS_PQC_LEVEL5
    (ProcessConfigFile PGC_POSTMASTER
      [(Ssl_pqc_mode, ''off''), (Crypto_policy, ''fips-pqc-level5''), (Ssl_pqc_groups, ''X25519'')] boot_gucs)"
  using policy_wins [OF boot_gucs_facts(1), of PGC_POSTMASTER
    "[(Ssl_pqc_mode, ''off''), (Crypto_policy, ''fips-pqc-level5''), (Ssl_pqc_groups, ''X25519'')]" "''fips-pqc-level5''"
    CRYPTO_POLICY_FIPS_PQC_LEVEL5]
  by (simp add: boot_gucs_facts policy_lookups source_less)

theorem policy_sticks_witness:
  "profile CRYPTO_POLICY_FIPS_PQC_LEVEL5
    (fold (ProcessConfigFile PGC_SIGHUP) [[(Crypto_policy, ''custom''), (Ssl_pqc_groups, ''X25519'')], [(Ssl_pqc_mode, ''off'')]]
      (assign_crypto_policy CRYPTO_POLICY_FIPS_PQC_LEVEL5 boot_gucs))"
  by (rule policy_sticks)
    (simp_all add: assign_profile assign_keeps boot_gucs_facts custom_only_def policy_lookups)

theorem session_overrides_policy_witness:
  "gv_value (g_password (fold (ProcessConfigFile PGC_SIGHUP) [[(Crypto_policy, ''fips-pqc-level5'')]]
    (snd (set_config_option PGC_USERSET PGC_S_SESSION Password_encryption (Some ''md5'') boot_gucs)))) = PASSWORD_TYPE_MD5"
  by (rule session_overrides_policy) (rule boot_gucs_facts(4))

end
