(* ===== verification/Compliance.thy ===== *)
theory Compliance
  imports CryptoPolicy AuditChain TdeKeyManage
begin

text \<open>
  The compliance report and the compliance view of
  contrib/pgcrypto_pqc/pgcrypto_pqc--1.2--1.3.sql, over the settings of theory
  CryptoPolicy and the audit log, with the text input of type boolean
  (backend/utils/adt/bool.c).  The caller may read all settings; those of this
  model are hidden from ordinary roles.  SQL's NULL is None.  Of the columns of the
  report the section and the status are kept: requirement and detail are texts
  for the reader.
\<close>

section \<open>Definitions\<close>

subsection \<open>Boolean input\<close>

text \<open>The characters up to the terminating NUL and the length after trimming;
  None when the text is no boolean.\<close>

definition parse_bool_with_len :: "string \<Rightarrow> nat \<Rightarrow> bool option" where
  "parse_bool_with_len value len =
     (case value of
        [] \<Rightarrow> None
      | c # _ \<Rightarrow>
          if c \<in> set ''tT'' then (if pg_strncasecmp value ''true'' len = 0 then Some True else None)
          else if c \<in> set ''fF'' then (if pg_strncasecmp value ''false'' len = 0 then Some False else None)
          else if c \<in> set ''yY'' then (if pg_strncasecmp value ''yes'' len = 0 then Some True else None)
          else if c \<in> set ''nN'' then (if pg_strncasecmp value ''no'' len = 0 then Some False else None)
          else if c \<in> set ''oO'' then
            (if pg_strncasecmp value ''on'' (if len > 2 then len else 2) = 0 then Some True
             else if pg_strncasecmp value ''off'' (if len > 2 then len else 2) = 0 then Some False
             else None)
          else if c = CHR ''1'' then (if len = 1 then Some True else None)
          else if c = CHR ''0'' then (if len = 1 then Some False else None)
          else None)"

definition boolin :: "string \<Rightarrow> bool option" where
  "boolin in_str =
     (let str = dropWhile is_space in_str;
          len = length (dropWhile is_space (rev str))
      in parse_bool_with_len str len)"

subsection \<open>Reading settings\<close>

fun config_enum_lookup_by_value :: "(string \<times> 'v) list \<Rightarrow> 'v \<Rightarrow> string option" where
  "config_enum_lookup_by_value [] val = None"
| "config_enum_lookup_by_value ((name, v) # options) val =
     (if v = val then Some name else config_enum_lookup_by_value options val)"

text \<open>What the two statements read.  No module defines a setting pqc_tde.enabled:
  it exists only as a placeholder a user has set to some text.\<close>

record settings =
  set_gucs :: guc_state
  set_wal_pqc_signing :: bool
  set_pqc_tde_enabled :: "string option"

definition current_crypto_policy :: "settings \<Rightarrow> string option" where
  "current_crypto_policy s = config_enum_lookup_by_value crypto_policy_options (gv_value (g_policy (set_gucs s)))"

definition current_wal_pqc_signing :: "settings \<Rightarrow> string option" where
  "current_wal_pqc_signing s = Some (if set_wal_pqc_signing s then ''on'' else ''off'')"

text \<open>The cast to boolean inside a block whose exception handler assigns false.\<close>

definition setting_bool :: "string option \<Rightarrow> bool option" where
  "setting_bool v = (case v of None \<Rightarrow> None | Some t \<Rightarrow> (case boolin t of None \<Rightarrow> Some False | Some b \<Rightarrow> Some b))"

definition pg_ascii_toupper :: "char \<Rightarrow> char" where
  "pg_ascii_toupper ch = (let c = of_char ch :: nat in if 97 \<le> c \<and> c \<le> 122 then char_of (c - 32) else ch)"

definition sql_in :: "string option \<Rightarrow> string list \<Rightarrow> bool" where
  "sql_in v xs = (case v of None \<Rightarrow> False | Some t \<Rightarrow> t \<in> set xs)"

subsection \<open>The report\<close>

definition chain_ok :: "(nat \<times> bool \<times> bool \<times> bool) list \<Rightarrow> bool" where
  "chain_ok rows = list_all (\<lambda>(_, chain_valid, _, _). chain_valid) rows"

definition report_chain_valid :: "openssl \<Rightarrow> liboqs \<Rightarrow> pqc_db \<Rightarrow> bool result \<times> pqc_db" where
  "report_chain_valid ssl L db =
     (let v_audit_count = int (length (pqc_audit_log db)) in
      if v_audit_count > 0
      then (case pqc_audit_verify_chain ssl L (Some (max 1 (v_audit_count - 100))) None db of
              (Inl e, db') \<Rightarrow> (Inl e, db')
            | (Inr rows, db') \<Rightarrow> (Inr (chain_ok rows), db'))
      else (Inr True, db))"

definition framework_rows :: "string option \<Rightarrow> string option \<Rightarrow> bool option \<Rightarrow> bool option \<Rightarrow> bool \<Rightarrow> (string \<times> string) list" where
  "framework_rows framework v_crypto_policy v_tde_enabled v_wal_signing has_entries =
     (case map_option (map pg_ascii_toupper) framework of
        None \<Rightarrow> []
      | Some fw \<Rightarrow>
          if fw = ''HIPAA'' then
            [(''HIPAA Access Controls'', if has_entries \<and> sql_in v_crypto_policy [''pqc-only'', ''hybrid''] then ''PASS'' else ''WARN'')]
          else if fw = ''FEDRAMP'' then
            [(''FedRAMP FIPS 140-3'',
              if v_crypto_policy = Some ''pqc-only'' then ''PASS''
              else if v_crypto_policy = Some ''hybrid'' then ''PASS''
              else ''FAIL'')]
          else if fw = ''SOC2'' then
            [(''SOC2 CC6.1 - Logical Access'', if v_tde_enabled = Some True \<and> v_wal_signing = Some True then ''PASS'' else ''WARN'')]
          else [])"

definition pqc_audit_compliance_report ::
  "openssl \<Rightarrow> liboqs \<Rightarrow> string option \<Rightarrow> settings \<Rightarrow> pqc_db \<Rightarrow> (string \<times> string) list result \<times> pqc_db" where
  "pqc_audit_compliance_report ssl L framework s db =
     (let v_crypto_policy = current_crypto_policy s;
          v_tde_enabled = setting_bool (set_pqc_tde_enabled s);
          v_wal_signing = setting_bool (current_wal_pqc_signing s);
          has_entries = (length (pqc_audit_log db) > 0)
      in case report_chain_valid ssl L db of
           (Inl e, db') \<Rightarrow> (Inl e, db')
         | (Inr v_chain_valid, db') \<Rightarrow>
             (Inr ([(''Encryption at Rest'', if v_tde_enabled = Some True then ''PASS'' else ''FAIL''),
                    (''Cryptographic Policy'',
                     if sql_in v_crypto_policy [''pqc-only'', ''hybrid'', ''transitional''] then ''PASS'' else ''WARN''),
                    (''WAL Integrity'', if v_wal_signing = Some True then ''PASS'' else ''FAIL''),
                    (''Audit Logging'', if has_entries then ''PASS'' else ''FAIL''),
                    (''Audit Chain Integrity'', if v_chain_valid then ''PASS'' else ''FAIL'')]
                   @ framework_rows framework v_crypto_policy v_tde_enabled v_wal_signing has_entries), db'))"

subsection \<open>The view\<close>

record compliance_status =
  cs_crypto_policy :: "string option"
  cs_tde_status :: string
  cs_wal_signing_status :: string
  cs_audit_entry_count :: nat
  cs_hash_chain_status :: string
  cs_compliance_readiness :: string

definition coalesce :: "'a option \<Rightarrow> 'a \<Rightarrow> 'a" where
  "coalesce v d = (case v of None \<Rightarrow> d | Some x \<Rightarrow> x)"

definition view_chain_status :: "openssl \<Rightarrow> liboqs \<Rightarrow> pqc_db \<Rightarrow> string result \<times> pqc_db" where
  "view_chain_status ssl L db =
     (case latest log_id (pqc_audit_log db) of
        None \<Rightarrow> (Inr ''N/A'', db)
      | Some newest \<Rightarrow>
          (case pqc_audit_verify_chain ssl L (Some (max 1 (int (log_id newest) - 100))) None db of
             (Inl e, db') \<Rightarrow> (Inl e, db')
           | (Inr rows, db') \<Rightarrow> (Inr (if chain_ok rows then ''INTACT'' else ''BROKEN''), db')))"

definition pg_pqc_compliance_status :: "openssl \<Rightarrow> liboqs \<Rightarrow> settings \<Rightarrow> pqc_db \<Rightarrow> compliance_status result \<times> pqc_db" where
  "pg_pqc_compliance_status ssl L s db =
     (let policy = current_crypto_policy s;
          tde = coalesce (set_pqc_tde_enabled s) ''off'';
          wal = coalesce (current_wal_pqc_signing s) ''off'';
          entries = length (pqc_audit_log db)
      in case view_chain_status ssl L db of
           (Inl e, db') \<Rightarrow> (Inl e, db')
         | (Inr chain, db') \<Rightarrow>
             (Inr \<lparr>cs_crypto_policy = policy, cs_tde_status = tde, cs_wal_signing_status = wal, cs_audit_entry_count = entries,
                cs_hash_chain_status = chain,
                cs_compliance_readiness =
                  (if sql_in policy [''pqc-only'', ''hybrid''] \<and> tde = ''on'' \<and> wal = ''on'' \<and> entries > 0
                   then ''COMPLIANT'' else ''NOT COMPLIANT'')\<rparr>, db'))"

section \<open>Boolean input\<close>

text \<open>The two texts a boolean setting is shown as are read back.\<close>

lemma boolin_shown: "boolin ''on'' = Some True" "boolin ''off'' = Some False"
  by (simp_all add: boolin_def parse_bool_with_len_def is_space_def Let_def pg_tolower_def numeral_2_eq_2 numeral_3_eq_3)

section \<open>What the report says\<close>

text \<open>The name of a policy is none of those the report asks for but one.\<close>

lemma current_crypto_policy_cases:
  "\<exists>name. current_crypto_policy s = Some name \<and> name \<notin> {''pqc-only'', ''hybrid''} \<and>
     (name = ''transitional'' \<longleftrightarrow> gv_value (g_policy (set_gucs s)) = CRYPTO_POLICY_TRANSITIONAL)"
  by (cases "gv_value (g_policy (set_gucs s))") (simp_all add: current_crypto_policy_def crypto_policy_options_def)

lemma policy_in:
  "sql_in (current_crypto_policy s) [''pqc-only'', ''hybrid''] = False"
  "sql_in (current_crypto_policy s) [''pqc-only'', ''hybrid'', ''transitional''] =
     (gv_value (g_policy (set_gucs s)) = CRYPTO_POLICY_TRANSITIONAL)"
  using current_crypto_policy_cases [of s] by (auto simp: sql_in_def)

lemma fedramp_row: "framework_rows (Some ''FedRAMP'') (current_crypto_policy s) t w e = [(''FedRAMP FIPS 140-3'', ''FAIL'')]"
proof -
  have "map pg_ascii_toupper ''FedRAMP'' = ''FEDRAMP''"
    by code_simp
  then have "map_option (map pg_ascii_toupper) (Some ''FedRAMP'') = Some ''FEDRAMP''"
    by (simp only: option.map)
  moreover have "current_crypto_policy s \<noteq> Some ''pqc-only''" "current_crypto_policy s \<noteq> Some ''hybrid''"
    using current_crypto_policy_cases [of s] by (metis insertCI option.inject)+
  ultimately show ?thesis
    by (simp del: option.map list.map add: framework_rows_def)
qed

lemma wal_shown: "setting_bool (current_wal_pqc_signing s) = Some (set_wal_pqc_signing s)"
  by (simp add: setting_bool_def current_wal_pqc_signing_def boolin_shown)

text \<open>From whatever entry it starts, the verification of a log reports it valid.\<close>

lemma verify_chain_from:
  assumes "sha384_total ssl h" "ed25519_correct ssl" "sig_correct L" "audit_reachable ssl L db"
  shows "\<exists>rows db'. pqc_audit_verify_chain ssl L (Some i) None db = (Inr rows, db') \<and> chain_ok rows"
proof -
  obtain K where inv: "audit_inv ssl L h K db"
    using audit_reachable_inv [OF assms] by blast
  let ?db0 = "if pqc_is_available db then db else snd (pqc_init L db)"
  let ?rows = "sort_key log_id (filter (\<lambda>r. int (log_id r) \<ge> i) (pqc_audit_log db))"
  have "\<forall>r \<in> set ?rows. row_ok ssl L h K r" "registry_ok ?db0" "keys_ok ssl L K (pqc_audit_keys ?db0)"
    using inv by (auto simp: audit_inv_def)
  then obtain db' where "audit_verify_rows ssl L ?rows ?db0 = (Inr (map (\<lambda>r. (log_id r, True, True, True)) ?rows), db')"
    using audit_verify_rows_ok [OF assms(1,3)] by blast
  moreover have "pqc_audit_verify_chain ssl L (Some i) None db = audit_verify_rows ssl L ?rows ?db0"
    by (simp add: pqc_audit_verify_chain_def Let_def)
  ultimately show ?thesis
    by (auto simp: chain_ok_def list_all_iff)
qed

lemma latest_None: "latest k rs = None \<longleftrightarrow> rs = []"
  by (cases rs) (simp_all split: option.split)

lemma report_chain_valid_ok:
  assumes "sha384_total ssl h" "ed25519_correct ssl" "sig_correct L" "audit_reachable ssl L db"
  shows "\<exists>db'. report_chain_valid ssl L db = (Inr True, db')"
  using verify_chain_from [OF assms, of "max 1 (int (length (pqc_audit_log db)) - 100)"]
  by (auto simp: report_chain_valid_def Let_def)

lemma view_chain_status_ok:
  assumes "sha384_total ssl h" "ed25519_correct ssl" "sig_correct L" "audit_reachable ssl L db"
  shows "\<exists>db'. view_chain_status ssl L db = (Inr (if pqc_audit_log db = [] then ''N/A'' else ''INTACT''), db')"
proof (cases "latest log_id (pqc_audit_log db)")
  case (Some newest)
  then have "pqc_audit_log db \<noteq> []"
    by auto
  then show ?thesis
    using Some verify_chain_from [OF assms, of "max 1 (int (log_id newest) - 100)"] by (auto simp: view_chain_status_def)
qed (simp add: view_chain_status_def latest_None)

text \<open>C24: The compliance verdict.  Whatever the settings are and however the audit
  log was written, the view pg_pqc_compliance_status shows the chain intact
  and the server NOT COMPLIANT, and the FedRAMP report ends with FAIL: both ask
  for crypto_policy to be pqc-only or hybrid, which are no values of that
  setting.  Of all policies only transitional passes the report's section on
  the cryptographic policy; the two fips-pqc policies get a warning.\<close>

theorem compliance_verdict:
  assumes "sha384_total ssl h" "ed25519_correct ssl" "sig_correct L" "audit_reachable ssl L db"
  shows "(\<exists>row db'. pg_pqc_compliance_status ssl L s db = (Inr row, db') \<and>
      cs_compliance_readiness row = ''NOT COMPLIANT'' \<and>
      cs_hash_chain_status row = (if pqc_audit_log db = [] then ''N/A'' else ''INTACT'')) \<and>
    (\<exists>db'. pqc_audit_compliance_report ssl L (Some ''FedRAMP'') s db =
      (Inr [(''Encryption at Rest'', if setting_bool (set_pqc_tde_enabled s) = Some True then ''PASS'' else ''FAIL''),
            (''Cryptographic Policy'',
             if gv_value (g_policy (set_gucs s)) = CRYPTO_POLICY_TRANSITIONAL then ''PASS'' else ''WARN''),
            (''WAL Integrity'', if set_wal_pqc_signing s then ''PASS'' else ''FAIL''),
            (''Audit Logging'', if pqc_audit_log db = [] then ''FAIL'' else ''PASS''),
            (''Audit Chain Integrity'', ''PASS''), (''FedRAMP FIPS 140-3'', ''FAIL'')], db'))"
proof -
  obtain chain db1 where "view_chain_status ssl L db = (Inr chain, db1)"
      "chain = (if pqc_audit_log db = [] then ''N/A'' else ''INTACT'')"
    using view_chain_status_ok [OF assms] by blast
  then have "\<exists>row db'. pg_pqc_compliance_status ssl L s db = (Inr row, db') \<and>
      cs_compliance_readiness row = ''NOT COMPLIANT'' \<and>
      cs_hash_chain_status row = (if pqc_audit_log db = [] then ''N/A'' else ''INTACT'')"
    by (simp add: pg_pqc_compliance_status_def policy_in Let_def)
  moreover obtain db2 where "report_chain_valid ssl L db = (Inr True, db2)"
    using report_chain_valid_ok [OF assms] by blast
  ultimately show ?thesis
    by (simp add: pqc_audit_compliance_report_def policy_in fedramp_row wal_shown Let_def)
qed

definition sample_settings :: settings where
  "sample_settings = \<lparr>set_gucs = snd (set_config_option PGC_SIGHUP PGC_S_FILE Crypto_policy (Some ''fips-pqc-level5'') boot_gucs),
     set_wal_pqc_signing = True, set_pqc_tde_enabled = Some ''on''\<rparr>"

theorem compliance_verdict_witness:
  "\<exists>(db :: pqc_db) row db'. length (pqc_audit_log db) = 1 \<and>
     pg_pqc_compliance_status sample_ssl sample_oqs sample_settings db = (Inr row, db') \<and>
     cs_compliance_readiness row = ''NOT COMPLIANT'' \<and> cs_hash_chain_status row = ''INTACT''"
proof -
  obtain db r where "audit_reachable sample_ssl sample_oqs db" "pqc_audit_log db = [r]"
    by (rule sample_audit)
  then show ?thesis
    using compliance_verdict [OF sample_laws, of db sample_settings] by (intro exI [of _ db]) auto
qed

end
