(* ===== verification/Spec2Isabelle.thy ===== *)
theory Spec2Isabelle
  imports Escrow ColumnCrypto TdeServer TdeTool AuditChain WalPage WalTrust ScramAuth
    ArchiveHead BackupStream UpgradeKeys CertAuth Preflight Migration KeyAdmin Compliance
begin

text \<open>
  A verification library for FortressQL, a PostgreSQL 17 server with
  post-quantum cryptography.  All paths below are relative to src/src/, except
  contrib/, which is src/contrib/.

  \<^bold>\<open>The program.\<close>  A registry of algorithms (common code of the backend, over
  liboqs) and two wrappers, for key encapsulation and for signatures, carry
  everything else.  On them are built: transparent encryption of data pages and
  of WAL pages under tablespace keys kept in shared memory, with a master key
  that an offline tool or the server wraps with ML-KEM; signing of completed
  WAL segments; the extension pgcrypto_pqc with encryption functions for SQL, a
  doubly signed audit log, key escrow by secret sharing, reports and
  administration; SCRAM-SHA-384 and certificate authentication; a policy setting
  that cascades to TLS and password settings; encrypted backups; and the parts
  of pg_upgrade and pg_basebackup that handle key files.

  \<^bold>\<open>How the code is represented.\<close>  A byte is an 8 word, a C integer a word of its
  width, or an int, with the wrap-around of its width written out (int_of_long)
  where values can leave it; a C string is the list of its characters.  A function that raises an error returns a value of type
  result, whose left side is an error with its code and message.  State is
  passed explicitly in extensible records: pqc_state (registry, counters,
  coins), extended to tde_state (server memory and key file), wal_state (WAL
  keys and files) and pqc_db (the tables of the extension).  Code outside the
  repository is a parameter: the record liboqs, the record openssl, and
  records for what the operating system does to a call.  Random calls take
  the next number of a stream of coins; every other call of a library is a
  function of its arguments, so that it succeeds again where it succeeded on
  the same arguments.  What is assumed of the parameters is
  stated by the predicates of theory External (kem_correct, sig_correct,
  ctr_mode, gcm_correct, sha384_total, digests_total, ed25519_correct), and
  theory Samples has an instance that satisfies all of them, on which the
  examples rest.

  \<^bold>\<open>Theories.\<close>
  \<^item> Prelude: bytes and words, errors, the locale fixed_code of fixed-width
    encodings.  PgPort (port/pgstrcasecmp.c), CText (integers and text in C),
    External, Samples.
  \<^item> PqcCommon, PqcKem, PqcSig: backend/crypto/pqc/pqc_common.c, pqc_kem.c and
    pqc_sig.c.  Registry lookups, sizes and agreement of the two ends of a KEM
    are shown below in this theory.
  \<^item> Interpolation, GF256, Escrow: the field arithmetic and the escrow functions
    of contrib/pgcrypto_pqc/pgcrypto_pqc.c.  The loops compute in a field (an
    instance of class field), shares recover the key, too few shares say
    nothing about it.
  \<^item> TdeKeyCache, TdeKeyProvider, TdeKeyManage, TdePage, BufPage, BufMgr,
    TdeServer: backend/crypto/tde and the hooks in backend/storage.  The cache
    refines a partial map (locale tdek_store); a flushed page is read back; the
    server never creates a tablespace key; what rotation destroys.
  \<^item> TdeTool, UpgradeKeys: bin/pg_tde_master_key, bin/pg_upgrade and
    bin/pg_basebackup.  Tool, upgrade and server agree on the key file.
  \<^item> WalPage: WAL page encryption and its reader.  WalKeys, WalSign, WalTrust:
    WAL signing keys, the queue of segments to sign (locale bounded_queue), and
    what a verdict on a segment means.
  \<^item> Json, AuditLog, AuditChain: the audit log.  Every entry written verifies;
    which alterations go unnoticed.
  \<^item> PqcSql, SqlCrypto, ColumnCrypto, Migration, KeyAdmin, Compliance: the other
    SQL functions of the extension and its compliance report.
  \<^item> Base64, ScramCommon, ScramSecret, ScramServer, ScramClient, ScramAuth:
    common/base64.c, common/scram-common.c, backend/libpq/auth-scram.c, crypt.c,
    auth-sasl.c and interfaces/libpq.  A session of server and client runs to
    acceptance, and the server accepts nothing but a proof.
  \<^item> CryptoPolicy: backend/libpq/crypto-policy.c, the part of
    backend/utils/misc/guc.c that ranks the sources of a setting, TLS set-up on
    both sides; profile is the specification of what the code gives each policy.
    CertAuth: backend/libpq/auth-pqc.c with its callers.
    Preflight: start-up checks and statistics.
  \<^item> FeCommon, BackupStream, ArchiveHead: common/pqc-common.c for programs outside the
    server, bin/pg_dump/compress_pqc.c and the header of archives.

  \<^bold>\<open>Termination and bounds.\<close>  All definitions are total.  Loops over data are
  recursions on it; the GF(256) loops run for the eight bits of a byte, the
  audit scanner and the copy of key files have termination proofs.  The SASL
  loop takes the list of packets of the client, of any length, and is shown to
  read at most three.  SCRAM iteration counts are arbitrary in the theorems;
  examples use a small count.  Chunk counters of backups, lengths in column
  envelopes and checksums stay at their machine width.  Two theorems carry a
  bound because the code computes a length as an int: Base64 coding is
  inverted up to 536870910 bytes, backup chunks up to 2 to the 31 bytes.

  \<^bold>\<open>Assumptions.\<close>  A build with USE_PQC and USE_SSL on a little-endian machine;
  the C locale; a server encoding of UTF-8 for JSON; no exhaustion of memory,
  and no request for memory beyond what the allocator grants;
  operations under a lightweight lock are atomic; sscanf follows the C
  standard; statements sent through SPI succeed.  A jsonb value is its output
  text.  The SASLprep treatment of characters beyond ASCII, the hash of the
  server certificate, the names OpenSSL gives to signature algorithms and the
  search of pg_ident.conf are arguments.  Error details, hints and the log are
  left out, as is the wiping of memory except where a later operation reads it.

  \<^bold>\<open>Not modelled.\<close>  The TLS handshake and the algorithms of liboqs and OpenSSL,
  which are not part of the repository; the table of contents and the data
  blocks of archives; option parsing of pg_dump and pg_restore, whose
  encryption options lead nowhere; the values of settings saved by open
  transactions; the authentication methods and the parsing of configuration
  files that PostgreSQL has anyway; the Unicode tables; pqc_backup_key_info,
  which joins two tables; declarations in extension scripts, test scripts and
  constant output.  The executor, the planner, storage below the buffer manager
  and replication are PostgreSQL's and enter only through the hooks above.
\<close>

section \<open>The algorithm registry and the library wrappers\<close>

lemma pqc_algorithm_from_name_cases:
  assumes "registry_ok st" "c_string s"
  shows "pqc_algorithm_from_name st (Some s) = PQC_ALG_COUNT \<or>
    (\<exists>alg. 0 \<le> alg \<and> alg < PQC_ALG_COUNT \<and> map pg_tolower s = map pg_tolower (pqc_algorithm_name st alg))"
proof (cases "\<exists>i < length (pqc_algorithms st). map pg_tolower s = map pg_tolower (alg_name (pqc_algorithms st ! i))")
  case True
  then obtain i where i: "i < 18" "map pg_tolower s = map pg_tolower (alg_name (pqc_algorithms st ! i))"
    using registry_length [OF assms(1)] by auto
  then have "map pg_tolower s = map pg_tolower (pqc_algorithm_name st (int i))"
    by (simp add: pqc_algorithm_name_def pqc_get_algorithm_info_def)
  then show ?thesis
    using i by (intro disjI2 exI [of _ "int i"]) simp
next
  case False
  then have "pqc_name_scan (pqc_algorithms st) s = PQC_ALG_COUNT"
    using registry_names [OF assms(1)] assms(2) by (intro pqc_name_scan_none) (auto simp: in_set_conv_nth)
  then show ?thesis
    by (simp add: pqc_algorithm_from_name_def)
qed

text \<open>C34: Whatever sequence of initialisations and clean-ups the registry went
  through, looking up a name gives an algorithm exactly when the name is that
  algorithm's, letter case aside; so names are unambiguous and every
  algorithm is found under its own name.\<close>

theorem algorithm_lookup:
  assumes "(pqc_step L)\<^sup>*\<^sup>* pqc_start_state st" "c_string s" "0 \<le> alg" "alg < PQC_ALG_COUNT"
  shows "pqc_algorithm_from_name st (Some s) = alg \<longleftrightarrow> map pg_tolower s = map pg_tolower (pqc_algorithm_name st alg)"
proof -
  have ok: "registry_ok st"
    using assms(1) registry_ok_start by (rule registry_ok_reachable)
  then show ?thesis
    using pqc_algorithm_from_name_cases [OF ok assms(2)] pqc_algorithm_from_name_hit [OF ok _ _ assms(2)] assms(3,4)
    by auto
qed

theorem algorithm_lookup_witness:
  "pqc_algorithm_from_name (snd (pqc_init sample_oqs pqc_start_state)) (Some ''ml-dsa-65'') = PQC_ALG_ML_DSA_65"
proof -
  let ?st = "snd (pqc_init sample_oqs pqc_start_state)"
  have "(pqc_step sample_oqs)\<^sup>*\<^sup>* pqc_start_state ?st"
    by (rule r_into_rtranclp, rule pqc_step.init)
  moreover have "map pg_tolower ''ml-dsa-65'' = map pg_tolower (pqc_algorithm_name ?st PQC_ALG_ML_DSA_65)"
    by (simp add: pqc_algorithm_name_def pqc_get_algorithm_info_def pqc_init_def pqc_start_state_def
        pqc_algorithms_table_def alg_entry_def pqc_populate_sig_info_def sample_oqs_def pg_tolower_def)
      code_simp
  ultimately show ?thesis
    using algorithm_lookup [of sample_oqs ?st "''ml-dsa-65''" PQC_ALG_ML_DSA_65] by simp
qed

text \<open>Key agreement through the KEM wrapper.  A context for an algorithm makes a
  key pair, any context for the same algorithm encapsulates to its public
  key, and a third one (as in another backend, at any later time) recovers
  the same shared secret from the ciphertext with the secret key.\<close>

theorem kem_agreement:
  assumes "kem_correct L" "registry_ok st1" "registry_ok st3" "registry_ok st6"
    and "pqc_kem_new L alg st1 = (Inr ctx1, st2)" "pqc_kem_keygen L (Some ctx1) st2 = (Inr (PQC_SUCCESS, Some (pk, sk)), st2')"
    and "pqc_kem_new L alg st3 = (Inr ctx2, st4)" "pqc_kem_encaps L (Some ctx2) (Some pk) st4 = (Inr (PQC_SUCCESS, Some (ct, ss)), st5)"
    and "pqc_kem_new L alg st6 = (Inr ctx3, st7)"
  shows "fst (pqc_kem_decaps L (Some ctx3) (Some ct) (Some sk) st7) = Inr (PQC_SUCCESS, Some ss)"
proof -
  have alg: "0 \<le> alg" "alg < PQC_ALG_COUNT"
    using pqc_kem_new_Inr(5,6) [OF assms(5)] .
  have "oqs_kem ctx2 = oqs_kem ctx1" "oqs_kem ctx3 = oqs_kem ctx1"
    using pqc_kem_new_Inr(1) [OF assms(5)] pqc_kem_new_Inr(1) [OF assms(7)] pqc_kem_new_Inr(1) [OF assms(9)]
      registry_oqs_name [OF assms(2) alg] registry_oqs_name [OF assms(3) alg] registry_oqs_name [OF assms(4) alg] by simp_all
  moreover have "OQS_KEM_keypair L (oqs_kem ctx1) (coins st2) = Some (pk, sk)"
    using assms(6) by (auto simp: pqc_kem_keygen_def Let_def split: option.splits)
  moreover have "pqc_kem_encaps L (Some ctx3) (Some pk) st4 = pqc_kem_encaps L (Some ctx2) (Some pk) st4"
    using calculation(1,2) by (simp add: pqc_kem_encaps_def)
  ultimately show ?thesis
    using pqc_kem_decaps_encaps [OF assms(1) pqc_kem_new_Inr(1) [OF assms(9)], of "coins st2" pk sk st4 ct ss st5 st7] assms(8)
    by simp
qed

theorem kem_agreement_witness:
  "\<exists>ctx st1 pk sk st2 ct ss st3. pqc_kem_new sample_oqs PQC_ALG_ML_KEM_768 pqc_start_state = (Inr ctx, st1) \<and>
     pqc_kem_keygen sample_oqs (Some ctx) st1 = (Inr (PQC_SUCCESS, Some (pk, sk)), st2) \<and>
     pqc_kem_encaps sample_oqs (Some ctx) (Some pk) st1 = (Inr (PQC_SUCCESS, Some (ct, ss)), st3) \<and>
     fst (pqc_kem_decaps sample_oqs (Some ctx) (Some ct) (Some sk) st1) = Inr (PQC_SUCCESS, Some ss)"
proof -
  obtain ctx st1 where new: "pqc_kem_new sample_oqs PQC_ALG_ML_KEM_768 pqc_start_state = (Inr ctx, st1)"
    "oqs_kem ctx = sample_kem ''ML-KEM-768''"
    using pqc_kem_new_768 [OF registry_ok_start, of sample_oqs "sample_kem ''ML-KEM-768''"] by (auto simp: sample_oqs_def)
  obtain pk sk st2 where gen: "pqc_kem_keygen sample_oqs (Some ctx) st1 = (Inr (PQC_SUCCESS, Some (pk, sk)), st2)" "length pk = 2"
    by (auto simp: pqc_kem_keygen_def sample_oqs_def Let_def)
  obtain ct ss st3 where enc: "pqc_kem_encaps sample_oqs (Some ctx) (Some pk) st1 = (Inr (PQC_SUCCESS, Some (ct, ss)), st3)"
    using gen(2) new(2) by (auto simp: pqc_kem_encaps_def sample_oqs_def sample_kem_def Let_def)
  show ?thesis
    using kem_agreement [OF kem_correct_sample registry_ok_start registry_ok_start registry_ok_start new(1) gen(1) new(1) enc new(1)]
      new(1) gen(1) enc by blast
qed

text \<open>C33: The registry is well formed in every state: once the subsystem is
  initialised the sizes it reports for an algorithm are those of the liboqs
  object of that algorithm, for key encapsulation and signatures alike, and
  each kind has size 0 in every one of the other kind's functions.\<close>

theorem registry_sizes_typed:
  assumes "(pqc_step L)\<^sup>*\<^sup>* pqc_start_state st" "pqc_initialized st" "0 \<le> alg" "alg < PQC_ALG_COUNT"
  shows "if pqc_algorithm_is_kem st alg
    then \<not> pqc_algorithm_is_sig st alg \<and> pqc_sig_public_key_len st alg = 0 \<and> pqc_sig_secret_key_len st alg = 0 \<and>
      pqc_sig_max_signature_len st alg = 0 \<and>
      (\<forall>k. OQS_KEM_new L (oqs_name (pqc_algorithms_table ! nat alg)) = Some k \<longrightarrow>
         pqc_kem_public_key_len st alg = kem_length_public_key k \<and> pqc_kem_secret_key_len st alg = kem_length_secret_key k \<and>
         pqc_kem_ciphertext_len st alg = kem_length_ciphertext k \<and> pqc_kem_shared_secret_len st alg = kem_length_shared_secret k)
    else pqc_algorithm_is_sig st alg \<and> pqc_kem_public_key_len st alg = 0 \<and> pqc_kem_secret_key_len st alg = 0 \<and>
      pqc_kem_ciphertext_len st alg = 0 \<and> pqc_kem_shared_secret_len st alg = 0 \<and>
      (\<forall>k. OQS_SIG_new L (oqs_name (pqc_algorithms_table ! nat alg)) = Some k \<longrightarrow>
         pqc_sig_public_key_len st alg = sig_length_public_key k \<and> pqc_sig_secret_key_len st alg = sig_length_secret_key k \<and>
         pqc_sig_max_signature_len st alg = sig_length_signature k)"
proof -
  let ?info = "pqc_algorithms st ! nat alg"
  have ok: "registry_ok st" "sizes_ok L st"
    using registry_ok_reachable [OF assms(1) registry_ok_start] sizes_ok_reachable [OF assms(1) sizes_ok_start] .
  then have "entry_sized L ?info"
    using assms(2-4) registry_length [OF ok(1)] by (simp add: sizes_ok_def)
  moreover have "oqs_name ?info = oqs_name (pqc_algorithms_table ! nat alg)"
    using registry_oqs_name [OF ok(1) assms(3,4)] .
  ultimately show ?thesis
    using assms(3,4)
    by (cases "alg_type ?info") (simp_all add: pqc_algorithm_is_kem_def pqc_algorithm_is_sig_def pqc_get_algorithm_info_def
        entry_sized_def kem_size_def sig_size_def pqc_kem_public_key_len_def pqc_kem_secret_key_len_def pqc_kem_ciphertext_len_def
        pqc_kem_shared_secret_len_def pqc_sig_public_key_len_def pqc_sig_secret_key_len_def pqc_sig_max_signature_len_def)
qed

theorem registry_sizes_typed_witness:
  "pqc_kem_public_key_len (snd (pqc_init sample_oqs pqc_start_state)) PQC_ALG_ML_KEM_768 = 2
   \<and> pqc_sig_secret_key_len (snd (pqc_init sample_oqs pqc_start_state)) PQC_ALG_ML_KEM_768 = 0"
proof -
  let ?st = "snd (pqc_init sample_oqs pqc_start_state)"
  have "(pqc_step sample_oqs)\<^sup>*\<^sup>* pqc_start_state ?st"
    by (rule r_into_rtranclp, rule pqc_step.init)
  moreover have "pqc_algorithm_is_kem ?st PQC_ALG_ML_KEM_768"
    using registry_entry_768(1) [of ?st] registry_ok_start
    by (simp add: pqc_algorithm_is_kem_def pqc_get_algorithm_info_def)
  ultimately show ?thesis
    using registry_sizes_typed [of sample_oqs ?st PQC_ALG_ML_KEM_768] by (simp add: sample_oqs_def sample_kem_def)
qed

end
